(* ===== verification/Prelude.thy ===== *)
theory Prelude
  imports Complex_Main "HOL-Library.Word"
begin

text \<open>
  The shared vocabulary of the development: Go errors as values, the world a handler runs in
  (the SQL tables, the transaction snapshot, the schedule of failing calls, the Redis keys, the
  clock and the log of external effects), the handler monad, and the two proof techniques every
  component uses: \<open>upholds\<close> (a two-state relation kept by an operation) and
  \<open>healthy\<close> runs (no call of the database or of Redis fails).
\<close>

named_theorems go_simps \<open>unfolding rules of the handler monad on a concrete world\<close>

section \<open>Errors\<close>

text \<open>
  \<open>Fault\<close> is a failing call (connection, driver, RPC); \<open>In f e\<close> is Go's
  \<open>fmt.Errorf("f err: %s", e)\<close>; \<open>Errf m\<close> an error made by the program itself;
  \<open>GoPanic\<close> a run-time panic. The other constructors are the errors of gorm and MySQL the
  program can meet: a violated unique index, the insertion of an empty slice, a record that
  \<open>First\<close> does not find, a malformed statement, an update without a condition. \<open>Api c\<close>
  ends an HTTP handler whose response carries the error number \<open>c\<close>.
\<close>

datatype ApiCode =
    ApiCodeError500 | ApiCodeParamsInvalid | ApiCodeDbError | ApiCodeSyncBlockNumber
  | ApiCodeOperationFrequent | ApiCodeRejectedOutPoint | ApiCodeNotEnoughChange
  | ApiCodeInsufficientBalance | ApiCodeNotOpenForRegistration | ApiCodeAccountAlreadyRegister
  | ApiCodeAccountLenInvalid | ApiCodeOrderNotExist | ApiCodeAccountContainsInvalidChar
  | ApiCodeReservedAccount | ApiCodeInviterAccountNotExist | ApiCodeSystemUpgrade
  | ApiCodeOrderPaid | ApiCodeUnAvailableAccount | ApiCodeOnCross | ApiCodeCouponInvalid
  | ApiCodeCouponUsed | ApiCodeCouponUnopen | ApiCodeAccountNotExist | ApiCodeAfterGracePeriod
  | ApiCodeAccountIsExpired | ApiCodePayTypeInvalid | ApiCodeAccountStatusNotNormal
  | ApiCodePermissionDenied | ApiCodeSameLock | ApiCodeInvalidTargetAddress | ApiCodeRecordInvalid
  | ApiCodeTooManyRecords | ApiCodeTxExpired | ApiCodeCacheError | ApiCodeSubAccountNotEnabled
  | ApiCodeAmountInvalid | ApiCodeNotSupportAddress | ApiCodeTransactionNotExist
  | ApiCodeAnyLockAddressInvalid | ApiCodeNoAccountPermissions | ApiCodeAuctionAccountNotFound
  | ApiCodeNotYetDueForRecycle | ApiCodeAuctionOrderNotFound | ApiCodeRecommendAccEmpty

datatype gerr =
    Fault
  | DuplicateKey
  | EmptySlice
  | RecordNotFound
  | BadStatement
  | MissingWhere
  | GoPanic
  | Errf string
  | In string gerr
  | Api ApiCode

section \<open>Effects that leave the process\<close>

datatype effect =
    LarkErr string                        \<comment> \<open>\<open>notify.SendLarkErrNotify\<close>, by its title\<close>
  | LarkRegister string string            \<comment> \<open>\<open>notify.SendLarkRegisterNotify\<close>: account, order id\<close>
  | LarkOrder string                      \<comment> \<open>\<open>notify.SendLarkOrderNotify\<close>: order id\<close>
  | LarkText "nat list"                   \<comment> \<open>\<open>notify.SendLarkTextNotify\<close>: the numbers it prints\<close>
  | UniPayRefund "(string \<times> string) list"  \<comment> \<open>\<open>unipay.RefundOrder\<close>: order id, pay hash\<close>
  | UniPayCreate string rat               \<comment> \<open>\<open>unipay.CreateOrder\<close>: payment address, amount\<close>
  | Hedge string                          \<comment> \<open>the POST of \<open>doHedge\<close>: order id\<close>
  | SendTx string string                  \<comment> \<open>a transaction accepted by the node: what it is for, its hash\<close>
  | SendTxFailed string                   \<comment> \<open>a transaction the node refused\<close>
  | ClearOutPoint "string list"           \<comment> \<open>\<open>DasCache.ClearOutPoint\<close>\<close>
  | AddCellInputs                         \<comment> \<open>\<open>DasCache.AddCellInputByAction\<close>\<close>
  | AddOutPoints "string list"            \<comment> \<open>\<open>DasCache.AddOutPointWithDuration\<close>\<close>
  | SyncConfigCell                        \<comment> \<open>\<open>DasCore.AsyncDasConfigCell\<close>\<close>
  | Cancelled                             \<comment> \<open>\<open>BlockParser.Cancel\<close>: the process is told to stop\<close>

section \<open>The world of a handler\<close>

text \<open>
  \<open>'t\<close> is the type of the database contents. \<open>faults\<close> is the schedule of calls that
  fail: every statement, transaction boundary and Redis command takes one entry, and an
  exhausted schedule means success, so that a theorem about all worlds covers every pattern of
  failures. \<open>snap\<close> is what a rollback of the running transaction restores. \<open>redis\<close> is
  \<open>None\<close> for a nil client, and otherwise maps a key to its value and its expiry time, if any.
  \<open>now\<close> is the clock in milliseconds; it stands still during one call of a handler.
\<close>

record 't world =
  tabs :: 't
  snap :: 't
  faults :: "bool list"
  trace :: "effect list"
  redis :: "(string \<Rightarrow> (string \<times> int option) option) option"
  now :: int

type_synonym ('t, 'a) act = "'t world \<Rightarrow> (gerr + 'a) \<times> 't world"

definition next_fault :: "'t world \<Rightarrow> bool \<times> 't world" where
  "next_fault w = (case faults w of [] \<Rightarrow> (False, w) | b # bs \<Rightarrow> (b, w\<lparr>faults := bs\<rparr>))"

definition okM :: "'a \<Rightarrow> ('t, 'a) act" where
  "okM x w = (Inr x, w)"

definition errM :: "gerr \<Rightarrow> ('t, 'a) act" where
  "errM e w = (Inl e, w)"

definition bindM :: "('t, 'a) act \<Rightarrow> ('a \<Rightarrow> ('t, 'b) act) \<Rightarrow> ('t, 'b) act" where
  "bindM m k w = (case m w of (Inl e, w') \<Rightarrow> (Inl e, w') | (Inr x, w') \<Rightarrow> k x w')"

definition thenM :: "('t, 'a) act \<Rightarrow> ('t, 'b) act \<Rightarrow> ('t, 'b) act" where
  "thenM m n = bindM m (\<lambda>_. n)"

text \<open>\<open>if err := m; err != nil { h(err) }\<close> and go on; a panic unwinds past the test.\<close>

definition catchM :: "('t, 'a) act \<Rightarrow> (gerr \<Rightarrow> ('t, 'a) act) \<Rightarrow> ('t, 'a) act" where
  "catchM m h w =
     (case m w of
        (Inl e, w') \<Rightarrow> if e = GoPanic then (Inl e, w') else h e w'
      | (Inr x, w') \<Rightarrow> (Inr x, w'))"

text \<open>The result of a call as a value, for code that looks at an error without returning.\<close>

definition tryM :: "('t, 'a) act \<Rightarrow> ('t, gerr + 'a) act" where
  "tryM m = catchM (bindM m (\<lambda>x. okM (Inr x))) (\<lambda>e. okM (Inl e))"

text \<open>\<open>xs[i]\<close> panics out of range.\<close>

definition indexM :: "'a list \<Rightarrow> nat \<Rightarrow> ('t, 'a) act" where
  "indexM xs i = (if i < length xs then okM (xs ! i) else errM GoPanic)"

definition wrapM :: "string \<Rightarrow> ('t, 'a) act \<Rightarrow> ('t, 'a) act" where
  "wrapM s m = catchM m (\<lambda>e. errM (In s e))"

definition liftM :: "gerr + 'a \<Rightarrow> ('t, 'a) act" where
  "liftM r w = (r, w)"

definition emitM :: "effect \<Rightarrow> ('t, unit) act" where
  "emitM e w = (Inr (), w\<lparr>trace := trace w @ [e]\<rparr>)"

definition clockM :: "('t, int) act" where
  "clockM w = (Inr (now w), w)"

text \<open>One SQL statement inside the running connection or transaction.\<close>

definition stmtM :: "('t \<Rightarrow> gerr + ('a \<times> 't)) \<Rightarrow> ('t, 'a) act" where
  "stmtM f w =
     (let (b, w1) = next_fault w in
      if b then (Inl Fault, w1)
      else (case f (tabs w1) of
              Inl e \<Rightarrow> (Inl e, w1)
            | Inr (x, t) \<Rightarrow> (Inr x, w1\<lparr>tabs := t\<rparr>)))"

definition queryM :: "('t \<Rightarrow> 'a) \<Rightarrow> ('t, 'a) act" where
  "queryM f = stmtM (\<lambda>t. Inr (f t, t))"

definition updateM :: "('t \<Rightarrow> 't) \<Rightarrow> ('t, unit) act" where
  "updateM f = stmtM (\<lambda>t. Inr ((), f t))"

text \<open>
  An update on another connection while a transaction is open (\<open>d.db\<close> instead of
  \<open>tx\<close>): it commits at once, so a rollback does not undo it.
\<close>

definition outsideM :: "('t \<Rightarrow> 't) \<Rightarrow> ('t, unit) act" where
  "outsideM f w =
     (let (b, w1) = next_fault w in
      if b then (Inl Fault, w1)
      else (Inr (), w1\<lparr>tabs := f (tabs w1), snap := f (snap w1)\<rparr>))"

text \<open>
  \<open>db.Transaction(m)\<close>: begin, the body, then commit, or rollback when the body returns an
  error; begin and commit can fail too, and a failed commit leaves what a rollback leaves.
\<close>

definition txnM :: "('t, 'a) act \<Rightarrow> ('t, 'a) act" where
  "txnM m w =
     (let (b, w1) = next_fault w in
      if b then (Inl Fault, w1)
      else (case m (w1\<lparr>snap := tabs w1\<rparr>) of
              (Inl e, w2) \<Rightarrow> (Inl e, w2\<lparr>tabs := snap w2, snap := snap w\<rparr>)
            | (Inr x, w2) \<Rightarrow>
                (let (b2, w3) = next_fault w2 in
                 if b2 then (Inl Fault, w3\<lparr>tabs := snap w3, snap := snap w\<rparr>)
                 else (Inr x, w3\<lparr>snap := snap w\<rparr>))))"

fun forM :: "'x list \<Rightarrow> ('x \<Rightarrow> ('t, unit) act) \<Rightarrow> ('t, unit) act" where
  "forM [] f = okM ()"
| "forM (x # xs) f = bindM (f x) (\<lambda>_. forM xs f)"

text \<open>The loop that builds a value: \<open>for _, x := range xs { acc = f(x, acc) }\<close>.\<close>

fun foldM :: "'x list \<Rightarrow> ('x \<Rightarrow> 'a \<Rightarrow> ('t, 'a) act) \<Rightarrow> 'a \<Rightarrow> ('t, 'a) act" where
  "foldM [] f a = okM a"
| "foldM (x # xs) f a = bindM (f x a) (\<lambda>a'. foldM xs f a')"

lemmas monad_defs = okM_def errM_def bindM_def thenM_def catchM_def wrapM_def liftM_def
  emitM_def clockM_def queryM_def updateM_def

text \<open>The same vocabulary for code without effects.\<close>

definition bindR :: "gerr + 'a \<Rightarrow> ('a \<Rightarrow> gerr + 'b) \<Rightarrow> gerr + 'b" where
  "bindR r k = (case r of Inl e \<Rightarrow> Inl e | Inr x \<Rightarrow> k x)"

definition wrapR :: "string \<Rightarrow> gerr + 'a \<Rightarrow> gerr + 'a" where
  "wrapR s r = (case r of Inl e \<Rightarrow> Inl (if e = GoPanic then e else In s e) | Inr x \<Rightarrow> Inr x)"

lemma bindR_simps [simp]: "bindR (Inr x) k = k x" "bindR (Inl e) k = Inl e"
  by (simp_all add: bindR_def)

lemma wrapR_Inr [simp]: "wrapR s (Inr x) = Inr x"
  by (simp add: wrapR_def)

lemma wrapR_eq_Inr [simp]: "wrapR s r = Inr x \<longleftrightarrow> r = Inr x"
  by (simp add: wrapR_def split: sum.split)

lemma bindR_eq_Inr: "bindR r k = Inr y \<longleftrightarrow> (\<exists>x. r = Inr x \<and> k x = Inr y)"
  by (cases r) simp_all

section \<open>HTTP responses\<close>

text \<open>
  \<open>orApi c m\<close>: when \<open>m\<close> fails, the handler answers \<open>c\<close> and returns. \<open>respond m\<close> is the
  answer of a handler; a handler that fails otherwise (a panic) gives no answer.
\<close>

datatype 'd api_resp = ApiRespErr ApiCode | ApiRespOK 'd

definition orApi :: "ApiCode \<Rightarrow> ('t, 'a) act \<Rightarrow> ('t, 'a) act" where
  "orApi c m = catchM m (\<lambda>_. errM (Api c))"

definition apiErr :: "ApiCode \<Rightarrow> ('t, 'a) act" where
  "apiErr c = errM (Api c)"

definition respond :: "('t, 'd) act \<Rightarrow> ('t, 'd api_resp) act" where
  "respond m =
     catchM (bindM m (\<lambda>d. okM (ApiRespOK d)))
       (\<lambda>e. case e of Api c \<Rightarrow> okM (ApiRespErr c) | _ \<Rightarrow> errM e)"

section \<open>Healthy worlds: the runs in which no call fails\<close>

definition healthy :: "'t world \<Rightarrow> bool" where
  "healthy w \<longleftrightarrow> faults w = []"

lemma healthy_upd [simp]:
  "healthy (w\<lparr>tabs := t\<rparr>) = healthy w"
  "healthy (w\<lparr>snap := t\<rparr>) = healthy w"
  "healthy (w\<lparr>trace := es\<rparr>) = healthy w"
  "healthy (w\<lparr>redis := r\<rparr>) = healthy w"
  by (simp_all add: healthy_def)

lemma next_fault_healthy [simp]: "healthy w \<Longrightarrow> next_fault w = (False, w)"
  by (simp add: healthy_def next_fault_def)

lemma stmtM_healthy [go_simps]:
  "healthy w \<Longrightarrow> stmtM f w =
     (case f (tabs w) of Inl e \<Rightarrow> (Inl e, w) | Inr (x, t) \<Rightarrow> (Inr x, w\<lparr>tabs := t\<rparr>))"
  by (simp add: stmtM_def)

lemma queryM_healthy [go_simps]: "healthy w \<Longrightarrow> queryM f w = (Inr (f (tabs w)), w)"
  by (simp add: queryM_def stmtM_healthy)

lemma updateM_healthy [go_simps]: "healthy w \<Longrightarrow> updateM f w = (Inr (), w\<lparr>tabs := f (tabs w)\<rparr>)"
  by (simp add: updateM_def stmtM_healthy)

lemma outsideM_healthy [go_simps]:
  "healthy w \<Longrightarrow> outsideM f w = (Inr (), w\<lparr>tabs := f (tabs w), snap := f (snap w)\<rparr>)"
  by (simp add: outsideM_def)

lemma okM_apply [go_simps]: "okM x w = (Inr x, w)"
  by (simp add: okM_def)

lemma errM_apply [go_simps]: "errM e w = (Inl e, w)"
  by (simp add: errM_def)

lemma liftM_apply [go_simps]: "liftM r w = (r, w)"
  by (simp add: liftM_def)

lemma emitM_apply [go_simps]: "emitM e w = (Inr (), w\<lparr>trace := trace w @ [e]\<rparr>)"
  by (simp add: emitM_def)

lemma clockM_apply [go_simps]: "clockM w = (Inr (now w), w)"
  by (simp add: clockM_def)

lemma bindM_Inr [go_simps]: "m w = (Inr x, w') \<Longrightarrow> bindM m k w = k x w'"
  by (simp add: bindM_def)

lemma bindM_Inl [go_simps]: "m w = (Inl e, w') \<Longrightarrow> bindM m k w = (Inl e, w')"
  by (simp add: bindM_def)

lemma thenM_Inr [go_simps]: "m w = (Inr x, w') \<Longrightarrow> thenM m n w = n w'"
  by (simp add: thenM_def bindM_def)

lemma thenM_Inl [go_simps]: "m w = (Inl e, w') \<Longrightarrow> thenM m n w = (Inl e, w')"
  by (simp add: thenM_def bindM_def)

lemma catchM_Inr [go_simps]: "m w = (Inr x, w') \<Longrightarrow> catchM m h w = (Inr x, w')"
  by (simp add: catchM_def)

lemma catchM_Inl [go_simps]: "m w = (Inl e, w') \<Longrightarrow> e \<noteq> GoPanic \<Longrightarrow> catchM m h w = h e w'"
  by (simp add: catchM_def)

lemma catchM_panic [go_simps]: "m w = (Inl GoPanic, w') \<Longrightarrow> catchM m h w = (Inl GoPanic, w')"
  by (simp add: catchM_def)

lemma wrapM_Inr [go_simps]: "m w = (Inr x, w') \<Longrightarrow> wrapM s m w = (Inr x, w')"
  by (simp add: wrapM_def catchM_def)

lemma wrapM_Inl [go_simps]: "m w = (Inl e, w') \<Longrightarrow> e \<noteq> GoPanic \<Longrightarrow> wrapM s m w = (Inl (In s e), w')"
  by (simp add: wrapM_def catchM_def errM_def)

lemma wrapM_panic [go_simps]: "m w = (Inl GoPanic, w') \<Longrightarrow> wrapM s m w = (Inl GoPanic, w')"
  by (simp add: wrapM_def catchM_def)

lemma tryM_simps [go_simps]:
  "m w = (Inr x, w') \<Longrightarrow> tryM m w = (Inr (Inr x), w')"
  "m w = (Inl e, w') \<Longrightarrow> e \<noteq> GoPanic \<Longrightarrow> tryM m w = (Inr (Inl e), w')"
  "m w = (Inl GoPanic, w') \<Longrightarrow> tryM m w = (Inl GoPanic, w')"
  by (simp_all add: tryM_def catchM_def bindM_def okM_def)

lemma orApi_simps [go_simps]:
  "m w = (Inr x, w') \<Longrightarrow> orApi c m w = (Inr x, w')"
  "m w = (Inl e, w') \<Longrightarrow> e \<noteq> GoPanic \<Longrightarrow> orApi c m w = (Inl (Api c), w')"
  "m w = (Inl GoPanic, w') \<Longrightarrow> orApi c m w = (Inl GoPanic, w')"
  by (simp_all add: orApi_def catchM_def errM_def)

lemma apiErr_apply [go_simps]: "apiErr c w = (Inl (Api c), w)"
  by (simp add: apiErr_def errM_def)

lemma respond_simps [go_simps]:
  "m w = (Inr x, w') \<Longrightarrow> respond m w = (Inr (ApiRespOK x), w')"
  "m w = (Inl (Api c), w') \<Longrightarrow> respond m w = (Inr (ApiRespErr c), w')"
  by (simp_all add: respond_def catchM_def bindM_def okM_def)

lemma txnM_Inr [go_simps]:
  "healthy w \<Longrightarrow> m (w\<lparr>snap := tabs w\<rparr>) = (Inr x, w') \<Longrightarrow> healthy w' \<Longrightarrow>
   txnM m w = (Inr x, w'\<lparr>snap := snap w\<rparr>)"
  by (simp add: txnM_def)

lemma txnM_Inl [go_simps]:
  "healthy w \<Longrightarrow> m (w\<lparr>snap := tabs w\<rparr>) = (Inl e, w') \<Longrightarrow>
   txnM m w = (Inl e, w'\<lparr>tabs := snap w', snap := snap w\<rparr>)"
  by (simp add: txnM_def)

lemma world_snap_absorb [simp]:
  "w\<lparr>tabs := t, snap := snap w\<rparr> = w\<lparr>tabs := t\<rparr>"
  "w\<lparr>snap := snap w\<rparr> = w"
  "w\<lparr>tabs := tabs w\<rparr> = w"
  by (simp_all)

end
