(* ===== verification/Rpc.thy ===== *)
theory Rpc
  imports Prelude
begin

text \<open>
  \<open>src/internal\<close>: retried calls. The answers of the remote side are a parameter: the outcome of
  the \<open>i\<close>-th attempt. \<open>cancelled i\<close> says that the context is done while the code waits after
  attempt \<open>i\<close>. The three wrappers of \<open>rpc_retry.go\<close> have the same loop, \<open>retry_loop\<close>.
\<close>

section \<open>The retry loop\<close>

text \<open>\<open>retry_loop fuel i prev\<close>: \<open>fuel\<close> attempts are left, the next one has number \<open>i\<close>.\<close>

fun retry_loop ::
  "(nat \<Rightarrow> gerr + 'a) \<Rightarrow> (nat \<Rightarrow> bool) \<Rightarrow> nat \<Rightarrow> nat \<Rightarrow> gerr option \<Rightarrow> gerr + 'a" where
  "retry_loop call cancelled 0 i prev =
     Inl (case prev of None \<Rightarrow> Errf ''failed after retries'' | Some e \<Rightarrow> In ''failed after retries'' e)"
| "retry_loop call cancelled (Suc n) i prev =
     (case call i of
        Inr x \<Rightarrow> Inr x
      | Inl e \<Rightarrow> if cancelled i then Inl (Errf ''context canceled'')
                else retry_loop call cancelled n (Suc i) (Some e))"

record retry_config =
  MaxRetries :: nat
  InitialDelay :: nat
  MaxBackoff :: nat

text \<open>Durations in nanoseconds.\<close>

definition DefaultRetryConfig :: retry_config where
  "DefaultRetryConfig = \<lparr>MaxRetries = 3, InitialDelay = 1000000000, MaxBackoff = 30 * 1000000000\<rparr>"

definition calculateBackoff :: "nat \<Rightarrow> retry_config \<Rightarrow> nat" where
  "calculateBackoff attempt config =
     (let backoff = InitialDelay config * 2 ^ attempt in
      if MaxBackoff config < backoff then MaxBackoff config else backoff)"

definition GetTipBlockNumberWithRetry ::
  "(nat \<Rightarrow> gerr + 64 word) \<Rightarrow> (nat \<Rightarrow> bool) \<Rightarrow> retry_config \<Rightarrow> gerr + 64 word" where
  "GetTipBlockNumberWithRetry call cancelled config =
     retry_loop call cancelled (MaxRetries config) 0 None"

definition GetBlockByNumberWithRetry ::
  "(64 word \<Rightarrow> nat \<Rightarrow> gerr + 'b) \<Rightarrow> (nat \<Rightarrow> bool) \<Rightarrow> 64 word \<Rightarrow> retry_config \<Rightarrow> gerr + 'b" where
  "GetBlockByNumberWithRetry call cancelled blockNumber config =
     retry_loop (call blockNumber) cancelled (MaxRetries config) 0 None"

definition GetTransactionWithRetry ::
  "(string \<Rightarrow> nat \<Rightarrow> gerr + 't) \<Rightarrow> (nat \<Rightarrow> bool) \<Rightarrow> string \<Rightarrow> retry_config \<Rightarrow> gerr + 't" where
  "GetTransactionWithRetry call cancelled hash config =
     retry_loop (call hash) cancelled (MaxRetries config) 0 None"

text \<open>\<open>IsLatestBlockNumber\<close>: a failing request is retried, an answer is final.\<close>

fun latest_loop :: "(nat \<Rightarrow> gerr + bool) \<Rightarrow> nat \<Rightarrow> nat \<Rightarrow> bool" where
  "latest_loop post 0 i = False"
| "latest_loop post (Suc n) i =
     (case post i of Inl _ \<Rightarrow> latest_loop post n (Suc i) | Inr b \<Rightarrow> b)"

definition IsLatestBlockNumber :: "string \<Rightarrow> (nat \<Rightarrow> gerr + bool) \<Rightarrow> bool" where
  "IsLatestBlockNumber url post = (if url = '''' then True else latest_loop post 3 0)"

section \<open>What a retried call returns\<close>

text \<open>The first success among the attempts, if the context is not cancelled before it.\<close>

lemma retry_loop_first:
  assumes "\<And>k. k < j \<Longrightarrow> \<exists>e. call (i + k) = Inl e" and "call (i + j) = Inr x"
    and "\<And>k. k < j \<Longrightarrow> \<not> cancelled (i + k)" and "j < n"
  shows "retry_loop call cancelled n i prev = Inr x"
  using assms
proof (induction j arbitrary: n i prev)
  case 0
  then show ?case by (cases n) auto
next
  case (Suc j)
  then obtain m where n: "n = Suc m" by (cases n) auto
  from Suc.prems(1) [of 0] obtain e where e: "call i = Inl e" by auto
  have "retry_loop call cancelled m (Suc i) (Some e) = Inr x"
  proof (rule Suc.IH)
    show "\<exists>e. call (Suc i + k) = Inl e" if "k < j" for k
      using Suc.prems(1) [of "Suc k"] that by simp
    show "call (Suc i + j) = Inr x" using Suc.prems(2) by simp
    show "\<not> cancelled (Suc i + k)" if "k < j" for k
      using Suc.prems(3) [of "Suc k"] that by simp
    show "j < m" using Suc.prems(4) n by simp
  qed
  then show ?case using n e Suc.prems(3) [of 0] by simp
qed

lemma retry_loop_fail:
  assumes "\<And>k. k < n \<Longrightarrow> \<exists>e. call (i + k) = Inl e"
  shows "\<exists>e. retry_loop call cancelled n i prev = Inl e"
  using assms
proof (induction n arbitrary: i prev)
  case 0
  then show ?case by simp
next
  case (Suc n)
  from Suc.prems [of 0] obtain e where e: "call i = Inl e" by auto
  have "\<exists>e'. retry_loop call cancelled n (Suc i) (Some e) = Inl e'"
    by (rule Suc.IH) (use Suc.prems [of "Suc k" for k] in simp)
  with e show ?case by simp
qed

lemma latest_loop_iff:
  "latest_loop post n i \<longleftrightarrow> (\<exists>j < n. post (i + j) = Inr True \<and> (\<forall>k < j. isl (post (i + k))))"
proof (induction n arbitrary: i)
  case 0
  then show ?case by simp
next
  case (Suc n)
  show ?case
    by (cases "post i") (simp_all add: Suc.IH Ex_less_Suc2 All_less_Suc2)
qed

text \<open>A retried call returns the first answer of the node within the configured number of
  attempts, as long as the context is not cancelled while it waits.\<close>

theorem GetTransactionWithRetry_first:
  assumes "j < MaxRetries config" and "call hash j = Inr tx"
    and "\<forall>k < j. (\<exists>e. call hash k = Inl e) \<and> \<not> cancelled k"
  shows "GetTransactionWithRetry call cancelled hash config = Inr tx"
  unfolding GetTransactionWithRetry_def
  using assms by (intro retry_loop_first [of j]) auto

theorem GetTransactionWithRetry_first_witness:
  "GetTransactionWithRetry (\<lambda>h i. if i < 2 then Inl Fault else Inr (h, i)) (\<lambda>_. False) ''h'' DefaultRetryConfig
     = Inr (''h'', 2)"
  by (rule GetTransactionWithRetry_first [of 2]) (simp_all add: DefaultRetryConfig_def)

end
