(* ===== verification/Contracts.thy ===== *)
theory Contracts
  imports Prelude
begin

text \<open>
  How operations are specified without unfolding them. \<open>upholds R m\<close>: whatever fails, the
  database before and after \<open>m\<close> is related by \<open>R\<close>, and so is what a surrounding
  transaction would roll back to. The locale \<open>db_relation\<close> holds the rules that push
  \<open>upholds\<close> through the monad for any reflexive and transitive \<open>R\<close>. \<open>confined m\<close>: \<open>m\<close> only writes inside the open transaction; such bodies make \<open>txnM\<close> atomic.
  \<open>emits P m\<close>: every effect of \<open>m\<close> satisfies \<open>P\<close>.
\<close>

definition upholds :: "('t \<Rightarrow> 't \<Rightarrow> bool) \<Rightarrow> ('t, 'a) act \<Rightarrow> bool" where
  "upholds R m \<longleftrightarrow>
     (\<forall>w. R (tabs w) (tabs (snd (m w))) \<and> R (snap w) (snap (snd (m w))))"

lemma upholdsD: "upholds R m \<Longrightarrow> R (tabs w) (tabs (snd (m w)))"
  by (simp add: upholds_def)

lemma next_fault_tabs [simp]:
  "tabs (snd (next_fault w)) = tabs w" "snap (snd (next_fault w)) = snap w"
  "trace (snd (next_fault w)) = trace w" "now (snd (next_fault w)) = now w"
  "redis (snd (next_fault w)) = redis w"
  by (auto simp: next_fault_def split: list.splits)

lemma next_fault_cases:
  assumes "next_fault w = (b, w')"
  shows "tabs w' = tabs w" "snap w' = snap w" "trace w' = trace w" "now w' = now w" "redis w' = redis w"
  using next_fault_tabs [of w] assms by simp_all

lemma query_cases:
  assumes "queryM f w = (r, w')"
  shows "tabs w' = tabs w" "r = Inr x \<Longrightarrow> x = f (tabs w)"
  using assms by (auto simp: queryM_def stmtM_def Let_def split: prod.splits if_splits dest: next_fault_cases)

lemma update_cases:
  assumes "updateM f w = (r, w')"
  shows "r = Inl e \<Longrightarrow> tabs w' = tabs w" "r = Inr u \<Longrightarrow> tabs w' = f (tabs w)"
  using assms by (auto simp: updateM_def stmtM_def Let_def split: prod.splits if_splits dest: next_fault_cases)

section \<open>Relations kept by operations\<close>

locale db_relation =
  fixes R :: "'t \<Rightarrow> 't \<Rightarrow> bool"
  assumes refl: "R t t"
    and trans: "R t u \<Longrightarrow> R u v \<Longrightarrow> R t v"
begin

lemma okM: "upholds R (okM x)"
  by (simp add: upholds_def okM_def refl)

lemma errM: "upholds R (errM e)"
  by (simp add: upholds_def errM_def refl)

lemma liftM: "upholds R (liftM r)"
  by (simp add: upholds_def liftM_def refl)

lemma emitM: "upholds R (emitM e)"
  by (simp add: upholds_def emitM_def refl)

lemma clockM: "upholds R clockM"
  by (simp add: upholds_def clockM_def refl)

lemma bindM:
  assumes "upholds R m" and "\<And>x. upholds R (k x)"
  shows "upholds R (bindM m k)"
  unfolding upholds_def
proof (intro allI)
  fix w
  show "R (tabs w) (tabs (snd (bindM m k w))) \<and> R (snap w) (snap (snd (bindM m k w)))"
  proof (cases "m w")
    case (Pair r w')
    with assms(1) have 1: "R (tabs w) (tabs w')" "R (snap w) (snap w')"
      unfolding upholds_def by (metis snd_conv)+
    show ?thesis
    proof (cases r)
      case (Inl e)
      with 1 Pair show ?thesis by (simp add: bindM_def)
    next
      case (Inr x)
      have "R (tabs w') (tabs (snd (k x w')))" "R (snap w') (snap (snd (k x w')))"
        using assms(2) [of x] by (auto simp: upholds_def)
      with 1 Inr Pair show ?thesis by (auto simp: bindM_def intro: trans)
    qed
  qed
qed

lemma catchM:
  assumes "upholds R m" and "\<And>e. upholds R (h e)"
  shows "upholds R (catchM m h)"
  unfolding upholds_def
proof (intro allI)
  fix w
  show "R (tabs w) (tabs (snd (catchM m h w))) \<and> R (snap w) (snap (snd (catchM m h w)))"
  proof (cases "m w")
    case (Pair r w')
    with assms(1) have 1: "R (tabs w) (tabs w')" "R (snap w) (snap w')"
      unfolding upholds_def by (metis snd_conv)+
    show ?thesis
    proof (cases r)
      case (Inl e)
      have "R (tabs w') (tabs (snd (h e w')))" "R (snap w') (snap (snd (h e w')))"
        using assms(2) [of e] by (auto simp: upholds_def)
      with 1 Inl Pair show ?thesis by (auto simp: catchM_def intro: trans)
    next
      case (Inr x)
      with 1 Pair show ?thesis by (simp add: catchM_def)
    qed
  qed
qed

lemma thenM: "upholds R m \<Longrightarrow> upholds R n \<Longrightarrow> upholds R (thenM m n)"
  unfolding thenM_def by (rule bindM)

lemma wrapM: "upholds R m \<Longrightarrow> upholds R (wrapM s m)"
  unfolding wrapM_def by (rule catchM) (auto intro: errM)

lemma tryM: "upholds R m \<Longrightarrow> upholds R (tryM m)"
  unfolding tryM_def by (intro catchM bindM okM)

lemma orApi: "upholds R m \<Longrightarrow> upholds R (orApi c m)"
  unfolding orApi_def by (rule catchM) (auto intro: errM)

lemma apiErr: "upholds R (apiErr c)"
  unfolding apiErr_def by (rule errM)

lemma respond: "upholds R m \<Longrightarrow> upholds R (respond m)"
  unfolding respond_def by (intro catchM bindM okM) (auto intro: okM errM split: gerr.split)

lemma indexM: "upholds R (indexM xs i)"
  unfolding indexM_def by (simp add: okM errM)

lemma stmtM:
  assumes "\<And>t x t'. f t = Inr (x, t') \<Longrightarrow> R t t'"
  shows "upholds R (stmtM f)"
  unfolding upholds_def stmtM_def Let_def
  by (auto simp: refl split: prod.splits sum.splits dest: next_fault_cases assms)
    (metis assms next_fault_cases(1))

lemma queryM: "upholds R (queryM f)"
  unfolding queryM_def by (rule stmtM) (auto intro: refl)

lemma updateM: "(\<And>t. R t (f t)) \<Longrightarrow> upholds R (updateM f)"
  unfolding updateM_def by (rule stmtM) auto

lemma outsideM:
  assumes "\<And>t. R t (f t)"
  shows "upholds R (outsideM f)"
  unfolding upholds_def outsideM_def Let_def
  by (auto simp: refl assms split: prod.splits dest: next_fault_cases)

lemma txnM:
  assumes "upholds R m"
  shows "upholds R (txnM m)"
  unfolding upholds_def
proof (intro allI)
  fix w :: "'t world"
  obtain b w1 where nf: "next_fault w = (b, w1)" by fastforce
  note w1 = next_fault_cases [OF nf]
  obtain r w2 where m: "m (w1\<lparr>snap := tabs w\<rparr>) = (r, w2)" by fastforce
  from assms [unfolded upholds_def, rule_format, of "w1\<lparr>snap := tabs w\<rparr>"] m w1
  have 2: "R (tabs w) (tabs w2)" "R (tabs w) (snap w2)" by simp_all
  obtain b2 w3 where nf2: "next_fault w2 = (b2, w3)" by fastforce
  note w3 = next_fault_cases [OF nf2]
  show "R (tabs w) (tabs (snd (txnM m w))) \<and> R (snap w) (snap (snd (txnM m w)))"
    using 2 w1 w3 by (auto simp: txnM_def nf m nf2 refl split: sum.splits)
qed

lemma forM: "(\<And>x. x \<in> set xs \<Longrightarrow> upholds R (f x)) \<Longrightarrow> upholds R (forM xs f)"
  by (induction xs) (auto intro: okM bindM)

lemma foldM:
  "(\<And>x a. x \<in> set xs \<Longrightarrow> upholds R (f x a)) \<Longrightarrow> upholds R (foldM xs f a)"
  by (induction xs arbitrary: a) (auto intro: okM bindM)

lemma ifM: "(b \<Longrightarrow> upholds R m) \<Longrightarrow> (\<not> b \<Longrightarrow> upholds R n) \<Longrightarrow> upholds R (if b then m else n)"
  by simp

lemma optionM:
  "(x = None \<Longrightarrow> upholds R m) \<Longrightarrow> (\<And>y. x = Some y \<Longrightarrow> upholds R (k y)) \<Longrightarrow>
   upholds R (case x of None \<Rightarrow> m | Some y \<Rightarrow> k y)"
  by (cases x) simp_all

lemma sumM:
  "(\<And>y. x = Inl y \<Longrightarrow> upholds R (f y)) \<Longrightarrow> (\<And>y. x = Inr y \<Longrightarrow> upholds R (g y)) \<Longrightarrow>
   upholds R (case x of Inl y \<Rightarrow> f y | Inr y \<Rightarrow> g y)"
  by (cases x) simp_all

lemma prodM:
  "(\<And>a b. x = (a, b) \<Longrightarrow> upholds R (f a b)) \<Longrightarrow> upholds R (case x of (a, b) \<Rightarrow> f a b)"
  by (cases x) simp

lemma letM: "(\<And>x. x = e \<Longrightarrow> upholds R (f x)) \<Longrightarrow> upholds R (Let e f)"
  by simp

lemma redisM:
  assumes "\<And>w. tabs (snd (m w)) = tabs w" "\<And>w. snap (snd (m w)) = snap w"
  shows "upholds R m"
  by (simp add: upholds_def assms refl)

lemmas rules = okM errM liftM emitM clockM bindM thenM catchM wrapM tryM orApi apiErr respond indexM queryM
  forM foldM ifM optionM sumM prodM letM

end

section \<open>Successful runs\<close>

named_theorems ok_iffs \<open>when a run returns a value\<close>

lemma bindM_ok [ok_iffs]:
  "bindM m k w = (Inr y, w') \<longleftrightarrow> (\<exists>x w1. m w = (Inr x, w1) \<and> k x w1 = (Inr y, w'))"
  by (auto simp: bindM_def split: prod.splits sum.splits)

lemma thenM_ok [ok_iffs]:
  "thenM m n w = (Inr y, w') \<longleftrightarrow> (\<exists>x w1. m w = (Inr x, w1) \<and> n w1 = (Inr y, w'))"
  by (simp add: thenM_def bindM_ok)

lemma okM_ok [ok_iffs]: "okM x w = (Inr y, w') \<longleftrightarrow> y = x \<and> w' = w"
  by (auto simp: okM_def)

lemma errM_ok [ok_iffs]: "errM e w \<noteq> (Inr y, w')"
  by (simp add: errM_def)

lemma apiErr_ok [ok_iffs]: "apiErr e w \<noteq> (Inr y, w')"
  by (simp add: apiErr_def errM_def)

lemma liftM_ok [ok_iffs]: "liftM r w = (Inr y, w') \<longleftrightarrow> r = Inr y \<and> w' = w"
  by (auto simp: liftM_def)

lemma emitM_ok [ok_iffs]: "emitM e w = (Inr y, w') \<longleftrightarrow> w' = w\<lparr>trace := trace w @ [e]\<rparr>"
  by (auto simp: emitM_def)

lemma clockM_ok [ok_iffs]: "clockM w = (Inr y, w') \<longleftrightarrow> y = now w \<and> w' = w"
  by (auto simp: clockM_def)

lemma orApi_ok [ok_iffs]: "orApi c m w = (Inr y, w') \<longleftrightarrow> m w = (Inr y, w')"
  by (auto simp: orApi_def catchM_def errM_def split: prod.splits sum.splits if_splits)

lemma wrapM_ok [ok_iffs]: "wrapM s m w = (Inr y, w') \<longleftrightarrow> m w = (Inr y, w')"
  by (auto simp: wrapM_def catchM_def errM_def split: prod.splits sum.splits if_splits)

lemma queryM_okD: "queryM f w = (Inr x, w') \<Longrightarrow> x = f (tabs w) \<and> tabs w' = tabs w \<and> now w' = now w"
  by (auto simp: queryM_def stmtM_def Let_def split: prod.splits if_splits dest: next_fault_cases)

lemma stmtM_okD:
  "stmtM f w = (Inr x, w') \<Longrightarrow> f (tabs w) = Inr (x, tabs w') \<and> now w' = now w \<and> redis w' = redis w"
  by (auto simp: stmtM_def Let_def split: prod.splits if_splits sum.splits dest: next_fault_cases)

lemma updateM_okD: "updateM f w = (Inr x, w') \<Longrightarrow> tabs w' = f (tabs w) \<and> now w' = now w"
  unfolding updateM_def by (auto dest: stmtM_okD)

lemma txnM_okE:
  assumes "txnM m w = (Inr x, w')"
  obtains w1 w2 where "m w1 = (Inr x, w2)" "tabs w1 = tabs w" "now w1 = now w" "tabs w' = tabs w2"
proof -
  obtain b w0 where nf: "next_fault w = (b, w0)" by fastforce
  note w0 = next_fault_cases [OF nf]
  obtain r w2 where m: "m (w0\<lparr>snap := tabs w\<rparr>) = (r, w2)" by fastforce
  obtain b2 w3 where nf2: "next_fault w2 = (b2, w3)" by fastforce
  note w3 = next_fault_cases [OF nf2]
  show ?thesis
    using assms m w0 w3 by (intro that [of "w0\<lparr>snap := tabs w\<rparr>" w2])
      (auto simp: txnM_def nf nf2 split: sum.splits if_splits)
qed

lemma txn_updates:
  assumes "txnM (thenM (updateM f) (thenM (updateM g) (updateM h))) w = (Inr x, w')"
  shows "tabs w' = h (g (f (tabs w)))"
  using assms by (rule txnM_okE) (auto simp: thenM_ok dest!: updateM_okD)

lemma tabs_readonly: "upholds (=) m \<Longrightarrow> m w = (r, w') \<Longrightarrow> tabs w' = tabs w"
  using upholdsD [of "(=)" m w] by simp

lemma tryM_ok [ok_iffs]: "tryM m w = (Inr (Inr x), w') \<longleftrightarrow> m w = (Inr x, w')"
  by (auto simp: tryM_def catchM_def bindM_def okM_def split: prod.splits sum.splits if_splits)

section \<open>Bodies confined to their transaction, and atomicity\<close>

definition confined :: "('t, 'a) act \<Rightarrow> bool" where
  "confined m \<longleftrightarrow> (\<forall>w. snap (snd (m w)) = snap w)"

named_theorems confined_intros \<open>operations that do not write outside the open transaction\<close>

lemma confined_okM [confined_intros]: "confined (okM x)"
  by (simp add: confined_def okM_def)

lemma confined_errM [confined_intros]: "confined (errM e)"
  by (simp add: confined_def errM_def)

lemma confined_stmtM [confined_intros]: "confined (stmtM f)"
  unfolding confined_def stmtM_def Let_def
  by (auto split: prod.splits sum.splits dest: next_fault_cases)

lemma confined_queryM [confined_intros]: "confined (queryM f)"
  unfolding queryM_def by (rule confined_stmtM)

lemma confined_updateM [confined_intros]: "confined (updateM f)"
  unfolding updateM_def by (rule confined_stmtM)

lemma confined_bindM [confined_intros]:
  assumes "confined m" and "\<And>x. confined (k x)"
  shows "confined (bindM m k)"
  using assms unfolding confined_def bindM_def
  by (auto split: prod.splits sum.splits) (metis snd_conv)+

lemma confined_thenM [confined_intros]: "confined m \<Longrightarrow> confined n \<Longrightarrow> confined (thenM m n)"
  unfolding thenM_def by (rule confined_bindM)

lemma confined_catchM [confined_intros]:
  assumes "confined m" and "\<And>e. confined (h e)"
  shows "confined (catchM m h)"
  using assms unfolding confined_def catchM_def
  by (auto split: prod.splits sum.splits) (metis snd_conv)+

lemma confined_wrapM [confined_intros]: "confined m \<Longrightarrow> confined (wrapM s m)"
  unfolding wrapM_def by (intro confined_intros)

lemma confined_if [confined_intros]:
  "confined m \<Longrightarrow> confined n \<Longrightarrow> confined (if b then m else n)"
  by simp

lemma confined_txnM: "confined (txnM m)"
  unfolding confined_def txnM_def Let_def
  by (auto split: prod.splits sum.splits dest: next_fault_cases)

text \<open>A transaction whose body is confined either succeeds or leaves the tables as they were.\<close>

lemma txnM_atomic:
  assumes "confined m" and "txnM m w = (Inl e, w')"
  shows "tabs w' = tabs w"
proof -
  obtain b w1 where nf: "next_fault w = (b, w1)" by fastforce
  note w1 = next_fault_cases [OF nf]
  obtain r w2 where m: "m (w1\<lparr>snap := tabs w\<rparr>) = (r, w2)" by fastforce
  from assms(1) m have "snap w2 = tabs w"
    unfolding confined_def by (drule_tac x = "w1\<lparr>snap := tabs w\<rparr>" in spec) simp
  moreover obtain b2 w3 where nf2: "next_fault w2 = (b2, w3)" by fastforce
  moreover note next_fault_cases [OF nf2]
  ultimately show ?thesis
    using assms(2) w1 by (auto simp: txnM_def nf m split: sum.splits if_splits)
qed

section \<open>Which effects an operation may have\<close>

definition emits :: "(effect \<Rightarrow> bool) \<Rightarrow> ('t, 'a) act \<Rightarrow> bool" where
  "emits P m \<longleftrightarrow> (\<forall>w. \<exists>es. trace (snd (m w)) = trace w @ es \<and> (\<forall>e \<in> set es. P e))"

named_theorems emits_intros \<open>operations whose effects satisfy a predicate\<close>

lemma emitsI: "(\<And>w. trace (snd (m w)) = trace w) \<Longrightarrow> emits P m"
  by (auto simp: emits_def)

lemma emits_okM [emits_intros]: "emits P (okM x)"
  by (rule emitsI) (simp add: okM_def)

lemma emits_errM [emits_intros]: "emits P (errM x)"
  by (rule emitsI) (simp add: errM_def)

lemma emits_liftM [emits_intros]: "emits P (liftM x)"
  by (rule emitsI) (simp add: liftM_def)

lemma emits_clockM [emits_intros]: "emits P clockM"
  by (rule emitsI) (simp add: clockM_def)

lemma emits_emitM [emits_intros]: "P e \<Longrightarrow> emits P (emitM e)"
  by (auto simp: emits_def emitM_def)

lemma emits_stmtM [emits_intros]: "emits P (stmtM f)"
  by (rule emitsI) (auto simp: stmtM_def Let_def split: prod.splits sum.splits dest: next_fault_cases)

lemma emits_queryM [emits_intros]: "emits P (queryM f)"
  unfolding queryM_def by (rule emits_stmtM)

lemma emits_updateM [emits_intros]: "emits P (updateM f)"
  unfolding updateM_def by (rule emits_stmtM)

lemma emits_bindM [emits_intros]:
  assumes "emits P m" and "\<And>x. emits P (k x)"
  shows "emits P (bindM m k)"
  unfolding emits_def
proof
  fix w
  obtain r w1 where m: "m w = (r, w1)" by fastforce
  with assms(1) obtain es where es: "trace w1 = trace w @ es" "\<forall>e \<in> set es. P e"
    unfolding emits_def by (metis snd_conv)
  show "\<exists>es. trace (snd (bindM m k w)) = trace w @ es \<and> (\<forall>e \<in> set es. P e)"
  proof (cases r)
    case (Inl e)
    with m es show ?thesis by (auto simp: bindM_def)
  next
    case (Inr x)
    from assms(2) [of x] obtain es' where "trace (snd (k x w1)) = trace w1 @ es'" "\<forall>e \<in> set es'. P e"
      unfolding emits_def by blast
    with Inr m es show ?thesis by (intro exI [of _ "es @ es'"]) (auto simp: bindM_def)
  qed
qed

lemma emits_catchM [emits_intros]:
  assumes "emits P m" and "\<And>e. emits P (h e)"
  shows "emits P (catchM m h)"
  unfolding emits_def
proof
  fix w
  obtain r w1 where m: "m w = (r, w1)" by fastforce
  with assms(1) obtain es where es: "trace w1 = trace w @ es" "\<forall>e \<in> set es. P e"
    unfolding emits_def by (metis snd_conv)
  show "\<exists>es. trace (snd (catchM m h w)) = trace w @ es \<and> (\<forall>e \<in> set es. P e)"
  proof (cases r)
    case (Inr e)
    with m es show ?thesis by (auto simp: catchM_def)
  next
    case (Inl x)
    from assms(2) [of x] obtain es' where "trace (snd (h x w1)) = trace w1 @ es'" "\<forall>e \<in> set es'. P e"
      unfolding emits_def by blast
    with Inl m es show ?thesis by (cases "x = GoPanic") (auto simp: catchM_def intro: exI [of _ "es @ es'"])
  qed
qed

lemma emits_thenM [emits_intros]: "emits P m \<Longrightarrow> emits P n \<Longrightarrow> emits P (thenM m n)"
  unfolding thenM_def by (rule emits_bindM)

lemma emits_wrapM [emits_intros]: "emits P m \<Longrightarrow> emits P (wrapM s m)"
  unfolding wrapM_def by (intro emits_intros)

lemma emits_tryM [emits_intros]: "emits P m \<Longrightarrow> emits P (tryM m)"
  unfolding tryM_def by (intro emits_intros)

lemma emits_if [emits_intros]: "emits P m \<Longrightarrow> emits P n \<Longrightarrow> emits P (if b then m else n)"
  by simp

lemma emits_option [emits_intros]:
  "emits P m \<Longrightarrow> (\<And>y. emits P (k y)) \<Longrightarrow> emits P (case x of None \<Rightarrow> m | Some y \<Rightarrow> k y)"
  by (cases x) simp_all

lemma emits_sum [emits_intros]:
  "(\<And>y. emits P (f y)) \<Longrightarrow> (\<And>y. emits P (g y)) \<Longrightarrow> emits P (case x of Inl y \<Rightarrow> f y | Inr y \<Rightarrow> g y)"
  by (cases x) simp_all

lemma emits_prod [emits_intros]: "(\<And>a b. emits P (f a b)) \<Longrightarrow> emits P (case x of (a, b) \<Rightarrow> f a b)"
  by (cases x) simp

lemma emits_let [emits_intros]: "(\<And>x. emits P (f x)) \<Longrightarrow> emits P (Let e f)"
  by simp

lemma emits_forM [emits_intros]: "(\<And>x. x \<in> set xs \<Longrightarrow> emits P (f x)) \<Longrightarrow> emits P (forM xs f)"
  by (induction xs) (auto intro: emits_intros)

lemma emits_txnM [emits_intros]:
  assumes "emits P m"
  shows "emits P (txnM m)"
  unfolding emits_def
proof
  fix w :: "'a world"
  obtain b w1 where nf: "next_fault w = (b, w1)" by fastforce
  note w1 = next_fault_cases [OF nf]
  obtain r w2 where m: "m (w1\<lparr>snap := tabs w\<rparr>) = (r, w2)" by fastforce
  with assms [unfolded emits_def, rule_format, of "w1\<lparr>snap := tabs w\<rparr>"] w1
  obtain es where es: "trace w2 = trace w @ es" "\<forall>e \<in> set es. P e" by auto
  obtain b2 w3 where nf2: "next_fault w2 = (b2, w3)" by fastforce
  note w3 = next_fault_cases [OF nf2]
  show "\<exists>es. trace (snd (txnM m w)) = trace w @ es \<and> (\<forall>e \<in> set es. P e)"
    using w1 w3 es by (auto simp: txnM_def nf m nf2 split: sum.splits)
qed

lemma emitsD:
  assumes "emits P m" and "m w = (r, w')"
  obtains es where "trace w' = trace w @ es" "\<forall>e \<in> set es. P e"
  using assms unfolding emits_def by (metis snd_conv)

end
