(* ===== verification/Tables.thy ===== *)
theory Tables
  imports Contracts
begin

text \<open>
  The data model of \<open>src/tables\<close>: one \<open>datatype\<close> per Go enumeration, one \<open>record\<close>
  per table row (the audit columns \<open>created_at\<close> and \<open>updated_at\<close>, which no code reads,
  are left out), and the database as the list of the rows of each table in the order of their
  auto-increment ids. A row a \<open>Find\<close> does not find is Go's zero value, with \<open>Id\<close> 0.
  Decimals are rationals. The \<open>Content\<close> column holds JSON; the model stores the value it
  encodes, with \<open>None\<close> for the empty string.
\<close>

section \<open>Enumerations of t_das_order_info.go\<close>

datatype OrderType = OrderTypeZero | OrderTypeSelf | OrderTypeOther

datatype TxStatus = TxStatusDefault | TxStatusSending | TxStatusOk

datatype OrderStatus = OrderStatusDefault | OrderStatusClosed

datatype RegisterStatus =
    RegisterStatusDefault
  | RegisterStatusConfirmPayment
  | RegisterStatusApplyRegister
  | RegisterStatusPreRegister
  | RegisterStatusProposal
  | RegisterStatusConfirmProposal
  | RegisterStatusRegistered

fun register_code :: "RegisterStatus \<Rightarrow> nat" where
  "register_code RegisterStatusDefault = 0"
| "register_code RegisterStatusConfirmPayment = 1"
| "register_code RegisterStatusApplyRegister = 2"
| "register_code RegisterStatusPreRegister = 3"
| "register_code RegisterStatusProposal = 4"
| "register_code RegisterStatusConfirmProposal = 5"
| "register_code RegisterStatusRegistered = 6"

lemma register_code_inj: "register_code x = register_code y \<Longrightarrow> x = y"
  by (cases x; cases y) simp_all

text \<open>The SQL conditions compare register statuses by their column value.\<close>

instantiation RegisterStatus :: linorder
begin

definition less_eq_RegisterStatus where
  "x \<le> y \<longleftrightarrow> register_code x \<le> register_code y"

definition less_RegisterStatus where
  "x < y \<longleftrightarrow> register_code x < register_code y"

instance
  by standard (auto simp: less_eq_RegisterStatus_def less_RegisterStatus_def register_code_inj)

end

lemmas register_order = less_eq_RegisterStatus_def less_RegisterStatus_def

datatype IsUniPay = IsUniPayFalse | IsUniPayTrue

datatype IsDidCell = IsDidCellNo | IsDidCellYes

datatype PayTokenId =
    TokenIdDas | TokenIdCkb | TokenIdCkbInternal | TokenIdEth | TokenIdTrx | TokenIdWx
  | TokenIdBnb | TokenIdPol | TokenCoupon | TokenIdDoge | TokenIdStripeUSD
  | TokenIdErc20USDT | TokenIdTrc20USDT | TokenIdBep20USDT | ToKenIdDidPoint
  | TokenIdPadgeInternal | TokenIdCkbCCC
  | TokenIdOther string

definition IsTokenIdCkbInternal :: "PayTokenId \<Rightarrow> bool" where
  "IsTokenIdCkbInternal p \<longleftrightarrow> p = TokenIdCkbInternal"

fun ToChainString :: "PayTokenId \<Rightarrow> string" where
  "ToChainString TokenIdDas = ''ckb''"
| "ToChainString TokenIdCkb = ''ckb''"
| "ToChainString TokenIdCkbInternal = ''ckb''"
| "ToChainString TokenIdCkbCCC = ''ckb''"
| "ToChainString TokenIdEth = ''eth''"
| "ToChainString TokenIdTrx = ''tron''"
| "ToChainString TokenIdBnb = ''bsc''"
| "ToChainString TokenIdPol = ''polygon''"
| "ToChainString TokenIdDoge = ''doge''"
| "ToChainString _ = ''''"

section \<open>Enumerations of the other tables\<close>

datatype OrderTxStatus =
  OrderTxStatusDefault | OrderTxStatusConfirm | OrderTxStatusRejected | OrderTxStatusDispute

datatype UniPayRefundStatus =
    UniPayRefundStatusDefault | UniPayRefundStatusUnRefund
  | UniPayRefundStatusRefunding | UniPayRefundStatusRefunded

datatype PayHashStatus = PayHashStatusPending | PayHashStatusConfirmed | PayHashStatusRejected

datatype OrderTxAction =
    TxActionConfirmPayment | TxActionApplyRegister | TxActionPreRegister | TxActionPropose
  | TxActionConfirmProposal | TxActionRenewAccount | TxActionTransferAccount

datatype CouponType = CouponType4byte | CouponType5byte | CouponTypeOther int

datatype CouponStatus =
  CouponStatusNotfound | CouponStatusUsed | CouponStatusExpired | CouponStatusAvailable

datatype AccountStatus =
    AccountStatusNotOpenRegister | AccountStatusNormal | AccountStatusOnSale
  | AccountStatusOnAuction | AccountStatusOnCross | AccountStatusOnApproval
  | AccountStatusOnUpgrade | AccountStatusOther int

datatype SearchStatus =
    SearchStatusRegisterNotOpen | SearchStatusRegisterAble | SearchStatusPaymentConfirm
  | SearchStatusLockedAccount | SearchStatusRegistering | SearchStatusProposal
  | SearchStatusConfirmProposal | SearchStatusRegistered | SearchStatusReservedAccount
  | SearchStatusOnSale | SearchStatusOnAuction | SearchStatusUnAvailableAccount
  | SearchStatusSubAccountUnRegister | SearchStatusOnCross | SearchStatusOnDutchAuction
  | SearchStatusAuctionRecycling | SearchStatusOnApproval | SearchStatusOnUpgradeDidCell

fun search_code :: "SearchStatus \<Rightarrow> int" where
  "search_code SearchStatusRegisterNotOpen = -1"
| "search_code SearchStatusRegisterAble = 0"
| "search_code SearchStatusPaymentConfirm = 1"
| "search_code SearchStatusLockedAccount = 2"
| "search_code SearchStatusRegistering = 3"
| "search_code SearchStatusProposal = 4"
| "search_code SearchStatusConfirmProposal = 5"
| "search_code SearchStatusRegistered = 6"
| "search_code SearchStatusReservedAccount = 7"
| "search_code SearchStatusOnSale = 8"
| "search_code SearchStatusOnAuction = 9"
| "search_code SearchStatusUnAvailableAccount = 13"
| "search_code SearchStatusSubAccountUnRegister = 14"
| "search_code SearchStatusOnCross = 15"
| "search_code SearchStatusOnDutchAuction = 17"
| "search_code SearchStatusAuctionRecycling = 18"
| "search_code SearchStatusOnApproval = 19"
| "search_code SearchStatusOnUpgradeDidCell = 20"

lemma search_code_inj: "search_code x = search_code y \<Longrightarrow> x = y"
  by (cases x; cases y) simp_all

instantiation SearchStatus :: linorder
begin

definition less_eq_SearchStatus where
  "x \<le> y \<longleftrightarrow> search_code x \<le> search_code y"

definition less_SearchStatus where
  "x < y \<longleftrightarrow> search_code x < search_code y"

instance
  by standard (auto simp: less_eq_SearchStatus_def less_SearchStatus_def search_code_inj)

end

lemmas search_order = less_eq_SearchStatus_def less_SearchStatus_def

fun FormatRegisterStatusToSearchStatus :: "RegisterStatus \<Rightarrow> SearchStatus" where
  "FormatRegisterStatusToSearchStatus RegisterStatusRegistered = SearchStatusRegistered"
| "FormatRegisterStatusToSearchStatus RegisterStatusConfirmProposal = SearchStatusConfirmProposal"
| "FormatRegisterStatusToSearchStatus RegisterStatusProposal = SearchStatusProposal"
| "FormatRegisterStatusToSearchStatus RegisterStatusPreRegister = SearchStatusRegistering"
| "FormatRegisterStatusToSearchStatus RegisterStatusApplyRegister = SearchStatusLockedAccount"
| "FormatRegisterStatusToSearchStatus RegisterStatusConfirmPayment = SearchStatusPaymentConfirm"
| "FormatRegisterStatusToSearchStatus RegisterStatusDefault = SearchStatusRegisterAble"

text \<open>The constants of das-lib and of \<open>tables\<close> that name on-chain actions.\<close>

datatype DasAction =
    DasActionApplyRegister | DasActionPreRegister | DasActionPropose | DasActionExtendPropose
  | DasActionConfirmProposal | DasActionRenewAccount | DasActionEditRecords
  | DasActionEditManager | DasActionTransferAccount | DasActionBidExpiredAccountAuction
  | DasActionConfig | DasActionTransferBalance | DasActionWithdrawFromWallet
  | DasActionTransfer | DidCellActionUpdate | DasActionConfigSubAccountCustomScript
  | DidCellActionRecycle | DasActionConsolidateIncome | DasActionStartAccountSale | DasActionEditAccountSale
  | DasActionCancelAccountSale | DasActionBuyAccount | DasActionSaleAccount | DasActionDeclareReverseRecord
  | DasActionRedeclareReverseRecord | DasActionRetractReverseRecord | DasActionMakeOffer
  | DasActionEditOfferAdd | DasActionEditOfferSub | DasActionCancelOffer | DasActionAcceptOffer
  | DasActionOfferAccepted | DasActionOrderRefund | DasActionBalanceDeposit | DasActionEnableSubAccount
  | DasActionCreateSubAccount | DasActionRecycleExpiredAccount | DasActionForceRecoverAccountStatus
  | DasActionCrossRefund | DasActionCollectSubAccountProfit | DasActionRenewSubAccount
  | DasActionEditSubAccount | DasActionLockAccountForCrossChain | DasActionUnlockAccountForCrossChain
  | DasActionRefundApply | DasActionRefundPreRegister | DasActionOther string

section \<open>Rows\<close>

record account_char_set =
  CharSetName :: nat
  Char :: string

record order_content =
  AccountCharStr :: "account_char_set list"
  InviterAccount :: string
  ChannelAccount :: string
  RegisterYears :: int
  AmountTotalUSD :: rat
  AmountTotalCKB :: rat
  RenewYears :: int

record order_row =
  o_Id :: nat
  o_OrderType :: OrderType
  o_OrderId :: string
  o_AccountId :: string
  o_Account :: string
  o_Action :: DasAction
  o_ChainType :: int
  o_Address :: string
  o_Timestamp :: int
  o_PayTokenId :: PayTokenId
  o_PayType :: string
  o_PayAmount :: rat
  o_Content :: "order_content option"
  o_PayStatus :: TxStatus
  o_HedgeStatus :: TxStatus
  o_PreRegisterStatus :: TxStatus
  o_RegisterStatus :: RegisterStatus
  o_OrderStatus :: OrderStatus
  o_CoinType :: string
  o_CrossCoinType :: string
  o_IsUniPay :: IsUniPay
  o_PremiumPercentage :: rat
  o_PremiumBase :: rat
  o_PremiumAmount :: rat
  o_IsDidCell :: IsDidCell

record pay_row =
  p_Id :: nat
  p_Hash :: string
  p_OrderId :: string
  p_ChainType :: int
  p_Address :: string
  p_Status :: OrderTxStatus
  p_Timestamp :: int
  p_AccountId :: string
  p_RefundStatus :: TxStatus
  p_UniPayRefundStatus :: UniPayRefundStatus
  p_RefundHash :: string

record tx_row =
  x_Id :: nat
  x_OrderId :: string
  x_Hash :: string
  x_Action :: OrderTxAction
  x_Status :: OrderTxStatus
  x_Timestamp :: int

record coupon_row =
  c_Id :: nat
  c_Code :: string
  c_CouponType :: CouponType
  c_OrderId :: string
  c_UseAt :: int
  c_ExpiredAt :: int
  c_StartAt :: int
  c_IsCheck :: nat

record pending_row =
  g_Id :: nat
  g_BlockNumber :: "64 word"
  g_Account :: string
  g_Action :: DasAction
  g_ChainType :: int
  g_Address :: string
  g_Capacity :: "64 word"
  g_Outpoint :: string
  g_BlockTimestamp :: "64 word"
  g_Status :: int

record block_row =
  b_Id :: nat
  b_ParserType :: int
  b_BlockNumber :: "64 word"
  b_BlockHash :: string
  b_ParentHash :: string

record token_row =
  k_Id :: nat
  k_TokenId :: PayTokenId
  k_Decimals :: nat
  k_Price :: rat

record account_row =
  a_Id :: nat
  a_AccountId :: string
  a_Account :: string
  a_OwnerChainType :: int
  a_Owner :: string
  a_ManagerChainType :: int
  a_Manager :: string
  a_Status :: AccountStatus
  a_RegisteredAt :: "64 word"
  a_ExpiredAt :: "64 word"
  a_ParentAccountId :: string
  a_EnableSubAccount :: "8 word"
  a_Outpoint :: string
  a_ConfirmProposalHash :: string
  a_OwnerAlgorithmId :: int
  a_ManagerAlgorithmId :: int
  a_RenewSubAccountPrice :: "64 word"
  a_Nonce :: "64 word"

record did_row =
  d_Id :: nat
  d_Outpoint :: string
  d_AccountId :: string
  d_Account :: string
  d_Args :: string
  d_LockCodeHash :: string
  d_ExpiredAt :: "64 word"

record transaction_row =
  r_Id :: nat
  r_AccountId :: string
  r_Account :: string
  r_Action :: DasAction
  r_ChainType :: int
  r_Address :: string
  r_Capacity :: "64 word"
  r_BlockNumber :: "64 word"
  r_Outpoint :: string
  r_BlockTimestamp :: "64 word"

record auction_row =
  au_Id :: nat
  au_Account :: string
  au_AccountId :: string
  au_OrderId :: string
  au_Address :: string
  au_ChainType :: int
  au_BasicPrice :: rat
  au_PremiumPrice :: rat
  au_BidTime :: int
  au_Outpoint :: string

record records_row =
  rc_Id :: nat
  rc_AccountId :: string
  rc_Account :: string
  rc_Key :: string
  rc_Type :: string
  rc_Label :: string
  rc_Value :: string
  rc_Ttl :: string

record reverse_row =
  rv_Id :: nat
  rv_BlockNumber :: "64 word"
  rv_Outpoint :: string
  rv_ChainType :: int
  rv_Address :: string
  rv_AccountId :: string
  rv_Account :: string

record rebate_row =
  re_Id :: nat
  re_InviteeAccount :: string
  re_RewardType :: int
  re_Reward :: "64 word"
  re_ServiceType :: int
  re_InviterChainType :: int
  re_InviterAddress :: string
  re_BlockTimestamp :: "64 word"

text \<open>
  \<open>next_id\<close> stands for the auto-increment counters of all tables: ids are fresh and
  increase in the order of insertion, which is all the code relies on.
\<close>

record db =
  orders :: "order_row list"
  pays :: "pay_row list"
  txs :: "tx_row list"
  coupons :: "coupon_row list"
  pendings :: "pending_row list"
  blocks :: "block_row list"
  tokens :: "token_row list"
  accounts :: "account_row list"
  did_cells :: "did_row list"
  transactions :: "transaction_row list"
  auctions :: "auction_row list"
  records :: "records_row list"
  reverses :: "reverse_row list"
  rebates :: "rebate_row list"
  next_id :: nat

type_synonym 'a dao = "(db, 'a) act"

section \<open>Zero values\<close>

definition zero_order :: order_row where
  "zero_order = \<lparr>o_Id = 0, o_OrderType = OrderTypeZero, o_OrderId = '''', o_AccountId = '''',
     o_Account = '''', o_Action = DasActionOther '''', o_ChainType = 0, o_Address = '''',
     o_Timestamp = 0, o_PayTokenId = TokenIdOther '''', o_PayType = '''', o_PayAmount = 0,
     o_Content = None, o_PayStatus = TxStatusDefault, o_HedgeStatus = TxStatusDefault,
     o_PreRegisterStatus = TxStatusDefault, o_RegisterStatus = RegisterStatusDefault,
     o_OrderStatus = OrderStatusDefault, o_CoinType = '''', o_CrossCoinType = '''',
     o_IsUniPay = IsUniPayFalse, o_PremiumPercentage = 0, o_PremiumBase = 0,
     o_PremiumAmount = 0, o_IsDidCell = IsDidCellNo\<rparr>"

definition zero_tx :: tx_row where
  "zero_tx = \<lparr>x_Id = 0, x_OrderId = '''', x_Hash = '''', x_Action = TxActionConfirmPayment,
     x_Status = OrderTxStatusDefault, x_Timestamp = 0\<rparr>"

definition zero_pay :: pay_row where
  "zero_pay = \<lparr>p_Id = 0, p_Hash = '''', p_OrderId = '''', p_ChainType = 0, p_Address = '''',
     p_Status = OrderTxStatusDefault, p_Timestamp = 0, p_AccountId = '''',
     p_RefundStatus = TxStatusDefault, p_UniPayRefundStatus = UniPayRefundStatusDefault,
     p_RefundHash = ''''\<rparr>"

definition zero_block :: block_row where
  "zero_block = \<lparr>b_Id = 0, b_ParserType = 0, b_BlockNumber = 0, b_BlockHash = '''', b_ParentHash = ''''\<rparr>"

definition zero_token :: token_row where
  "zero_token = \<lparr>k_Id = 0, k_TokenId = TokenIdOther '''', k_Decimals = 0, k_Price = 0\<rparr>"

definition zero_account :: account_row where
  "zero_account = \<lparr>a_Id = 0, a_AccountId = '''', a_Account = '''', a_OwnerChainType = 0, a_Owner = '''',
     a_ManagerChainType = 0, a_Manager = '''', a_Status = AccountStatusNormal,
     a_RegisteredAt = 0, a_ExpiredAt = 0, a_ParentAccountId = '''', a_EnableSubAccount = 0, a_Outpoint = '''', a_ConfirmProposalHash = '''',
     a_OwnerAlgorithmId = 0, a_ManagerAlgorithmId = 0, a_RenewSubAccountPrice = 0, a_Nonce = 0\<rparr>"

definition zero_did :: did_row where
  "zero_did = \<lparr>d_Id = 0, d_Outpoint = '''', d_AccountId = '''', d_Account = '''', d_Args = '''',
     d_LockCodeHash = '''', d_ExpiredAt = 0\<rparr>"

definition zero_coupon :: coupon_row where
  "zero_coupon = \<lparr>c_Id = 0, c_Code = '''', c_CouponType = CouponTypeOther 0, c_OrderId = '''',
     c_UseAt = 0, c_ExpiredAt = 0, c_StartAt = 0, c_IsCheck = 0\<rparr>"

definition zero_content :: order_content where
  "zero_content = \<lparr>AccountCharStr = [], InviterAccount = '''', ChannelAccount = '''', RegisterYears = 0,
     AmountTotalUSD = 0, AmountTotalCKB = 0, RenewYears = 0\<rparr>"

definition empty_db :: db where
  "empty_db = \<lparr>orders = [], pays = [], txs = [], coupons = [], pendings = [], blocks = [], tokens = [],
     accounts = [], did_cells = [], transactions = [], auctions = [],
     records = [], reverses = [], rebates = [], next_id = 1\<rparr>"

text \<open>A healthy world around a database, at time \<open>nw\<close>; used by the concrete examples.\<close>

definition world_of :: "db \<Rightarrow> int \<Rightarrow> db world" where
  "world_of t nw = \<lparr>tabs = t, snap = t, faults = [], trace = [], redis = None, now = nw\<rparr>"

lemma world_of_simps [simp]:
  "tabs (world_of t nw) = t" "snap (world_of t nw) = t" "trace (world_of t nw) = []"
  "now (world_of t nw) = nw" "redis (world_of t nw) = None" "faults (world_of t nw) = []"
  "healthy (world_of t nw)"
  by (simp_all add: world_of_def healthy_def)

section \<open>Methods of the rows\<close>

definition GetContent :: "order_row \<Rightarrow> order_content" where
  "GetContent t = (case o_Content t of None \<Rightarrow> zero_content | Some c \<Rightarrow> c)"

definition EndWithDotBitChar :: "account_char_set list \<Rightarrow> bool" where
  "EndWithDotBitChar list =
     (let accLen = length list in
      if accLen \<le> 4 then False
      else Char (list ! (accLen - 4)) = ''.'' \<and> Char (list ! (accLen - 3)) = ''b''
         \<and> Char (list ! (accLen - 2)) = ''i'' \<and> Char (list ! (accLen - 1)) = ''t'')"

text \<open>\<open>int64(t.ExpiredAt) <= time.Now().Unix()\<close>, with the clock in milliseconds.\<close>

definition IsExpired :: "account_row \<Rightarrow> int \<Rightarrow> bool" where
  "IsExpired t nw \<longleftrightarrow> sint (a_ExpiredAt t) \<le> nw div 1000"

definition CheckStatus :: "account_row \<Rightarrow> bool" where
  "CheckStatus t \<longleftrightarrow> a_Status t = AccountStatusNormal"

definition FormatAccountStatus :: "account_row \<Rightarrow> SearchStatus" where
  "FormatAccountStatus t =
     (case a_Status t of
        AccountStatusNormal \<Rightarrow> SearchStatusRegistered
      | AccountStatusOnSale \<Rightarrow> SearchStatusOnSale
      | AccountStatusOnAuction \<Rightarrow> SearchStatusOnAuction
      | AccountStatusOnCross \<Rightarrow> SearchStatusOnCross
      | AccountStatusOnApproval \<Rightarrow> SearchStatusOnApproval
      | AccountStatusOnUpgrade \<Rightarrow> SearchStatusOnUpgradeDidCell
      | _ \<Rightarrow> SearchStatusRegisterAble)"

text \<open>Cut-off times: three days and one day before now, in milliseconds.\<close>

definition GetPaymentInfoTimestamp :: "int \<Rightarrow> int" where
  "GetPaymentInfoTimestamp nw = nw - 3 * 24 * 3600 * 1000"

definition GetPaymentInfoTimestampBefore24h :: "int \<Rightarrow> int" where
  "GetPaymentInfoTimestampBefore24h nw = nw - 24 * 3600 * 1000"

section \<open>Order ids\<close>

text \<open>\<open>fmt\<close>'s \<open>%d\<close>.\<close>

fun show_nat :: "nat \<Rightarrow> string" where
  "show_nat n =
     (if n < 10 then [char_of (n + 48)] else show_nat (n div 10) @ [char_of (n mod 10 + 48)])"

declare show_nat.simps [simp del]

definition show_int :: "int \<Rightarrow> string" where
  "show_int i = (if i < 0 then ''-'' @ show_nat (nat (- i)) else show_nat (nat i))"

fun order_type_code :: "OrderType \<Rightarrow> int" where
  "order_type_code OrderTypeZero = 0"
| "order_type_code OrderTypeSelf = 1"
| "order_type_code OrderTypeOther = 2"

text \<open>
  \<open>CreateOrderId\<close> hashes the concatenation of the decimal and string forms of its
  arguments. The digest \<open>md5hex\<close> and the strings \<open>act_str\<close> that the constants of
  das-lib stand for are parameters.
\<close>

definition CreateOrderId ::
  "(string \<Rightarrow> string) \<Rightarrow> (DasAction \<Rightarrow> string) \<Rightarrow> OrderType \<Rightarrow> string \<Rightarrow> DasAction \<Rightarrow> int \<Rightarrow> string \<Rightarrow> int \<Rightarrow> string"
  where
  "CreateOrderId md5hex act_str orderType accountId action chainType address timestamp =
     md5hex (show_int (order_type_code orderType) @ accountId @ act_str action
             @ show_int chainType @ address @ show_int timestamp)"

end
