(* ===== verification/DaoOrder.thy ===== *)
theory DaoOrder
  imports Tables
begin

text \<open>
  \<open>src/dao/t_das_order_info.go\<close>: the statements on the order table, each with its
  condition and its assignments, and the transactions built from them. \<open>update_where\<close> is
  SQL's UPDATE; \<open>sql_in\<close> and \<open>sql_not_in\<close> are IN and NOT IN over a Go slice, which
  gorm writes as \<open>(NULL)\<close> when the slice is empty, so that both are then never true.
\<close>

section \<open>SQL vocabulary\<close>

definition update_where :: "('r \<Rightarrow> bool) \<Rightarrow> ('r \<Rightarrow> 'r) \<Rightarrow> 'r list \<Rightarrow> 'r list" where
  "update_where P f rows = map (\<lambda>r. if P r then f r else r) rows"

definition sql_in :: "'a \<Rightarrow> 'a list \<Rightarrow> bool" where
  "sql_in x xs \<longleftrightarrow> x \<in> set xs"

definition sql_not_in :: "'a \<Rightarrow> 'a list \<Rightarrow> bool" where
  "sql_not_in x xs \<longleftrightarrow> xs \<noteq> [] \<and> x \<notin> set xs"

definition first_or :: "'r \<Rightarrow> 'r list \<Rightarrow> 'r" where
  "first_or z rows = (case rows of [] \<Rightarrow> z | r # _ \<Rightarrow> r)"

text \<open>\<open>ORDER BY \<dots> LIMIT 1\<close> for a strict order of rows.\<close>

definition first_by :: "('r \<Rightarrow> 'r \<Rightarrow> bool) \<Rightarrow> 'r \<Rightarrow> 'r list \<Rightarrow> 'r" where
  "first_by lt z rows =
     (case rows of [] \<Rightarrow> z | r # rs \<Rightarrow> fold (\<lambda>y b. if lt y b then y else b) rs r)"

lemma update_where_Nil [simp]: "update_where P f [] = []"
  by (simp add: update_where_def)

lemma update_where_Cons [simp]:
  "update_where P f (x # xs) = (if P x then f x else x) # update_where P f xs"
  by (simp add: update_where_def)

lemma update_where_append [simp]:
  "update_where P f (xs @ ys) = update_where P f xs @ update_where P f ys"
  by (simp add: update_where_def)

lemma set_update_where:
  "x \<in> set (update_where P f xs) \<longleftrightarrow> (\<exists>y \<in> set xs. x = (if P y then f y else y))"
  by (auto simp: update_where_def)

lemma map_update_where [simp]:
  "(\<And>r. g (f r) = g r) \<Longrightarrow> map g (update_where P f xs) = map g xs"
  by (simp add: update_where_def)

lemma update_where_id: "(\<And>r. r \<in> set xs \<Longrightarrow> P r \<Longrightarrow> f r = r) \<Longrightarrow> update_where P f xs = xs"
  by (simp add: update_where_def map_idI)

lemma update_where_twice:
  "(\<And>r. P r \<Longrightarrow> P (f r) \<Longrightarrow> f (f r) = f r) \<Longrightarrow>
   update_where P f (update_where P f xs) = update_where P f xs"
  by (simp add: update_where_def)

lemma filter_kept_where:
  "(\<And>r. P r \<Longrightarrow> Q (f r) = Q r) \<Longrightarrow> filter Q (update_where P f xs) = update_where P f (filter Q xs)"
  by (induction xs) auto

lemma filter_others_where:
  "(\<And>r. P r \<Longrightarrow> \<not> Q r) \<Longrightarrow> (\<And>r. P r \<Longrightarrow> \<not> Q (f r)) \<Longrightarrow> filter Q (update_where P f xs) = filter Q xs"
  by (induction xs) auto

lemma update_whereE:
  assumes "r \<in> set (update_where P f xs)"
  obtains y where "y \<in> set xs" "P y" "r = f y" | "r \<in> set xs" "\<not> P r"
  using assms by (auto simp: update_where_def split: if_splits)

lemma image_update_where:
  "(\<And>r. key (f r) = key r) \<Longrightarrow> key ` set (update_where P f xs) = key ` set xs"
  by (metis list.set_map map_update_where)

definition update_orders :: "(order_row \<Rightarrow> bool) \<Rightarrow> (order_row \<Rightarrow> order_row) \<Rightarrow> db \<Rightarrow> db" where
  "update_orders P f t = t\<lparr>orders := update_where P f (orders t)\<rparr>"

definition update_pays :: "(pay_row \<Rightarrow> bool) \<Rightarrow> (pay_row \<Rightarrow> pay_row) \<Rightarrow> db \<Rightarrow> db" where
  "update_pays P f t = t\<lparr>pays := update_where P f (pays t)\<rparr>"

definition update_txs :: "(tx_row \<Rightarrow> bool) \<Rightarrow> (tx_row \<Rightarrow> tx_row) \<Rightarrow> db \<Rightarrow> db" where
  "update_txs P f t = t\<lparr>txs := update_where P f (txs t)\<rparr>"

lemmas sql_updates = update_orders_def update_pays_def update_txs_def

lemma update_tables_simps [simp]:
  "orders (update_orders P f t) = update_where P f (orders t)"
  "pays (update_orders P f t) = pays t" "txs (update_orders P f t) = txs t"
  "coupons (update_orders P f t) = coupons t" "next_id (update_orders P f t) = next_id t"
  "pays (update_pays P' g t) = update_where P' g (pays t)"
  "orders (update_pays P' g t) = orders t" "txs (update_pays P' g t) = txs t"
  "coupons (update_pays P' g t) = coupons t" "next_id (update_pays P' g t) = next_id t"
  "txs (update_txs P'' h t) = update_where P'' h (txs t)"
  "orders (update_txs P'' h t) = orders t" "pays (update_txs P'' h t) = pays t"
  "coupons (update_txs P'' h t) = coupons t" "next_id (update_txs P'' h t) = next_id t"
  by (simp_all add: sql_updates)

section \<open>Insertions\<close>

text \<open>\<open>Create\<close> on the order table, whose unique key is the order id.\<close>

definition insert_order :: "order_row \<Rightarrow> db \<Rightarrow> gerr + (unit \<times> db)" where
  "insert_order r t =
     (if o_OrderId r \<in> o_OrderId ` set (orders t) then Inl DuplicateKey
      else Inr ((), t\<lparr>orders := orders t @ [r\<lparr>o_Id := next_id t\<rparr>], next_id := Suc (next_id t)\<rparr>))"

text \<open>\<open>Create\<close> with \<open>OnConflict DoUpdates\<close>: the named columns of the existing row take the new values.\<close>

definition upsert_order :: "order_row \<Rightarrow> db \<Rightarrow> db" where
  "upsert_order r t =
     (if o_OrderId r \<in> o_OrderId ` set (orders t)
      then update_orders (\<lambda>s. o_OrderId s = o_OrderId r)
             (\<lambda>s. s\<lparr>o_AccountId := o_AccountId r, o_Account := o_Account r, o_Action := o_Action r,
                    o_ChainType := o_ChainType r, o_Address := o_Address r,
                    o_RegisterStatus := o_RegisterStatus r\<rparr>) t
      else t\<lparr>orders := orders t @ [r\<lparr>o_Id := next_id t\<rparr>], next_id := Suc (next_id t)\<rparr>)"

definition same_tx :: "tx_row \<Rightarrow> tx_row \<Rightarrow> bool" where
  "same_tx r s \<longleftrightarrow> x_OrderId s = x_OrderId r \<and> x_Hash s = x_Hash r"

definition upsert_tx :: "tx_row \<Rightarrow> db \<Rightarrow> db" where
  "upsert_tx r t =
     (if \<exists>s \<in> set (txs t). same_tx r s
      then update_txs (same_tx r)
             (\<lambda>s. s\<lparr>x_Action := x_Action r, x_Status := x_Status r, x_Timestamp := x_Timestamp r\<rparr>) t
      else t\<lparr>txs := txs t @ [r\<lparr>x_Id := next_id t\<rparr>], next_id := Suc (next_id t)\<rparr>)"

text \<open>\<open>Create(&list)\<close> on a slice: gorm refuses the empty one.\<close>

definition upsert_txs :: "tx_row list \<Rightarrow> db \<Rightarrow> gerr + (unit \<times> db)" where
  "upsert_txs rs t = (if rs = [] then Inl EmptySlice else Inr ((), fold upsert_tx rs t))"

section \<open>Reading orders\<close>

text \<open>\<open>ORDER BY order_status, register_status DESC, id DESC\<close>.\<close>

fun order_status_code :: "OrderStatus \<Rightarrow> nat" where
  "order_status_code OrderStatusDefault = 0"
| "order_status_code OrderStatusClosed = 1"

definition order_before :: "order_row \<Rightarrow> order_row \<Rightarrow> bool" where
  "order_before a b \<longleftrightarrow>
     (let sa = order_status_code (o_OrderStatus a); sb = order_status_code (o_OrderStatus b) in
      sa < sb \<or> sa = sb \<and>
        (o_RegisterStatus b < o_RegisterStatus a \<or>
         o_RegisterStatus a = o_RegisterStatus b \<and> o_Id b < o_Id a))"

definition latest_order :: "(order_row \<Rightarrow> bool) \<Rightarrow> db \<Rightarrow> order_row" where
  "latest_order P t = first_by order_before zero_order (filter P (orders t))"

definition GetLatestRegisterOrderByAddress :: "int \<Rightarrow> string \<Rightarrow> string \<Rightarrow> order_row dao" where
  "GetLatestRegisterOrderByAddress chainType address accountId =
     queryM (latest_order (\<lambda>r. o_ChainType r = chainType \<and> o_Address r = address
        \<and> o_AccountId r = accountId \<and> o_Action r = DasActionApplyRegister))"

definition GetLatestRegisterOrderByLatest :: "string \<Rightarrow> order_row dao" where
  "GetLatestRegisterOrderByLatest accountId =
     queryM (latest_order (\<lambda>r. o_AccountId r = accountId \<and> o_Action r = DasActionApplyRegister
        \<and> o_OrderStatus r = OrderStatusDefault))"

definition GetRegisteringOrders :: "int \<Rightarrow> string \<Rightarrow> order_row list dao" where
  "GetRegisteringOrders chainType address =
     queryM (\<lambda>t. rev (filter (\<lambda>r. o_ChainType r = chainType \<and> o_Address r = address
        \<and> o_Action r = DasActionApplyRegister \<and> o_OrderStatus r = OrderStatusDefault) (orders t)))"

definition GetLatestRegisterOrderBySelf :: "int \<Rightarrow> string \<Rightarrow> string \<Rightarrow> order_row dao" where
  "GetLatestRegisterOrderBySelf chainType address accountId =
     queryM (latest_order (\<lambda>r. o_ChainType r = chainType \<and> o_Address r = address
        \<and> o_AccountId r = accountId \<and> o_Action r = DasActionApplyRegister
        \<and> o_OrderType r = OrderTypeSelf \<and> o_OrderStatus r = OrderStatusDefault))"

definition find_order :: "string \<Rightarrow> db \<Rightarrow> order_row" where
  "find_order orderId t = first_or zero_order (filter (\<lambda>r. o_OrderId r = orderId) (orders t))"

definition GetOrderByOrderId :: "string \<Rightarrow> order_row dao" where
  "GetOrderByOrderId orderId = queryM (find_order orderId)"

definition GetOrderListByOrderIds :: "string list \<Rightarrow> order_row list dao" where
  "GetOrderListByOrderIds orderIds =
     (if orderIds = [] then okM []
      else queryM (\<lambda>t. filter (\<lambda>r. sql_in (o_OrderId r) orderIds) (orders t)))"

definition GetNeedSendPayOrderList :: "DasAction \<Rightarrow> order_row list dao" where
  "GetNeedSendPayOrderList action =
     queryM (\<lambda>t. take 20 (filter (\<lambda>r. o_Action r = action \<and> o_OrderType r = OrderTypeSelf
        \<and> o_PayStatus r = TxStatusSending \<and> o_OrderStatus r = OrderStatusDefault
        \<and> o_IsDidCell r = IsDidCellNo) (orders t)))"

definition GetNeedSendDidCellOrderList :: "DasAction list \<Rightarrow> order_row list dao" where
  "GetNeedSendDidCellOrderList actions =
     queryM (\<lambda>t. take 20 (filter (\<lambda>r. sql_in (o_Action r) actions \<and> o_OrderType r = OrderTypeSelf
        \<and> o_PayStatus r = TxStatusSending \<and> o_OrderStatus r = OrderStatusDefault
        \<and> o_IsDidCell r = IsDidCellYes) (orders t)))"

definition GetNeedSendPreRegisterTxOrderList :: "order_row list dao" where
  "GetNeedSendPreRegisterTxOrderList =
     queryM (\<lambda>t. take 20 (filter (\<lambda>r. o_Action r = DasActionApplyRegister
        \<and> o_OrderType r = OrderTypeSelf \<and> o_PreRegisterStatus r = TxStatusSending
        \<and> o_OrderStatus r = OrderStatusDefault) (orders t)))"

definition GetPreRegisteredOrderByAccountId :: "string \<Rightarrow> order_row dao" where
  "GetPreRegisteredOrderByAccountId accountId =
     queryM (\<lambda>t. first_or zero_order (filter (\<lambda>r. o_AccountId r = accountId
        \<and> o_Action r = DasActionApplyRegister \<and> RegisterStatusPreRegister < o_RegisterStatus r)
        (orders t)))"

text \<open>Register statuses at which an unpaid order may still expire.\<close>

definition expirable :: "order_row \<Rightarrow> bool" where
  "expirable r \<longleftrightarrow> o_OrderType r = OrderTypeSelf
     \<and> sql_in (o_RegisterStatus r) [RegisterStatusConfirmPayment, RegisterStatusDefault]
     \<and> o_OrderStatus r = OrderStatusDefault"

definition GetNeedExpiredOrders :: "int \<Rightarrow> string list dao" where
  "GetNeedExpiredOrders nw =
     queryM (\<lambda>t. map o_OrderId (filter (\<lambda>r. expirable r \<and> o_Timestamp r < nw - 24 * 3600 * 1000
        \<and> o_OrderId r \<notin> p_OrderId ` set (pays t)) (orders t)))"

definition GetNeedExpiredOrders2 :: "int \<Rightarrow> string list dao" where
  "GetNeedExpiredOrders2 nw =
     queryM (\<lambda>t. map o_OrderId (filter (\<lambda>r. expirable r
        \<and> o_Timestamp r < nw - 7 * 24 * 3600 * 1000) (orders t)))"

text \<open>The join gives one row per payment of the order.\<close>

definition GetClosedAndUnRefundOrders :: "order_row list dao" where
  "GetClosedAndUnRefundOrders =
     queryM (\<lambda>t. concat (map (\<lambda>r. map (\<lambda>p. r) (filter (\<lambda>p. p_OrderId p = o_OrderId r
          \<and> p_Status p = OrderTxStatusConfirm \<and> p_RefundStatus p = TxStatusDefault) (pays t)))
        (filter (\<lambda>r. o_Action r = DasActionApplyRegister \<and> o_OrderType r = OrderTypeSelf
          \<and> o_OrderStatus r = OrderStatusClosed \<and> o_RegisterStatus r < RegisterStatusProposal)
          (orders t))))"

definition GetUnPayOrderCount :: "int \<Rightarrow> string \<Rightarrow> int dao" where
  "GetUnPayOrderCount chainType address =
     queryM (\<lambda>t. int (length (filter (\<lambda>r. o_ChainType r = chainType \<and> o_Address r = address
        \<and> o_OrderStatus r = OrderStatusDefault \<and> o_PayStatus r = TxStatusDefault) (orders t))))"

definition GetHistoryOkOrders :: "string list \<Rightarrow> order_row list dao" where
  "GetHistoryOkOrders accountIds =
     queryM (\<lambda>t. filter (\<lambda>r. sql_in (o_AccountId r) accountIds \<and> o_OrderType r = OrderTypeSelf
        \<and> o_PayStatus r \<noteq> TxStatusDefault \<and> o_OrderStatus r = OrderStatusClosed) (orders t))"

definition GetIsUniPayInfoByOrderIds :: "string list \<Rightarrow> order_row list dao" where
  "GetIsUniPayInfoByOrderIds orderIds =
     (if orderIds = [] then okM []
      else queryM (\<lambda>t. filter (\<lambda>r. sql_in (o_OrderId r) orderIds) (orders t)))"

definition GetNeedHedgeOrderList :: "order_row list dao" where
  "GetNeedHedgeOrderList =
     queryM (\<lambda>t. filter (\<lambda>r. o_OrderType r = OrderTypeSelf \<and> o_HedgeStatus r = TxStatusSending)
        (orders t))"

section \<open>Writing orders\<close>

definition CreateOrderAndOrderTxs :: "order_row \<Rightarrow> tx_row list \<Rightarrow> unit dao" where
  "CreateOrderAndOrderTxs r list =
     txnM (thenM (updateM (upsert_order r)) (stmtM (upsert_txs list)))"

definition DoActionPropose :: "string list \<Rightarrow> tx_row list \<Rightarrow> unit dao" where
  "DoActionPropose orderIds list =
     txnM (thenM
       (updateM (update_orders
          (\<lambda>r. sql_in (o_OrderId r) orderIds \<and> o_RegisterStatus r = RegisterStatusProposal)
          (\<lambda>r. r\<lparr>o_RegisterStatus := RegisterStatusConfirmProposal\<rparr>)))
       (stmtM (upsert_txs list)))"

definition DoActionConfirmProposal ::
  "string list \<Rightarrow> string list \<Rightarrow> string list \<Rightarrow> tx_row list \<Rightarrow> unit dao" where
  "DoActionConfirmProposal orderIds okOrderIds accountIds list =
     txnM (thenM
       (updateM (update_orders (\<lambda>r. sql_in (o_OrderId r) orderIds)
          (\<lambda>r. r\<lparr>o_RegisterStatus := RegisterStatusRegistered\<rparr>)))
     (thenM
       (updateM (update_orders (\<lambda>r. sql_in (o_AccountId r) accountIds)
          (\<lambda>r. r\<lparr>o_OrderStatus := OrderStatusClosed\<rparr>)))
     (thenM
       (stmtM (upsert_txs list))
     (thenM
       (updateM (update_orders
          (\<lambda>r. sql_in (o_OrderId r) orderIds \<and> o_OrderType r = OrderTypeSelf
               \<and> o_HedgeStatus r = TxStatusDefault)
          (\<lambda>r. r\<lparr>o_HedgeStatus := TxStatusSending\<rparr>)))
       (updateM (update_pays
          (\<lambda>p. sql_in (p_AccountId p) accountIds \<and> sql_not_in (p_OrderId p) okOrderIds
               \<and> p_RefundStatus p = TxStatusDefault)
          (\<lambda>p. p\<lparr>p_RefundStatus := TxStatusSending,
                 p_UniPayRefundStatus := UniPayRefundStatusUnRefund\<rparr>)))))))"

definition CreateOrder :: "order_row \<Rightarrow> unit dao" where
  "CreateOrder r = stmtM (insert_order r)"

text \<open>\<open>Create\<close> on the payment table, whose unique key is the hash.\<close>

definition insert_pay :: "pay_row \<Rightarrow> db \<Rightarrow> gerr + (unit \<times> db)" where
  "insert_pay p t =
     (if p_Hash p \<in> p_Hash ` set (pays t) then Inl DuplicateKey
      else Inr ((), t\<lparr>pays := pays t @ [p\<lparr>p_Id := next_id t\<rparr>], next_id := Suc (next_id t)\<rparr>))"

definition CreateOrderWithPayment :: "order_row \<Rightarrow> pay_row \<Rightarrow> unit dao" where
  "CreateOrderWithPayment r p =
     txnM (thenM (stmtM (insert_order r))
       (if p_Hash p \<noteq> '''' then stmtM (insert_pay p) else okM ()))"

definition CreateCouponOrder :: "order_row \<Rightarrow> string \<Rightarrow> unit dao" where
  "CreateCouponOrder r coupon =
     txnM (thenM (stmtM (insert_order r))
       (bindM clockM (\<lambda>nw.
          updateM (\<lambda>t. t\<lparr>coupons := update_where
             (\<lambda>c. c_Code c = coupon \<and> c_OrderId c = '''' \<and> c_UseAt c = 0)
             (\<lambda>c. c\<lparr>c_OrderId := o_OrderId r, c_UseAt := nw div 1000\<rparr>) (coupons t)\<rparr>))))"

text \<open>The confirmation of an order transaction, shared by the three \<open>DoAction\<close> transactions.\<close>

definition confirm_tx :: "string \<Rightarrow> string \<Rightarrow> db \<Rightarrow> db" where
  "confirm_tx orderId hash =
     update_txs (\<lambda>x. x_OrderId x = orderId \<and> x_Hash x = hash)
       (\<lambda>x. x\<lparr>x_Status := OrderTxStatusConfirm\<rparr>)"

definition DoActionApplyRegister :: "string \<Rightarrow> string \<Rightarrow> unit dao" where
  "DoActionApplyRegister orderId hash =
     txnM (thenM (updateM (confirm_tx orderId hash))
     (thenM
       (updateM (update_orders
          (\<lambda>r. o_OrderId r = orderId \<and> o_PreRegisterStatus r = TxStatusDefault
               \<and> o_OrderStatus r = OrderStatusDefault)
          (\<lambda>r. r\<lparr>o_PreRegisterStatus := TxStatusSending\<rparr>)))
       (updateM (update_orders
          (\<lambda>r. o_OrderId r = orderId \<and> o_RegisterStatus r < RegisterStatusPreRegister)
          (\<lambda>r. r\<lparr>o_RegisterStatus := RegisterStatusPreRegister\<rparr>)))))"

definition DoActionPreRegister :: "string \<Rightarrow> string \<Rightarrow> unit dao" where
  "DoActionPreRegister orderId hash =
     txnM (thenM (updateM (confirm_tx orderId hash))
       (updateM (update_orders
          (\<lambda>r. o_OrderId r = orderId \<and> o_RegisterStatus r < RegisterStatusProposal)
          (\<lambda>r. r\<lparr>o_RegisterStatus := RegisterStatusProposal\<rparr>))))"

text \<open>The two order updates go through \<open>d.db\<close> and not through the open transaction.\<close>

definition DoActionRenewAccount :: "string \<Rightarrow> string \<Rightarrow> unit dao" where
  "DoActionRenewAccount orderId hash =
     txnM (thenM
       (outsideM (update_orders
          (\<lambda>r. o_OrderId r = orderId \<and> o_OrderStatus r = OrderStatusDefault)
          (\<lambda>r. r\<lparr>o_OrderStatus := OrderStatusClosed\<rparr>)))
     (thenM
       (outsideM (update_orders
          (\<lambda>r. o_OrderId r = orderId \<and> o_OrderType r = OrderTypeSelf
               \<and> o_HedgeStatus r = TxStatusDefault)
          (\<lambda>r. r\<lparr>o_HedgeStatus := TxStatusSending\<rparr>)))
       (updateM (confirm_tx orderId hash))))"

definition UpdatePayStatus :: "string \<Rightarrow> TxStatus \<Rightarrow> TxStatus \<Rightarrow> unit dao" where
  "UpdatePayStatus orderId oldTxStatus newTxStatus =
     updateM (update_orders
       (\<lambda>r. o_OrderId r = orderId \<and> o_OrderType r = OrderTypeSelf \<and> o_PayStatus r = oldTxStatus)
       (\<lambda>r. r\<lparr>o_PayStatus := newTxStatus\<rparr>))"

definition UpdatePreRegisterStatus :: "string \<Rightarrow> TxStatus \<Rightarrow> TxStatus \<Rightarrow> unit dao" where
  "UpdatePreRegisterStatus orderId oldTxStatus newTxStatus =
     updateM (update_orders
       (\<lambda>r. o_OrderId r = orderId \<and> o_OrderType r = OrderTypeSelf
            \<and> o_PreRegisterStatus r = oldTxStatus)
       (\<lambda>r. r\<lparr>o_PreRegisterStatus := newTxStatus\<rparr>))"

definition UpdateOrderToClosedAndRefund :: "string \<Rightarrow> unit dao" where
  "UpdateOrderToClosedAndRefund orderId =
     txnM (updateM (update_orders
       (\<lambda>r. o_OrderId r = orderId \<and> o_OrderType r = OrderTypeSelf
            \<and> o_OrderStatus r = OrderStatusDefault)
       (\<lambda>r. r\<lparr>o_OrderStatus := OrderStatusClosed\<rparr>)))"

definition UpdateOrderToRefund :: "string \<Rightarrow> unit dao" where
  "UpdateOrderToRefund orderId =
     txnM (updateM (update_orders
       (\<lambda>r. o_OrderId r = orderId \<and> o_OrderType r = OrderTypeSelf)
       (\<lambda>r. r\<lparr>o_OrderStatus := OrderStatusClosed\<rparr>)))"

definition UpdateDidCellOrderToRefund :: "string \<Rightarrow> unit dao" where
  "UpdateDidCellOrderToRefund orderId =
     txnM (thenM
       (updateM (update_orders
          (\<lambda>r. o_OrderId r = orderId \<and> o_OrderType r = OrderTypeSelf \<and> o_IsDidCell r = IsDidCellYes)
          (\<lambda>r. r\<lparr>o_OrderStatus := OrderStatusClosed\<rparr>)))
       (updateM (update_pays
          (\<lambda>p. p_OrderId p = orderId \<and> p_Status p = OrderTxStatusConfirm
               \<and> p_UniPayRefundStatus p = UniPayRefundStatusDefault)
          (\<lambda>p. p\<lparr>p_UniPayRefundStatus := UniPayRefundStatusUnRefund\<rparr>))))"

definition DoExpiredOrder :: "string \<Rightarrow> unit dao" where
  "DoExpiredOrder orderId =
     updateM (update_orders (\<lambda>r. o_OrderId r = orderId \<and> expirable r)
       (\<lambda>r. r\<lparr>o_OrderStatus := OrderStatusClosed\<rparr>))"

definition UpdateOrderRedoApply :: "string \<Rightarrow> unit dao" where
  "UpdateOrderRedoApply orderId =
     updateM (update_orders
       (\<lambda>r. o_OrderId r = orderId \<and> o_OrderStatus r = OrderStatusDefault
            \<and> o_PayStatus r = TxStatusOk \<and> o_PreRegisterStatus r = TxStatusSending)
       (\<lambda>r. r\<lparr>o_PayStatus := TxStatusSending, o_PreRegisterStatus := TxStatusDefault\<rparr>))"

definition UpdateOrderStatusClosed :: "string \<Rightarrow> unit dao" where
  "UpdateOrderStatusClosed orderId =
     updateM (update_orders
       (\<lambda>r. o_OrderId r = orderId \<and> o_OrderStatus r = OrderStatusDefault)
       (\<lambda>r. r\<lparr>o_OrderStatus := OrderStatusClosed\<rparr>))"

definition UpdateHedgeStatus :: "string \<Rightarrow> TxStatus \<Rightarrow> TxStatus \<Rightarrow> unit dao" where
  "UpdateHedgeStatus orderId oldStatus newStatus =
     updateM (update_orders
       (\<lambda>r. o_OrderId r = orderId \<and> o_OrderType r = OrderTypeSelf \<and> o_HedgeStatus r = oldStatus)
       (\<lambda>r. r\<lparr>o_HedgeStatus := newStatus\<rparr>))"

lemmas order_reads = GetLatestRegisterOrderByAddress_def GetLatestRegisterOrderByLatest_def
  GetRegisteringOrders_def GetLatestRegisterOrderBySelf_def GetOrderByOrderId_def
  GetOrderListByOrderIds_def GetNeedSendPayOrderList_def GetNeedSendDidCellOrderList_def
  GetNeedSendPreRegisterTxOrderList_def GetPreRegisteredOrderByAccountId_def
  GetNeedExpiredOrders_def GetNeedExpiredOrders2_def GetClosedAndUnRefundOrders_def
  GetUnPayOrderCount_def GetHistoryOkOrders_def GetIsUniPayInfoByOrderIds_def
  GetNeedHedgeOrderList_def

lemmas order_writes = CreateOrderAndOrderTxs_def DoActionPropose_def DoActionConfirmProposal_def
  CreateOrder_def CreateOrderWithPayment_def CreateCouponOrder_def DoActionApplyRegister_def
  DoActionPreRegister_def DoActionRenewAccount_def UpdatePayStatus_def
  UpdatePreRegisterStatus_def UpdateOrderToClosedAndRefund_def UpdateOrderToRefund_def
  UpdateDidCellOrderToRefund_def DoExpiredOrder_def UpdateOrderRedoApply_def
  UpdateOrderStatusClosed_def UpdateHedgeStatus_def

end
