(* ===== verification/DaoOther.thy ===== *)
theory DaoOther
  imports DaoOrder
begin

text \<open>
  The other files of \<open>src/dao\<close> on which the order life cycle rests: payments
  (\<open>t_das_order_pay_info.go\<close>), order transactions (\<open>t_das_order_tx_info.go\<close>), pending
  transactions (\<open>t_register_pending_info.go\<close>), coupons (\<open>t_coupon.go\<close>), parsed blocks
  (\<open>t_block_parser_info.go\<close>), and the lookups of \<open>t_account_info.go\<close> they need.
\<close>

section \<open>Payments\<close>

definition GetPayInfoByOrderId :: "string \<Rightarrow> pay_row dao" where
  "GetPayInfoByOrderId orderId =
     queryM (\<lambda>t. first_or zero_pay (rev (filter (\<lambda>p. p_OrderId p = orderId
        \<and> p_Status p \<noteq> OrderTxStatusRejected) (pays t))))"

definition CreateOrderPayInfo :: "pay_row \<Rightarrow> unit dao" where
  "CreateOrderPayInfo p = stmtM (insert_pay p)"

definition UpdatePayToRefund :: "string \<Rightarrow> unit dao" where
  "UpdatePayToRefund orderId =
     updateM (update_pays
       (\<lambda>p. p_OrderId p = orderId \<and> p_Status p = OrderTxStatusConfirm
            \<and> p_RefundStatus p = TxStatusDefault)
       (\<lambda>p. p\<lparr>p_RefundStatus := TxStatusSending,
              p_UniPayRefundStatus := UniPayRefundStatusUnRefund\<rparr>))"

definition UpdateUniPayRefundStatusToRefunded :: "string \<Rightarrow> string \<Rightarrow> string \<Rightarrow> unit dao" where
  "UpdateUniPayRefundStatusToRefunded payHash orderId refundHash =
     updateM (update_pays
       (\<lambda>p. p_Hash p = payHash \<and> p_OrderId p = orderId \<and> p_Status p = OrderTxStatusConfirm
            \<and> p_UniPayRefundStatus p = UniPayRefundStatusRefunding)
       (\<lambda>p. p\<lparr>p_UniPayRefundStatus := UniPayRefundStatusRefunded, p_RefundHash := refundHash\<rparr>))"

definition UpdatePayHashStatusToFailByDispute :: "string \<Rightarrow> string \<Rightarrow> unit dao" where
  "UpdatePayHashStatusToFailByDispute payHash orderId =
     txnM (updateM (update_pays
       (\<lambda>p. p_Hash p = payHash \<and> p_OrderId p = orderId \<and> p_Status p = OrderTxStatusConfirm)
       (\<lambda>p. p\<lparr>p_Status := OrderTxStatusDispute\<rparr>)))"

text \<open>\<open>INSERT IGNORE\<close>: nothing happens when the hash is already there.\<close>

definition insert_ignore_pay :: "pay_row \<Rightarrow> db \<Rightarrow> db" where
  "insert_ignore_pay p t = (case insert_pay p t of Inl _ \<Rightarrow> t | Inr (_, t') \<Rightarrow> t')"

definition UpdatePayment :: "pay_row \<Rightarrow> unit dao" where
  "UpdatePayment pay =
     txnM (thenM
       (updateM (update_orders
          (\<lambda>r. o_OrderId r = p_OrderId pay \<and> o_OrderType r = OrderTypeSelf
               \<and> o_PayStatus r = TxStatusDefault)
          (\<lambda>r. r\<lparr>o_PayStatus := TxStatusSending, o_RegisterStatus := RegisterStatusApplyRegister\<rparr>)))
     (thenM
       (updateM (insert_ignore_pay pay))
       (updateM (update_pays
          (\<lambda>p. p_Hash p = p_Hash pay \<and> p_OrderId p = p_OrderId pay
               \<and> p_Status p = OrderTxStatusDefault)
          (\<lambda>p. p\<lparr>p_ChainType := p_ChainType pay, p_Address := p_Address pay,
                 p_Status := p_Status pay\<rparr>)))))"

definition GetPayHashStatusPendingList :: "pay_row list dao" where
  "GetPayHashStatusPendingList =
     bindM clockM (\<lambda>nw. queryM (\<lambda>t. filter (\<lambda>p.
        GetPaymentInfoTimestampBefore24h nw \<le> p_Timestamp p \<and> p_Status p = OrderTxStatusDefault)
        (pays t)))"

definition GetRefundStatusRefundingList :: "pay_row list dao" where
  "GetRefundStatusRefundingList =
     bindM clockM (\<lambda>nw. queryM (\<lambda>t. filter (\<lambda>p.
        GetPaymentInfoTimestamp nw \<le> p_Timestamp p \<and> p_Status p = OrderTxStatusConfirm
        \<and> p_UniPayRefundStatus p = UniPayRefundStatusRefunding) (pays t)))"

definition UpdateUniPayUnconfirmedToRejected :: "string \<Rightarrow> string \<Rightarrow> unit dao" where
  "UpdateUniPayUnconfirmedToRejected orderId payHash =
     updateM (update_pays
       (\<lambda>p. p_Hash p = payHash \<and> p_OrderId p = orderId \<and> p_Status p = OrderTxStatusDefault
            \<and> p_UniPayRefundStatus p = UniPayRefundStatusDefault)
       (\<lambda>p. p\<lparr>p_Status := OrderTxStatusRejected\<rparr>))"

definition GetUnRefundList :: "pay_row list dao" where
  "GetUnRefundList =
     bindM clockM (\<lambda>nw. queryM (\<lambda>t. filter (\<lambda>p.
        GetPaymentInfoTimestamp nw \<le> p_Timestamp p \<and> p_Status p = OrderTxStatusConfirm
        \<and> p_UniPayRefundStatus p = UniPayRefundStatusUnRefund) (pays t)))"

definition UpdateRefundStatusToRefundIng :: "nat list \<Rightarrow> unit dao" where
  "UpdateRefundStatusToRefundIng ids =
     updateM (update_pays
       (\<lambda>p. sql_in (p_Id p) ids \<and> p_Status p = OrderTxStatusConfirm
            \<and> p_UniPayRefundStatus p = UniPayRefundStatusUnRefund)
       (\<lambda>p. p\<lparr>p_UniPayRefundStatus := UniPayRefundStatusRefunding\<rparr>))"

definition UpdateUniPayRefundStatusToDefaultForNotUniPayOrder :: "string \<Rightarrow> string \<Rightarrow> unit dao" where
  "UpdateUniPayRefundStatusToDefaultForNotUniPayOrder payHash orderId =
     updateM (update_pays
       (\<lambda>p. p_Hash p = payHash \<and> p_OrderId p = orderId \<and> p_Status p = OrderTxStatusConfirm)
       (\<lambda>p. p\<lparr>p_UniPayRefundStatus := UniPayRefundStatusDefault\<rparr>))"

section \<open>Order transactions\<close>

definition CreateOrderTx :: "tx_row \<Rightarrow> unit dao" where
  "CreateOrderTx x = updateM (upsert_tx x)"

definition GetOrderTxByHash :: "OrderTxAction \<Rightarrow> string \<Rightarrow> tx_row dao" where
  "GetOrderTxByHash action hash =
     queryM (\<lambda>t. first_or zero_tx (filter (\<lambda>x. x_Action x = action \<and> x_Hash x = hash) (txs t)))"

definition GetOrderTxListByOrderId :: "string \<Rightarrow> tx_row list dao" where
  "GetOrderTxListByOrderId orderId =
     queryM (\<lambda>t. rev (filter (\<lambda>x. x_OrderId x = orderId) (txs t)))"

definition GetOrderTxByActionAndHashList :: "OrderTxAction \<Rightarrow> string list \<Rightarrow> tx_row list dao" where
  "GetOrderTxByActionAndHashList action hashList =
     queryM (\<lambda>t. filter (\<lambda>x. x_Action x = action \<and> sql_in (x_Hash x) hashList) (txs t))"

definition GetOrderTxByAction :: "string \<Rightarrow> OrderTxAction \<Rightarrow> tx_row dao" where
  "GetOrderTxByAction orderId action =
     queryM (\<lambda>t. first_or zero_tx (rev (filter (\<lambda>x. x_OrderId x = orderId \<and> x_Action x = action
        \<and> x_Status x = OrderTxStatusConfirm) (txs t))))"

definition GetMaybeRejectedRegisterTxs :: "int \<Rightarrow> int \<Rightarrow> tx_row list dao" where
  "GetMaybeRejectedRegisterTxs start finish =
     queryM (\<lambda>t. filter (\<lambda>x. start < x_Timestamp x \<and> x_Timestamp x < finish
        \<and> x_Status x = OrderTxStatusDefault) (txs t))"

text \<open>
  The condition of the first branch of \<open>UpdateRejectedTx\<close> ends in a full-width question
  mark, \<open>is_did_cell=\<close> U+FF1F: it has three placeholders for four arguments, and the
  character is no placeholder, so the statement is refused and the transaction rolls back.
\<close>

definition UpdateRejectedTx :: "OrderTxAction \<Rightarrow> string \<Rightarrow> unit dao" where
  "UpdateRejectedTx action orderId =
     txnM (thenM
       (updateM (update_txs (\<lambda>x. x_OrderId x = orderId \<and> x_Status x = OrderTxStatusDefault)
          (\<lambda>x. x\<lparr>x_Status := OrderTxStatusRejected\<rparr>)))
       (if action = TxActionApplyRegister \<or> action = TxActionRenewAccount
        then stmtM (\<lambda>t. Inl BadStatement)
        else if action = TxActionPreRegister
        then updateM (update_orders
          (\<lambda>r. o_OrderId r = orderId \<and> o_PreRegisterStatus r = TxStatusOk
               \<and> o_OrderStatus r = OrderStatusDefault)
          (\<lambda>r. r\<lparr>o_PreRegisterStatus := TxStatusSending\<rparr>))
        else okM ()))"

section \<open>Pending transactions\<close>

definition update_pendings :: "(pending_row \<Rightarrow> bool) \<Rightarrow> (pending_row \<Rightarrow> pending_row) \<Rightarrow> db \<Rightarrow> db" where
  "update_pendings P f t = t\<lparr>pendings := update_where P f (pendings t)\<rparr>"

text \<open>The unique key of the table is action and outpoint.\<close>

definition CreatePending :: "pending_row \<Rightarrow> unit dao" where
  "CreatePending g = stmtM (\<lambda>t.
     if \<exists>h \<in> set (pendings t). g_Action h = g_Action g \<and> g_Outpoint h = g_Outpoint g
     then Inl DuplicateKey
     else Inr ((), t\<lparr>pendings := pendings t @ [g\<lparr>g_Id := next_id t\<rparr>],
                     next_id := Suc (next_id t)\<rparr>))"

definition GetPendingList :: "int \<Rightarrow> pending_row list dao" where
  "GetPendingList limit =
     queryM (\<lambda>t. take (nat limit) (filter (\<lambda>g. g_BlockNumber g = 0 \<and> g_Status g = 0) (pendings t)))"

definition UpdatePendingToConfirm :: "nat \<Rightarrow> 64 word \<Rightarrow> 64 word \<Rightarrow> unit dao" where
  "UpdatePendingToConfirm pid blockNumber blockTimestamp =
     (if pid = 0 then stmtM (\<lambda>t. Inl MissingWhere)
      else updateM (update_pendings (\<lambda>g. g_Id g = pid)
        (\<lambda>g. g\<lparr>g_BlockNumber := blockNumber, g_Status := 1, g_BlockTimestamp := blockTimestamp\<rparr>)))"

definition UpdatePendingToRejected :: "nat list \<Rightarrow> unit dao" where
  "UpdatePendingToRejected rejectedIDs =
     updateM (update_pendings
       (\<lambda>g. g_BlockNumber g = 0 \<and> g_Status g = 0 \<and> sql_in (g_Id g) rejectedIDs)
       (\<lambda>g. g\<lparr>g_Status := -1\<rparr>))"

text \<open>\<open>First\<close>, unlike \<open>Find\<close>, turns an empty result into an error.\<close>

definition GetPendingStatus :: "int \<Rightarrow> string \<Rightarrow> DasAction list \<Rightarrow> pending_row dao" where
  "GetPendingStatus chainType address actions = stmtM (\<lambda>t.
     case rev (filter (\<lambda>g. g_ChainType g = chainType \<and> g_Address g = address \<and> g_BlockNumber g = 0
        \<and> sql_in (g_Action g) actions \<and> g_Status g = 0) (pendings t)) of
       [] \<Rightarrow> Inl RecordNotFound
     | g # _ \<Rightarrow> Inr (g, t))"

definition SearchMaybeRejectedPending :: "pending_row list dao" where
  "SearchMaybeRejectedPending =
     bindM clockM (\<lambda>nw. queryM (\<lambda>t. take 100 (filter (\<lambda>g. g_BlockNumber g = 0 \<and> g_Status g = 0
        \<and> nw - 24 * 3600 * 1000 < uint (g_BlockTimestamp g) \<and> uint (g_BlockTimestamp g) < nw)
        (pendings t))))"

definition UpdatePendingStatusToConfirm :: "DasAction \<Rightarrow> string \<Rightarrow> 64 word \<Rightarrow> 64 word \<Rightarrow> unit dao" where
  "UpdatePendingStatusToConfirm action outpoint blockNumber blockTimestamp =
     updateM (update_pendings (\<lambda>g. g_Action g = action \<and> g_Outpoint g = outpoint)
       (\<lambda>g. g\<lparr>g_BlockNumber := blockNumber, g_BlockTimestamp := blockTimestamp, g_Status := 1\<rparr>))"

section \<open>Auction orders\<close>

definition CreateAuctionOrder :: "auction_row \<Rightarrow> unit dao" where
  "CreateAuctionOrder v = stmtM (\<lambda>t.
     Inr ((), t\<lparr>auctions := auctions t @ [v\<lparr>au_Id := next_id t\<rparr>], next_id := Suc (next_id t)\<rparr>))"

section \<open>Coupons\<close>

definition update_coupons :: "(coupon_row \<Rightarrow> bool) \<Rightarrow> (coupon_row \<Rightarrow> coupon_row) \<Rightarrow> db \<Rightarrow> db" where
  "update_coupons P f t = t\<lparr>coupons := update_where P f (coupons t)\<rparr>"

fun number_coupons :: "nat \<Rightarrow> coupon_row list \<Rightarrow> coupon_row list" where
  "number_coupons n [] = []"
| "number_coupons n (c # cs) = c\<lparr>c_Id := n\<rparr> # number_coupons (Suc n) cs"

text \<open>One multi-row INSERT; the code column is a unique key.\<close>

definition CreateCoupon :: "coupon_row list \<Rightarrow> unit dao" where
  "CreateCoupon data =
     (if data = [] then errM (Errf ''coupon is empty'')
      else stmtM (\<lambda>t.
        if distinct (map c_Code data) \<and> set (map c_Code data) \<inter> c_Code ` set (coupons t) = {}
        then Inr ((), t\<lparr>coupons := coupons t @ number_coupons (next_id t) data,
                        next_id := next_id t + length data\<rparr>)
        else Inl DuplicateKey))"

definition GetCouponByCode :: "string \<Rightarrow> coupon_row dao" where
  "GetCouponByCode code =
     queryM (\<lambda>t. first_or zero_coupon (filter (\<lambda>c. c_Code c = code) (coupons t)))"

definition GetUsedCouponNotChecked :: "order_row list dao" where
  "GetUsedCouponNotChecked =
     queryM (\<lambda>t. concat (map (\<lambda>c. filter (\<lambda>r. c_OrderId c = o_OrderId r) (orders t))
        (filter (\<lambda>c. 0 < length (c_OrderId c) \<and> c_IsCheck c = 0) (coupons t))))"

definition ResetCoupon :: "string list \<Rightarrow> unit dao" where
  "ResetCoupon order_ids =
     updateM (update_coupons (\<lambda>c. sql_in (c_OrderId c) order_ids \<and> c_IsCheck c = 0)
       (\<lambda>c. c\<lparr>c_OrderId := '''', c_UseAt := 0\<rparr>))"

definition MarkChecked :: "string list \<Rightarrow> unit dao" where
  "MarkChecked order_ids =
     updateM (update_coupons (\<lambda>c. sql_in (c_OrderId c) order_ids \<and> c_IsCheck c = 0)
       (\<lambda>c. c\<lparr>c_IsCheck := 1\<rparr>))"

section \<open>Parsed blocks\<close>

definition block_after :: "block_row \<Rightarrow> block_row \<Rightarrow> bool" where
  "block_after a b \<longleftrightarrow> b_BlockNumber b < b_BlockNumber a"

definition FindBlockInfo :: "int \<Rightarrow> block_row dao" where
  "FindBlockInfo parserType =
     queryM (\<lambda>t. first_by block_after zero_block
        (filter (\<lambda>b. b_ParserType b = parserType) (blocks t)))"

definition find_block :: "int \<Rightarrow> 64 word \<Rightarrow> db \<Rightarrow> block_row" where
  "find_block parserType blockNumber t =
     first_or zero_block (filter (\<lambda>b. b_ParserType b = parserType \<and> b_BlockNumber b = blockNumber)
       (blocks t))"

definition FindBlockInfoByBlockNumber :: "int \<Rightarrow> 64 word \<Rightarrow> block_row dao" where
  "FindBlockInfoByBlockNumber parserType blockNumber = queryM (find_block parserType blockNumber)"

definition upsert_block :: "int \<Rightarrow> 64 word \<Rightarrow> string \<Rightarrow> string \<Rightarrow> db \<Rightarrow> db" where
  "upsert_block parserType blockNumber blockHash parentHash t =
     (if \<exists>b \<in> set (blocks t). b_ParserType b = parserType \<and> b_BlockNumber b = blockNumber
      then t\<lparr>blocks := update_where
             (\<lambda>b. b_ParserType b = parserType \<and> b_BlockNumber b = blockNumber)
             (\<lambda>b. b\<lparr>b_BlockHash := blockHash, b_ParentHash := parentHash\<rparr>) (blocks t)\<rparr>
      else t\<lparr>blocks := blocks t @ [\<lparr>b_Id = next_id t, b_ParserType = parserType,
               b_BlockNumber = blockNumber, b_BlockHash = blockHash, b_ParentHash = parentHash\<rparr>],
             next_id := Suc (next_id t)\<rparr>)"

definition CreateBlockInfo :: "int \<Rightarrow> 64 word \<Rightarrow> string \<Rightarrow> string \<Rightarrow> unit dao" where
  "CreateBlockInfo parserType blockNumber blockHash parentHash =
     updateM (upsert_block parserType blockNumber blockHash parentHash)"

definition delete_blocks :: "int \<Rightarrow> 64 word \<Rightarrow> db \<Rightarrow> db" where
  "delete_blocks parserType blockNumber t =
     t\<lparr>blocks := filter (\<lambda>b. \<not> (b_ParserType b = parserType \<and> b_BlockNumber b < blockNumber)) (blocks t)\<rparr>"

definition DeleteBlockInfo :: "int \<Rightarrow> 64 word \<Rightarrow> unit dao" where
  "DeleteBlockInfo parserType blockNumber = updateM (delete_blocks parserType blockNumber)"

section \<open>Accounts and tokens\<close>

definition GetAccountInfoByAccountId :: "string \<Rightarrow> account_row dao" where
  "GetAccountInfoByAccountId accountId =
     queryM (\<lambda>t. first_or zero_account (filter (\<lambda>a. a_AccountId a = accountId) (accounts t)))"

definition GetAccountInfoByAccountIds :: "string list \<Rightarrow> account_row list dao" where
  "GetAccountInfoByAccountIds accountIds =
     queryM (\<lambda>t. filter (\<lambda>a. sql_in (a_AccountId a) accountIds) (accounts t))"

text \<open>Strings in the order of their bytes, as hex ids compare.\<close>

fun str_less :: "string \<Rightarrow> string \<Rightarrow> bool" where
  "str_less xs [] = False"
| "str_less [] (y # ys) = True"
| "str_less (x # xs) (y # ys) =
     (let a = of_char x :: nat; b = of_char y in a < b \<or> a = b \<and> str_less xs ys)"

definition GetPreAccount :: "string \<Rightarrow> account_row dao" where
  "GetPreAccount accountId =
     queryM (\<lambda>t. first_by (\<lambda>a b. str_less (a_AccountId b) (a_AccountId a)) zero_account
        (filter (\<lambda>a. a_ParentAccountId a = '''' \<and> str_less (a_AccountId a) accountId) (accounts t)))"

definition GetDidAccountByAccountIdWithoutArgs :: "string \<Rightarrow> did_row dao" where
  "GetDidAccountByAccountIdWithoutArgs accountId =
     queryM (\<lambda>t. first_by (\<lambda>a b. d_ExpiredAt b < d_ExpiredAt a) zero_did
        (filter (\<lambda>d. d_AccountId d = accountId) (did_cells t)))"

definition GetDidAccountByAccountId :: "string \<Rightarrow> string \<Rightarrow> did_row dao" where
  "GetDidAccountByAccountId accountId args =
     queryM (\<lambda>t. first_by (\<lambda>a b. d_ExpiredAt b < d_ExpiredAt a) zero_did
        (filter (\<lambda>d. d_AccountId d = accountId \<and> d_Args d = args) (did_cells t)))"

definition GetTransactionListByOutpoints :: "string list \<Rightarrow> transaction_row list dao" where
  "GetTransactionListByOutpoints outpoints =
     queryM (\<lambda>t. filter (\<lambda>r. sql_in (r_Outpoint r) outpoints) (transactions t))"

definition GetTokenPriceList :: "token_row list dao" where
  "GetTokenPriceList =
     queryM (\<lambda>t. rev (filter (\<lambda>k. k_TokenId k \<notin>
        {TokenIdBep20USDT, TokenIdErc20USDT, TokenIdTrc20USDT}) (tokens t)))"

text \<open>
  \<open>src/dao/das_info.go\<close>: the open orders of the service per register status. The rows come
  in no order the code relies on; the model lists the statuses from low to high.
\<close>

definition GetAccountCount :: "nat dao" where
  "GetAccountCount = queryM (\<lambda>t. length (filter (\<lambda>a. a_Account a \<noteq> '''') (accounts t)))"

definition count_status :: "db \<Rightarrow> RegisterStatus \<Rightarrow> nat" where
  "count_status t s = length (filter (\<lambda>r. o_OrderType r = OrderTypeSelf
     \<and> o_Action r = DasActionApplyRegister \<and> o_OrderStatus r = OrderStatusDefault
     \<and> o_RegisterStatus r = s) (orders t))"

definition GetRegisterStatusCount :: "(RegisterStatus \<times> nat) list dao" where
  "GetRegisterStatusCount =
     queryM (\<lambda>t. filter (\<lambda>(s, n). 0 < n) (map (\<lambda>s. (s, count_status t s))
       [RegisterStatusApplyRegister, RegisterStatusPreRegister, RegisterStatusProposal,
        RegisterStatusConfirmProposal]))"


lemmas other_reads = GetPayInfoByOrderId_def GetPayHashStatusPendingList_def
  GetRefundStatusRefundingList_def GetUnRefundList_def GetOrderTxByHash_def GetOrderTxListByOrderId_def
  GetOrderTxByActionAndHashList_def GetOrderTxByAction_def GetMaybeRejectedRegisterTxs_def
  GetPendingList_def SearchMaybeRejectedPending_def GetCouponByCode_def
  GetUsedCouponNotChecked_def FindBlockInfo_def FindBlockInfoByBlockNumber_def
  GetAccountInfoByAccountId_def GetAccountInfoByAccountIds_def GetTokenPriceList_def
  GetAccountCount_def GetRegisterStatusCount_def GetTransactionListByOutpoints_def
  GetPreAccount_def GetDidAccountByAccountIdWithoutArgs_def GetDidAccountByAccountId_def

lemmas other_writes = CreateOrderPayInfo_def UpdatePayToRefund_def
  UpdateUniPayRefundStatusToRefunded_def UpdatePayHashStatusToFailByDispute_def UpdatePayment_def
  UpdateUniPayUnconfirmedToRejected_def UpdateRefundStatusToRefundIng_def
  UpdateUniPayRefundStatusToDefaultForNotUniPayOrder_def CreateOrderTx_def UpdateRejectedTx_def
  CreatePending_def UpdatePendingToConfirm_def UpdatePendingToRejected_def
  UpdatePendingStatusToConfirm_def CreateCoupon_def ResetCoupon_def MarkChecked_def
  CreateBlockInfo_def DeleteBlockInfo_def CreateAuctionOrder_def

end
