(* ===== verification/DaoContract.thy ===== *)
theory DaoContract
  imports DaoOther
begin

text \<open>
  The contract of the data-access layer. A relation \<open>R\<close> between databases satisfies
  \<open>dao_contract\<close> when every writing operation of \<open>src/dao\<close> upholds it, with the arguments
  the callers use; the lemmas of the clients (the timers, the unipay tool, the block parser, the
  transaction tool, the HTTP handlers) are then proved once in the locale, for every such \<open>R\<close>.
  The locale is interpreted by \<open>db_evolves\<close>, how rows may change over the life of the database
  (below), by \<open>wf_kept\<close>, the unique keys and fresh ids (\<open>DaoWf\<close>), and by \<open>same_blocks\<close>, the
  parsed blocks left alone (\<open>BlockChain\<close>).
\<close>

text \<open>Reading keeps every relation.\<close>

locale db_reading = db_relation R for R :: "db \<Rightarrow> db \<Rightarrow> bool"
begin

lemma order_queries:
  "upholds R (GetLatestRegisterOrderByAddress ct addr acc)"
  "upholds R (GetLatestRegisterOrderByLatest acc)"
  "upholds R (GetRegisteringOrders ct addr)"
  "upholds R (GetLatestRegisterOrderBySelf ct addr acc)"
  "upholds R (GetOrderByOrderId oid)"
  "upholds R (GetOrderListByOrderIds oids)"
  "upholds R (GetNeedSendPayOrderList act)"
  "upholds R (GetNeedSendDidCellOrderList acts)"
  "upholds R GetNeedSendPreRegisterTxOrderList"
  "upholds R (GetPreRegisteredOrderByAccountId acc)"
  "upholds R (GetNeedExpiredOrders nw)"
  "upholds R (GetNeedExpiredOrders2 nw)"
  "upholds R GetClosedAndUnRefundOrders"
  "upholds R (GetUnPayOrderCount ct addr)"
  "upholds R (GetHistoryOkOrders accs)"
  "upholds R (GetIsUniPayInfoByOrderIds oids)"
  "upholds R GetNeedHedgeOrderList"
  by (simp_all add: order_reads queryM okM)

lemma other_queries:
  "upholds R (GetPayInfoByOrderId oid)"
  "upholds R GetPayHashStatusPendingList"
  "upholds R GetRefundStatusRefundingList"
  "upholds R GetUnRefundList"
  "upholds R (GetOrderTxByHash ac hash)"
  "upholds R (GetOrderTxListByOrderId oid)"
  "upholds R (GetOrderTxByActionAndHashList ac hashes)"
  "upholds R (GetOrderTxByAction oid ac)"
  "upholds R (GetMaybeRejectedRegisterTxs st fi)"
  "upholds R (GetPendingList n)"
  "upholds R SearchMaybeRejectedPending"
  "upholds R (GetCouponByCode code)"
  "upholds R GetUsedCouponNotChecked"
  "upholds R (FindBlockInfo pt)"
  "upholds R (FindBlockInfoByBlockNumber pt bn)"
  "upholds R (GetAccountInfoByAccountId acc)"
  "upholds R (GetAccountInfoByAccountIds accs)"
  "upholds R GetTokenPriceList"
  "upholds R GetAccountCount"
  "upholds R GetRegisterStatusCount"
  "upholds R (GetTransactionListByOutpoints ops)"
  "upholds R (GetPreAccount acc)"
  "upholds R (GetDidAccountByAccountIdWithoutArgs acc)"
  "upholds R (GetDidAccountByAccountId acc args)"
  by (simp_all add: other_reads queryM bindM clockM)

lemma GetPendingStatus: "upholds R (GetPendingStatus ct addr acts)"
  unfolding GetPendingStatus_def by (rule stmtM) (auto simp: refl split: list.splits)

lemmas read_rules = rules order_queries other_queries GetPendingStatus

end

interpretation readonly: db_reading "(=)"
  by unfold_locales auto

text \<open>Every writing operation keeps the relation.\<close>

locale dao_contract = db_reading +
  assumes CreateOrderAndOrderTxs: "upholds R (CreateOrderAndOrderTxs r list)"
    and DoActionPropose: "upholds R (DoActionPropose ids list)"
    and DoActionConfirmProposal: "upholds R (DoActionConfirmProposal ids okIds accIds list)"
    and CreateOrder: "upholds R (CreateOrder r)"
    and CreateOrderWithPayment: "upholds R (CreateOrderWithPayment r p)"
    and CreateCouponOrder: "upholds R (CreateCouponOrder r code)"
    and DoActionApplyRegister: "upholds R (DoActionApplyRegister oid hash)"
    and DoActionPreRegister: "upholds R (DoActionPreRegister oid hash)"
    and DoActionRenewAccount: "upholds R (DoActionRenewAccount oid hash)"
    and UpdatePayStatus: "new \<noteq> TxStatusDefault \<Longrightarrow> upholds R (UpdatePayStatus oid old new)"
    and UpdatePreRegisterStatus: "upholds R (UpdatePreRegisterStatus oid old new)"
    and UpdateOrderToClosedAndRefund: "upholds R (UpdateOrderToClosedAndRefund oid)"
    and UpdateOrderToRefund: "upholds R (UpdateOrderToRefund oid)"
    and UpdateDidCellOrderToRefund: "upholds R (UpdateDidCellOrderToRefund oid)"
    and DoExpiredOrder: "upholds R (DoExpiredOrder oid)"
    and UpdateOrderRedoApply: "upholds R (UpdateOrderRedoApply oid)"
    and UpdateOrderStatusClosed: "upholds R (UpdateOrderStatusClosed oid)"
    and UpdateHedgeStatus: "upholds R (UpdateHedgeStatus oid TxStatusSending TxStatusOk)"
    and CreateOrderPayInfo: "upholds R (CreateOrderPayInfo p)"
    and UpdatePayToRefund: "upholds R (UpdatePayToRefund oid)"
    and UpdateUniPayRefundStatusToRefunded: "upholds R (UpdateUniPayRefundStatusToRefunded ph oid rh)"
    and UpdatePayHashStatusToFailByDispute: "upholds R (UpdatePayHashStatusToFailByDispute ph oid)"
    and UpdatePayment: "p_Status p = OrderTxStatusConfirm \<Longrightarrow> upholds R (UpdatePayment p)"
    and UpdateUniPayUnconfirmedToRejected: "upholds R (UpdateUniPayUnconfirmedToRejected oid ph)"
    and UpdateRefundStatusToRefundIng: "upholds R (UpdateRefundStatusToRefundIng pids)"
    and UpdateUniPayRefundStatusToDefault:
      "upholds R (UpdateUniPayRefundStatusToDefaultForNotUniPayOrder ph oid)"
    and CreateOrderTx: "upholds R (CreateOrderTx x)"
    and UpdateRejectedTx: "upholds R (UpdateRejectedTx a oid)"
    and CreatePending: "upholds R (CreatePending g)"
    and CreateAuctionOrder: "upholds R (CreateAuctionOrder v)"
    and UpdatePendingToConfirm: "upholds R (UpdatePendingToConfirm pid bn bt)"
    and UpdatePendingToRejected: "upholds R (UpdatePendingToRejected pids)"
    and UpdatePendingStatusToConfirm: "upholds R (UpdatePendingStatusToConfirm act op bn bt)"
    and CreateCoupon: "upholds R (CreateCoupon cs)"
    and ResetCoupon: "upholds R (ResetCoupon oids)"
    and MarkChecked: "upholds R (MarkChecked oids)"
begin

lemmas writes = CreateOrderAndOrderTxs DoActionPropose DoActionConfirmProposal CreateOrder
  CreateOrderWithPayment CreateCouponOrder DoActionApplyRegister DoActionPreRegister
  DoActionRenewAccount UpdatePayStatus UpdatePreRegisterStatus UpdateOrderToClosedAndRefund
  UpdateOrderToRefund UpdateDidCellOrderToRefund DoExpiredOrder UpdateOrderRedoApply
  UpdateOrderStatusClosed UpdateHedgeStatus CreateOrderPayInfo UpdatePayToRefund
  UpdateUniPayRefundStatusToRefunded UpdatePayHashStatusToFailByDispute UpdatePayment
  UpdateUniPayUnconfirmedToRejected UpdateRefundStatusToRefundIng
  UpdateUniPayRefundStatusToDefault CreateOrderTx UpdateRejectedTx CreatePending CreateAuctionOrder
  UpdatePendingToConfirm UpdatePendingToRejected UpdatePendingStatusToConfirm CreateCoupon
  ResetCoupon MarkChecked

lemmas dao_rules = read_rules writes

end

text \<open>The block parser also writes the table of parsed blocks, which no other client touches.\<close>

locale block_contract = dao_contract +
  assumes CreateBlockInfo: "upholds R (CreateBlockInfo pt bn bh ph)"
    and DeleteBlockInfo: "upholds R (DeleteBlockInfo pt bn)"

section \<open>How rows evolve\<close>

text \<open>The rows of \<open>xs\<close> are still there in \<open>ys\<close>, at the same place, changed as \<open>ev\<close> allows.\<close>

definition evolves :: "('r \<Rightarrow> 'r \<Rightarrow> bool) \<Rightarrow> 'r list \<Rightarrow> 'r list \<Rightarrow> bool" where
  "evolves ev xs ys \<longleftrightarrow> length xs \<le> length ys \<and> (\<forall>i < length xs. ev (xs ! i) (ys ! i))"

lemma evolves_refl: "(\<And>r. ev r r) \<Longrightarrow> evolves ev xs xs"
  by (simp add: evolves_def)

lemma evolves_trans:
  "(\<And>a b c. ev a b \<Longrightarrow> ev b c \<Longrightarrow> ev a c) \<Longrightarrow> evolves ev xs ys \<Longrightarrow> evolves ev ys zs \<Longrightarrow> evolves ev xs zs"
  unfolding evolves_def by (metis order_less_le_trans order_trans)

lemma evolves_update:
  "(\<And>r. ev r r) \<Longrightarrow> (\<And>r. P r \<Longrightarrow> ev r (f r)) \<Longrightarrow> evolves ev xs (update_where P f xs)"
  by (simp add: evolves_def update_where_def)

lemma evolves_append: "(\<And>r. ev r r) \<Longrightarrow> evolves ev xs (xs @ zs)"
  by (simp add: evolves_def nth_append)

lemma evolves_member: "evolves ev xs ys \<Longrightarrow> x \<in> set xs \<Longrightarrow> \<exists>y \<in> set ys. ev x y"
  unfolding evolves_def by (metis in_set_conv_nth order_less_le_trans)

text \<open>
  An order keeps its id, its owner's choice of token and amount, its content and its kind; it
  never opens again, never becomes unpaid again, and its hedge goes from default to sending to ok.
\<close>

definition order_ev :: "order_row \<Rightarrow> order_row \<Rightarrow> bool" where
  "order_ev a b \<longleftrightarrow>
     o_Id b = o_Id a \<and> o_OrderId b = o_OrderId a \<and> o_OrderType b = o_OrderType a
     \<and> o_Timestamp b = o_Timestamp a \<and> o_PayTokenId b = o_PayTokenId a
     \<and> o_PayAmount b = o_PayAmount a \<and> o_Content b = o_Content a
     \<and> o_IsUniPay b = o_IsUniPay a \<and> o_IsDidCell b = o_IsDidCell a
     \<and> (o_OrderStatus a = OrderStatusClosed \<longrightarrow> o_OrderStatus b = OrderStatusClosed)
     \<and> (o_PayStatus a \<noteq> TxStatusDefault \<longrightarrow> o_PayStatus b \<noteq> TxStatusDefault)
     \<and> (o_HedgeStatus a \<noteq> TxStatusDefault \<longrightarrow> o_HedgeStatus b \<noteq> TxStatusDefault)
     \<and> (o_HedgeStatus a = TxStatusOk \<longrightarrow> o_HedgeStatus b = TxStatusOk)"

text \<open>
  A payment keeps its hash and its order; it leaves the default status for good, a rejected or
  disputed payment stays so, and a payment marked for refund stays marked.
\<close>

definition pay_ev :: "pay_row \<Rightarrow> pay_row \<Rightarrow> bool" where
  "pay_ev a b \<longleftrightarrow>
     p_Id b = p_Id a \<and> p_Hash b = p_Hash a \<and> p_OrderId b = p_OrderId a
     \<and> p_AccountId b = p_AccountId a \<and> p_Timestamp b = p_Timestamp a
     \<and> (p_Status a \<noteq> OrderTxStatusDefault \<longrightarrow> p_Status b \<noteq> OrderTxStatusDefault)
     \<and> (p_Status a = OrderTxStatusRejected \<longrightarrow> p_Status b = OrderTxStatusRejected)
     \<and> (p_Status a = OrderTxStatusDispute \<longrightarrow> p_Status b = OrderTxStatusDispute)
     \<and> (p_RefundStatus a \<noteq> TxStatusDefault \<longrightarrow> p_RefundStatus b \<noteq> TxStatusDefault)"

definition tx_ev :: "tx_row \<Rightarrow> tx_row \<Rightarrow> bool" where
  "tx_ev a b \<longleftrightarrow> x_Id b = x_Id a \<and> x_OrderId b = x_OrderId a \<and> x_Hash b = x_Hash a"

text \<open>A coupon keeps its code and its kind; once checked it stays checked and keeps its order.\<close>

definition coupon_ev :: "coupon_row \<Rightarrow> coupon_row \<Rightarrow> bool" where
  "coupon_ev a b \<longleftrightarrow>
     c_Id b = c_Id a \<and> c_Code b = c_Code a \<and> c_CouponType b = c_CouponType a
     \<and> c_StartAt b = c_StartAt a \<and> c_ExpiredAt b = c_ExpiredAt a
     \<and> (c_IsCheck a = 1 \<and> c_OrderId a \<noteq> '''' \<longrightarrow> c_IsCheck b = 1 \<and> c_OrderId b = c_OrderId a)"

lemmas row_evs = order_ev_def pay_ev_def tx_ev_def coupon_ev_def

definition db_evolves :: "db \<Rightarrow> db \<Rightarrow> bool" where
  "db_evolves t t' \<longleftrightarrow>
     evolves order_ev (orders t) (orders t') \<and> evolves pay_ev (pays t) (pays t')
     \<and> evolves tx_ev (txs t) (txs t') \<and> evolves coupon_ev (coupons t) (coupons t')
     \<and> next_id t \<le> next_id t'"

lemma row_ev_refl [simp]: "order_ev r r" "pay_ev p p" "tx_ev x x" "coupon_ev c c"
  by (simp_all add: row_evs)

lemma row_ev_trans:
  "order_ev r s \<Longrightarrow> order_ev s r' \<Longrightarrow> order_ev r r'"
  "pay_ev p q \<Longrightarrow> pay_ev q p' \<Longrightarrow> pay_ev p p'"
  "tx_ev x y \<Longrightarrow> tx_ev y x' \<Longrightarrow> tx_ev x x'"
  "coupon_ev c d \<Longrightarrow> coupon_ev d c' \<Longrightarrow> coupon_ev c c'"
  by (auto simp: row_evs)

lemma db_evolves_refl: "db_evolves t t"
  by (simp add: db_evolves_def evolves_refl)

lemma db_evolves_trans:
  assumes "db_evolves t u" and "db_evolves u v"
  shows "db_evolves t v"
  using assms unfolding db_evolves_def
  by (auto intro: evolves_trans [OF row_ev_trans(1)] evolves_trans [OF row_ev_trans(2)]
      evolves_trans [OF row_ev_trans(3)] evolves_trans [OF row_ev_trans(4)])

interpretation ev: db_relation db_evolves
  by unfold_locales (auto intro: db_evolves_refl db_evolves_trans)

lemma ev_orders: "(\<And>r. P r \<Longrightarrow> order_ev r (f r)) \<Longrightarrow> db_evolves t (update_orders P f t)"
  by (simp add: db_evolves_def evolves_refl evolves_update)

lemma ev_pays: "(\<And>r. P r \<Longrightarrow> pay_ev r (f r)) \<Longrightarrow> db_evolves t (update_pays P f t)"
  by (simp add: db_evolves_def evolves_refl evolves_update)

lemma ev_txs: "(\<And>r. P r \<Longrightarrow> tx_ev r (f r)) \<Longrightarrow> db_evolves t (update_txs P f t)"
  by (simp add: db_evolves_def evolves_refl evolves_update)

lemma ev_coupons:
  "(\<And>r. P r \<Longrightarrow> coupon_ev r (f r)) \<Longrightarrow> db_evolves t (t\<lparr>coupons := update_where P f (coupons t)\<rparr>)"
  by (simp add: db_evolves_def evolves_refl evolves_update)

lemma ev_pendings: "db_evolves t (update_pendings P f t)"
  by (simp add: db_evolves_def evolves_refl update_pendings_def)

lemma ev_insert_order: "insert_order r t = Inr (x, t') \<Longrightarrow> db_evolves t t'"
  by (auto simp: insert_order_def db_evolves_def evolves_refl evolves_append split: if_splits)

lemma ev_insert_pay: "insert_pay p t = Inr (x, t') \<Longrightarrow> db_evolves t t'"
  by (auto simp: insert_pay_def db_evolves_def evolves_refl evolves_append split: if_splits)

lemma ev_insert_ignore_pay: "db_evolves t (insert_ignore_pay p t)"
  by (auto simp: insert_ignore_pay_def db_evolves_refl ev_insert_pay split: sum.splits)

lemma ev_upsert_order: "db_evolves t (upsert_order r t)"
proof (cases "o_OrderId r \<in> o_OrderId ` set (orders t)")
  case True
  then show ?thesis unfolding upsert_order_def by (auto simp: order_ev_def intro: ev_orders)
next
  case False
  then show ?thesis
    by (simp add: upsert_order_def db_evolves_def evolves_refl evolves_append)
qed

lemma ev_upsert_tx: "db_evolves t (upsert_tx x t)"
proof (cases "\<exists>s \<in> set (txs t). same_tx x s")
  case True
  then show ?thesis unfolding upsert_tx_def by (auto simp: tx_ev_def intro: ev_txs)
next
  case False
  then show ?thesis by (simp add: upsert_tx_def db_evolves_def evolves_refl evolves_append)
qed

lemma ev_upsert_txs: "upsert_txs xs t = Inr (u, t') \<Longrightarrow> db_evolves t t'"
proof -
  have "db_evolves t (fold upsert_tx xs t)"
    by (induction xs arbitrary: t)
       (auto simp: db_evolves_refl intro: db_evolves_trans [OF ev_upsert_tx])
  then show "upsert_txs xs t = Inr (u, t') \<Longrightarrow> db_evolves t t'"
    by (auto simp: upsert_txs_def split: if_splits)
qed

lemma ev_upsert_block: "db_evolves t (upsert_block pt bn bh ph t)"
  by (simp add: upsert_block_def db_evolves_def evolves_refl)

lemma ev_delete_blocks: "db_evolves t (delete_blocks pt bn t)"
  by (simp add: delete_blocks_def db_evolves_def evolves_refl)

lemmas ev_intros = ev.rules ev.txnM ev.updateM ev.outsideM ev.stmtM ev_orders ev_pays ev_txs
  ev_pendings ev_insert_ignore_pay ev_upsert_order ev_upsert_tx ev_upsert_block ev_delete_blocks

lemma ev_coupons':
  "(\<And>r. P r \<Longrightarrow> coupon_ev r (f r)) \<Longrightarrow> db_evolves t (update_coupons P f t)"
  unfolding update_coupons_def by (rule ev_coupons)

lemmas ev_facts = row_evs db_evolves_def evolves_refl evolves_append sql_in_def expirable_def

interpretation evolution: block_contract db_evolves
  by (unfold_locales; unfold order_writes other_writes confirm_tx_def;
      intro ev_intros ev_coupons ev_coupons';
      auto simp: ev_facts dest: ev_insert_order ev_insert_pay ev_upsert_txs split: if_splits)

end
