(* ===== verification/DaoWf.thy ===== *)
theory DaoWf
  imports DaoContract
begin

text \<open>
  The second interpretation of \<open>dao_contract\<close>: the unique keys of the tables hold, and the
  rows of each table stand in the order of their positive, fresh ids (so that SQL's
  \<open>ORDER BY id\<close> is the order of the list).
\<close>

definition keyed :: "('r \<Rightarrow> 'k) \<Rightarrow> ('r \<Rightarrow> nat) \<Rightarrow> 'r list \<Rightarrow> nat \<Rightarrow> bool" where
  "keyed key ident rows n \<longleftrightarrow>
     distinct (map key rows) \<and> sorted_wrt (<) (map ident rows)
     \<and> (\<forall>i \<in> set (map ident rows). 0 < i \<and> i < n)"

lemma keyed_Nil [simp]: "keyed key ident [] n"
  by (simp add: keyed_def)

lemma keyed_update:
  assumes "\<And>r. key (f r) = key r" and "\<And>r. ident (f r) = ident r"
  shows "keyed key ident (update_where P f rows) n = keyed key ident rows n"
proof -
  have "map key (update_where P f rows) = map key rows"
    "map ident (update_where P f rows) = map ident rows"
    using assms by (simp_all add: update_where_def)
  then show ?thesis unfolding keyed_def by presburger
qed

lemma keyed_append:
  "keyed key ident rows n \<Longrightarrow> key r \<notin> key ` set rows \<Longrightarrow> ident r = n \<Longrightarrow> 0 < n \<Longrightarrow>
   keyed key ident (rows @ [r]) (Suc n)"
  by (auto simp: keyed_def sorted_wrt_append)

lemma keyed_mono: "keyed key ident rows n \<Longrightarrow> n \<le> m \<Longrightarrow> keyed key ident rows m"
  by (auto simp: keyed_def)

lemma keyed_Suc: "keyed key ident rows n \<Longrightarrow> keyed key ident rows (Suc n)"
  by (rule keyed_mono) auto

lemma keyed_filter: "keyed key ident rows n \<Longrightarrow> keyed key ident (filter P rows) n"
  by (auto simp: keyed_def distinct_map_filter sorted_wrt_map sorted_wrt_filter)

lemma keyed_unique:
  "keyed key ident rows n \<Longrightarrow> r \<in> set rows \<Longrightarrow> s \<in> set rows \<Longrightarrow> key r = key s \<Longrightarrow> r = s"
  by (auto simp: keyed_def distinct_map dest: inj_onD)

definition db_wf :: "db \<Rightarrow> bool" where
  "db_wf t \<longleftrightarrow>
     0 < next_id t
     \<and> keyed o_OrderId o_Id (orders t) (next_id t)
     \<and> keyed p_Hash p_Id (pays t) (next_id t)
     \<and> keyed (\<lambda>x. (x_OrderId x, x_Hash x)) x_Id (txs t) (next_id t)
     \<and> keyed c_Code c_Id (coupons t) (next_id t)
     \<and> keyed (\<lambda>g. (g_Action g, g_Outpoint g)) g_Id (pendings t) (next_id t)
     \<and> keyed (\<lambda>b. (b_ParserType b, b_BlockNumber b)) b_Id (blocks t) (next_id t)"

definition wf_kept :: "db \<Rightarrow> db \<Rightarrow> bool" where
  "wf_kept t t' \<longleftrightarrow> (db_wf t \<longrightarrow> db_wf t')"

interpretation wf: db_relation wf_kept
  by unfold_locales (auto simp: wf_kept_def)

lemma wf_orders:
  "(\<And>r. o_OrderId (f r) = o_OrderId r \<and> o_Id (f r) = o_Id r) \<Longrightarrow> wf_kept t (update_orders P f t)"
  by (simp add: wf_kept_def db_wf_def keyed_update sql_updates)

lemma wf_pays:
  "(\<And>r. p_Hash (f r) = p_Hash r \<and> p_Id (f r) = p_Id r) \<Longrightarrow> wf_kept t (update_pays P f t)"
  by (simp add: wf_kept_def db_wf_def keyed_update sql_updates)

lemma wf_txs:
  "(\<And>r. x_OrderId (f r) = x_OrderId r \<and> x_Hash (f r) = x_Hash r \<and> x_Id (f r) = x_Id r) \<Longrightarrow>
   wf_kept t (update_txs P f t)"
  by (simp add: wf_kept_def db_wf_def keyed_update sql_updates)

lemma wf_coupons:
  "(\<And>r. c_Code (f r) = c_Code r \<and> c_Id (f r) = c_Id r) \<Longrightarrow>
   wf_kept t (t\<lparr>coupons := update_where P f (coupons t)\<rparr>)"
  by (simp add: wf_kept_def db_wf_def keyed_update)

lemma wf_coupons':
  "(\<And>r. c_Code (f r) = c_Code r \<and> c_Id (f r) = c_Id r) \<Longrightarrow> wf_kept t (update_coupons P f t)"
  unfolding update_coupons_def by (rule wf_coupons)

lemma wf_pendings:
  "(\<And>r. g_Action (f r) = g_Action r \<and> g_Outpoint (f r) = g_Outpoint r \<and> g_Id (f r) = g_Id r) \<Longrightarrow>
   wf_kept t (update_pendings P f t)"
  by (simp add: wf_kept_def db_wf_def keyed_update update_pendings_def)

lemma wf_insert_order: "insert_order r t = Inr (x, t') \<Longrightarrow> wf_kept t t'"
  by (auto simp: insert_order_def wf_kept_def db_wf_def
      intro: keyed_Suc intro!: keyed_append split: if_splits)

lemma wf_insert_pay: "insert_pay p t = Inr (x, t') \<Longrightarrow> wf_kept t t'"
  by (auto simp: insert_pay_def wf_kept_def db_wf_def
      intro: keyed_Suc intro!: keyed_append split: if_splits)

lemma wf_insert_ignore_pay: "wf_kept t (insert_ignore_pay p t)"
  by (auto simp: insert_ignore_pay_def wf.refl dest: wf_insert_pay split: sum.splits)

lemma wf_upsert_order: "wf_kept t (upsert_order r t)"
proof (cases "o_OrderId r \<in> o_OrderId ` set (orders t)")
  case True
  then show ?thesis by (auto simp: upsert_order_def intro: wf_orders)
next
  case False
  then show ?thesis
    by (auto simp: upsert_order_def wf_kept_def db_wf_def intro: keyed_Suc intro!: keyed_append)
qed

lemma wf_upsert_tx: "wf_kept t (upsert_tx x t)"
proof (cases "\<exists>s \<in> set (txs t). same_tx x s")
  case True
  then show ?thesis by (auto simp: upsert_tx_def intro: wf_txs)
next
  case False
  then show ?thesis
    by (auto simp: upsert_tx_def wf_kept_def db_wf_def same_tx_def
        intro: keyed_Suc intro!: keyed_append)
qed

lemma wf_upsert_txs: "upsert_txs xs t = Inr (u, t') \<Longrightarrow> wf_kept t t'"
proof -
  have "wf_kept t (fold upsert_tx xs t)"
    by (induction xs arbitrary: t) (auto simp: wf.refl intro: wf.trans [OF wf_upsert_tx])
  then show "upsert_txs xs t = Inr (u, t') \<Longrightarrow> wf_kept t t'"
    by (auto simp: upsert_txs_def split: if_splits)
qed

lemma wf_upsert_block: "wf_kept t (upsert_block pt bn bh ph t)"
  by (auto simp: upsert_block_def wf_kept_def db_wf_def keyed_update
      intro: keyed_Suc intro!: keyed_append)

lemma wf_delete_blocks: "wf_kept t (delete_blocks pt bn t)"
  by (simp add: delete_blocks_def wf_kept_def db_wf_def keyed_filter)

lemma number_coupons_keys [simp]:
  "map c_Code (number_coupons n cs) = map c_Code cs" "length (number_coupons n cs) = length cs"
  "map c_Id (number_coupons n cs) = [n..<n + length cs]"
  by (induction cs arbitrary: n) (auto simp: upt_conv_Cons simp del: upt_Suc)

lemma keyed_number_coupons:
  assumes "keyed c_Code c_Id rows n" "distinct (map c_Code cs)" "0 < n"
    and "set (map c_Code cs) \<inter> c_Code ` set rows = {}"
  shows "keyed c_Code c_Id (rows @ number_coupons n cs) (n + length cs)"
proof -
  have ids: "c_Id ` set (number_coupons n cs) = {n..<n + length cs}"
    using number_coupons_keys(3) [of n cs] by (metis list.set_map set_upt)
  have codes: "c_Code ` set (number_coupons n cs) = set (map c_Code cs)"
    by (metis list.set_map number_coupons_keys(1))
  have "\<forall>i \<in> set (map c_Id (rows @ number_coupons n cs)). 0 < i \<and> i < n + length cs"
    using assms(1,3) ids by (fastforce simp: keyed_def)
  moreover have "sorted_wrt (<) (map c_Id (rows @ number_coupons n cs))"
    using assms(1) by (auto simp: keyed_def sorted_wrt_append)
  moreover have "distinct (map c_Code (rows @ number_coupons n cs))"
    using assms codes by (auto simp: keyed_def)
  ultimately show ?thesis unfolding keyed_def by blast
qed

lemma wf_CreateCoupon: "upholds wf_kept (CreateCoupon cs)"
  unfolding CreateCoupon_def
proof (intro wf.ifM wf.errM wf.stmtM, goal_cases)
  case (1 t x t')
  then show ?case
    by (force simp: wf_kept_def db_wf_def intro: keyed_mono intro!: keyed_number_coupons
        split: if_splits)
qed

lemma wf_CreatePending: "upholds wf_kept (CreatePending g)"
  unfolding CreatePending_def
proof (intro wf.stmtM, goal_cases)
  case (1 t x t')
  then show ?case
    by (force simp: wf_kept_def db_wf_def intro: keyed_Suc intro!: keyed_append split: if_splits)
qed

lemma wf_CreateAuctionOrder: "upholds wf_kept (CreateAuctionOrder v)"
  unfolding CreateAuctionOrder_def
  by (rule wf.stmtM) (auto simp: wf_kept_def db_wf_def intro: keyed_Suc)

lemmas wf_intros = wf.rules wf.txnM wf.updateM wf.outsideM wf.stmtM wf_orders wf_pays wf_txs
  wf_pendings wf_coupons wf_coupons' wf_insert_ignore_pay wf_upsert_order wf_upsert_tx
  wf_upsert_block wf_delete_blocks

interpretation wellformed: block_contract wf_kept
  by (unfold_locales;
      (rule wf_CreateCoupon wf_CreatePending wf_CreateAuctionOrder)?;
      unfold order_writes other_writes confirm_tx_def;
      intro wf_intros;
      auto dest: wf_insert_order wf_insert_pay wf_upsert_txs)

section \<open>Rows later in time\<close>

lemma evolves_keyed:
  assumes ev: "evolves ev xs ys" and k: "keyed key ident ys n" and key: "\<And>a b. ev a b \<Longrightarrow> key b = key a"
    and y: "y \<in> set ys" "key y \<in> key ` set xs"
  shows "\<exists>x \<in> set xs. ev x y"
proof -
  from y(2) obtain x where x: "x \<in> set xs" "key x = key y" by auto
  from evolves_member [OF ev x(1)] obtain z where z: "z \<in> set ys" "ev x z" by blast
  with key x(2) have "key z = key y" by metis
  with keyed_unique [OF k z(1) y(1)] z(2) x(1) show ?thesis by blast
qed

lemma evolves_keys:
  assumes "evolves ev xs ys" and "\<And>a b. ev a b \<Longrightarrow> key b = key a"
  shows "key ` set xs \<subseteq> key ` set ys"
proof
  fix k
  assume "k \<in> key ` set xs"
  then obtain x where "x \<in> set xs" "k = key x" by blast
  with evolves_member [OF assms(1)] obtain y where "y \<in> set ys" "ev x y" by blast
  with assms(2) \<open>k = key x\<close> show "k \<in> key ` set ys" by (metis imageI)
qed

lemma db_evolves_keys:
  assumes "db_evolves t t'"
  shows "o_OrderId ` set (orders t) \<subseteq> o_OrderId ` set (orders t')"
    "p_Hash ` set (pays t) \<subseteq> p_Hash ` set (pays t')"
    "c_Code ` set (coupons t) \<subseteq> c_Code ` set (coupons t')"
  using assms unfolding db_evolves_def
  by (intro evolves_keys [of order_ev] evolves_keys [of pay_ev] evolves_keys [of coupon_ev];
      simp add: row_evs)+

lemma order_later:
  assumes "db_evolves t t'" and "db_wf t'" and "r \<in> set (orders t')"
    and "o_OrderId r \<in> o_OrderId ` set (orders t)"
  shows "\<exists>s \<in> set (orders t). order_ev s r"
  using assms by (intro evolves_keyed [of order_ev "orders t" "orders t'" o_OrderId o_Id "next_id t'" r])
    (auto simp: db_evolves_def db_wf_def order_ev_def)

lemma pay_later:
  assumes "db_evolves t t'" and "db_wf t'" and "p \<in> set (pays t')"
    and "p_Hash p \<in> p_Hash ` set (pays t)"
  shows "\<exists>q \<in> set (pays t). pay_ev q p"
  using assms by (intro evolves_keyed [of pay_ev "pays t" "pays t'" p_Hash p_Id "next_id t'" p])
    (auto simp: db_evolves_def db_wf_def pay_ev_def)

lemma coupon_later:
  assumes "db_evolves t t'" and "db_wf t'" and "c \<in> set (coupons t')"
    and "c_Code c \<in> c_Code ` set (coupons t)"
  shows "\<exists>d \<in> set (coupons t). coupon_ev d c"
  using assms by (intro evolves_keyed [of coupon_ev "coupons t" "coupons t'" c_Code c_Id "next_id t'" c])
    (auto simp: db_evolves_def db_wf_def coupon_ev_def)

end
