(* ===== verification/Decimal.thy ===== *)
theory Decimal
  imports Prelude
begin

text \<open>
  Amounts are values of \<open>github.com/shopspring/decimal\<close>, a library outside the repository.
  Its \<open>Add\<close>, \<open>Sub\<close>, \<open>Mul\<close>, \<open>Cmp\<close> and \<open>Ceil\<close> are exact and are written on \<open>rat\<close>
  directly; \<open>DivRound\<close> is a parameter of every definition that divides, and \<open>Div\<close> is
  \<open>DivRound\<close> to \<open>DivisionPrecision\<close> = 16 places. The locale \<open>decimal_lib\<close> states what
  the library documents of the quotient: it is a multiple of \<open>10^-p\<close>, it is off by at most half
  of that, and it is exact when the true quotient has no more places. \<open>half_up_div\<close> is a
  concrete function with these properties.
\<close>

section \<open>Powers of ten and ceilings\<close>

definition ceil_rat :: "rat \<Rightarrow> rat" where
  "ceil_rat x = of_int \<lceil>x\<rceil>"

text \<open>\<open>x\<close> has at most \<open>p\<close> decimal places.\<close>

definition places :: "nat \<Rightarrow> rat \<Rightarrow> bool" where
  "places p x \<longleftrightarrow> (\<exists>n::int. x * 10 ^ p = of_int n)"

lemma ceil_rat_ge: "x \<le> ceil_rat x"
  by (simp add: ceil_rat_def)

lemma ceil_rat_less: "ceil_rat x < x + 1"
  unfolding ceil_rat_def by linarith

lemma ceil_rat_of_int [simp]: "ceil_rat (of_int n) = of_int n"
  by (simp add: ceil_rat_def)

lemma ceil_rat_mono: "x \<le> y \<Longrightarrow> ceil_rat x \<le> ceil_rat y"
  by (simp add: ceil_rat_def ceiling_mono)

lemma places_of_int [simp]: "places p (of_int n)"
  unfolding places_def by (rule exI [of _ "n * 10 ^ p"]) simp

lemma places_quotient: "places p (of_int n / 10 ^ p)"
  unfolding places_def by (rule exI [of _ n]) simp

lemma places_mono:
  assumes "places p x" and "p \<le> q"
  shows "places q x"
proof -
  from assms(1) obtain n where n: "x * 10 ^ p = of_int n" unfolding places_def by blast
  from assms(2) have "(10::rat) ^ q = 10 ^ p * 10 ^ (q - p)"
    by (simp flip: power_add)
  with n have "x * 10 ^ q = of_int n * 10 ^ (q - p)" by (simp flip: mult.assoc)
  then have "x * 10 ^ q = of_int (n * 10 ^ (q - p))" by simp
  then show ?thesis unfolding places_def by blast
qed

text \<open>\<open>dec := decimal.New(1, k); amount.Div(dec).Ceil().Mul(dec)\<close>.\<close>

definition round_up :: "(rat \<Rightarrow> rat \<Rightarrow> nat \<Rightarrow> rat) \<Rightarrow> nat \<Rightarrow> rat \<Rightarrow> rat" where
  "round_up DivRound k amount = ceil_rat (DivRound amount (10 ^ k) 16) * 10 ^ k"

section \<open>The library's division\<close>

locale decimal_lib =
  fixes DivRound :: "rat \<Rightarrow> rat \<Rightarrow> nat \<Rightarrow> rat"
  assumes grid: "b \<noteq> 0 \<Longrightarrow> places p (DivRound a b p)"
    and close: "b \<noteq> 0 \<Longrightarrow> \<bar>DivRound a b p - a / b\<bar> \<le> 1 / (2 * 10 ^ p)"
    and exact: "b \<noteq> 0 \<Longrightarrow> places p (a / b) \<Longrightarrow> DivRound a b p = a / b"
begin

lemma close_le: "b \<noteq> 0 \<Longrightarrow> DivRound a b p \<le> a / b + 1 / (2 * 10 ^ p)"
  using close [of b a p] by linarith

lemma close_ge: "b \<noteq> 0 \<Longrightarrow> a / b - 1 / (2 * 10 ^ p) \<le> DivRound a b p"
  using close [of b a p] by linarith

lemma pow10_exact:
  assumes "k \<le> p"
  shows "DivRound (of_int n) (10 ^ k) p = of_int n / 10 ^ k"
  using assms by (intro exact) (auto intro: places_mono places_quotient)

lemma round_up_int:
  assumes "k \<le> 16"
  shows "round_up DivRound k (of_int n) = of_int (\<lceil>of_int n / (10 ^ k :: rat)\<rceil> * 10 ^ k)"
  unfolding round_up_def by (simp add: pow10_exact [OF assms] ceil_rat_def)

lemma round_up_bounds:
  assumes "k \<le> 16"
  shows "of_int n \<le> round_up DivRound k (of_int n)" "round_up DivRound k (of_int n) < of_int n + 10 ^ k"
proof -
  have pos: "(0::rat) < 10 ^ k" by simp
  have "of_int n / 10 ^ k \<le> ceil_rat (of_int n / 10 ^ k)"
    "ceil_rat (of_int n / 10 ^ k) < of_int n / (10 ^ k) + (1::rat)"
    by (rule ceil_rat_ge, rule ceil_rat_less)
  then show "of_int n \<le> round_up DivRound k (of_int n)" "round_up DivRound k (of_int n) < of_int n + 10 ^ k"
    unfolding round_up_def pow10_exact [OF assms]
    using pos by (simp_all add: field_simps)
qed

lemma round_up_multiple:
  assumes "k \<le> 16"
  shows "\<exists>m::int. round_up DivRound k (of_int n) = of_int (m * 10 ^ k)"
  using round_up_int [OF assms] by blast

lemma round_up_fixed:
  assumes "k \<le> 16"
  shows "round_up DivRound k (of_int (m * 10 ^ k)) = of_int (m * 10 ^ k)"
  unfolding round_up_int [OF assms] by simp

end

section \<open>A concrete division\<close>

text \<open>Rounding half away from zero to \<open>p\<close> places.\<close>

definition half_up_div :: "rat \<Rightarrow> rat \<Rightarrow> nat \<Rightarrow> rat" where
  "half_up_div a b p =
     (let q = a / b * 10 ^ p in
      (if 0 \<le> q then of_int \<lfloor>q + 1 / 2\<rfloor> else - of_int \<lfloor>- q + 1 / 2\<rfloor>) / 10 ^ p)"

lemma half_up_close:
  fixes q :: rat
  shows "\<bar>(if 0 \<le> q then of_int \<lfloor>q + 1 / 2\<rfloor> else - of_int \<lfloor>- q + 1 / 2\<rfloor>) - q\<bar> \<le> 1 / 2"
proof (cases "0 \<le> q")
  case True
  have "of_int \<lfloor>q + 1 / 2\<rfloor> \<le> q + 1 / 2" "q + 1 / 2 < of_int \<lfloor>q + 1 / 2\<rfloor> + 1"
    by linarith+
  with True show ?thesis by (simp only: if_True)
next
  case False
  have "of_int \<lfloor>- q + 1 / 2\<rfloor> \<le> - q + 1 / 2" "- q + 1 / 2 < of_int \<lfloor>- q + 1 / 2\<rfloor> + 1"
    by linarith+
  with False show ?thesis by (simp only: if_False)
qed

lemma half_up_int: "(if 0 \<le> (of_int n :: rat) then of_int \<lfloor>of_int n + 1 / 2 :: rat\<rfloor>
    else - of_int \<lfloor>- of_int n + 1 / 2 :: rat\<rfloor>) = (of_int n :: rat)"
proof -
  have "\<lfloor>of_int m + 1 / 2 :: rat\<rfloor> = m" for m by linarith
  from this [of n] this [of "- n"] show ?thesis by simp
qed

interpretation half_up: decimal_lib half_up_div
proof (unfold_locales, goal_cases)
  case (1 b p a)
  have "half_up_div a b p * 10 ^ p = of_int
      (if 0 \<le> a / b * 10 ^ p then \<lfloor>a / b * 10 ^ p + 1 / 2\<rfloor> else - \<lfloor>- (a / b * 10 ^ p) + 1 / 2\<rfloor>)"
    by (simp add: half_up_div_def Let_def)
  then show ?case unfolding places_def by blast
next
  case (2 b a p)
  define q where "q = a / b * 10 ^ p"
  have "half_up_div a b p - a / b =
      ((if 0 \<le> q then of_int \<lfloor>q + 1 / 2\<rfloor> else - of_int \<lfloor>- q + 1 / 2\<rfloor>) - q) / 10 ^ p"
    unfolding half_up_div_def Let_def q_def [symmetric]
    by (simp only: diff_divide_distrib) (simp add: q_def)
  then have "\<bar>half_up_div a b p - a / b\<bar> =
      \<bar>(if 0 \<le> q then of_int \<lfloor>q + 1 / 2\<rfloor> else - of_int \<lfloor>- q + 1 / 2\<rfloor>) - q\<bar> / 10 ^ p"
    by (simp only: abs_divide) simp
  also have "\<dots> \<le> 1 / 2 / 10 ^ p" by (intro divide_right_mono half_up_close) simp
  finally show ?case by simp
next
  case (3 b p a)
  then obtain n where n: "a / b * 10 ^ p = of_int n" unfolding places_def by blast
  then have "half_up_div a b p = of_int n / 10 ^ p"
    unfolding half_up_div_def Let_def n half_up_int by simp
  also have "\<dots> = a / b" using n by (simp add: field_simps)
  finally show ?case .
qed

end
