(* ===== verification/Timer.thy ===== *)
theory Timer
  imports DaoWf Decimal
begin

text \<open>
  The jobs of \<open>src/timer\<close> that work on the database, one definition per job, run by
  \<open>TxTimer.Run\<close> on its tickers: token prices, rejected and pending transactions, expired
  orders, coupons, refunds of closed orders, and the splitting of the server's CKB. The CKB node is
  a parameter: the status of a transaction and the block that holds it.
\<close>

section \<open>token.go: the table of token prices kept in memory\<close>

type_synonym token_map = "PayTokenId \<Rightarrow> token_row option"

definition doUpdateTokenMap :: "token_map dao" where
  "doUpdateTokenMap =
     bindM (wrapM ''SearchTokenInfoList'' GetTokenPriceList)
       (\<lambda>list. okM (fold (\<lambda>v m. m(k_TokenId v \<mapsto> v)) list (\<lambda>_. None)))"

definition GetTokenInfo :: "token_map \<Rightarrow> PayTokenId \<Rightarrow> token_row" where
  "GetTokenInfo mapToken tokenId =
     (let tokenId' = (if tokenId = TokenIdDas \<or> tokenId = TokenIdCkbInternal
                       \<or> tokenId = TokenIdPadgeInternal then TokenIdCkb else tokenId)
      in case mapToken tokenId' of None \<Rightarrow> zero_token | Some k \<Rightarrow> k)"

section \<open>rejected.go\<close>

datatype NodeTxStatus =
  TransactionStatusPending | TransactionStatusProposed | TransactionStatusCommitted string
| TransactionStatusRejected | TransactionStatusUnknown

text \<open>
  \<open>node_tx h\<close> is the answer of \<open>GetTransaction\<close> (a committed transaction carries the hash of
  its block), \<open>node_block b\<close> the number and timestamp of a block the node can return, and
  \<open>out_hash\<close> the transaction hash of an outpoint string.
\<close>

record node =
  node_tx :: "string \<Rightarrow> gerr + NodeTxStatus"
  node_block :: "string \<Rightarrow> (64 word \<times> 64 word) option"
  out_hash :: "string \<Rightarrow> string"

definition checkRejected_one :: "node \<Rightarrow> pending_row \<Rightarrow> nat list \<Rightarrow> nat list dao" where
  "checkRejected_one nd v rejectedIDs =
     bindM (liftM (node_tx nd (out_hash nd (g_Outpoint v)))) (\<lambda>status.
       case status of
         TransactionStatusRejected \<Rightarrow> okM (rejectedIDs @ [g_Id v])
       | TransactionStatusCommitted bh \<Rightarrow>
           (case node_block nd bh of
              None \<Rightarrow> okM rejectedIDs
            | Some (number, timestamp) \<Rightarrow>
                thenM (catchM (UpdatePendingToConfirm (g_Id v) number timestamp) (\<lambda>_. okM ()))
                  (okM rejectedIDs))
       | _ \<Rightarrow> okM rejectedIDs)"

definition checkRejected :: "bool \<Rightarrow> node \<Rightarrow> unit dao" where
  "checkRejected isLatest nd =
     (if \<not> isLatest then errM (Errf ''sync block number'')
      else bindM SearchMaybeRejectedPending (\<lambda>list.
        if list = [] then okM ()
        else bindM (foldM list (checkRejected_one nd) []) (\<lambda>rejectedIDs.
          if 0 < length rejectedIDs
          then wrapM ''UpdatePendingToRejected'' (UpdatePendingToRejected rejectedIDs)
          else okM ())))"

section \<open>tx_rejected.go\<close>

text \<open>The accumulated list is what the final notice prints; here, the order ids.\<close>

definition doTxRejected_one :: "node \<Rightarrow> tx_row \<Rightarrow> string list \<Rightarrow> string list dao" where
  "doTxRejected_one nd v orderList =
     (case node_tx nd (x_Hash v) of
        Inr TransactionStatusRejected \<Rightarrow>
          thenM (emitM (LarkErr ''UpdateRejectedTx''))
            (thenM (catchM (UpdateRejectedTx (x_Action v) (x_OrderId v)) (\<lambda>_. okM ()))
              (okM orderList))
      | _ \<Rightarrow> okM (orderList @ [x_OrderId v]))"

definition doTxRejected :: "node \<Rightarrow> unit dao" where
  "doTxRejected nd =
     bindM clockM (\<lambda>nw.
     bindM (wrapM ''GetMaybeRejectedRegisterTxs''
        (GetMaybeRejectedRegisterTxs (nw - 72 * 3600 * 1000) (nw - 10 * 60 * 1000))) (\<lambda>list.
     if list = [] then okM ()
     else bindM (foldM list (doTxRejected_one nd) []) (\<lambda>orderList.
       if 0 < length orderList then emitM (LarkErr ''Rejected Txs'') else okM ())))"

section \<open>expired.go\<close>

definition expire_all :: "string list \<Rightarrow> unit dao" where
  "expire_all list = forM list (\<lambda>orderId. wrapM ''DoExpiredOrder'' (DoExpiredOrder orderId))"

definition checkExpired :: "unit dao" where
  "checkExpired =
     bindM clockM (\<lambda>nw.
     bindM (wrapM ''GetNeedExpiredOrders'' (GetNeedExpiredOrders nw)) (\<lambda>list.
     thenM (expire_all list)
     (bindM (wrapM ''GetNeedExpiredOrders2'' (GetNeedExpiredOrders2 nw)) (\<lambda>list2.
      expire_all list2))))"

section \<open>pending.go\<close>

text \<open>
  The loop pairs each transaction found with the last pending row of its outpoint, as the Go map
  does; the result is the limit of the next round.
\<close>

definition pending_id :: "pending_row list \<Rightarrow> string \<Rightarrow> nat option" where
  "pending_id list outpoint = fold (\<lambda>v m. m(g_Outpoint v \<mapsto> g_Id v)) list (\<lambda>_. None) outpoint"

definition checkPending :: "int \<Rightarrow> int dao" where
  "checkPending pendingLimit =
     bindM (wrapM ''GetPendingList'' (GetPendingList pendingLimit)) (\<lambda>list.
     if list = [] then okM pendingLimit
     else bindM (wrapM ''GetTransactionListByOutpoints''
            (GetTransactionListByOutpoints (map g_Outpoint list))) (\<lambda>found.
       thenM (forM found (\<lambda>v.
           case pending_id list (r_Outpoint v) of
             None \<Rightarrow> okM ()
           | Some pid \<Rightarrow> wrapM ''UpdatePendingToConfirm''
               (UpdatePendingToConfirm pid (r_BlockNumber v) (r_BlockTimestamp v))))
         (okM (if int (length list) = pendingLimit \<and> length found = 0 then pendingLimit + 10
               else if pendingLimit > 10 \<and> length found > 0 then pendingLimit - 10
               else pendingLimit))))"

section \<open>update_coupon.go\<close>

definition failed_coupon_orders :: "order_row list \<Rightarrow> string list" where
  "failed_coupon_orders res = map o_OrderId (filter (\<lambda>r. o_OrderStatus r = OrderStatusClosed
     \<and> o_RegisterStatus r \<noteq> RegisterStatusRegistered) res)"

definition success_coupon_orders :: "order_row list \<Rightarrow> string list" where
  "success_coupon_orders res = map o_OrderId (filter (\<lambda>r. o_OrderStatus r = OrderStatusClosed
     \<and> o_RegisterStatus r = RegisterStatusRegistered) res)"

definition DoResetCoupon :: "unit dao" where
  "DoResetCoupon =
     bindM GetUsedCouponNotChecked (\<lambda>res.
       let failed = failed_coupon_orders res; success = success_coupon_orders res in
       thenM (if length failed \<noteq> 0 then ResetCoupon failed else okM ())
             (if length success \<noteq> 0 then MarkChecked success else okM ()))"

section \<open>refund\_apply.go: closed orders whose payment is not yet marked for refund\<close>

definition doCheckClosedAndUnRefund :: "unit dao" where
  "doCheckClosedAndUnRefund =
     bindM (wrapM ''GetClosedAndUnRefundOrders'' GetClosedAndUnRefundOrders) (\<lambda>list.
       forM list (\<lambda>v. wrapM ''UpdatePayToRefund'' (UpdatePayToRefund (o_OrderId v))))"

section \<open>What the jobs keep\<close>

context dao_contract
begin

lemma checkRejected_one: "upholds R (checkRejected_one nd v ids)"
  unfolding checkRejected_one_def
  by (intro dao_rules) (auto intro!: dao_rules split: NodeTxStatus.split option.split)

lemma checkRejected: "upholds R (checkRejected b nd)"
  unfolding checkRejected_def by (intro dao_rules checkRejected_one)

lemma doTxRejected_one: "upholds R (doTxRejected_one nd v acc)"
  unfolding doTxRejected_one_def
  by (auto intro!: dao_rules split: sum.split NodeTxStatus.split)

lemma doTxRejected: "upholds R (doTxRejected nd)"
  unfolding doTxRejected_def by (intro dao_rules doTxRejected_one)

lemma checkExpired: "upholds R checkExpired"
  unfolding checkExpired_def expire_all_def by (intro dao_rules)

lemma checkPending: "upholds R (checkPending n)"
  unfolding checkPending_def by (intro dao_rules)

lemma DoResetCoupon: "upholds R DoResetCoupon"
  unfolding DoResetCoupon_def by (intro dao_rules)

lemma doCheckClosedAndUnRefund: "upholds R doCheckClosedAndUnRefund"
  unfolding doCheckClosedAndUnRefund_def by (intro dao_rules)

lemma doUpdateTokenMap: "upholds R doUpdateTokenMap"
  unfolding doUpdateTokenMap_def by (intro dao_rules)

lemmas timer_rules = checkRejected doTxRejected checkExpired checkPending DoResetCoupon
  doCheckClosedAndUnRefund doUpdateTokenMap

end

end
