(* ===== verification/UniPay.thy ===== *)
theory UniPay
  imports Timer
begin

text \<open>
  \<open>src/unipay\<close> and the notice handler \<open>src/http_server/handle/unipay_notice.go\<close>: how a payment
  reported by the unipay service confirms an order, how payments are refunded and hedged, and the
  periodic register report. The service itself is a parameter (its answers), and so are the
  mapping from algorithm ids to chain types of das-lib and the answer of the hedge endpoint.
\<close>

section \<open>unipay.go\<close>

definition BusinessIdDasRegisterSvr :: string where
  "BusinessIdDasRegisterSvr = ''das-register-svr''"

record payment_info =
  i_OrderId :: string
  i_PayHash :: string
  i_PayAddress :: string
  i_AlgorithmId :: int
  i_PayHashStatus :: PayHashStatus
  i_RefundStatus :: UniPayRefundStatus
  i_RefundHash :: string

definition RoundAmount :: "(rat \<Rightarrow> rat \<Rightarrow> nat \<Rightarrow> rat) \<Rightarrow> rat \<Rightarrow> PayTokenId \<Rightarrow> rat" where
  "RoundAmount DivRound amount tokenId =
     (case tokenId of
        TokenIdEth \<Rightarrow> round_up DivRound 8 amount
      | TokenIdBnb \<Rightarrow> round_up DivRound 8 amount
      | TokenIdPol \<Rightarrow> round_up DivRound 8 amount
      | TokenIdDas \<Rightarrow> round_up DivRound 4 amount
      | TokenIdCkb \<Rightarrow> round_up DivRound 4 amount
      | TokenIdCkbInternal \<Rightarrow> round_up DivRound 4 amount
      | TokenIdDoge \<Rightarrow> round_up DivRound 4 amount
      | TokenIdPadgeInternal \<Rightarrow> round_up DivRound 4 amount
      | TokenIdTrx \<Rightarrow> round_up DivRound 3 amount
      | TokenIdErc20USDT \<Rightarrow> round_up DivRound 3 amount
      | TokenIdBep20USDT \<Rightarrow> round_up DivRound 3 amount
      | TokenIdTrc20USDT \<Rightarrow> round_up DivRound 3 amount
      | _ \<Rightarrow> amount)"

section \<open>confirm\_status.go\<close>

definition payment_row :: "(int \<Rightarrow> int) \<Rightarrow> string \<Rightarrow> string \<Rightarrow> string \<Rightarrow> int \<Rightarrow> string \<Rightarrow> int \<Rightarrow> pay_row" where
  "payment_row ToChainType orderId payHash payAddress algorithmId accountId nw =
     \<lparr>p_Id = 0, p_Hash = payHash, p_OrderId = orderId, p_ChainType = ToChainType algorithmId,
      p_Address = payAddress, p_Status = OrderTxStatusConfirm, p_Timestamp = nw,
      p_AccountId = accountId, p_RefundStatus = TxStatusDefault,
      p_UniPayRefundStatus = UniPayRefundStatusDefault, p_RefundHash = ''''\<rparr>"

definition DoPaymentConfirm ::
  "(int \<Rightarrow> int) \<Rightarrow> string \<Rightarrow> string \<Rightarrow> string \<Rightarrow> int \<Rightarrow> unit dao" where
  "DoPaymentConfirm ToChainType orderId payHash payAddress algorithmId =
     bindM (wrapM ''GetOrderByOrderId'' (GetOrderByOrderId orderId)) (\<lambda>orderInfo.
     bindM clockM (\<lambda>nw.
       wrapM ''UpdatePayment'' (UpdatePayment
         (payment_row ToChainType orderId payHash payAddress algorithmId (o_AccountId orderInfo) nw))))"

text \<open>The last payment of the answer with this hash, as the Go map keeps it.\<close>

definition pay_of_hash :: "payment_info list \<Rightarrow> string \<Rightarrow> payment_info option" where
  "pay_of_hash list h = fold (\<lambda>v m. m(i_PayHash v \<mapsto> v)) list (\<lambda>_. None) h"

definition confirm_pending :: "(int \<Rightarrow> int) \<Rightarrow> payment_info list \<Rightarrow> pay_row \<Rightarrow> unit dao" where
  "confirm_pending ToChainType list pending =
     forM (filter (\<lambda>v. i_OrderId v = p_OrderId pending) list) (\<lambda>v.
       if i_PayHashStatus v \<noteq> PayHashStatusConfirmed then okM ()
       else catchM (DoPaymentConfirm ToChainType (i_OrderId v) (i_PayHash v) (i_PayAddress v) (i_AlgorithmId v))
              (\<lambda>_. emitM (LarkErr ''DoPaymentConfirm'')))"

definition confirm_refund :: "payment_info list \<Rightarrow> string \<Rightarrow> unit dao" where
  "confirm_refund list h =
     (case pay_of_hash list h of
        None \<Rightarrow> okM ()
      | Some v \<Rightarrow>
          if i_RefundStatus v \<noteq> UniPayRefundStatusRefunded then okM ()
          else catchM (UpdateUniPayRefundStatusToRefunded (i_PayHash v) (i_OrderId v) (i_RefundHash v))
                 (\<lambda>_. emitM (LarkErr ''UpdateUniPayRefundStatusToRefunded'')))"

definition doConfirmStatus ::
  "(int \<Rightarrow> int) \<Rightarrow> (string list \<Rightarrow> string list \<Rightarrow> gerr + payment_info list) \<Rightarrow> unit dao" where
  "doConfirmStatus ToChainType GetPaymentInfo =
     bindM (wrapM ''GetPayHashStatusPendingList'' GetPayHashStatusPendingList) (\<lambda>pendingList.
     bindM (wrapM ''GetRefundStatusRefundingList'' GetRefundStatusRefundingList) (\<lambda>refundingList.
     let orderIdList = map p_OrderId pendingList; payHashList = map p_Hash refundingList in
     if length orderIdList = 0 \<and> length payHashList = 0 then okM ()
     else bindM (wrapM ''OrderInfo'' (liftM (GetPaymentInfo orderIdList payHashList))) (\<lambda>paymentList.
       thenM (forM pendingList (confirm_pending ToChainType paymentList))
             (forM payHashList (confirm_refund paymentList)))))"

section \<open>hedge.go\<close>

text \<open>The endpoint answers with transport errors or a status code and a result code.\<close>

definition doHedge ::
  "string \<Rightarrow> (string \<Rightarrow> PayTokenId \<Rightarrow> rat \<Rightarrow> gerr + (nat \<times> int)) \<Rightarrow> string \<Rightarrow> PayTokenId \<Rightarrow> rat \<Rightarrow> unit dao" where
  "doHedge hedgeUrl post orderId payTokenId payAmount =
     (if payTokenId = TokenIdCkb \<or> payTokenId = TokenIdDas \<or> payTokenId = TokenIdCkbInternal
      then okM ()
      else if hedgeUrl = '''' then okM ()
      else thenM (emitM (Hedge orderId))
        (case post orderId payTokenId payAmount of
           Inl e \<Rightarrow> errM (In ''doHedge errs'' e)
         | Inr (statusCode, code) \<Rightarrow>
             if statusCode \<noteq> 200 \<and> statusCode \<noteq> 201 then errM (Errf ''doHedge resp.StatusCode'')
             else if code \<noteq> 0 then errM (Errf ''doHedge res.Code'')
             else okM ()))"

text \<open>Tokens that need no hedge.\<close>

definition no_hedge :: "PayTokenId \<Rightarrow> bool" where
  "no_hedge tokenId \<longleftrightarrow> tokenId \<in> {TokenCoupon, TokenIdCkb, TokenIdPadgeInternal, TokenIdCkbInternal,
     TokenIdDas, TokenIdStripeUSD, ToKenIdDidPoint, TokenIdCkbCCC}"

definition doOrderHedge_one ::
  "(rat \<Rightarrow> rat \<Rightarrow> nat \<Rightarrow> rat) \<Rightarrow> token_map \<Rightarrow> string \<Rightarrow> (string \<Rightarrow> PayTokenId \<Rightarrow> rat \<Rightarrow> gerr + (nat \<times> int)) \<Rightarrow>
   order_row \<Rightarrow> unit dao" where
  "doOrderHedge_one DivRound mapToken hedgeUrl post v =
     (if no_hedge (o_PayTokenId v)
      then wrapM ''UpdateHedgeStatus'' (UpdateHedgeStatus (o_OrderId v) TxStatusSending TxStatusOk)
      else
        let payToken = GetTokenInfo mapToken (o_PayTokenId v) in
        if k_Id payToken = 0 \<or> k_Price payToken \<le> 0 then errM (Errf ''GetTokenInfo'')
        else
          let payAmount = DivRound (o_PayAmount v) (10 ^ k_Decimals payToken) (k_Decimals payToken) in
          thenM (wrapM ''UpdateHedgeStatus'' (UpdateHedgeStatus (o_OrderId v) TxStatusSending TxStatusOk))
            (catchM (doHedge hedgeUrl post (o_OrderId v) (o_PayTokenId v) payAmount)
               (\<lambda>_. emitM (LarkErr ''do hedge''))))"

definition doOrderHedge ::
  "(rat \<Rightarrow> rat \<Rightarrow> nat \<Rightarrow> rat) \<Rightarrow> token_map \<Rightarrow> string \<Rightarrow> (string \<Rightarrow> PayTokenId \<Rightarrow> rat \<Rightarrow> gerr + (nat \<times> int)) \<Rightarrow>
   unit dao" where
  "doOrderHedge DivRound mapToken hedgeUrl post =
     bindM (wrapM ''GetNeedHedgeOrderList'' GetNeedHedgeOrderList) (\<lambda>list.
       forM list (doOrderHedge_one DivRound mapToken hedgeUrl post))"

section \<open>refund.go\<close>

definition is_uni_pay :: "order_row list \<Rightarrow> string \<Rightarrow> IsUniPay" where
  "is_uni_pay list orderId =
     (case fold (\<lambda>v m. m(o_OrderId v \<mapsto> o_IsUniPay v)) list (\<lambda>_. None) orderId of
        None \<Rightarrow> IsUniPayFalse | Some b \<Rightarrow> b)"

definition doRefund :: "bool \<Rightarrow> ((string \<times> string) list \<Rightarrow> gerr + unit) \<Rightarrow> unit dao" where
  "doRefund refundSwitch RefundOrder =
     (if \<not> refundSwitch then okM ()
      else bindM (wrapM ''GetUnRefundList'' GetUnRefundList) (\<lambda>list.
      bindM (wrapM ''GetOrderListByOrderIds'' (GetIsUniPayInfoByOrderIds (map p_OrderId list))) (\<lambda>ords.
      thenM (forM list (\<lambda>v.
          if is_uni_pay ords (p_OrderId v) = IsUniPayFalse
          then wrapM ''UpdateUniPayRefundStatusToDefaultForNotUniPayOrder''
                 (UpdateUniPayRefundStatusToDefaultForNotUniPayOrder (p_Hash v) (p_OrderId v))
          else okM ()))
      (let ids = map p_Id list; refundList = map (\<lambda>v. (p_OrderId v, p_Hash v)) list in
       if length refundList = 0 then okM ()
       else thenM (emitM (UniPayRefund refundList))
         (thenM (wrapM ''RefundOrder'' (liftM (RefundOrder refundList)))
            (wrapM ''UpdateRefundStatusToRefundIng'' (UpdateRefundStatusToRefundIng ids)))))))"

section \<open>register\_info.go\<close>

text \<open>
  The variables \<open>applyNum, preNum, proNum, confirmNum\<close> after the loop over the rows: as in the
  code, both the pre-register and the proposal row are written to \<open>preNum\<close>.
\<close>

definition register_nums :: "(RegisterStatus \<times> nat) list \<Rightarrow> nat \<times> nat \<times> nat \<times> nat" where
  "register_nums list = fold (\<lambda>(s, n) (applyNum, preNum, proNum, confirmNum).
     case s of
       RegisterStatusApplyRegister \<Rightarrow> (n, preNum, proNum, confirmNum)
     | RegisterStatusPreRegister \<Rightarrow> (applyNum, n, proNum, confirmNum)
     | RegisterStatusProposal \<Rightarrow> (applyNum, n, proNum, confirmNum)
     | RegisterStatusConfirmProposal \<Rightarrow> (applyNum, preNum, proNum, n)
     | _ \<Rightarrow> (applyNum, preNum, proNum, confirmNum)) list (0, 0, 0, 0)"

text \<open>\<open>GetOwnerCount\<close> counts groups, which gorm does in a way of its own: a parameter.\<close>

definition doRegisterInfo :: "string \<Rightarrow> nat dao \<Rightarrow> unit dao" where
  "doRegisterInfo larkDasInfoKey GetOwnerCount =
     (if larkDasInfoKey = '''' then okM ()
      else bindM (wrapM ''GetAccountCount'' GetAccountCount) (\<lambda>accountNum.
      bindM (wrapM ''GetOwnerCount'' GetOwnerCount) (\<lambda>ownerNum.
      bindM (catchM GetRegisterStatusCount (\<lambda>_. okM [])) (\<lambda>list.
        case register_nums list of (applyNum, preNum, proNum, confirmNum) \<Rightarrow>
          emitM (LarkText [accountNum, ownerNum, applyNum, preNum, proNum, confirmNum])))))"

section \<open>unipay\_notice.go\<close>

datatype EventType =
  EventTypeOrderPay | EventTypeOrderRefund | EventTypePaymentDispute | EventTypeOther string

record event_info =
  e_EventType :: EventType
  e_OrderId :: string
  e_PayHash :: string
  e_PayAddress :: string
  e_AlgorithmId :: int
  e_RefundHash :: string

definition notice_event :: "(int \<Rightarrow> int) \<Rightarrow> event_info \<Rightarrow> unit dao" where
  "notice_event ToChainType v =
     (case e_EventType v of
        EventTypeOrderPay \<Rightarrow>
          catchM (DoPaymentConfirm ToChainType (e_OrderId v) (e_PayHash v) (e_PayAddress v) (e_AlgorithmId v))
            (\<lambda>_. emitM (LarkErr ''DoPaymentConfirm''))
      | EventTypeOrderRefund \<Rightarrow>
          catchM (UpdateUniPayRefundStatusToRefunded (e_PayHash v) (e_OrderId v) (e_RefundHash v))
            (\<lambda>_. emitM (LarkErr ''UpdateUniPayRefundStatusToRefunded''))
      | EventTypePaymentDispute \<Rightarrow>
          catchM (UpdatePayHashStatusToFailByDispute (e_PayHash v) (e_OrderId v))
            (\<lambda>_. emitM (LarkErr ''UpdatePayHashStatusToFailByDispute''))
      | EventTypeOther _ \<Rightarrow> okM ())"

definition doUniPayNotice :: "(int \<Rightarrow> int) \<Rightarrow> string \<Rightarrow> event_info list \<Rightarrow> unit api_resp dao" where
  "doUniPayNotice ToChainType businessId eventList =
     (if businessId \<noteq> BusinessIdDasRegisterSvr then okM (ApiRespErr ApiCodeParamsInvalid)
      else thenM (forM eventList (notice_event ToChainType)) (okM (ApiRespOK ())))"

section \<open>What the jobs keep\<close>

context dao_contract
begin

lemma DoPaymentConfirm: "upholds R (DoPaymentConfirm ct oid ph pa alg)"
  unfolding DoPaymentConfirm_def by (intro dao_rules) (simp add: payment_row_def)

lemma doConfirmStatus: "upholds R (doConfirmStatus ct api)"
  unfolding doConfirmStatus_def confirm_pending_def confirm_refund_def
  by (intro dao_rules DoPaymentConfirm)

lemma doHedge: "upholds R (doHedge url post oid tok amt)"
  unfolding doHedge_def by (intro dao_rules)

lemma doOrderHedge: "upholds R (doOrderHedge dr m url post)"
  unfolding doOrderHedge_def doOrderHedge_one_def by (intro dao_rules doHedge)

lemma doRefund: "upholds R (doRefund sw api)"
  unfolding doRefund_def by (intro dao_rules)

lemma doRegisterInfo: "upholds R cnt \<Longrightarrow> upholds R (doRegisterInfo key cnt)"
  unfolding doRegisterInfo_def by (intro dao_rules) auto

lemma notice_event: "upholds R (notice_event ct v)"
  unfolding notice_event_def
  by (auto intro!: dao_rules DoPaymentConfirm split: EventType.split)

lemma doUniPayNotice: "upholds R (doUniPayNotice ct bid evs)"
  unfolding doUniPayNotice_def by (intro dao_rules notice_event)

lemmas unipay_rules = DoPaymentConfirm doConfirmStatus doOrderHedge doRefund doUniPayNotice

end

end
