(* ===== verification/BlockActions.thy ===== *)
theory BlockActions
  imports DaoWf
begin

text \<open>
  The transaction handlers of \<open>src/block_parser/action_*.go\<close>. A CKB transaction is its hash, its
  inputs, its outputs and its cell deps; what das-lib extracts from the witnesses, the contract
  registry, the address formats and the node are parameters, gathered in the record \<open>lib\<close>.
  A handler is an action of the database monad; its error is the \<open>Err\<close> of the Go response.
\<close>

section \<open>Transactions and the parameters\<close>

record cell_output =
  l_CodeHash :: string
  l_Args :: string
  l_Type :: "string option"

record chain_tx =
  t_Hash :: string
  t_Inputs :: "(string \<times> nat) list"
  t_Outputs :: "cell_output list"
  t_CellDeps :: "(string \<times> nat) list"

datatype ContractName =
    DasContractNameApplyRegisterCellType | DasContractNamePreAccountCellType
  | DasContractNameProposalCellType | DasContractNameConfigCellType
  | DasContractNameAccountCellType | DasContractNameDispatchCellType
  | DasContractNameBalanceCellType | DasContractNameAlwaysSuccess | DasContractNameIncomeCellType
  | DASContractNameSubAccountCellType

record contract_info =
  ContractTypeId :: string
  IsSameTypeId :: "string \<Rightarrow> bool"

record pre_info =
  v_Account :: string
  v_InviterId :: string
  v_OwnerLockArgs :: string

record acc_info =
  w_AccountId :: string
  w_Account :: string
  w_Index :: nat
  w_RegisteredAt :: "64 word"
  w_ExpiredAt :: "64 word"

record lib =
  GetDasContractInfo :: "ContractName \<Rightarrow> gerr + contract_info"
  ActionFromTx :: "chain_tx \<Rightarrow> gerr + DasAction"
  ProposalIndexOld :: "chain_tx \<Rightarrow> gerr + nat"
  PreAccountsOld :: "chain_tx \<Rightarrow> gerr + (string \<times> pre_info) list"
  PreAccountDeps :: "chain_tx \<Rightarrow> gerr + (nat \<times> string) list"
  PreAccountNew :: "chain_tx \<Rightarrow> gerr + pre_info"
  AccountsNew :: "chain_tx \<Rightarrow> gerr + (string \<Rightarrow> acc_info option)"
  AccountOld :: "chain_tx \<Rightarrow> gerr + acc_info"
  AccountNew :: "chain_tx \<Rightarrow> gerr + acc_info"
  ArgsToHex :: "string \<Rightarrow> gerr + (int \<times> string)"
  NodeGetTransaction :: "string \<Rightarrow> gerr + chain_tx"
  AsyncDasConfigCell :: "gerr + unit"
  AccountIdOf :: "string \<Rightarrow> string"
  OutPoint2String :: "string \<Rightarrow> nat \<Rightarrow> string"
  md5 :: "string \<Rightarrow> string"
  ActionString :: "DasAction \<Rightarrow> string"
  OneYearSec :: "64 word"

record handle_req =
  q_Tx :: chain_tx
  q_BlockNumber :: "64 word"
  q_BlockTimestamp :: "64 word"
  q_Action :: DasAction

text \<open>\<open>req.TxHash\<close> is the hash of \<open>req.Tx\<close>; \<open>int64(req.BlockTimestamp)\<close> is its signed reading.\<close>

abbreviation q_TxHash :: "handle_req \<Rightarrow> string" where
  "q_TxHash req \<equiv> t_Hash (q_Tx req)"

abbreviation q_Time :: "handle_req \<Rightarrow> int" where
  "q_Time req \<equiv> sint (q_BlockTimestamp req)"

section \<open>isCurrentVersionTx\<close>

definition isCurrentVersionTx :: "lib \<Rightarrow> chain_tx \<Rightarrow> ContractName \<Rightarrow> gerr + bool" where
  "isCurrentVersionTx L tx name =
     (case GetDasContractInfo L name of
        Inl e \<Rightarrow> Inl (In ''GetDasContractInfo'' e)
      | Inr contract \<Rightarrow> Inr (\<exists>v \<in> set (t_Outputs tx).
          case l_Type v of None \<Rightarrow> False | Some h \<Rightarrow> IsSameTypeId contract h))"

text \<open>The first lines of every handler: a wrong version ends it without an error.\<close>

definition when_current :: "lib \<Rightarrow> handle_req \<Rightarrow> ContractName \<Rightarrow> unit dao \<Rightarrow> unit dao" where
  "when_current L req name body =
     bindM (wrapM ''isCurrentVersion'' (liftM (isCurrentVersionTx L (q_Tx req) name)))
       (\<lambda>isCV. if \<not> isCV then okM () else body)"

section \<open>Registration\<close>

definition ActionApplyRegister :: "lib \<Rightarrow> handle_req \<Rightarrow> unit dao" where
  "ActionApplyRegister L req = when_current L req DasContractNameApplyRegisterCellType
     (bindM (wrapM ''GetOrderTxByHash'' (GetOrderTxByHash TxActionApplyRegister (q_TxHash req))) (\<lambda>orderTx.
      if 0 < x_Id orderTx
      then bindM (tryM (wrapM ''GetOrderByOrderId'' (GetOrderByOrderId (x_OrderId orderTx)))) (\<lambda>res.
        thenM (wrapM ''UpdatePreRegisterStatus''
                 (DoActionApplyRegister (x_OrderId orderTx) (x_Hash orderTx)))
        (case res of
           Inl e \<Rightarrow> thenM (emitM (LarkRegister '''' '''')) (errM e)
         | Inr ord \<Rightarrow> emitM (LarkRegister (o_Account ord) (o_OrderId ord))))
      else emitM (LarkRegister ''unknown'' '''')))"

definition pre_register_order ::
  "lib \<Rightarrow> handle_req \<Rightarrow> string \<Rightarrow> int \<Rightarrow> string \<Rightarrow> OrderStatus \<Rightarrow> order_row" where
  "pre_register_order L req account chainType address orderStatus =
     zero_order\<lparr>o_OrderType := OrderTypeOther,
       o_OrderId := CreateOrderId (md5 L) (ActionString L) OrderTypeOther (AccountIdOf L account)
         DasActionApplyRegister chainType address (q_Time req),
       o_AccountId := AccountIdOf L account, o_Account := account,
       o_Action := DasActionApplyRegister, o_ChainType := chainType, o_Address := address,
       o_Timestamp := q_Time req, o_RegisterStatus := RegisterStatusProposal,
       o_OrderStatus := orderStatus\<rparr>"

definition ActionPreRegister :: "lib \<Rightarrow> handle_req \<Rightarrow> unit dao" where
  "ActionPreRegister L req = when_current L req DasContractNamePreAccountCellType
     (bindM (wrapM ''GetOrderTxByHash'' (GetOrderTxByHash TxActionPreRegister (q_TxHash req))) (\<lambda>orderTx.
      if 0 < x_Id orderTx
      then bindM (tryM (wrapM ''GetOrderByOrderId'' (GetOrderByOrderId (x_OrderId orderTx)))) (\<lambda>res.
        thenM (wrapM ''DoActionPreRegister''
                 (DoActionPreRegister (x_OrderId orderTx) (x_Hash orderTx)))
        (case res of
           Inl e \<Rightarrow> thenM (emitM (LarkRegister '''' '''')) (errM e)
         | Inr ord \<Rightarrow> emitM (LarkRegister (o_Account ord) (o_OrderId ord))))
      else
        bindM (wrapM ''PreAccountCellDataBuilderFromTx'' (liftM (PreAccountNew L (q_Tx req)))) (\<lambda>builder.
        bindM (wrapM ''ArgsToHex'' (liftM (ArgsToHex L (v_OwnerLockArgs builder)))) (\<lambda>(chainType, address).
        bindM (wrapM ''GetAccountInfoByAccountId''
                 (GetAccountInfoByAccountId (AccountIdOf L (v_Account builder)))) (\<lambda>acc.
          let orderStatus = (if 0 < a_Id acc then OrderStatusClosed else OrderStatusDefault);
              ord = pre_register_order L req (v_Account builder) chainType address orderStatus in
          bindM (indexM (t_Inputs (q_Tx req)) 0) (\<lambda>(applyHash, _).
          thenM (wrapM ''CreateOrderStatusAndOrderTxs'' (CreateOrderAndOrderTxs ord
              [\<lparr>x_Id = 0, x_OrderId = o_OrderId ord, x_Hash = applyHash,
                x_Action = TxActionApplyRegister, x_Status = OrderTxStatusConfirm,
                x_Timestamp = q_Time req\<rparr>,
               \<lparr>x_Id = 0, x_OrderId = o_OrderId ord, x_Hash = q_TxHash req,
                x_Action = TxActionPreRegister, x_Status = OrderTxStatusConfirm,
                x_Timestamp = q_Time req\<rparr>]))
            (emitM (LarkRegister (o_Account ord) (o_OrderId ord)))))))))"

text \<open>The order transactions of a proposal or its confirmation, one per order found.\<close>

definition follow_txs :: "handle_req \<Rightarrow> OrderTxAction \<Rightarrow> tx_row list \<Rightarrow> tx_row list" where
  "follow_txs req action list = map (\<lambda>v. \<lparr>x_Id = 0, x_OrderId = x_OrderId v, x_Hash = q_TxHash req,
     x_Action = action, x_Status = OrderTxStatusConfirm, x_Timestamp = q_Time req\<rparr>) list"

fun depHashes :: "chain_tx \<Rightarrow> (nat \<times> string) list \<Rightarrow> string list dao" where
  "depHashes tx [] = okM []"
| "depHashes tx ((i, _) # rest) =
     bindM (indexM (t_CellDeps tx) i) (\<lambda>(h, _). bindM (depHashes tx rest) (\<lambda>hs. okM (h # hs)))"

definition ActionPropose :: "lib \<Rightarrow> handle_req \<Rightarrow> unit dao" where
  "ActionPropose L req = when_current L req DasContractNameProposalCellType
     (bindM (wrapM ''PreAccountCellDataBuilderMapFromTx'' (liftM (PreAccountDeps L (q_Tx req)))) (\<lambda>builders.
      bindM (depHashes (q_Tx req) builders) (\<lambda>preHashList.
      bindM (wrapM ''GetOrderTxByActionAndHashList''
               (GetOrderTxByActionAndHashList TxActionPreRegister preHashList)) (\<lambda>list.
      thenM (wrapM ''DoActionPropose''
               (DoActionPropose (map x_OrderId list) (follow_txs req TxActionPropose list)))
        (emitM (LarkRegister (concat (map snd builders)) ''''))))))"

subsection \<open>Confirmed proposals\<close>

text \<open>
  The loop of \<open>doDiscordNotify\<close> and \<open>doLarkNotify\<close>: lines are collected and flushed at 15.
\<close>

fun notify_groups :: "'l list \<Rightarrow> 'l list \<Rightarrow> nat \<Rightarrow> 'l list list" where
  "notify_groups [] content count = (if content \<noteq> [] then [content] else [])"
| "notify_groups (v # vs) content count =
     (if Suc count = 15 then (content @ [v]) # notify_groups vs [] 0
      else notify_groups vs (content @ [v]) (Suc count))"

text \<open>\<open>(acc.ExpiredAt - acc.RegisteredAt) / 31536000\<close> on \<open>uint64\<close>, 1 for an unknown account.\<close>

definition register_years :: "(string \<Rightarrow> acc_info option) \<Rightarrow> string \<Rightarrow> nat" where
  "register_years builderAccMap k =
     (case builderAccMap k of
        None \<Rightarrow> 1
      | Some acc \<Rightarrow> unat ((w_ExpiredAt acc - w_RegisteredAt acc) div 31536000))"

definition register_notices :: "(string \<Rightarrow> acc_info option) \<Rightarrow> (string \<times> pre_info) list \<Rightarrow> nat list list" where
  "register_notices builderAccMap builderPreMap =
     notify_groups (map (\<lambda>(k, v). register_years builderAccMap k) builderPreMap) [] 0"

definition ActionConfirmProposal :: "lib \<Rightarrow> handle_req \<Rightarrow> unit dao" where
  "ActionConfirmProposal L req = when_current L req DasContractNameAccountCellType
     (bindM (wrapM ''ProposalCellDataBuilderFromTx'' (liftM (ProposalIndexOld L (q_Tx req)))) (\<lambda>index.
      bindM (indexM (t_Inputs (q_Tx req)) index) (\<lambda>(proposeHash, _).
      bindM (wrapM ''GetOrderTxByActionAndHashList''
               (GetOrderTxByActionAndHashList TxActionPropose [proposeHash])) (\<lambda>list.
      let orderIds = map x_OrderId list;
          orderTxList = follow_txs req TxActionConfirmProposal list in
      bindM (wrapM ''PreAccountIdCellDataBuilderFromTx'' (liftM (PreAccountsOld L (q_Tx req)))) (\<lambda>builderPreMap.
      bindM (wrapM ''AccountIdCellDataBuilderFromTx'' (liftM (AccountsNew L (q_Tx req)))) (\<lambda>builderAccMap.
      let accountIds = map fst builderPreMap;
          inviterIds = map (\<lambda>(k, v). v_InviterId v) builderPreMap in
      bindM (wrapM ''GetHistoryOkOrders'' (GetHistoryOkOrders accountIds)) (\<lambda>okOrders.
      let okOrderIds = map o_OrderId okOrders @ orderIds in
      bindM (wrapM ''GetAccountInfoByAccountIds'' (GetAccountInfoByAccountIds inviterIds)) (\<lambda>inviters.
      thenM (wrapM ''UpdateOrdersRegisterStatus''
               (DoActionConfirmProposal orderIds okOrderIds accountIds orderTxList))
      (thenM (emitM (LarkRegister (concat (map (\<lambda>(k, v). v_Account v) builderPreMap)) ''''))
        (forM (register_notices builderAccMap builderPreMap) (\<lambda>ys. emitM (LarkText ys))))))))))))"

section \<open>Renewal\<close>

definition renew_order :: "lib \<Rightarrow> handle_req \<Rightarrow> string \<Rightarrow> int \<Rightarrow> string \<Rightarrow> order_row" where
  "renew_order L req account chainType address =
     zero_order\<lparr>o_OrderType := OrderTypeOther,
       o_OrderId := CreateOrderId (md5 L) (ActionString L) OrderTypeOther (AccountIdOf L account)
         DasActionRenewAccount chainType address (q_Time req),
       o_AccountId := AccountIdOf L account, o_Account := account,
       o_Action := DasActionRenewAccount, o_ChainType := chainType, o_Address := address,
       o_Timestamp := q_Time req, o_OrderStatus := OrderStatusClosed\<rparr>"

definition clear_inputs :: "lib \<Rightarrow> handle_req \<Rightarrow> unit dao" where
  "clear_inputs L req =
     emitM (ClearOutPoint (map (\<lambda>(h, i). OutPoint2String L h i) (t_Inputs (q_Tx req))))"

text \<open>\<open>OneYearSec\<close> is a constant of das-lib; a renewal of less than a year is reported as one.\<close>

definition renew_years :: "64 word \<Rightarrow> 64 word \<Rightarrow> 64 word \<Rightarrow> nat" where
  "renew_years oneYearSec newExpiredAt oldExpiredAt =
     (let y = unat ((newExpiredAt - oldExpiredAt) div oneYearSec) in if y = 0 then 1 else y)"

definition ActionRenewAccount :: "lib \<Rightarrow> handle_req \<Rightarrow> unit dao" where
  "ActionRenewAccount L req = when_current L req DasContractNameAccountCellType
     (thenM (clear_inputs L req)
     (bindM (wrapM ''AccountCellDataBuilderFromTx'' (liftM (AccountOld L (q_Tx req)))) (\<lambda>builderOld.
      bindM (indexM (t_Inputs (q_Tx req)) (w_Index builderOld)) (\<lambda>(oldHash, _).
      bindM (wrapM ''GetTransaction'' (liftM (NodeGetTransaction L oldHash))) (\<lambda>oldTx.
      bindM (wrapM ''AccountIdCellDataBuilderFromTx'' (liftM (AccountsNew L oldTx))) (\<lambda>builderPreMap.
      bindM (wrapM ''AccountCellDataBuilderFromTx'' (liftM (AccountNew L (q_Tx req)))) (\<lambda>builder.
      bindM (indexM (t_Outputs (q_Tx req)) (w_Index builder)) (\<lambda>out.
      bindM (wrapM ''ArgsToHex'' (liftM (ArgsToHex L (l_Args out)))) (\<lambda>(chainType, address).
      bindM (wrapM ''GetOrderTxByHash'' (GetOrderTxByHash TxActionRenewAccount (q_TxHash req))) (\<lambda>orderTx.
      bindM (if 0 < x_Id orderTx
        then bindM (tryM (wrapM ''GetOrderByOrderId'' (GetOrderByOrderId (x_OrderId orderTx)))) (\<lambda>res.
          thenM (wrapM ''DoActionRenewAccount'' (DoActionRenewAccount (x_OrderId orderTx) (q_TxHash req)))
          (case res of
             Inl e \<Rightarrow> thenM (emitM (LarkRegister '''' '''')) (okM (Some e))
           | Inr ord \<Rightarrow> thenM (emitM (LarkRegister (o_Account ord) (o_OrderId ord))) (okM None)))
        else
          let ord = renew_order L req (w_Account builder) chainType address in
          thenM (wrapM ''CreateOrderAndOrderTxs'' (CreateOrderAndOrderTxs ord
              [\<lparr>x_Id = 0, x_OrderId = o_OrderId ord, x_Hash = q_TxHash req,
                x_Action = TxActionRenewAccount, x_Status = OrderTxStatusConfirm,
                x_Timestamp = q_Time req\<rparr>]))
            (thenM (emitM (LarkRegister (w_Account builder) (o_OrderId ord))) (okM None))) (\<lambda>late.
      case builderPreMap (w_AccountId builderOld) of
        None \<Rightarrow> errM GoPanic
      | Some builderPre \<Rightarrow>
          thenM (emitM (LarkText [renew_years (OneYearSec L) (w_ExpiredAt builder) (w_ExpiredAt builderPre)]))
            (case late of None \<Rightarrow> okM () | Some e \<Rightarrow> errM e))))))))))))"

section \<open>Handlers that confirm a pending transaction\<close>

definition confirm_pending_out :: "lib \<Rightarrow> handle_req \<Rightarrow> unit dao" where
  "confirm_pending_out L req =
     wrapM ''UpdatePendingStatusToConfirm'' (UpdatePendingStatusToConfirm (q_Action req)
       (OutPoint2String L (q_TxHash req) 0) (q_BlockNumber req) (q_BlockTimestamp req))"

definition ActionEditRecords :: "lib \<Rightarrow> handle_req \<Rightarrow> unit dao" where
  "ActionEditRecords L req =
     when_current L req DasContractNameAccountCellType (confirm_pending_out L req)"

definition ActionEditManager :: "lib \<Rightarrow> handle_req \<Rightarrow> unit dao" where
  "ActionEditManager L req =
     when_current L req DasContractNameAccountCellType (confirm_pending_out L req)"

definition ActionTransferAccount :: "lib \<Rightarrow> handle_req \<Rightarrow> unit dao" where
  "ActionTransferAccount L req =
     when_current L req DasContractNameAccountCellType
       (thenM (confirm_pending_out L req) (clear_inputs L req))"

definition ActionConfigCell :: "lib \<Rightarrow> handle_req \<Rightarrow> unit dao" where
  "ActionConfigCell L req =
     when_current L req DasContractNameConfigCellType
       (thenM (emitM SyncConfigCell) (wrapM ''AsyncDasConfigCell'' (liftM (AsyncDasConfigCell L))))"

definition HandleDidCellUpdate :: "lib \<Rightarrow> handle_req \<Rightarrow> unit dao" where
  "HandleDidCellUpdate L req = thenM (confirm_pending_out L req) (clear_inputs L req)"

text \<open>Both handlers look at the output the first input spends.\<close>

definition spends_das_balance :: "lib \<Rightarrow> handle_req \<Rightarrow> bool dao" where
  "spends_das_balance L req =
     bindM (wrapM ''GetDasContractInfo'' (liftM (GetDasContractInfo L DasContractNameDispatchCellType))) (\<lambda>dasLock.
     bindM (wrapM ''GetDasContractInfo'' (liftM (GetDasContractInfo L DasContractNameBalanceCellType))) (\<lambda>balanceType.
     bindM (indexM (t_Inputs (q_Tx req)) 0) (\<lambda>(h, i).
     bindM (wrapM ''GetTransaction'' (liftM (NodeGetTransaction L h))) (\<lambda>res.
     bindM (indexM (t_Outputs res) i) (\<lambda>cellOutput.
       if \<not> IsSameTypeId dasLock (l_CodeHash cellOutput) then okM False
       else okM (case l_Type cellOutput of None \<Rightarrow> True | Some ty \<Rightarrow> IsSameTypeId balanceType ty))))))"

definition ActionWithdrawFromWallet :: "lib \<Rightarrow> handle_req \<Rightarrow> unit dao" where
  "ActionWithdrawFromWallet L req =
     bindM (spends_das_balance L req) (\<lambda>b. if b then confirm_pending_out L req else okM ())"

definition ActionTransferPayment :: "lib \<Rightarrow> handle_req \<Rightarrow> unit dao" where
  "ActionTransferPayment L req =
     bindM (spends_das_balance L req) (\<lambda>b. if b then confirm_pending_out L req else okM ())"

definition ActionTransferBalance :: "lib \<Rightarrow> handle_req \<Rightarrow> unit dao" where
  "ActionTransferBalance L req =
     bindM (wrapM ''GetDasContractInfo'' (liftM (GetDasContractInfo L DasContractNameDispatchCellType))) (\<lambda>dasLock.
     bindM (wrapM ''GetDasContractInfo'' (liftM (GetDasContractInfo L DasContractNameBalanceCellType))) (\<lambda>dasBalance.
       if \<exists>v \<in> set (t_Outputs (q_Tx req)). l_CodeHash v = ContractTypeId dasLock
            \<and> (case l_Type v of None \<Rightarrow> True | Some ty \<Rightarrow> ty = ContractTypeId dasBalance)
       then confirm_pending_out L req else okM ()))"

text \<open>The price in the notice comes from the auction table, which is not modelled.\<close>

definition ActionBidExpiredAccountAuction :: "lib \<Rightarrow> handle_req \<Rightarrow> unit dao" where
  "ActionBidExpiredAccountAuction L req = when_current L req DasContractNameAccountCellType
     (bindM (wrapM ''AccountCellDataBuilderFromTx'' (liftM (AccountNew L (q_Tx req)))) (\<lambda>builder.
      bindM (indexM (t_Outputs (q_Tx req)) (w_Index builder)) (\<lambda>out.
      bindM (wrapM ''ArgsToHex'' (liftM (ArgsToHex L (l_Args out)))) (\<lambda>oHex.
      thenM (confirm_pending_out L req) (emitM (LarkText []))))))"

section \<open>What the handlers keep\<close>

context db_reading
begin

lemma when_current: "upholds R body \<Longrightarrow> upholds R (when_current L req name body)"
  unfolding when_current_def by (intro rules)

lemma depHashes: "upholds R (depHashes tx bs)"
  by (induction tx bs rule: depHashes.induct) (auto intro!: rules)

lemma spends_das_balance: "upholds R (spends_das_balance L req)"
  unfolding spends_das_balance_def by (intro rules)

end

context dao_contract
begin

lemmas action_rules = dao_rules when_current depHashes

lemma ActionApplyRegister: "upholds R (ActionApplyRegister L req)"
  unfolding ActionApplyRegister_def by (intro action_rules)

lemma ActionPreRegister: "upholds R (ActionPreRegister L req)"
  unfolding ActionPreRegister_def by (intro action_rules)

lemma ActionPropose: "upholds R (ActionPropose L req)"
  unfolding ActionPropose_def by (intro action_rules)

lemma ActionConfirmProposal: "upholds R (ActionConfirmProposal L req)"
  unfolding ActionConfirmProposal_def by (intro action_rules)

lemma clear_inputs: "upholds R (clear_inputs L req)"
  unfolding clear_inputs_def by (rule emitM)

lemma confirm_pending_out: "upholds R (confirm_pending_out L req)"
  unfolding confirm_pending_out_def by (intro action_rules)

lemma ActionRenewAccount: "upholds R (ActionRenewAccount L req)"
  unfolding ActionRenewAccount_def by (intro action_rules clear_inputs)

lemma pending_actions:
  "upholds R (ActionEditRecords L req)" "upholds R (ActionEditManager L req)"
  "upholds R (ActionTransferAccount L req)" "upholds R (ActionConfigCell L req)"
  "upholds R (HandleDidCellUpdate L req)" "upholds R (ActionTransferBalance L req)"
  "upholds R (ActionBidExpiredAccountAuction L req)"
  unfolding ActionEditRecords_def ActionEditManager_def ActionTransferAccount_def
    ActionConfigCell_def HandleDidCellUpdate_def ActionTransferBalance_def
    ActionBidExpiredAccountAuction_def
  by (intro action_rules clear_inputs confirm_pending_out)+

lemma wallet_actions:
  "upholds R (ActionWithdrawFromWallet L req)" "upholds R (ActionTransferPayment L req)"
  unfolding ActionWithdrawFromWallet_def ActionTransferPayment_def
  by (intro action_rules spends_das_balance confirm_pending_out)+

lemmas handler_rules = ActionApplyRegister ActionPreRegister ActionPropose ActionConfirmProposal
  ActionRenewAccount pending_actions wallet_actions

end

end
