(* ===== verification/OrderFlow.thy ===== *)
theory OrderFlow
  imports UniPay BlockActions
begin

text \<open>
  Properties of the statements of \<open>src/dao\<close> and of the jobs built on them: atomicity of the
  transactions, confirmation of payments, expiry, gift cards, refunds, hedges and pending
  transactions, and what happens when a block is handled twice.
\<close>

section \<open>Atomicity\<close>

definition transactions_of_orders ::
  "order_row \<Rightarrow> pay_row \<Rightarrow> tx_row list \<Rightarrow> string \<Rightarrow> string \<Rightarrow> string list \<Rightarrow> string list \<Rightarrow> string list \<Rightarrow> unit dao list" where
  "transactions_of_orders r p list orderId s orderIds okOrderIds accountIds =
     [CreateOrderAndOrderTxs r list, DoActionPropose orderIds list,
      DoActionConfirmProposal orderIds okOrderIds accountIds list, CreateOrderWithPayment r p,
      CreateCouponOrder r s, DoActionApplyRegister orderId s, DoActionPreRegister orderId s,
      UpdateDidCellOrderToRefund orderId, UpdatePayment p, UpdateRejectedTx TxActionPreRegister orderId]"

lemma txn_atomic: "confined m \<Longrightarrow> isl (fst (txnM m w)) \<Longrightarrow> tabs (snd (txnM m w)) = tabs w"
  by (cases "txnM m w") (auto simp: isl_def intro: txnM_atomic)

text \<open>The transactions of the order tables are atomic: whichever statement fails, a failed
  transaction leaves the tables as they were.\<close>

theorem order_transactions_atomic:
  assumes "m \<in> set (transactions_of_orders r p list orderId s orderIds okOrderIds accountIds)"
    and "isl (fst (m w))"
  shows "tabs (snd (m w)) = tabs w"
proof -
  have clock: "confined clockM" by (simp add: confined_def clockM_def)
  from assms(1) obtain b where "m = txnM b" "confined b"
    by (auto simp: transactions_of_orders_def CreateOrderAndOrderTxs_def DoActionPropose_def
        DoActionConfirmProposal_def CreateOrderWithPayment_def CreateCouponOrder_def
        DoActionApplyRegister_def DoActionPreRegister_def UpdateDidCellOrderToRefund_def
        UpdatePayment_def UpdateRejectedTx_def intro!: confined_intros clock)
  with assms(2) show ?thesis by (simp add: txn_atomic)
qed

definition one_order :: order_row where
  "one_order = zero_order\<lparr>o_Id := 1, o_OrderType := OrderTypeSelf, o_OrderId := ''o'', o_AccountId := ''a'',
     o_Action := DasActionApplyRegister\<rparr>"

definition one_order_db :: db where
  "one_order_db = empty_db\<lparr>orders := [one_order], next_id := 2\<rparr>"

theorem order_transactions_atomic_witness:
  "isl (fst (DoActionPropose [''o''] [] (world_of one_order_db 0)))
   \<and> tabs (snd (DoActionPropose [''o''] [] (world_of one_order_db 0))) = one_order_db"
proof -
  have f: "isl (fst (DoActionPropose [''o''] [] (world_of one_order_db 0)))"
    by (simp add: DoActionPropose_def go_simps upsert_txs_def)
  with order_transactions_atomic [of "DoActionPropose [''o''] []" one_order zero_pay "[]" "''o''" "''h''" "[''o'']" "[]" "[]", OF _ f]
  show ?thesis by (simp add: transactions_of_orders_def)
qed

text \<open>The renewal is the exception: its order updates bypass the transaction, so that a renewal
  that fails at its last statement has closed the order all the same.\<close>

theorem renew_not_atomic:
  "let w = (world_of one_order_db 0)\<lparr>faults := [False, False, False, True]\<rparr> in
   fst (DoActionRenewAccount ''o'' ''h'' w) = Inl Fault
   \<and> map o_OrderStatus (orders (tabs w)) = [OrderStatusDefault]
   \<and> map o_OrderStatus (orders (tabs (snd (DoActionRenewAccount ''o'' ''h'' w)))) = [OrderStatusClosed]"
  by (simp add: DoActionRenewAccount_def txnM_def thenM_def bindM_def outsideM_def updateM_def stmtM_def
      next_fault_def Let_def one_order_db_def one_order_def zero_order_def update_orders_def)

text \<open>The refusal of an apply or renew transaction is never recorded: the statement that should
  reset the order is malformed, so \<open>UpdateRejectedTx\<close> fails and rolls back in every world.\<close>

theorem rejected_apply_never_recorded:
  "isl (fst (UpdateRejectedTx TxActionApplyRegister orderId w))
   \<and> tabs (snd (UpdateRejectedTx TxActionApplyRegister orderId w)) = tabs w
   \<and> isl (fst (UpdateRejectedTx TxActionRenewAccount orderId w))
   \<and> tabs (snd (UpdateRejectedTx TxActionRenewAccount orderId w)) = tabs w"
proof -
  have f: "isl (fst (txnM (thenM m (stmtM (\<lambda>t. Inl BadStatement))) w :: (gerr + unit) \<times> db world))" for m :: "unit dao"
    by (auto simp: txnM_def thenM_def bindM_def stmtM_def Let_def split: prod.splits sum.splits)
  have "confined (thenM (updateM (update_txs P g)) (stmtM (\<lambda>t. Inl BadStatement)) :: unit dao)" for P g
    by (intro confined_intros)
  with f show ?thesis by (simp add: UpdateRejectedTx_def txn_atomic)
qed

section \<open>Payments\<close>

lemma UpdatePayment_run:
  assumes "UpdatePayment p w = (Inr (), w')"
  shows "orders (tabs w') = update_where
      (\<lambda>r. o_OrderId r = p_OrderId p \<and> o_OrderType r = OrderTypeSelf \<and> o_PayStatus r = TxStatusDefault)
      (\<lambda>r. r\<lparr>o_PayStatus := TxStatusSending, o_RegisterStatus := RegisterStatusApplyRegister\<rparr>) (orders (tabs w))"
    and "pays (tabs w') = update_where
      (\<lambda>q. p_Hash q = p_Hash p \<and> p_OrderId q = p_OrderId p \<and> p_Status q = OrderTxStatusDefault)
      (\<lambda>q. q\<lparr>p_ChainType := p_ChainType p, p_Address := p_Address p, p_Status := p_Status p\<rparr>)
      (if p_Hash p \<in> p_Hash ` set (pays (tabs w)) then pays (tabs w)
       else pays (tabs w) @ [p\<lparr>p_Id := next_id (tabs w)\<rparr>])"
proof -
  have ord: "orders (insert_ignore_pay p u) = orders u"
    and pay: "pays (insert_ignore_pay p u) = (if p_Hash p \<in> p_Hash ` set (pays u) then pays u
       else pays u @ [p\<lparr>p_Id := next_id u\<rparr>])" for u
    by (auto simp: insert_ignore_pay_def insert_pay_def)
  note run = txn_updates [OF assms [unfolded UpdatePayment_def]]
  show "orders (tabs w') = update_where
      (\<lambda>r. o_OrderId r = p_OrderId p \<and> o_OrderType r = OrderTypeSelf \<and> o_PayStatus r = TxStatusDefault)
      (\<lambda>r. r\<lparr>o_PayStatus := TxStatusSending, o_RegisterStatus := RegisterStatusApplyRegister\<rparr>) (orders (tabs w))"
    unfolding run by (simp add: ord)
  show "pays (tabs w') = update_where
      (\<lambda>q. p_Hash q = p_Hash p \<and> p_OrderId q = p_OrderId p \<and> p_Status q = OrderTxStatusDefault)
      (\<lambda>q. q\<lparr>p_ChainType := p_ChainType p, p_Address := p_Address p, p_Status := p_Status p\<rparr>)
      (if p_Hash p \<in> p_Hash ` set (pays (tabs w)) then pays (tabs w)
       else pays (tabs w) @ [p\<lparr>p_Id := next_id (tabs w)\<rparr>])"
    unfolding run by (simp add: pay)
qed

text \<open>After a payment has been recorded, recording it again finds nothing to do.\<close>

definition payment_recorded :: "string \<Rightarrow> string \<Rightarrow> db \<Rightarrow> bool" where
  "payment_recorded orderId hash t \<longleftrightarrow>
     orderId \<in> o_OrderId ` set (orders t)
     \<and> (\<forall>r \<in> set (orders t). o_OrderId r = orderId \<and> o_OrderType r = OrderTypeSelf \<longrightarrow>
          o_PayStatus r \<noteq> TxStatusDefault)
     \<and> hash \<in> p_Hash ` set (pays t)
     \<and> (\<forall>p \<in> set (pays t). p_Hash p = hash \<and> p_OrderId p = orderId \<longrightarrow>
          p_Status p \<noteq> OrderTxStatusDefault)"

lemma payment_recorded_stays:
  assumes "payment_recorded orderId hash t" and "db_evolves t t'" and "db_wf t'"
  shows "payment_recorded orderId hash t'"
proof -
  from assms(1) db_evolves_keys [OF assms(2)] have
    "orderId \<in> o_OrderId ` set (orders t')" "hash \<in> p_Hash ` set (pays t')"
    unfolding payment_recorded_def by blast+
  moreover have "o_PayStatus r \<noteq> TxStatusDefault"
    if "r \<in> set (orders t')" "o_OrderId r = orderId" "o_OrderType r = OrderTypeSelf" for r
    using order_later [OF assms(2,3) that(1)] that assms(1) by (auto simp: payment_recorded_def order_ev_def)
  moreover have "p_Status p \<noteq> OrderTxStatusDefault"
    if "p \<in> set (pays t')" "p_Hash p = hash" "p_OrderId p = orderId" for p
    using pay_later [OF assms(2,3) that(1)] that assms(1) by (auto simp: payment_recorded_def pay_ev_def)
  ultimately show ?thesis by (auto simp: payment_recorded_def)
qed

lemma DoPaymentConfirm_records:
  assumes "DoPaymentConfirm ct orderId hash addr alg w = (Inr (), w')"
    and "orderId \<in> o_OrderId ` set (orders (tabs w))"
  shows "payment_recorded orderId hash (tabs w')"
proof -
  from assms(1) obtain a w1 where
    up: "UpdatePayment (payment_row ct orderId hash addr alg a (now w1)) w1 = (Inr (), w')" (is "UpdatePayment ?p w1 = _")
    and t: "tabs w1 = tabs w"
    by (auto simp: DoPaymentConfirm_def ok_iffs GetOrderByOrderId_def dest!: queryM_okD)
  have p: "p_OrderId ?p = orderId" "p_Hash ?p = hash" "p_Status ?p = OrderTxStatusConfirm"
    by (simp_all add: payment_row_def)
  note run = UpdatePayment_run [OF up, unfolded p t]
  have "orderId \<in> o_OrderId ` set (orders (tabs w'))"
    using assms(2) unfolding run by (simp add: image_update_where)
  moreover have "o_PayStatus r \<noteq> TxStatusDefault"
    if "r \<in> set (orders (tabs w'))" "o_OrderId r = orderId" "o_OrderType r = OrderTypeSelf" for r
    using that(1) unfolding run by (rule update_whereE) (use that(2,3) in simp_all)
  moreover have "hash \<in> p_Hash ` set (pays (tabs w'))"
    unfolding run by (cases "hash \<in> p_Hash ` set (pays (tabs w))") (simp_all add: image_update_where payment_row_def)
  moreover have "p_Status q \<noteq> OrderTxStatusDefault"
    if "q \<in> set (pays (tabs w'))" "p_Hash q = hash" "p_OrderId q = orderId" for q
    using that(1) unfolding run by (rule update_whereE) (use that(2,3) in simp_all)
  ultimately show ?thesis unfolding payment_recorded_def by blast
qed

lemma UpdatePayment_again:
  assumes "payment_recorded (p_OrderId p) (p_Hash p) (tabs w)" and "healthy w"
  shows "UpdatePayment p w = (Inr (), w)"
proof -
  have 1: "update_orders
          (\<lambda>r. o_OrderId r = p_OrderId p \<and> o_OrderType r = OrderTypeSelf
               \<and> o_PayStatus r = TxStatusDefault)
          (\<lambda>r. r\<lparr>o_PayStatus := TxStatusSending, o_RegisterStatus := RegisterStatusApplyRegister\<rparr>) (tabs w) = tabs w"
    using assms(1) unfolding update_orders_def
    by (subst update_where_id) (auto simp: payment_recorded_def)
  have 2: "insert_ignore_pay p (tabs w) = tabs w"
    using assms(1) by (auto simp: insert_ignore_pay_def insert_pay_def payment_recorded_def)
  have 3: "update_pays
          (\<lambda>q. p_Hash q = p_Hash p \<and> p_OrderId q = p_OrderId p
               \<and> p_Status q = OrderTxStatusDefault)
          (\<lambda>q. q\<lparr>p_ChainType := p_ChainType p, p_Address := p_Address p,
                 p_Status := p_Status p\<rparr>) (tabs w) = tabs w"
    using assms(1) unfolding update_pays_def
    by (subst update_where_id) (auto simp: payment_recorded_def)
  show ?thesis
    using assms(2) by (simp add: UpdatePayment_def go_simps 1 2 3)
qed

text \<open>A payment is confirmed once: when its notice has been handled, whatever happens to the
  tables afterwards (any sequence of operations of the service), a further notice of the same
  payment, with any payer, succeeds and leaves the world as it is.\<close>

theorem late_notice_is_harmless:
  assumes "DoPaymentConfirm ct orderId hash addr alg w = (Inr (), w1)"
    and "orderId \<in> o_OrderId ` set (orders (tabs w))"
    and "db_evolves (tabs w1) (tabs w2)" and "db_wf (tabs w2)" and "healthy w2"
  shows "DoPaymentConfirm ct orderId hash addr' alg' w2 = (Inr (), w2)"
proof -
  have "payment_recorded orderId hash (tabs w2)"
    using DoPaymentConfirm_records [OF assms(1,2)] assms(3,4) by (rule payment_recorded_stays)
  then have "UpdatePayment (payment_row ct orderId hash addr' alg' a nw) w2 = (Inr (), w2)" for a nw
    using assms(5) by (intro UpdatePayment_again) (simp_all add: payment_row_def)
  then show ?thesis
    using assms(5) by (simp add: DoPaymentConfirm_def GetOrderByOrderId_def go_simps)
qed

theorem late_notice_is_harmless_witness:
  "let w = world_of one_order_db 0; w1 = snd (DoPaymentConfirm (\<lambda>_. 0) ''o'' ''p'' ''a'' 3 w) in
   p_Status (hd (pays (tabs w1))) = OrderTxStatusConfirm
   \<and> DoPaymentConfirm (\<lambda>_. 0) ''o'' ''p'' ''b'' 4 w1 = (Inr (), w1)"
proof -
  define w where "w = world_of one_order_db 0"
  define t where "t = one_order_db\<lparr>orders := [one_order\<lparr>o_PayStatus := TxStatusSending, o_RegisterStatus := RegisterStatusApplyRegister\<rparr>],
    pays := [(payment_row (\<lambda>_. 0) ''o'' ''p'' ''a'' 3 ''a'' 0)\<lparr>p_Id := 2\<rparr>], next_id := 3\<rparr>"
  have run: "DoPaymentConfirm (\<lambda>_. 0) ''o'' ''p'' ''a'' 3 w = (Inr (), w\<lparr>tabs := t\<rparr>)"
    by (simp add: w_def t_def DoPaymentConfirm_def GetOrderByOrderId_def UpdatePayment_def go_simps
        find_order_def first_or_def one_order_db_def empty_db_def one_order_def zero_order_def payment_row_def
        sql_updates insert_ignore_pay_def insert_pay_def)
  have "DoPaymentConfirm (\<lambda>_. 0) ''o'' ''p'' ''b'' 4 (w\<lparr>tabs := t\<rparr>) = (Inr (), w\<lparr>tabs := t\<rparr>)"
    by (rule late_notice_is_harmless [OF run])
      (simp_all add: w_def t_def db_evolves_refl db_wf_def keyed_def one_order_db_def empty_db_def one_order_def zero_order_def payment_row_def)
  with run show ?thesis
    by (simp add: w_def t_def payment_row_def Let_def)
qed

end
