(* ===== verification/Cache.thy ===== *)
theory Cache
  imports DaoWf
begin

text \<open>
  \<open>src/cache\<close>: locks, limits and cached values in Redis. A key holds a value and an expiry time
  (none when the expiration is 0). Each command takes one entry of the schedule of failing calls;
  a nil client is an error where the code tests for it and a panic where it does not. Times are
  milliseconds.
\<close>

section \<open>Redis\<close>

type_synonym store = "string \<Rightarrow> (string \<times> int option) option"

definition live :: "int \<Rightarrow> store \<Rightarrow> string \<Rightarrow> string option" where
  "live nw s key =
     (case s key of
        None \<Rightarrow> None
      | Some (v, ex) \<Rightarrow> (case ex of None \<Rightarrow> Some v | Some e \<Rightarrow> if nw < e then Some v else None))"

definition deadline :: "int \<Rightarrow> int \<Rightarrow> int option" where
  "deadline nw expiration = (if expiration = 0 then None else Some (nw + expiration))"

text \<open>\<open>SET key v EX\<close>, \<open>SET key v NX EX\<close> (with the flag it answers) and \<open>DEL\<close> on the store.\<close>

definition redis_set :: "string \<Rightarrow> string \<Rightarrow> int \<Rightarrow> int \<Rightarrow> store \<Rightarrow> store" where
  "redis_set key v expiration nw s = s(key \<mapsto> (v, deadline nw expiration))"

definition redis_setnx :: "string \<Rightarrow> string \<Rightarrow> int \<Rightarrow> int \<Rightarrow> store \<Rightarrow> bool \<times> store" where
  "redis_setnx key v expiration nw s =
     (if live nw s key = None then (True, redis_set key v expiration nw s) else (False, s))"

definition redis_del :: "string \<Rightarrow> store \<Rightarrow> store" where
  "redis_del key s = s(key := None)"

text \<open>One command on a client that must not be nil.\<close>

definition redisM :: "(int \<Rightarrow> store \<Rightarrow> 'a \<times> store) \<Rightarrow> ('t, 'a) act" where
  "redisM f w =
     (case redis w of
        None \<Rightarrow> (Inl GoPanic, w)
      | Some s \<Rightarrow>
          let (b, w1) = next_fault w in
          if b then (Inl Fault, w1)
          else let (x, s') = f (now w) s in (Inr x, w1\<lparr>redis := Some s'\<rparr>))"

lemma redisM_healthy [go_simps]:
  "healthy w \<Longrightarrow> redis w = Some s \<Longrightarrow>
   redisM f w = (Inr (fst (f (now w) s)), w\<lparr>redis := Some (snd (f (now w) s))\<rparr>)"
  by (simp add: redisM_def split: prod.splits)

text \<open>\<open>if r.red == nil\<close>.\<close>

definition if_nil :: "('t, 'a) act \<Rightarrow> ('t, 'a) act \<Rightarrow> ('t, 'a) act" where
  "if_nil m n w = (if redis w = None then m w else n w)"

section \<open>Keys\<close>

text \<open>\<open>strings.ToLower\<close> on ASCII letters; other bytes are left alone.\<close>

definition lower :: "char \<Rightarrow> char" where
  "lower c = (let n = of_char c :: nat in if 65 \<le> n \<and> n \<le> 90 then char_of (n + 32) else c)"

definition ToLower :: "string \<Rightarrow> string" where
  "ToLower s = map lower s"

definition getApiLimitKey :: "int \<Rightarrow> string \<Rightarrow> string \<Rightarrow> string" where
  "getApiLimitKey chainType address action =
     ToLower (''api:limit:'' @ action @ '':'' @ show_int chainType @ '':'' @ address)"

definition getAccountLimitKey :: "string \<Rightarrow> string" where
  "getAccountLimitKey account = ToLower (''limit:'' @ account)"

definition getRegisterLimitKey :: "int \<Rightarrow> string \<Rightarrow> string \<Rightarrow> string \<Rightarrow> string" where
  "getRegisterLimitKey chainType address account action =
     ToLower (''register:limit:'' @ account @ '':'' @ show_int chainType @ '':'' @ address @ '':'' @ action)"

definition getRegisterLimitLockWithRedisKey :: "int \<Rightarrow> string \<Rightarrow> string \<Rightarrow> string \<Rightarrow> string" where
  "getRegisterLimitLockWithRedisKey chainType address action account =
     ToLower (''register:lock:'' @ account @ '':'' @ action @ '':'' @ show_int chainType @ '':'' @ address)"

definition getSearchLimitKey :: "int \<Rightarrow> string \<Rightarrow> string \<Rightarrow> string" where
  "getSearchLimitKey chainType address action =
     ToLower (''search:limit:'' @ action @ '':'' @ show_int chainType @ '':'' @ address)"

definition getSignTxCacheKey :: "string \<Rightarrow> string" where
  "getSignTxCacheKey key = ''sign:tx:'' @ key"

definition couponKey :: "string \<Rightarrow> string" where
  "couponKey coupon = ''register:coupon:'' @ coupon"

section \<open>Limits and cached values\<close>

definition minutes :: "int \<Rightarrow> int" where
  "minutes n = n * 60 * 1000"

definition set_checked :: "string \<Rightarrow> string \<Rightarrow> int \<Rightarrow> unit dao" where
  "set_checked key v expiration =
     if_nil (errM (Errf ''redis is nil''))
       (redisM (\<lambda>nw s. ((), redis_set key v expiration nw s)))"

text \<open>The error of \<open>EXISTS\<close> is dropped: the answer is then 0.\<close>

definition exists_checked :: "string \<Rightarrow> bool dao" where
  "exists_checked key =
     if_nil (okM False)
       (catchM (redisM (\<lambda>nw s. (live nw s key \<noteq> None, s))) (\<lambda>_. okM False))"

text \<open>\<open>GET\<close> on a missing key is the error \<open>redis.Nil\<close>.\<close>

definition get_checked :: "string \<Rightarrow> string dao" where
  "get_checked key =
     if_nil (errM (Errf ''redis is nil''))
       (bindM (redisM (\<lambda>nw s. (live nw s key, s)))
          (\<lambda>r. case r of None \<Rightarrow> errM (Errf ''redis: nil'') | Some v \<Rightarrow> okM v))"

definition SetApiLimit :: "int \<Rightarrow> string \<Rightarrow> string \<Rightarrow> unit dao" where
  "SetApiLimit chainType address action =
     set_checked (getApiLimitKey chainType address action) ''1'' (minutes 3)"

definition ApiLimitExist :: "int \<Rightarrow> string \<Rightarrow> string \<Rightarrow> bool dao" where
  "ApiLimitExist chainType address action = exists_checked (getApiLimitKey chainType address action)"

definition SetAccountLimit :: "string \<Rightarrow> int \<Rightarrow> unit dao" where
  "SetAccountLimit account expiration = set_checked (getAccountLimitKey account) ''1'' expiration"

definition AccountLimitExist :: "string \<Rightarrow> bool dao" where
  "AccountLimitExist account = exists_checked (getAccountLimitKey account)"

definition SetRegisterLimit :: "int \<Rightarrow> string \<Rightarrow> string \<Rightarrow> string \<Rightarrow> int \<Rightarrow> unit dao" where
  "SetRegisterLimit chainType address account action expiration =
     set_checked (getRegisterLimitKey chainType address account action) ''1'' expiration"

definition RegisterLimitExist :: "int \<Rightarrow> string \<Rightarrow> string \<Rightarrow> string \<Rightarrow> bool dao" where
  "RegisterLimitExist chainType address account action =
     exists_checked (getRegisterLimitKey chainType address account action)"

definition SetSignTxCache :: "string \<Rightarrow> string \<Rightarrow> unit dao" where
  "SetSignTxCache key txStr = set_checked (getSignTxCacheKey key) txStr (minutes 10)"

definition GetSignTxCache :: "string \<Rightarrow> string dao" where
  "GetSignTxCache key = get_checked (getSignTxCacheKey key)"

definition SetCache :: "string \<Rightarrow> string \<Rightarrow> int \<Rightarrow> unit dao" where
  "SetCache key value expiration = set_checked key value expiration"

definition GetCache :: "string \<Rightarrow> string dao" where
  "GetCache key = get_checked key"

section \<open>Locks\<close>

definition ErrDistributedLockPreemption :: gerr where
  "ErrDistributedLockPreemption = Errf ''distributed lock preemption''"

definition GetCouponLockWithRedis :: "string \<Rightarrow> int \<Rightarrow> unit dao" where
  "GetCouponLockWithRedis coupon expiration =
     bindM (wrapM ''get coupon lock: redis set nx'' (redisM (redis_setnx (couponKey coupon) '''' expiration)))
       (\<lambda>ok. if ok then okM () else errM (Errf ''get coupon lock error''))"

definition DeleteCouponLockWithRedis :: "string \<Rightarrow> unit dao" where
  "DeleteCouponLockWithRedis coupon = redisM (\<lambda>nw s. ((), redis_del (couponKey coupon) s))"

definition RegisterLimitLockWithRedis :: "int \<Rightarrow> string \<Rightarrow> string \<Rightarrow> string \<Rightarrow> int \<Rightarrow> unit dao" where
  "RegisterLimitLockWithRedis chainType address action account expiration =
     bindM (wrapM ''redis set nx'' (redisM (redis_setnx
              (getRegisterLimitLockWithRedisKey chainType address action account) '''' expiration)))
       (\<lambda>ok. if ok then okM () else errM ErrDistributedLockPreemption)"

definition LockWithRedis :: "int \<Rightarrow> string \<Rightarrow> string \<Rightarrow> int \<Rightarrow> unit dao" where
  "LockWithRedis chainType address action expiration =
     bindM (wrapM ''redis set order nx'' (redisM (redis_setnx
              (getSearchLimitKey chainType address action) '''' expiration)))
       (\<lambda>ok. if ok then okM () else errM ErrDistributedLockPreemption)"

section \<open>The contract of a lock\<close>

text \<open>
  What the handlers rely on: taking a free lock holds it up to its deadline, a held lock is
  refused and left alone, other locks are not touched, releasing frees.
\<close>

locale lock_service =
  fixes take :: "'k \<Rightarrow> int \<Rightarrow> int \<Rightarrow> 's \<Rightarrow> bool \<times> 's"
    and release :: "'k \<Rightarrow> 's \<Rightarrow> 's"
    and held :: "int \<Rightarrow> 's \<Rightarrow> 'k \<Rightarrow> bool"
  assumes take_free: "\<not> held nw s k \<Longrightarrow> 0 < d \<Longrightarrow>
      fst (take k d nw s) \<and> held t (snd (take k d nw s)) k = (t < nw + d)"
    and take_held: "held nw s k \<Longrightarrow> take k d nw s = (False, s)"
    and take_other: "k \<noteq> k' \<Longrightarrow> held t (snd (take k d nw s)) k' = held t s k'"
    and release_frees: "\<not> held t (release k s) k"
    and release_other: "k \<noteq> k' \<Longrightarrow> held t (release k s) k' = held t s k'"
begin

text \<open>A sequence of attempts by time, with the flags answered.\<close>

fun attempts :: "('k \<times> int) list \<Rightarrow> int \<Rightarrow> 's \<Rightarrow> bool list \<times> 's" where
  "attempts [] d s = ([], s)"
| "attempts ((k, nw) # rest) d s =
     (let (b, s1) = take k d nw s; (bs, s2) = attempts rest d s1 in (b # bs, s2))"

lemma refused_while_held:
  assumes "held t s k" and "\<forall>x \<in> set xs. snd x < u" and "\<And>v. v < u \<Longrightarrow> held v s k"
  shows "\<forall>i < length xs. fst (xs ! i) = k \<longrightarrow> \<not> fst (attempts xs d s) ! i"
  using assms(2,3)
proof (induction xs arbitrary: s)
  case Nil
  then show ?case by simp
next
  case (Cons x xs)
  obtain k' nw where x: "x = (k', nw)" by fastforce
  obtain b s1 where t: "take k' d nw s = (b, s1)" by fastforce
  have nw: "nw < u" using Cons.prems(1) x by simp
  have kept: "held v s1 k" if "v < u" for v
  proof (cases "k' = k")
    case True
    with take_held [of nw s k d] Cons.prems(2) [OF nw] t have "s1 = s" by simp
    with Cons.prems(2) [OF that] show ?thesis by simp
  next
    case False
    with take_other [of k' k v d nw s] t Cons.prems(2) [OF that] show ?thesis by simp
  qed
  have refused: "k' = k \<Longrightarrow> \<not> b"
    using take_held [of nw s k d] Cons.prems(2) [OF nw] t by auto
  have "\<forall>i < length xs. fst (xs ! i) = k \<longrightarrow> \<not> fst (attempts xs d s1) ! i"
    using Cons.prems(1) kept by (intro Cons.IH) auto
  then show ?case
    using refused by (auto simp: x t nth_Cons less_Suc_eq_0_disj split: prod.split nat.split)
qed

lemma exclusive:
  assumes "\<not> held nw s k" and "0 < d" and "\<forall>x \<in> set xs. snd x < nw + d"
  shows "fst (attempts ((k, nw) # xs) d s) ! 0"
    and "\<forall>i < length xs. fst (xs ! i) = k \<longrightarrow> \<not> fst (attempts ((k, nw) # xs) d s) ! Suc i"
proof -
  obtain b s1 where t: "take k d nw s = (b, s1)" by fastforce
  have b: "b" and h: "\<And>v. held v s1 k = (v < nw + d)"
    using take_free [OF assms(1,2)] t by auto
  have "held nw s1 k" using h assms(2) by simp
  from refused_while_held [OF this assms(3)] h
  have "\<forall>i < length xs. fst (xs ! i) = k \<longrightarrow> \<not> fst (attempts xs d s1) ! i" by blast
  with b t show "fst (attempts ((k, nw) # xs) d s) ! 0"
    "\<forall>i < length xs. fst (xs ! i) = k \<longrightarrow> \<not> fst (attempts ((k, nw) # xs) d s) ! Suc i"
    by (auto split: prod.split)
qed

end

definition held_lock :: "int \<Rightarrow> store \<Rightarrow> string \<Rightarrow> bool" where
  "held_lock nw s key \<longleftrightarrow> live nw s key \<noteq> None"

interpretation redis_lock: lock_service "\<lambda>key. redis_setnx key ''''" redis_del held_lock
  by unfold_locales
    (auto simp: held_lock_def redis_setnx_def redis_set_def redis_del_def live_def deadline_def
      split: option.splits)

section \<open>What the commands keep\<close>

lemma redisM_tabs: "tabs (snd (redisM f w)) = tabs w" "snap (snd (redisM f w)) = snap w"
  by (auto simp: redisM_def Let_def split: option.split prod.split dest: next_fault_cases)

context db_relation
begin

lemma redis_commands: "upholds R (redisM f)"
  by (rule redisM) (rule redisM_tabs)+

lemma if_nil: "upholds R m \<Longrightarrow> upholds R n \<Longrightarrow> upholds R (if_nil m n)"
  by (auto simp: upholds_def if_nil_def)

end

end
