(* ===== verification/TxTool.thy ===== *)
theory TxTool
  imports BlockActions Cache "HOL-Library.Signed_Division" "HOL-Library.Sublist"
begin

text \<open>
  \<open>src/txtool\<close>: the service builds and sends the apply, pre-register and renew transactions of
  paid orders, and sends the did-cell transactions users have signed. What das-lib, the CKB SDK and
  the node answer is the record \<open>txlib\<close>; a transaction is its inputs, outputs, output data, witnesses
  and cell deps, with scripts, cells and witnesses as opaque strings and capacities as \<open>uint64\<close>.
\<close>

section \<open>Transactions and the library\<close>

record out_cell =
  oc_Capacity :: "64 word"
  oc_Lock :: string
  oc_Type :: "string option"

record tx_params =
  tp_HeadDeps :: "string list"
  tp_Inputs :: "(string \<times> 64 word) list"
  tp_Outputs :: "out_cell list"
  tp_OutputsData :: "string list"
  tp_Witnesses :: "string list"
  tp_CellDeps :: "string list"

definition no_params :: tx_params where
  "no_params = \<lparr>tp_HeadDeps = [], tp_Inputs = [], tp_Outputs = [], tp_OutputsData = [],
     tp_Witnesses = [], tp_CellDeps = []\<rparr>"

datatype AccountCharType =
    AccountCharTypeEmoji | AccountCharTypeDigit | AccountCharTypeEn | AccountCharTypeJa
  | AccountCharTypeVi | AccountCharTypeRu | AccountCharTypeTr | AccountCharTypeKo
  | AccountCharTypeTh

datatype ConfigArgs =
    ConfigCellTypeArgsApply | ConfigCellTypeArgsAccount | ConfigCellTypeArgsRelease
  | ConfigCellTypeArgsUnavailable | ConfigCellTypeArgsPrice | ConfigCellTypeArgsIncome
  | ConfigCellTypeArgsRecordNamespace | ConfigCellTypeArgsCharSet AccountCharType
  | ConfigCellTypeArgsPreservedAccount nat | ConfigCellTypeArgsSubAccount

record price_builder =
  PriceInvitedDiscount :: "gerr + 32 word"
  PriceConfig :: "8 word \<Rightarrow> bool"
  AccountPrice :: "8 word \<Rightarrow> 64 word \<times> 64 word"
  BasicCapacityFromOwner :: "string \<Rightarrow> 64 word"
  PreparedFeeCapacity :: "64 word"

record pre_param =
  pp_InvitedDiscount :: "32 word"
  pp_Quote :: "64 word"
  pp_InviterScript :: "string option"
  pp_ChannelScript :: "string option"
  pp_InviterId :: "string option"
  pp_OwnerLockArgs :: string
  pp_RefundLock :: string
  pp_AccountChars :: "account_char_set list"
  pp_InitialRecords :: "(string \<times> string) list"
  pp_CrossCoinType :: "string option"
  pp_CreatedAt :: int

record acc_cell =
  ac_ExpiredAt :: "64 word"
  ac_CharsLen :: nat
  ac_Index :: nat

text \<open>
  \<open>BalanceCells need keep\<close> is \<open>GetBalanceCellWithLock\<close>: the change and the live cells with their
  capacities; \<open>SplitCells change size asc\<close> is \<open>SplitOutputCell2\<close>; \<open>GetTx\<close> gives the block hash
  (nil while pending) and the outputs; \<open>ChainEth\<close>, \<open>ChainTron\<close>, \<open>CoinEth\<close>, \<open>CoinTrx\<close>,
  \<open>OneCkb\<close> and so on are constants of das-lib; \<open>SplitCkb\<close>, \<open>TxTeeRate\<close> and
  \<open>PayServerScript\<close> (the parsed address, if it is set and valid) come from the configuration.
\<close>

record txlib =
  OneCkb :: "64 word"
  PercentRateBase :: nat
  YearSec :: "64 word"
  MinCellOccupiedCkb :: "64 word"
  DasAccountSuffix :: string
  ChainEth :: int
  ChainTron :: int
  CoinEth :: string
  CoinTrx :: string
  ServerScript :: string
  ServerArgs :: string
  DasLock :: string
  SplitCkb :: "64 word"
  TxTeeRate :: "64 word"
  PayServerScript :: "string option"
  Contract :: "ContractName \<Rightarrow> gerr + (string \<times> string)"
  ConfigCell :: "ConfigArgs \<Rightarrow> gerr + string"
  GetHeightCell :: "gerr + string"
  GetTimeCell :: "gerr + (string \<times> int)"
  GetQuoteCell :: "gerr + (string \<times> 64 word)"
  Blake256 :: "string \<Rightarrow> string"
  Blake160Byte :: "string \<Rightarrow> gerr + nat"
  OccupiedCapacity :: "out_cell \<Rightarrow> string \<Rightarrow> 64 word"
  BalanceCells :: "64 word \<Rightarrow> 64 word \<Rightarrow> gerr + (64 word \<times> (string \<times> 64 word) list)"
  SplitCells :: "64 word \<Rightarrow> 64 word \<Rightarrow> bool \<Rightarrow> gerr + out_cell list"
  ActionWitness :: "DasAction \<Rightarrow> gerr + string"
  PreWitness :: "pre_param \<Rightarrow> gerr + (string \<times> string)"
  AccWitness :: "string \<Rightarrow> string \<times> string"
  ExpireData :: "string \<Rightarrow> string \<Rightarrow> 64 word \<Rightarrow> string"
  IncomeWitness :: "bool \<Rightarrow> string list \<Rightarrow> 64 word list \<Rightarrow> string \<times> string"
  PriceBuilder :: "gerr + price_builder"
  IncomeBuilder :: "gerr + (gerr + 64 word)"
  ApplyMinWaiting :: "gerr + (gerr + 32 word)"
  LiveCellStatus :: "string \<Rightarrow> gerr + string"
  TipBlockNumber :: "gerr + 64 word"
  GetTx :: "string \<Rightarrow> gerr + (string option \<times> out_cell list)"
  AccCells :: "string \<Rightarrow> gerr + (string \<Rightarrow> acc_cell option)"
  BlockNumberOf :: "string \<Rightarrow> gerr + 64 word"
  SinceBlocks :: "64 word \<Rightarrow> 64 word"
  HexToScript :: "int \<Rightarrow> string \<Rightarrow> gerr + (string \<times> string)"
  DidScript :: "string \<Rightarrow> string \<Rightarrow> string"
  AccountId :: "string \<Rightarrow> string"
  AccountCharTypes :: "account_char_set list \<Rightarrow> AccountCharType list"
  FormatAddressByCoinType :: "string \<Rightarrow> string \<Rightarrow> gerr + string"
  TxHashOf :: "string \<Rightarrow> string"
  BuildTransaction :: "tx_params \<Rightarrow> gerr + tx_params"
  SizeInBlock :: "tx_params \<Rightarrow> 64 word"
  SendTransaction :: "tx_params \<Rightarrow> gerr + string"
  DecodeTx :: "string \<Rightarrow> gerr + tx_params"
  OrderTxActionOf :: "DasAction \<Rightarrow> OrderTxAction"

section \<open>Shared steps\<close>

definition IsRebootTxOK :: "int \<Rightarrow> int \<Rightarrow> bool" where
  "IsRebootTxOK rebootTime nw \<longleftrightarrow> 60 * 1000 < nw - rebootTime"

text \<open>The change is split into cells of the configured size, 2000 CKB by default.\<close>

definition split_change :: "txlib \<Rightarrow> 64 word \<Rightarrow> bool \<Rightarrow> gerr + out_cell list" where
  "split_change L change asc =
     (if 0 < change
      then wrapR ''SplitOutputCell2'' (SplitCells L change
             (if 0 < SplitCkb L then SplitCkb L * OneCkb L else 2000 * OneCkb L) asc)
      else Inr [])"

definition add_change :: "out_cell list \<Rightarrow> tx_params \<Rightarrow> tx_params" where
  "add_change changeList p =
     p\<lparr>tp_Outputs := tp_Outputs p @ changeList,
       tp_OutputsData := tp_OutputsData p @ map (\<lambda>_. '''') changeList\<rparr>"

definition add_inputs :: "(string \<times> 64 word) list \<Rightarrow> tx_params \<Rightarrow> tx_params" where
  "add_inputs liveCell p = p\<lparr>tp_Inputs := tp_Inputs p @ map (\<lambda>v. (fst v, 0)) liveCell\<rparr>"

text \<open>
  The fee is taken from the last output when \<open>charged\<close> of size and fee holds; indexing the last
  output of none panics.
\<close>

definition charge_fee :: "txlib \<Rightarrow> (64 word \<Rightarrow> 64 word \<Rightarrow> bool) \<Rightarrow> tx_params \<Rightarrow> gerr + tx_params" where
  "charge_fee L charged tx =
     (let sizeInBlock = SizeInBlock L tx;
          txFeeRate = (if TxTeeRate L = 0 then 1 else TxTeeRate L);
          txFee = txFeeRate * sizeInBlock in
      case rev (tp_Outputs tx) of
        [] \<Rightarrow> Inl GoPanic
      | c # cs \<Rightarrow> Inr (if charged sizeInBlock txFee
          then tx\<lparr>tp_Outputs := rev (c\<lparr>oc_Capacity := oc_Capacity c - txFee\<rparr> # cs)\<rparr> else tx))"

text \<open>The node accepted the transaction: note its inputs and record it for the order.\<close>

definition sent_tx :: "string \<Rightarrow> OrderTxAction \<Rightarrow> string \<Rightarrow> unit dao" where
  "sent_tx orderId action hash =
     thenM (emitM AddCellInputs)
       (bindM clockM (\<lambda>nw.
          catchM (CreateOrderTx \<lparr>x_Id = 0, x_OrderId = orderId, x_Hash = hash, x_Action = action,
                    x_Status = OrderTxStatusDefault, x_Timestamp = nw\<rparr>)
            (\<lambda>_. emitM (LarkErr ''CreateOrderTx''))))"

text \<open>\<open>txBuilder.SendTransaction()\<close>, with what the outside world sees of it.\<close>

definition sendM :: "txlib \<Rightarrow> string \<Rightarrow> tx_params \<Rightarrow> string dao" where
  "sendM L orderId tx =
     (case SendTransaction L tx of
        Inl e \<Rightarrow> thenM (emitM (SendTxFailed orderId)) (errM e)
      | Inr hash \<Rightarrow> thenM (emitM (SendTx orderId hash)) (okM hash))"

text \<open>Mark the order, send, restore the mark when the node refuses, record the hash otherwise.\<close>

definition send_paid :: "txlib \<Rightarrow> order_row \<Rightarrow> OrderTxAction \<Rightarrow> tx_params \<Rightarrow> unit dao" where
  "send_paid L ord action tx =
     thenM (wrapM ''UpdatePayStatus'' (UpdatePayStatus (o_OrderId ord) TxStatusSending TxStatusOk))
       (bindM (tryM (sendM L (o_OrderId ord) tx)) (\<lambda>res.
          case res of
            Inl e \<Rightarrow>
              thenM (catchM (UpdatePayStatus (o_OrderId ord) TxStatusOk TxStatusSending)
                       (\<lambda>_. emitM (LarkErr ''UpdatePayStatus'')))
                (errM (In ''SendTransaction'' e))
          | Inr hash \<Rightarrow> sent_tx (o_OrderId ord) action hash))"

text \<open>An order of the account that is already pre-registered, in the last 30 days.\<close>

definition taken_before :: "order_row \<Rightarrow> int \<Rightarrow> bool" where
  "taken_before preOrder nw \<longleftrightarrow>
     0 < o_Id preOrder \<and> nw div 1000 < o_Timestamp preOrder sdiv 1000 + 2592000"

section \<open>apply.go\<close>

definition apply_output :: "txlib \<Rightarrow> string \<Rightarrow> string \<Rightarrow> out_cell" where
  "apply_output L script applyData =
     (let c = \<lparr>oc_Capacity = 0, oc_Lock = ServerScript L, oc_Type = Some script\<rparr>
      in c\<lparr>oc_Capacity := OccupiedCapacity L c applyData * OneCkb L\<rparr>)"

definition buildOrderApplyTx :: "txlib \<Rightarrow> order_row \<Rightarrow> gerr + tx_params" where
  "buildOrderApplyTx L ord =
     bindR (wrapR ''GetHeightCell'' (GetHeightCell L)) (\<lambda>heightCell.
     bindR (wrapR ''GetTimeCell'' (GetTimeCell L)) (\<lambda>(timeCell, _).
     bindR (wrapR ''GetDasContractInfo'' (Contract L DasContractNameApplyRegisterCellType)) (\<lambda>(applyScript, applyDep).
     let applyData = Blake256 L (ServerArgs L @ o_Account ord);
         applyOutputs = apply_output L applyScript applyData;
         feeCapacity = 10000;
         needCapacity = feeCapacity + oc_Capacity applyOutputs in
     bindR (wrapR ''GetBalanceCellWithLock'' (BalanceCells L needCapacity 0)) (\<lambda>(change, liveCell).
     bindR (split_change L change False) (\<lambda>changeList.
     bindR (wrapR ''GenActionDataWitness'' (ActionWitness L DasActionApplyRegister)) (\<lambda>actionWitness.
     Inr (add_inputs liveCell (add_change changeList
       (no_params\<lparr>tp_Outputs := [applyOutputs], tp_OutputsData := [applyData],
                  tp_Witnesses := [actionWitness], tp_CellDeps := [applyDep, heightCell, timeCell]\<rparr>)))))))))"

definition DoOrderApplyTx :: "txlib \<Rightarrow> order_row \<Rightarrow> unit dao" where
  "DoOrderApplyTx L ord =
     (if o_Id ord = 0 then errM (Errf ''order is nil'')
      else bindM (wrapM ''buildOrderApplyTx'' (liftM (buildOrderApplyTx L ord))) (\<lambda>txParams.
      bindM (wrapM ''BuildTransaction'' (liftM (BuildTransaction L txParams))) (\<lambda>built.
      bindM (liftM (charge_fee L (\<lambda>sizeInBlock txFee. 10000 < txFee) built)) (\<lambda>tx.
      bindM (wrapM ''GetPreRegisteredOrderByAccountId''
               (GetPreRegisteredOrderByAccountId (o_AccountId ord))) (\<lambda>preOrder.
      bindM clockM (\<lambda>nw.
        if taken_before preOrder nw
        then wrapM ''UpdateOrderToRefund'' (UpdateOrderToRefund (o_OrderId ord))
        else send_paid L ord TxActionApplyRegister tx))))))"

text \<open>The library may answer differently for each order: \<open>Ls\<close>.\<close>

definition doOrderApplyTx :: "int \<Rightarrow> (order_row \<Rightarrow> txlib) \<Rightarrow> unit dao" where
  "doOrderApplyTx rebootTime Ls =
     bindM clockM (\<lambda>nw.
       if \<not> IsRebootTxOK rebootTime nw then okM ()
       else bindM (wrapM ''GetNeedSendPayOrderList'' (GetNeedSendPayOrderList DasActionApplyRegister)) (\<lambda>list.
         forM list (\<lambda>v. wrapM ''DoOrderApplyTx'' (DoOrderApplyTx (Ls v) v))))"

section \<open>pre\_register.go\<close>

text \<open>\<open>err.Error()\<close> and \<open>strings.Contains\<close>.\<close>

fun err_text :: "gerr \<Rightarrow> string" where
  "err_text (Errf s) = s"
| "err_text (In s e) = s @ '' err: '' @ err_text e"
| "err_text Fault = ''bad connection''"
| "err_text DuplicateKey = ''Duplicate entry''"
| "err_text EmptySlice = ''empty slice found''"
| "err_text RecordNotFound = ''record not found''"
| "err_text BadStatement = ''You have an error in your SQL syntax''"
| "err_text MissingWhere = ''WHERE conditions required''"
| "err_text GoPanic = ''panic''"
| "err_text (Api _) = ''api''"

definition contains :: "gerr \<Rightarrow> string \<Rightarrow> bool" where
  "contains e sub = sublist sub (err_text e)"

text \<open>\<open>uint128\<close>: products and differences outside the range and a zero divisor panic.\<close>

definition u128_mul :: "nat \<Rightarrow> nat \<Rightarrow> gerr + nat" where
  "u128_mul a b = (if a * b < 2 ^ 128 then Inr (a * b) else Inl GoPanic)"

definition u128_sub :: "nat \<Rightarrow> nat \<Rightarrow> gerr + nat" where
  "u128_sub a b = (if b \<le> a then Inr (a - b) else Inl GoPanic)"

definition u128_div :: "nat \<Rightarrow> nat \<Rightarrow> gerr + nat" where
  "u128_div a b = (if b = 0 then Inl GoPanic else Inr (a div b))"

text \<open>The price in shannon: dollars at the quote, less the invited discount, times the years.\<close>

definition pre_price :: "txlib \<Rightarrow> 64 word \<Rightarrow> 64 word \<Rightarrow> 32 word \<Rightarrow> int \<Rightarrow> gerr + nat" where
  "pre_price L newPrice quote invitedDiscount registerYears =
     bindR (u128_mul (unat newPrice) (unat (OneCkb L))) (\<lambda>m.
     bindR (u128_div m (unat quote)) (\<lambda>priceCapacity.
     bindR (u128_mul priceCapacity (unat invitedDiscount)) (\<lambda>d.
     bindR (u128_div d (PercentRateBase L)) (\<lambda>totalDiscount.
     bindR (u128_sub priceCapacity totalDiscount) (\<lambda>discounted.
       u128_mul discounted (unat (of_int registerYears :: 64 word)))))))"

text \<open>\<open>uint8(len(chars))\<close>, less the four of \<open>.bit\<close>.\<close>

definition account_length :: "account_char_set list \<Rightarrow> 8 word" where
  "account_length chars = (let n = of_nat (length chars) in if EndWithDotBitChar chars then n - 4 else n)"

definition default_coin_type :: "txlib \<Rightarrow> order_row \<Rightarrow> string" where
  "default_coin_type L ord =
     (if o_CoinType ord \<noteq> '''' then o_CoinType ord
      else if o_ChainType ord = ChainEth L then CoinEth L
      else if o_ChainType ord = ChainTron L then CoinTrx L
      else '''')"

definition initial_records :: "txlib \<Rightarrow> order_row \<Rightarrow> (string \<times> string) list" where
  "initial_records L ord =
     (let coinType = default_coin_type L ord in
      if coinType = CoinEth L \<or> coinType = CoinTrx L
      then (case FormatAddressByCoinType L coinType (o_Address ord) of
              Inr addr \<Rightarrow> [(coinType, addr)] | Inl _ \<Rightarrow> [])
      else [])"

fun mapR :: "('a \<Rightarrow> gerr + 'b) \<Rightarrow> 'a list \<Rightarrow> gerr + 'b list" where
  "mapR f [] = Inr []"
| "mapR f (x # xs) = bindR (f x) (\<lambda>y. bindR (mapR f xs) (\<lambda>ys. Inr (y # ys)))"

record pre_tx_params =
  pr_Order :: order_row
  pr_ApplyCellHash :: string
  pr_InviterId :: "string option"
  pr_InviterScript :: "string option"
  pr_ChannelScript :: "string option"
  pr_OwnerLockArgs :: string
  pr_ApplyMinWaiting :: "64 word"

definition TrimSuffix :: "string \<Rightarrow> string \<Rightarrow> string" where
  "TrimSuffix s suf =
     (if length suf \<le> length s \<and> drop (length s - length suf) s = suf
      then take (length s - length suf) s else s)"

text \<open>The outpoint of the account cell just before the new account id.\<close>

definition getPreTxBetweenAccountCell :: "string \<Rightarrow> string dao" where
  "getPreTxBetweenAccountCell accountId =
     bindM (wrapM ''GetPreAccount'' (GetPreAccount accountId)) (\<lambda>accPre.
       if a_Outpoint accPre \<noteq> '''' then okM (a_Outpoint accPre)
       else errM (Errf ''not exist pre account-cell''))"

definition pre_configs :: "ConfigArgs list" where
  "pre_configs = [ConfigCellTypeArgsApply, ConfigCellTypeArgsAccount, ConfigCellTypeArgsRelease,
     ConfigCellTypeArgsUnavailable, ConfigCellTypeArgsPrice,
     ConfigCellTypeArgsCharSet AccountCharTypeEmoji, ConfigCellTypeArgsCharSet AccountCharTypeDigit,
     ConfigCellTypeArgsCharSet AccountCharTypeEn, ConfigCellTypeArgsCharSet AccountCharTypeJa,
     ConfigCellTypeArgsCharSet AccountCharTypeVi, ConfigCellTypeArgsCharSet AccountCharTypeRu,
     ConfigCellTypeArgsCharSet AccountCharTypeTr, ConfigCellTypeArgsCharSet AccountCharTypeKo,
     ConfigCellTypeArgsCharSet AccountCharTypeTh, ConfigCellTypeArgsRecordNamespace]"

text \<open>
  The config and contract cells: all are looked up (and must be found), those of the character sets
  in use are added, then the preserved-account cell chosen by the hash of the name.
\<close>

definition pre_cell_deps :: "txlib \<Rightarrow> order_row \<Rightarrow> string \<Rightarrow> string \<Rightarrow> string \<Rightarrow> string \<Rightarrow> gerr + string list" where
  "pre_cell_deps L ord alwaysDep preDep timeDep quoteDep =
     bindR (wrapR ''GetDasContractInfo'' (Contract L DasContractNameApplyRegisterCellType)) (\<lambda>(_, applyDep).
     bindR (mapR (\<lambda>c. wrapR ''GetDasConfigCellInfo'' (ConfigCell L c)) pre_configs) (\<lambda>deps.
     bindR (wrapR ''blake2b.Blake160''
              (Blake160Byte L (TrimSuffix (o_Account ord) (DasAccountSuffix L)))) (\<lambda>b.
     bindR (wrapR ''GetDasConfigCellInfo''
              (ConfigCell L (ConfigCellTypeArgsPreservedAccount (b mod 20)))) (\<lambda>preserved.
     let dep = (\<lambda>c. case map_of (zip pre_configs deps) c of None \<Rightarrow> '''' | Some d \<Rightarrow> d) in
     Inr ([alwaysDep, applyDep, preDep, timeDep, quoteDep, dep ConfigCellTypeArgsPrice,
           dep ConfigCellTypeArgsApply, dep ConfigCellTypeArgsAccount, dep ConfigCellTypeArgsRelease,
           dep ConfigCellTypeArgsUnavailable, preserved, dep ConfigCellTypeArgsRecordNamespace]
          @ map (\<lambda>k. dep (ConfigCellTypeArgsCharSet k))
              (AccountCharTypes L (AccountCharStr (GetContent ord))))))))"

definition pre_capacity :: "txlib \<Rightarrow> price_builder \<Rightarrow> order_row \<Rightarrow> string \<Rightarrow> nat \<Rightarrow> 64 word" where
  "pre_capacity L pb ord ownerLockArgs priceCapacity =
     BasicCapacityFromOwner pb ownerLockArgs + PreparedFeeCapacity pb
       + of_nat (length (o_Account ord)) * OneCkb L + of_nat priceCapacity"

definition buildOrderPreRegisterTx :: "txlib \<Rightarrow> pre_tx_params \<Rightarrow> tx_params dao" where
  "buildOrderPreRegisterTx L p =
     (let ord = pr_Order p; chars = AccountCharStr (GetContent ord) in
     bindM (wrapM ''GetTransaction'' (liftM (GetTx L (pr_ApplyCellHash p)))) (\<lambda>(blockHash, applyOutputs).
     bindM (indexM applyOutputs 0) (\<lambda>applyOutput.
     bindM (case blockHash of None \<Rightarrow> errM GoPanic | Some h \<Rightarrow> okM h) (\<lambda>headDep.
     bindM (wrapM ''GetTimeCell'' (liftM (GetTimeCell L))) (\<lambda>(timeDep, timestamp).
     bindM (wrapM ''GetQuoteCell'' (liftM (GetQuoteCell L))) (\<lambda>(quoteDep, quote).
     bindM (wrapM ''ConfigCellDataBuilderByTypeArgsList'' (liftM (PriceBuilder L))) (\<lambda>priceBuilder.
     bindM (if pr_InviterScript p \<noteq> None
            then wrapM ''PriceInvitedDiscount'' (liftM (PriceInvitedDiscount priceBuilder))
            else okM 0) (\<lambda>invitedDiscount.
     let accountLength = account_length chars in
     if \<not> PriceConfig priceBuilder accountLength then errM (Errf ''PriceConfig is nil'')
     else
     bindM (liftM (pre_price L (fst (AccountPrice priceBuilder accountLength)) quote invitedDiscount
              (RegisterYears (GetContent ord)))) (\<lambda>priceCapacity.
     bindM (wrapM ''GenWitness'' (liftM (PreWitness L
        \<lparr>pp_InvitedDiscount = invitedDiscount, pp_Quote = quote, pp_InviterScript = pr_InviterScript p,
         pp_ChannelScript = pr_ChannelScript p, pp_InviterId = pr_InviterId p,
         pp_OwnerLockArgs = pr_OwnerLockArgs p, pp_RefundLock = ServerScript L,
         pp_AccountChars = chars, pp_InitialRecords = initial_records L ord,
         pp_CrossCoinType = (if o_CrossCoinType ord \<noteq> '''' then Some (o_CrossCoinType ord) else None),
         pp_CreatedAt = timestamp\<rparr>))) (\<lambda>(preWitness, preData).
     bindM (wrapM ''GenActionDataWitness'' (liftM (ActionWitness L DasActionPreRegister))) (\<lambda>actionWitness.
     bindM (wrapM ''GetDasContractInfo'' (liftM (Contract L DasContractNamePreAccountCellType))) (\<lambda>(preScript, preDep).
     bindM (wrapM ''GetDasContractInfo'' (liftM (Contract L DasContractNameAlwaysSuccess))) (\<lambda>(alwaysScript, alwaysDep).
     let preOutputs = \<lparr>oc_Capacity = pre_capacity L priceBuilder ord (pr_OwnerLockArgs p) priceCapacity,
                       oc_Lock = alwaysScript, oc_Type = Some preScript\<rparr>;
         feeCapacity = 1112663;
         needCapacity = feeCapacity + oc_Capacity preOutputs - oc_Capacity applyOutput in
     bindM (wrapM ''GetBalanceCellWithLock'' (liftM (BalanceCells L needCapacity (MinCellOccupiedCkb L)))) (\<lambda>(change, liveCell).
     bindM (liftM (split_change L change False)) (\<lambda>changeList.
     bindM (liftM (pre_cell_deps L ord alwaysDep preDep timeDep quoteDep)) (\<lambda>deps.
     bindM (wrapM ''getPreTxBetweenAccountCell'' (getPreTxBetweenAccountCell (o_AccountId ord))) (\<lambda>accDep.
     okM (add_inputs liveCell (add_change changeList
       (no_params\<lparr>tp_HeadDeps := [headDep],
          tp_Inputs := [(pr_ApplyCellHash p @ ''-0'', SinceBlocks L (pr_ApplyMinWaiting p))],
          tp_Outputs := [preOutputs], tp_OutputsData := [preData @ AccountId L (o_Account ord)],
          tp_Witnesses := [actionWitness, preWitness], tp_CellDeps := deps @ [accDep]\<rparr>))))))))))))))))))))"

text \<open>The lock script of an inviter or channel account; none when the account does not exist.\<close>

definition getAccountScript :: "txlib \<Rightarrow> string \<Rightarrow> string option dao" where
  "getAccountScript L accountId =
     bindM (wrapM ''GetAccountInfoByAccountId'' (GetAccountInfoByAccountId accountId)) (\<lambda>acc.
       if 0 < a_Id acc
       then if a_Status acc = AccountStatusOnUpgrade
         then bindM (wrapM ''GetDidAccountByAccountIdWithoutArgs'' (GetDidAccountByAccountIdWithoutArgs accountId))
           (\<lambda>didAcc. okM (Some (DidScript L (d_LockCodeHash didAcc) (d_Args didAcc))))
         else bindM (wrapM ''FormatAddressToDasLockScript'' (liftM (HexToScript L (a_OwnerChainType acc) (a_Owner acc))))
           (\<lambda>(script, _). okM (Some script))
       else okM None)"

definition getOrderInviterChannelScript ::
  "txlib \<Rightarrow> order_content \<Rightarrow> (string option \<times> string option \<times> string option) dao" where
  "getOrderInviterChannelScript L orderContent =
     bindM (if InviterAccount orderContent \<noteq> ''''
            then bindM (wrapM ''getAccountScript'' (getAccountScript L (AccountId L (InviterAccount orderContent))))
              (\<lambda>script. okM (script, Some (AccountId L (InviterAccount orderContent))))
            else okM (None, None)) (\<lambda>(inviterScript, inviterId).
     bindM (if ChannelAccount orderContent \<noteq> ''''
            then bindM (wrapM ''getAccountScript'' (getAccountScript L (AccountId L (ChannelAccount orderContent))))
              (\<lambda>script. okM (case script of Some s \<Rightarrow> Some s | None \<Rightarrow> Some (ServerScript L)))
            else okM (PayServerScript L)) (\<lambda>channelScript.
     okM (inviterScript, channelScript, inviterId)))"

text \<open>The first half: is the apply cell live and old enough; the parameters of the transaction if so.\<close>

definition pre_register_ready :: "txlib \<Rightarrow> order_row \<Rightarrow> tx_row \<Rightarrow> 64 word option dao" where
  "pre_register_ready L ord orderTxApply =
     bindM (wrapM ''check apply GetLiveCell'' (liftM (LiveCellStatus L (x_Hash orderTxApply @ ''-0'')))) (\<lambda>status.
     if status \<noteq> ''live''
     then thenM (wrapM ''UpdateOrderRedoApply'' (UpdateOrderRedoApply (o_OrderId ord))) (okM None)
     else
     bindM (wrapM ''ConfigCellDataBuilderByTypeArgs'' (liftM (ApplyMinWaiting L))) (\<lambda>builder.
     bindM (wrapM ''ApplyMaxWaitingBlockNumber'' (liftM builder)) (\<lambda>applyMinWaitingBlockNumber.
     bindM (wrapM ''GetTipBlockNumber'' (liftM (TipBlockNumber L))) (\<lambda>tipBlockNumber.
     bindM (wrapM ''GetTransaction'' (liftM (GetTx L (x_Hash orderTxApply)))) (\<lambda>(blockHash, _).
     bindM (case blockHash of None \<Rightarrow> errM GoPanic | Some h \<Rightarrow> okM h) (\<lambda>h.
     bindM (wrapM ''GetBlock'' (liftM (BlockNumberOf L h))) (\<lambda>number.
       if tipBlockNumber < number + ucast applyMinWaitingBlockNumber then okM None
       else okM (Some (ucast applyMinWaitingBlockNumber)))))))))"

text \<open>The second half: mark, send, and undo or close when the node refuses.\<close>

definition send_pre_register :: "txlib \<Rightarrow> order_row \<Rightarrow> tx_params \<Rightarrow> unit dao" where
  "send_pre_register L ord tx =
     thenM (wrapM ''UpdatePreRegisterStatus''
              (UpdatePreRegisterStatus (o_OrderId ord) TxStatusSending TxStatusOk))
       (bindM (tryM (sendM L (o_OrderId ord) tx)) (\<lambda>res.
          case res of
            Inl e \<Rightarrow>
              if contains e ''error code 35'' \<or> contains e ''error code 53''
              then thenM (emitM (LarkErr ''UpdateOrderToClosedAndRefund''))
                (catchM (UpdateOrderToClosedAndRefund (o_OrderId ord))
                   (\<lambda>_. emitM (LarkErr ''UpdateOrderToClosedAndRefund'')))
              else thenM (catchM (UpdatePreRegisterStatus (o_OrderId ord) TxStatusOk TxStatusSending)
                       (\<lambda>_. emitM (LarkErr ''UpdatePayStatus'')))
                (errM (In ''SendTransaction'' e))
          | Inr hash \<Rightarrow> sent_tx (o_OrderId ord) TxActionPreRegister hash))"

definition DoOrderPreRegisterTx :: "txlib \<Rightarrow> order_row \<Rightarrow> unit dao" where
  "DoOrderPreRegisterTx L ord =
     (if o_Id ord = 0 then errM (Errf ''order is nil'')
      else bindM (wrapM ''GetOrderTxByAction'' (GetOrderTxByAction (o_OrderId ord) TxActionApplyRegister)) (\<lambda>orderTxApply.
      if x_Id orderTxApply = 0 then errM (Errf ''order apply register tx is nil'')
      else bindM (pre_register_ready L ord orderTxApply) (\<lambda>ready.
      case ready of
        None \<Rightarrow> okM ()
      | Some minWaiting \<Rightarrow>
          bindM (wrapM ''getOrderInviterChannelScript'' (getOrderInviterChannelScript L (GetContent ord)))
            (\<lambda>(inviterScript, channelScript, inviterId).
          bindM (wrapM ''NormalToScript'' (liftM (HexToScript L (o_ChainType ord) (o_Address ord)))) (\<lambda>(_, ownerArgs).
          bindM (wrapM ''buildOrderPreRegisterTx'' (buildOrderPreRegisterTx L
             \<lparr>pr_Order = ord, pr_ApplyCellHash = x_Hash orderTxApply, pr_InviterId = inviterId,
              pr_InviterScript = inviterScript, pr_ChannelScript = channelScript,
              pr_OwnerLockArgs = ownerArgs, pr_ApplyMinWaiting = minWaiting\<rparr>)) (\<lambda>txParams.
          bindM (wrapM ''BuildTransaction'' (liftM (BuildTransaction L txParams))) (\<lambda>tx.
          bindM (wrapM ''GetPreRegisteredOrderByAccountId''
                   (GetPreRegisteredOrderByAccountId (o_AccountId ord))) (\<lambda>preOrder.
          bindM clockM (\<lambda>nw.
            if taken_before preOrder nw
            then wrapM ''UpdateOrderToRefund'' (UpdateOrderToRefund (o_OrderId ord))
            else send_pre_register L ord tx)))))))))"

text \<open>Errors the job survives: the order is skipped and the next one tried.\<close>

definition skip_error :: "gerr \<Rightarrow> bool" where
  "skip_error e \<longleftrightarrow> contains e ''Unknown(OutPoint'' \<or> contains e ''ValidationFailure: see the error code''"

definition doOrderPreRegisterTx :: "int \<Rightarrow> (order_row \<Rightarrow> txlib) \<Rightarrow> unit dao" where
  "doOrderPreRegisterTx rebootTime Ls =
     bindM clockM (\<lambda>nw.
       if \<not> IsRebootTxOK rebootTime nw then okM ()
       else bindM (wrapM ''GetNeedSendPreRegisterTxOrderList'' GetNeedSendPreRegisterTxOrderList) (\<lambda>list.
         forM list (\<lambda>v. catchM (DoOrderPreRegisterTx (Ls v) v)
           (\<lambda>e. if skip_error e then emitM (LarkErr ''DoOrderPreRegisterTx'')
                else errM (In ''DoOrderPreRegisterTx'' e)))))"

section \<open>renew.go\<close>

record income_cell =
  ic_Cell :: out_cell
  ic_Data :: string
  ic_Witness :: string

text \<open>
  The income cell: at least the basic capacity, with the server's share when it had to be filled up.
  \<open>income_shares\<close> is the list of owners (is the server's lock first?) and their capacities.
\<close>

definition income_shares :: "txlib \<Rightarrow> 64 word \<Rightarrow> 64 word \<Rightarrow> (string \<times> 64 word) list" where
  "income_shares L incomeCellBaseCapacity priceCapacity =
     (if priceCapacity < incomeCellBaseCapacity
      then [(ServerScript L, incomeCellBaseCapacity - priceCapacity)] else [])
     @ [(DasLock L, priceCapacity)]"

definition income_capacity :: "64 word \<Rightarrow> 64 word \<Rightarrow> 64 word" where
  "income_capacity incomeCellBaseCapacity priceCapacity =
     (if priceCapacity < incomeCellBaseCapacity then incomeCellBaseCapacity else priceCapacity)"

definition genIncomeCell :: "txlib \<Rightarrow> 64 word \<Rightarrow> gerr + income_cell" where
  "genIncomeCell L priceCapacity =
     bindR (wrapR ''ConfigCellDataBuilderByTypeArgsList'' (IncomeBuilder L)) (\<lambda>builder.
     bindR (wrapR ''IncomeBasicCapacity'' builder) (\<lambda>base.
     bindR (wrapR ''GetDasContractInfo'' (Contract L DasContractNameAlwaysSuccess)) (\<lambda>(asScript, _).
     bindR (wrapR ''GetDasContractInfo'' (Contract L DasContractNameIncomeCellType)) (\<lambda>(incomeScript, _).
     let shares = income_shares L base priceCapacity;
         (wit, dat) = IncomeWitness L (priceCapacity < base) (map fst shares) (map snd shares) in
     Inr \<lparr>ic_Cell = \<lparr>oc_Capacity = income_capacity base priceCapacity, oc_Lock = asScript,
                    oc_Type = Some incomeScript\<rparr>,
          ic_Data = dat, ic_Witness = wit\<rparr>))))"

text \<open>The price of one year at the quote times the years, on \<open>uint64\<close>.\<close>

definition renew_price :: "txlib \<Rightarrow> 64 word \<Rightarrow> 64 word \<Rightarrow> int \<Rightarrow> gerr + 64 word" where
  "renew_price L renewPrice quote renewYears =
     bindR (u128_mul (unat renewPrice) (unat (OneCkb L))) (\<lambda>m.
     bindR (u128_div m (unat quote)) (\<lambda>q. Inr (of_nat q * of_int renewYears)))"

definition renew_configs :: "ConfigArgs list" where
  "renew_configs = [ConfigCellTypeArgsAccount, ConfigCellTypeArgsPrice, ConfigCellTypeArgsIncome]"

definition buildOrderRenewTx :: "txlib \<Rightarrow> order_row \<Rightarrow> account_row \<Rightarrow> int \<Rightarrow> gerr + tx_params" where
  "buildOrderRenewTx L ord account renewYears =
     bindR (wrapR ''GetQuoteCell'' (GetQuoteCell L)) (\<lambda>(quoteDep, quote).
     bindR (wrapR ''ConfigCellDataBuilderByTypeArgsList'' (PriceBuilder L)) (\<lambda>priceBuilder.
     let accTxHash = TxHashOf L (a_Outpoint account) in
     bindR (wrapR ''GetTransaction'' (GetTx L accTxHash)) (\<lambda>(_, accOutputs).
     bindR (wrapR ''AccountCellDataBuilderMapFromTx'' (AccCells L accTxHash)) (\<lambda>mapAcc.
     case mapAcc (a_AccountId account) of
       None \<Rightarrow> Inl (Errf ''account map builder is nil'')
     | Some accBuilder \<Rightarrow>
     bindR (renew_price L (snd (AccountPrice priceBuilder (of_nat (ac_CharsLen accBuilder)))) quote renewYears) (\<lambda>priceCapacity.
     let newExpiredAt = ac_ExpiredAt accBuilder + of_int renewYears * YearSec L;
         (accWitness, accData) = AccWitness L (a_Outpoint account) in
     if length accOutputs \<le> ac_Index accBuilder then Inl GoPanic
     else
     bindR (wrapR ''GenActionDataWitness'' (ActionWitness L DasActionRenewAccount)) (\<lambda>actionWitness.
     bindR (wrapR ''genIncomeCell'' (genIncomeCell L priceCapacity)) (\<lambda>incomeCell.
     let feeCapacity = 10000;
         needCapacity = feeCapacity + oc_Capacity (ic_Cell incomeCell) in
     bindR (wrapR ''GetBalanceCellWithLock'' (BalanceCells L needCapacity (MinCellOccupiedCkb L))) (\<lambda>(change, liveCell).
     bindR (split_change L change True) (\<lambda>changeList.
     bindR (wrapR ''GetDasContractInfo'' (Contract L DasContractNameDispatchCellType)) (\<lambda>(_, dasLockDep).
     bindR (wrapR ''GetDasContractInfo'' (Contract L DasContractNameAccountCellType)) (\<lambda>(_, accDep).
     bindR (wrapR ''GetDasContractInfo'' (Contract L DasContractNameIncomeCellType)) (\<lambda>(_, incomeDep).
     bindR (wrapR ''GetTimeCell'' (GetTimeCell L)) (\<lambda>(timeDep, _).
     bindR (wrapR ''GetHeightCell'' (GetHeightCell L)) (\<lambda>heightDep.
     bindR (mapR (\<lambda>c. wrapR ''GetDasConfigCellInfo'' (ConfigCell L c)) renew_configs) (\<lambda>configs.
     Inr (add_change changeList (add_inputs liveCell
       (no_params\<lparr>tp_Inputs := [(a_Outpoint account, 0)],
          tp_Outputs := [accOutputs ! ac_Index accBuilder, ic_Cell incomeCell],
          tp_OutputsData := [ExpireData L (a_Outpoint account) accData newExpiredAt, ic_Data incomeCell],
          tp_Witnesses := [actionWitness, accWitness, ic_Witness incomeCell],
          tp_CellDeps := [dasLockDep, accDep, incomeDep, timeDep, heightDep, quoteDep] @ configs\<rparr>))))))))))))))))))"

definition DoOrderRenewTx :: "txlib \<Rightarrow> order_row \<Rightarrow> unit dao" where
  "DoOrderRenewTx L ord =
     (if o_Id ord = 0 then errM (Errf ''order is nil'')
      else bindM (wrapM ''GetAccountInfoByAccountId''
                    (GetAccountInfoByAccountId (AccountId L (o_Account ord)))) (\<lambda>acc.
      if a_Status acc = AccountStatusOnCross
      then thenM (emitM (LarkErr ''RenewAccount''))
             (wrapM ''UpdateOrderStatusClosed'' (UpdateOrderStatusClosed (o_OrderId ord)))
      else bindM (wrapM ''buildOrderPreRegisterTx''
                    (liftM (buildOrderRenewTx L ord acc (RenewYears (GetContent ord))))) (\<lambda>txParams.
      bindM (wrapM ''BuildTransaction'' (liftM (BuildTransaction L txParams))) (\<lambda>built.
      bindM (liftM (charge_fee L (\<lambda>sizeInBlock txFee. 10000 < sizeInBlock) built)) (\<lambda>tx.
        send_paid L ord TxActionRenewAccount tx)))))"

definition doOrderRenewTx :: "int \<Rightarrow> (order_row \<Rightarrow> txlib) \<Rightarrow> unit dao" where
  "doOrderRenewTx rebootTime Ls =
     bindM clockM (\<lambda>nw.
       if \<not> IsRebootTxOK rebootTime nw then okM ()
       else bindM (wrapM ''GetNeedSendPayOrderList'' (GetNeedSendPayOrderList DasActionRenewAccount)) (\<lambda>list.
         forM list (\<lambda>v. wrapM ''DoOrderRenewTx'' (DoOrderRenewTx (Ls v) v))))"

section \<open>did\_cell.go\<close>

definition did_cell_one :: "txlib \<Rightarrow> order_row \<Rightarrow> unit dao" where
  "did_cell_one L v =
     bindM (wrapM ''GetCache'' (GetCache (o_OrderId v))) (\<lambda>didCellTxStr.
     bindM (wrapM ''json.Unmarshal'' (liftM (DecodeTx L didCellTxStr))) (\<lambda>tx.
     thenM (wrapM ''UpdatePayStatus'' (UpdatePayStatus (o_OrderId v) TxStatusSending TxStatusOk))
     (bindM (tryM (sendM L (o_OrderId v) tx)) (\<lambda>res.
        case res of
          Inl e \<Rightarrow>
            thenM (emitM (ClearOutPoint (map fst (tp_Inputs tx))))
            (thenM (catchM (UpdateDidCellOrderToRefund (o_OrderId v))
                     (\<lambda>_. emitM (LarkErr ''UpdateDidCellOrderToRefund'')))
              (errM (In ''SendTransaction'' e)))
        | Inr hash \<Rightarrow>
            bindM clockM (\<lambda>nw.
              catchM (CreateOrderTx \<lparr>x_Id = 0, x_OrderId = o_OrderId v, x_Hash = hash,
                        x_Action = OrderTxActionOf L (o_Action v), x_Status = OrderTxStatusDefault,
                        x_Timestamp = nw\<rparr>)
                (\<lambda>_. emitM (LarkErr ''CreateOrderTx'')))))))"

definition doDidCellTx :: "(order_row \<Rightarrow> txlib) \<Rightarrow> unit dao" where
  "doDidCellTx Ls =
     bindM (wrapM ''GetNeedSendPayOrderList''
              (GetNeedSendDidCellOrderList [DasActionTransferAccount, DasActionRenewAccount]))
       (\<lambda>list. forM list (\<lambda>v. did_cell_one (Ls v) v))"

section \<open>recover\_ckb.go\<close>

text \<open>
  \<open>for total > capacity*2\<close>: one output of \<open>capacity\<close> per turn. \<open>None\<close> is a loop that does not
  end, which happens when \<open>capacity*2\<close> wraps around to a smaller number or \<open>capacity\<close> is 0.
\<close>

partial_function (option) recover_loop ::
  "string \<Rightarrow> 64 word \<Rightarrow> 64 word \<Rightarrow> out_cell list \<Rightarrow> (out_cell list \<times> 64 word) option" where
  "recover_loop lock capacity tot outs =
     (if capacity * 2 < tot
      then recover_loop lock capacity (tot - capacity)
             (outs @ [\<lparr>oc_Capacity = capacity, oc_Lock = lock, oc_Type = None\<rparr>])
      else Some (outs, tot))"

declare recover_loop.simps [code]

definition recover_capacity :: "txlib \<Rightarrow> 64 word \<Rightarrow> 64 word" where
  "recover_capacity L recoverCkb = (if 0 < recoverCkb then recoverCkb * OneCkb L else 2000 * OneCkb L)"

text \<open>The live cells of the payment address: outpoint, capacity, type script.\<close>

definition recover_inputs :: "(string \<times> 64 word \<times> string option) list \<Rightarrow> (string \<times> 64 word) list" where
  "recover_inputs cells = map (\<lambda>(op, c, ty). (op, c)) (filter (\<lambda>(op, c, ty). ty = None) cells)"

definition recover_params :: "string \<Rightarrow> (string \<times> 64 word) list \<Rightarrow> out_cell list \<Rightarrow> 64 word \<Rightarrow> string \<Rightarrow> tx_params" where
  "recover_params lock inputs outs rest actionWitness =
     add_inputs inputs (add_change (outs @ [\<lparr>oc_Capacity = rest, oc_Lock = lock, oc_Type = None\<rparr>])
       (no_params\<lparr>tp_Witnesses := [actionWitness]\<rparr>))"

definition recover_send :: "txlib \<Rightarrow> tx_params \<Rightarrow> unit dao" where
  "recover_send L txParams =
     bindM (wrapM ''BuildTransaction'' (liftM (BuildTransaction L txParams))) (\<lambda>built.
     case rev (tp_Outputs built) of
       [] \<Rightarrow> errM GoPanic
     | c # cs \<Rightarrow>
         bindM (wrapM ''SendTransaction'' (sendM L ''recover''
           (built\<lparr>tp_Outputs := rev (c\<lparr>oc_Capacity := oc_Capacity c - SizeInBlock L built - 5000\<rparr> # cs)\<rparr>)))
           (\<lambda>_. okM ()))"

definition doRecoverCkb ::
  "txlib \<Rightarrow> 64 word \<Rightarrow> gerr + (string \<times> 64 word \<times> string option) list \<Rightarrow>
   unit dao option" where
  "doRecoverCkb L recoverCkb liveCells =
     (case PayServerScript L of
        None \<Rightarrow> Some (errM (In ''address.Parse'' Fault))
      | Some lock \<Rightarrow>
     (case liveCells of
        Inl e \<Rightarrow> Some (errM (In ''GetCells'' e))
      | Inr cells \<Rightarrow>
        (let inputs = recover_inputs cells;
             tot = sum_list (map snd inputs);
             capacity = recover_capacity L recoverCkb in
         if tot < capacity * 2 then Some (okM ())
         else (case recover_loop lock capacity tot [] of
                 None \<Rightarrow> None
               | Some (outs, rest) \<Rightarrow> Some
                   (bindM (wrapM ''GenActionDataWitness'' (liftM (ActionWitness L (DasActionOther ''refund_pay''))))
                      (\<lambda>w. recover_send L (recover_params lock inputs outs rest w)))))))"

lemma recover_loop_returns:
  assumes "unat capacity * 2 < 2 ^ 64" and "0 < capacity"
  shows "\<exists>n rest. recover_loop lock capacity tot outs =
       Some (outs @ replicate n \<lparr>oc_Capacity = capacity, oc_Lock = lock, oc_Type = None\<rparr>, rest)
     \<and> n * unat capacity + unat rest = unat tot
     \<and> unat rest \<le> 2 * unat capacity \<and> (0 < n \<longrightarrow> unat capacity < unat rest)"
proof (induction "unat tot" arbitrary: tot outs rule: less_induct)
  case less
  have two: "unat (capacity * 2) = 2 * unat capacity"
    using assms(1) by (simp add: unat_word_ariths)
  show ?case
  proof (cases "capacity * 2 < tot")
    case False
    then show ?thesis
      by (intro exI [of _ 0] exI [of _ tot])
        (simp add: recover_loop.simps word_less_nat_alt two not_less)
  next
    case True
    then have big: "2 * unat capacity < unat tot" by (simp add: word_less_nat_alt two)
    then have "capacity \<le> tot" by (simp add: word_le_nat_alt)
    then have u: "unat (tot - capacity) = unat tot - unat capacity" by (simp add: unat_sub)
    moreover have "0 < unat capacity" using assms(2) by (simp add: unat_gt_0)
    ultimately have "unat (tot - capacity) < unat tot" using big by linarith
    from less [OF this, of "outs @ [\<lparr>oc_Capacity = capacity, oc_Lock = lock, oc_Type = None\<rparr>]"]
    obtain n rest where r: "recover_loop lock capacity (tot - capacity)
          (outs @ [\<lparr>oc_Capacity = capacity, oc_Lock = lock, oc_Type = None\<rparr>]) =
        Some ((outs @ [\<lparr>oc_Capacity = capacity, oc_Lock = lock, oc_Type = None\<rparr>])
          @ replicate n \<lparr>oc_Capacity = capacity, oc_Lock = lock, oc_Type = None\<rparr>, rest)"
      and s: "n * unat capacity + unat rest = unat (tot - capacity)"
      and b: "unat rest \<le> 2 * unat capacity" "0 < n \<longrightarrow> unat capacity < unat rest"
      by blast
    have "unat capacity < unat rest" using s b u big by (cases n) simp_all
    moreover have "Suc n * unat capacity + unat rest = unat tot" using s u big by simp
    ultimately show ?thesis using True r b
      by (intro exI [of _ "Suc n"] exI [of _ rest]) (subst recover_loop.simps, simp)
  qed
qed

section \<open>What the tool keeps\<close>

context dao_contract
begin

lemma sendM: "upholds R (sendM L oid tx)"
  unfolding sendM_def by (intro dao_rules)

lemma sent_tx: "upholds R (sent_tx oid a h)"
  unfolding sent_tx_def by (intro dao_rules)

lemma pay_status: "upholds R (UpdatePayStatus oid old TxStatusOk)" "upholds R (UpdatePayStatus oid old TxStatusSending)"
  by (rule UpdatePayStatus, simp)+

lemmas tx_rules = dao_rules sendM sent_tx pay_status

lemma send_paid: "upholds R (send_paid L ord a tx)"
  unfolding send_paid_def by (intro tx_rules)

lemma DoOrderApplyTx: "upholds R (DoOrderApplyTx L ord)"
  unfolding DoOrderApplyTx_def by (intro tx_rules send_paid)

lemma doOrderApplyTx: "upholds R (doOrderApplyTx rt Ls)"
  unfolding doOrderApplyTx_def by (intro tx_rules DoOrderApplyTx)

lemma DoOrderRenewTx: "upholds R (DoOrderRenewTx L ord)"
  unfolding DoOrderRenewTx_def by (intro tx_rules send_paid)

lemma doOrderRenewTx: "upholds R (doOrderRenewTx rt Ls)"
  unfolding doOrderRenewTx_def by (intro tx_rules DoOrderRenewTx)

lemma get_checked: "upholds R (get_checked k)"
  unfolding get_checked_def by (intro tx_rules if_nil redis_commands)

lemma did_cell_one: "upholds R (did_cell_one L v)"
  unfolding did_cell_one_def GetCache_def by (intro tx_rules get_checked)

lemma doDidCellTx: "upholds R (doDidCellTx Ls)"
  unfolding doDidCellTx_def by (intro tx_rules did_cell_one)

lemma pre_register_ready: "upholds R (pre_register_ready L ord x)"
  unfolding pre_register_ready_def by (intro tx_rules)

lemma send_pre_register: "upholds R (send_pre_register L ord tx)"
  unfolding send_pre_register_def by (intro tx_rules)

lemma getAccountScript: "upholds R (getAccountScript L a)"
  unfolding getAccountScript_def by (intro tx_rules)

lemma getOrderInviterChannelScript: "upholds R (getOrderInviterChannelScript L c)"
  unfolding getOrderInviterChannelScript_def by (intro tx_rules getAccountScript)

lemma buildOrderPreRegisterTx: "upholds R (buildOrderPreRegisterTx L p)"
  unfolding buildOrderPreRegisterTx_def getPreTxBetweenAccountCell_def by (intro tx_rules)

lemma DoOrderPreRegisterTx: "upholds R (DoOrderPreRegisterTx L ord)"
  unfolding DoOrderPreRegisterTx_def
  by (intro tx_rules pre_register_ready send_pre_register getOrderInviterChannelScript buildOrderPreRegisterTx)

lemma doOrderPreRegisterTx: "upholds R (doOrderPreRegisterTx rt Ls)"
  unfolding doOrderPreRegisterTx_def by (intro tx_rules DoOrderPreRegisterTx)

lemmas txtool_rules = doOrderApplyTx doOrderRenewTx doOrderPreRegisterTx doDidCellTx

end

end
