(* ===== verification/Http.thy ===== *)
theory Http
  imports TxTool UniPay Rpc
begin

text \<open>
  What the handlers of \<open>src/http_server/handle\<close> share: the requests, the configuration and library
  they read (record \<open>http_lib\<close>), the system and character checks, the price of an account
  (\<open>account_detail.go\<close>) and of an order (\<open>order_register.go\<close>), and the status of an account for an
  address (\<open>account_search.go\<close>). A handler ends with \<open>Api c\<close> where the code fills the response
  with the error number \<open>c\<close> and returns. Strings are byte lists; case folding is that of ASCII.
\<close>

section \<open>Requests\<close>

record key_info =
  ki_Type :: string
  ki_CoinType :: string
  ki_Key :: string

record search_req =
  s_KeyInfo :: key_info
  s_ChainType :: int
  s_Address :: string
  s_Account :: string
  s_AccountCharStr :: "account_char_set list"

record order_base =
  ob_RegisterYears :: int
  ob_InviterAccount :: string
  ob_ChannelAccount :: string

record register_req =
  rr_KeyInfo :: key_info
  rr_Search :: search_req
  rr_Base :: order_base
  rr_PayTokenId :: PayTokenId
  rr_PayType :: string
  rr_CoinType :: string
  rr_CrossCoinType :: string
  rr_GiftCard :: string

section \<open>Configuration and library\<close>

text \<open>
  \<open>price_cell\<close> is the configuration cell of prices and account cells, \<open>base_cache\<close> the cached copy
  the code falls back to.
\<close>

record price_cell =
  pc_AccountPrice :: "8 word \<Rightarrow> gerr + (64 word \<times> 64 word)"
  pc_BasicCapacity :: "string \<Rightarrow> gerr + 64 word"
  pc_PreparedFeeCapacity :: "gerr + 64 word"

record base_cache =
  bc_AccountPrice :: "8 word \<Rightarrow> gerr + (64 word \<times> 64 word)"
  bc_BasicCapacity :: "string \<Rightarrow> gerr + 64 word"
  bc_PreparedFeeCapacity :: "64 word"
  bc_LuckyNumber :: "32 word"

datatype balance_err = ErrRejectedOutPoint | ErrNotEnoughChange | ErrInsufficientFunds | BalanceErrOther

record unipay_order =
  u_OrderId :: string
  u_ContractAddress :: string
  u_StripePaymentIntentId :: string
  u_ClientSecret :: string

record unipay_req =
  ur_Address :: string
  ur_Amount :: rat
  ur_PayTokenId :: PayTokenId
  ur_PaymentAddress :: string
  ur_PremiumPercentage :: rat
  ur_PremiumBase :: rat
  ur_PremiumAmount :: rat
  ur_Account :: string
  ur_ChainType :: int
  ur_Action :: DasAction

record http_lib =
  \<comment> \<open>configuration\<close>
  h_CouponEncrySalt :: string
  h_CouponFilePath :: string
  h_CouponQrcodePrefix :: string
  h_CouponCodeLength :: "8 word"
  h_IsUpdate :: bool
  h_MainNet :: bool
  h_MaxRegisterYears :: int
  h_AccountMinLength :: "8 word"
  h_AccountMaxLength :: "8 word"
  h_OpenAccountMinLength :: "8 word"
  h_OpenAccountMaxLength :: "8 word"
  h_Premium :: rat
  h_Discount :: rat
  h_StripePremiumPercentage :: rat
  h_StripePremiumBase :: rat
  h_UniPayUrl :: string
  h_ParserUrl :: string
  h_PayAddressMap :: "string \<Rightarrow> string"
  h_InviterWhitelist :: "string \<Rightarrow> bool"
  h_UnAvailableAccounts :: "string \<Rightarrow> bool"
  h_ReservedAccounts :: "string \<Rightarrow> bool"
  \<comment> \<open>constants of das-lib\<close>
  h_OneCkb :: "64 word"
  h_UsdRateBase :: rat
  h_PercentRateBase :: rat
  h_Suffix :: string
  h_BlackHoleAddress :: string
  h_CoinTypeEth :: string
  h_ChainTypes :: "int list"
  h_ChainTypeCkb :: int
  h_ChainTypeEth :: int
  h_ChainTypeTron :: int
  h_CharType :: "nat \<Rightarrow> AccountCharType option"
  h_CharSet :: "AccountCharType \<Rightarrow> string \<Rightarrow> bool"
  \<comment> \<open>functions of das-lib, the node and unipay\<close>
  h_CharTypeDiff :: "account_char_set list \<Rightarrow> bool"
  h_FormatChainTypeAddress :: "key_info \<Rightarrow> gerr + (int \<times> string)"
  h_HexToArgs :: "int \<Rightarrow> string \<Rightarrow> gerr + string"
  h_HexToScript :: "int \<Rightarrow> string \<Rightarrow> gerr + string"
  h_HexToNormal :: "int \<Rightarrow> string \<Rightarrow> gerr + string"
  h_AccountId :: "string \<Rightarrow> string"
  h_Blake2b20 :: "string \<Rightarrow> string"
  h_Blake256Four :: "string \<Rightarrow> 32 word"
  h_Sha256 :: "string \<Rightarrow> string"
  h_md5 :: "string \<Rightarrow> string"
  h_ActionString :: "DasAction \<Rightarrow> string"
  h_TimeCell :: "gerr + int"
  h_QuoteCell :: "gerr + 64 word"
  h_MainStatus :: "gerr + (gerr + 8 word)"
  h_ContractStatusOK :: "gerr + bool"
  h_ReleaseLucky :: "gerr + (gerr + 32 word)"
  h_PriceCell :: "gerr + price_cell"
  h_InvitedDiscount :: "gerr + (gerr + 32 word)"
  h_ConfigCache :: "gerr + string"
  h_DecodeCache :: "string \<Rightarrow> gerr + base_cache"
  h_BalanceCells :: "string \<Rightarrow> 64 word \<Rightarrow> balance_err option"
  h_UniPayOrder :: "unipay_req \<Rightarrow> gerr + unipay_order"
  h_ParserLatest :: "nat \<Rightarrow> gerr + bool"
  h_RandDoge :: rat

section \<open>handle.go and config.go\<close>

definition checkSystemUpgrade :: "http_lib \<Rightarrow> unit dao" where
  "checkSystemUpgrade H =
     (if h_IsUpdate H then apiErr ApiCodeSystemUpgrade
      else bindM (orApi ApiCodeError500 (liftM (h_MainStatus H))) (\<lambda>builder.
        let status = (case builder of Inl _ \<Rightarrow> 0 | Inr s \<Rightarrow> s) in
        if status \<noteq> 1 then apiErr ApiCodeSystemUpgrade
        else bindM (orApi ApiCodeError500 (liftM (h_ContractStatusOK H))) (\<lambda>ok.
          if \<not> ok then apiErr ApiCodeSystemUpgrade else okM ())))"

text \<open>\<open>h_ChainTypes\<close> lists the constants Tron, Mixin, Eth, DogeCoin and Webauthn.\<close>

definition checkChainType :: "http_lib \<Rightarrow> int \<Rightarrow> bool" where
  "checkChainType H chainType \<longleftrightarrow> chainType \<in> set (h_ChainTypes H)"

fun checkBalanceErr :: "balance_err \<Rightarrow> ApiCode" where
  "checkBalanceErr ErrRejectedOutPoint = ApiCodeRejectedOutPoint"
| "checkBalanceErr ErrNotEnoughChange = ApiCodeNotEnoughChange"
| "checkBalanceErr ErrInsufficientFunds = ApiCodeInsufficientBalance"
| "checkBalanceErr BalanceErrOther = ApiCodeError500"

fun GetUnipayAddress :: "http_lib \<Rightarrow> PayTokenId \<Rightarrow> string" where
  "GetUnipayAddress H TokenIdEth = h_PayAddressMap H ''eth''"
| "GetUnipayAddress H TokenIdErc20USDT = h_PayAddressMap H ''eth''"
| "GetUnipayAddress H TokenIdBnb = h_PayAddressMap H ''bsc''"
| "GetUnipayAddress H TokenIdBep20USDT = h_PayAddressMap H ''bsc''"
| "GetUnipayAddress H TokenIdPol = h_PayAddressMap H ''polygon''"
| "GetUnipayAddress H TokenIdTrx = h_PayAddressMap H ''tron''"
| "GetUnipayAddress H TokenIdTrc20USDT = h_PayAddressMap H ''tron''"
| "GetUnipayAddress H TokenIdCkb = h_PayAddressMap H ''ckb''"
| "GetUnipayAddress H TokenIdDas = h_PayAddressMap H ''ckb''"
| "GetUnipayAddress H TokenIdCkbCCC = h_PayAddressMap H ''ckb''"
| "GetUnipayAddress H TokenIdDoge = h_PayAddressMap H ''doge''"
| "GetUnipayAddress H TokenIdStripeUSD = ''stripe''"
| "GetUnipayAddress H ToKenIdDidPoint = h_PayAddressMap H ''did_point''"
| "GetUnipayAddress H _ = ''''"

section \<open>Strings and characters\<close>

definition EqualFold :: "string \<Rightarrow> string \<Rightarrow> bool" where
  "EqualFold s t \<longleftrightarrow> ToLower s = ToLower t"

definition HasSuffix :: "string \<Rightarrow> string \<Rightarrow> bool" where
  "HasSuffix s suf \<longleftrightarrow> suffix suf s"

definition check_char :: "http_lib \<Rightarrow> account_char_set \<Rightarrow> bool" where
  "check_char H v \<longleftrightarrow> Char v \<noteq> '''' \<and>
     (case h_CharType H (CharSetName v) of
        None \<Rightarrow> False
      | Some k \<Rightarrow> h_CharSet H k (Char v) \<or> k = AccountCharTypeEn \<and> Char v = ''.'')"

text \<open>All branches fail with the same number.\<close>

definition checkAccountCharSet :: "http_lib \<Rightarrow> string \<Rightarrow> account_char_set list \<Rightarrow> gerr + unit" where
  "checkAccountCharSet H account chars =
     (let bad = Inl (Api ApiCodeAccountContainsInvalidChar) in
      if \<not> HasSuffix account (h_Suffix H) then bad
      else if length account \<le> 4 then bad
      else if CHR ''.'' \<in> set (TrimSuffix account (h_Suffix H)) then bad
      else if \<exists>v \<in> set chars. \<not> check_char H v then bad
      else
        let joined = concat (map Char chars);
            accountCharStr = (if HasSuffix joined (h_Suffix H) then joined else joined @ h_Suffix H) in
        if \<not> EqualFold account accountCharStr then bad
        else if h_CharTypeDiff H chars then bad
        else Inr ())"

definition OpenCharTypeMap :: "http_lib \<Rightarrow> nat \<Rightarrow> bool" where
  "OpenCharTypeMap H n \<longleftrightarrow> h_CharType H n \<in> Some ` {AccountCharTypeEmoji, AccountCharTypeDigit,
     AccountCharTypeKo, AccountCharTypeTh}"

text \<open>The loop of \<open>checkAccountBase\<close>: up to the first dot, every character after the first is of an
  open type and of the type of the one before.\<close>

fun same_dao_chars :: "http_lib \<Rightarrow> nat option \<Rightarrow> account_char_set list \<Rightarrow> bool" where
  "same_dao_chars H prev [] = True"
| "same_dao_chars H prev (v # vs) =
     (if Char v = ''.'' then True
      else case prev of
        None \<Rightarrow> same_dao_chars H (Some (CharSetName v)) vs
      | Some p \<Rightarrow>
          if \<not> OpenCharTypeMap H (CharSetName v) then False
          else if CharSetName v \<noteq> p then False
          else same_dao_chars H (Some (CharSetName v)) vs)"

section \<open>Prices\<close>

text \<open>\<open>decimal.Div\<close> and \<open>DivRound\<close> panic on a zero divisor.\<close>

definition divR :: "(rat \<Rightarrow> rat \<Rightarrow> nat \<Rightarrow> rat) \<Rightarrow> rat \<Rightarrow> rat \<Rightarrow> nat \<Rightarrow> gerr + rat" where
  "divR DivRound a b p = (if b = 0 then Inl GoPanic else Inr (DivRound a b p))"

text \<open>New price, renew price, basic capacity and fee, from the cell or else from the cache; the error is
  then the one of the cell.\<close>

definition price_from_cache :: "http_lib \<Rightarrow> 8 word \<Rightarrow> string \<Rightarrow> gerr \<Rightarrow> gerr + (64 word \<times> 64 word \<times> 64 word \<times> 64 word)" where
  "price_from_cache H accLen args err =
     (let failed = Inl (In ''ConfigCellDataBuilderByTypeArgsList'' err) in
      case h_ConfigCache H of
        Inl _ \<Rightarrow> failed
      | Inr strCache \<Rightarrow>
      if strCache = '''' then failed
      else (case h_DecodeCache H strCache of
        Inl _ \<Rightarrow> failed
      | Inr cacheBuilder \<Rightarrow>
      (case bc_AccountPrice cacheBuilder accLen of
        Inl _ \<Rightarrow> failed
      | Inr (newPrice, renewPrice) \<Rightarrow>
      (case bc_BasicCapacity cacheBuilder args of
        Inl _ \<Rightarrow> failed
      | Inr basicCapacity \<Rightarrow>
          Inr (newPrice, renewPrice, basicCapacity, bc_PreparedFeeCapacity cacheBuilder)))))"

definition price_from_cell :: "price_cell \<Rightarrow> 8 word \<Rightarrow> string \<Rightarrow> gerr + (64 word \<times> 64 word \<times> 64 word \<times> 64 word)" where
  "price_from_cell builder accLen args =
     bindR (wrapR ''AccountPrice'' (pc_AccountPrice builder accLen)) (\<lambda>(newPrice, renewPrice).
     bindR (wrapR ''BasicCapacity'' (pc_BasicCapacity builder args)) (\<lambda>basicCapacity.
     bindR (wrapR ''PreparedFeeCapacity'' (pc_PreparedFeeCapacity builder)) (\<lambda>preparedFeeCapacity.
       Inr (newPrice, renewPrice, basicCapacity, preparedFeeCapacity))))"

definition getAccountPrice ::
  "(rat \<Rightarrow> rat \<Rightarrow> nat \<Rightarrow> rat) \<Rightarrow> http_lib \<Rightarrow> 8 word \<Rightarrow> string \<Rightarrow> string \<Rightarrow> bool \<Rightarrow> gerr + (rat \<times> rat)" where
  "getAccountPrice DivRound H accLen args account isRenew =
     (if accLen = 0 then Inl (Errf ''accLen is 0'')
      else
        let args' = (if args = '''' then ''0x03'' else args) in
        bindR (case h_PriceCell H of
                 Inl e \<Rightarrow> price_from_cache H accLen args' e
               | Inr builder \<Rightarrow> price_from_cell builder accLen args')
          (\<lambda>(newPrice, renewPrice, basicCapacity, preparedFeeCapacity).
        bindR (wrapR ''GetQuoteCell'' (h_QuoteCell H)) (\<lambda>quote.
        let basicCapacity' = basicCapacity div h_OneCkb H + of_nat (length account)
                               + preparedFeeCapacity div h_OneCkb H;
            price = (if isRenew then renewPrice else newPrice) in
        bindR (divR DivRound (of_nat (unat basicCapacity') * of_nat (unat quote)) (h_UsdRateBase H) 6) (\<lambda>baseAmount.
        bindR (divR DivRound (of_nat (unat price)) (h_UsdRateBase H) 2) (\<lambda>accountPrice.
          Inr (baseAmount, accountPrice))))))"

text \<open>The total in dollars: premium and discount of the service, plus the base amount, then up to a cent.\<close>

definition gross_usd :: "http_lib \<Rightarrow> rat \<Rightarrow> rat \<Rightarrow> rat" where
  "gross_usd H accountPrice baseAmount =
     (let a1 = (if 0 < h_Premium H then accountPrice * (h_Premium H + 1) else accountPrice);
          a2 = (if 0 < h_Discount H then a1 * h_Discount H else a1) in
      a2 + baseAmount)"

definition total_usd :: "(rat \<Rightarrow> rat \<Rightarrow> nat \<Rightarrow> rat) \<Rightarrow> http_lib \<Rightarrow> rat \<Rightarrow> rat \<Rightarrow> rat" where
  "total_usd DivRound H accountPrice baseAmount =
     DivRound (ceil_rat (gross_usd H accountPrice baseAmount * 100)) 100 2"

text \<open>The price after the discount for an invited account.\<close>

definition invited_price :: "(rat \<Rightarrow> rat \<Rightarrow> nat \<Rightarrow> rat) \<Rightarrow> http_lib \<Rightarrow> string \<Rightarrow> rat \<Rightarrow> gerr + rat" where
  "invited_price DivRound H inviterAccount accountPrice =
     (if inviterAccount = '''' then Inr accountPrice
      else bindR (wrapR ''ConfigCellDataBuilderByTypeArgsList'' (h_InvitedDiscount H)) (\<lambda>builder.
        let discount = (case builder of Inl _ \<Rightarrow> 0 | Inr d \<Rightarrow> d) in
        bindR (divR DivRound (of_nat (unat discount)) (h_PercentRateBase H) 16) (\<lambda>decDiscount.
          Inr (accountPrice * (1 - decDiscount)))))"

definition getOrderAmount ::
  "(rat \<Rightarrow> rat \<Rightarrow> nat \<Rightarrow> rat) \<Rightarrow> http_lib \<Rightarrow> token_map \<Rightarrow> 8 word \<Rightarrow> string \<Rightarrow> string \<Rightarrow> string \<Rightarrow> int \<Rightarrow> bool \<Rightarrow>
   PayTokenId \<Rightarrow> gerr + (rat \<times> rat \<times> rat)" where
  "getOrderAmount DivRound H mapToken accLen args account inviterAccount years isRenew payTokenId =
     (if payTokenId = TokenCoupon then Inr (0, 0, 0)
      else
        let payToken = GetTokenInfo mapToken payTokenId in
        if k_TokenId payToken = TokenIdOther '''' then Inl (Errf ''not supported'')
        else
        bindR (wrapR ''GetQuoteCell'' (h_QuoteCell H)) (\<lambda>quote.
        bindR (divR DivRound (of_int (sint quote)) (h_UsdRateBase H) 16) (\<lambda>decQuote.
        bindR (wrapR ''getAccountPrice'' (getAccountPrice DivRound H accLen args account isRenew))
          (\<lambda>(base, price).
        bindR (invited_price DivRound H inviterAccount (price * of_int years)) (\<lambda>accountPrice.
        let amountTotalUSD = total_usd DivRound H accountPrice (if isRenew then 0 else base) in
        bindR (divR DivRound amountTotalUSD decQuote 16) (\<lambda>ckb.
        bindR (divR DivRound amountTotalUSD (k_Price payToken) 16) (\<lambda>tok.
        let amountTotalCKB = ceil_rat (ckb * of_nat (unat (h_OneCkb H)));
            exact = ceil_rat (tok * 10 ^ k_Decimals payToken);
            amount = (if k_TokenId payToken = TokenIdCkb then amountTotalCKB else exact);
            amountTotalPayToken = (if k_TokenId payToken = TokenIdDoge \<and> \<not> h_MainNet H
                                   then h_RandDoge H else amount) in
        Inr (amountTotalUSD, amountTotalCKB, RoundAmount DivRound amountTotalPayToken (k_TokenId payToken)))))))))"

end
