(* ===== verification/AccountSearch.thy ===== *)
theory AccountSearch
  imports Http
begin

text \<open>
  \<open>src/http_server/handle/account_search.go\<close>: the checks that say whether an account can be
  registered (\<open>checkAccountBase\<close>, \<open>checkAddressOrder\<close>, \<open>checkOtherAddressOrder\<close>, \<open>checkSubAccount\<close>) and
  the search handler built from them.
\<close>

section \<open>The account itself\<close>

record base_check =
  bk_ConfirmProposalHash :: string
  bk_Status :: SearchStatus
  bk_IsSelf :: bool
  bk_OpenTs :: int

definition open_account :: base_check where
  "open_account = \<lparr>bk_ConfirmProposalHash = '''', bk_Status = SearchStatusRegisterAble,
     bk_IsSelf = False, bk_OpenTs = 0\<rparr>"

definition open_timestamp :: "http_lib \<Rightarrow> int" where
  "open_timestamp H = (if h_MainNet H then 1666094400 else 1665712800)"

text \<open>The number below which names are open, from the release cell or else from the cache.\<close>

definition lucky_number :: "http_lib \<Rightarrow> gerr + 32 word" where
  "lucky_number H =
     (case h_ReleaseLucky H of
        Inr configRelease \<Rightarrow> Inr (case configRelease of Inl _ \<Rightarrow> 0 | Inr n \<Rightarrow> n)
      | Inl _ \<Rightarrow>
          (case h_ConfigCache H of
             Inl _ \<Rightarrow> Inl (Api ApiCodeError500)
           | Inr strCache \<Rightarrow>
               if strCache = '''' then Inl (Api ApiCodeError500)
               else (case h_DecodeCache H strCache of
                       Inl _ \<Rightarrow> Inl (Api ApiCodeError500)
                     | Inr builderCache \<Rightarrow> Inr (bc_LuckyNumber builderCache))))"

definition is_owner :: "search_req \<Rightarrow> account_row \<Rightarrow> bool" where
  "is_owner req acc \<longleftrightarrow> s_ChainType req = a_OwnerChainType acc \<and> EqualFold (s_Address req) (a_Owner acc)"

text \<open>A name no one owns: unavailable, reserved, of a bad length, or of a length that is opened by lottery.\<close>

definition check_free_name :: "http_lib \<Rightarrow> search_req \<Rightarrow> gerr + base_check" where
  "check_free_name H req =
     (let accountName = h_Blake2b20 H (ToLower (TrimSuffix (s_Account req) (h_Suffix H)));
          accLen = account_length (s_AccountCharStr req) in
      if h_UnAvailableAccounts H accountName
      then Inr (open_account\<lparr>bk_Status := SearchStatusUnAvailableAccount\<rparr>)
      else if h_ReservedAccounts H accountName
      then Inr (open_account\<lparr>bk_Status := SearchStatusReservedAccount\<rparr>)
      else if accLen < h_AccountMinLength H \<or> h_AccountMaxLength H < accLen
      then Inl (Api ApiCodeAccountLenInvalid)
      else if h_OpenAccountMinLength H \<le> accLen \<and> accLen \<le> h_OpenAccountMaxLength H
      then (case h_TimeCell H of
          Inl _ \<Rightarrow> Inl (Api ApiCodeError500)
        | Inr tcTimestamp \<Rightarrow>
            let isSameDaoCharType = same_dao_chars H None (s_AccountCharStr req) in
            if open_timestamp H \<le> tcTimestamp \<and> isSameDaoCharType then Inr open_account
            else bindR (lucky_number H) (\<lambda>luckyNumber.
              if luckyNumber < h_Blake256Four H (s_Account req)
              then Inr (open_account\<lparr>bk_Status := SearchStatusRegisterNotOpen,
                          bk_OpenTs := (if isSameDaoCharType then open_timestamp H else 0)\<rparr>)
              else Inr open_account))
      else Inr open_account)"

definition checkAccountBase :: "http_lib \<Rightarrow> search_req \<Rightarrow> base_check dao" where
  "checkAccountBase H req =
     bindM (orApi ApiCodeDbError (GetAccountInfoByAccountId (h_AccountId H (s_Account req)))) (\<lambda>acc.
       if 0 < a_Id acc
       then okM \<lparr>bk_ConfirmProposalHash = a_ConfirmProposalHash acc, bk_Status = FormatAccountStatus acc,
                 bk_IsSelf = is_owner req acc, bk_OpenTs = 0\<rparr>
       else liftM (check_free_name H req))"

section \<open>Orders for the account\<close>

record register_tx =
  rt_ChainType :: int
  rt_TokenId :: PayTokenId
  rt_Hash :: string

type_synonym tx_map = "RegisterStatus \<Rightarrow> register_tx option"

definition ckb_tx :: "http_lib \<Rightarrow> string \<Rightarrow> register_tx" where
  "ckb_tx H h = \<lparr>rt_ChainType = h_ChainTypeCkb H, rt_TokenId = TokenIdOther '''', rt_Hash = h\<rparr>"

definition pay_chain :: "http_lib \<Rightarrow> PayTokenId \<Rightarrow> int \<Rightarrow> int" where
  "pay_chain H p chainType =
     (if p \<in> {TokenIdDas, TokenIdCkb, TokenIdCkbInternal} then h_ChainTypeCkb H
      else if p \<in> {TokenIdEth, TokenIdBnb, TokenIdPol} then h_ChainTypeEth H
      else if p = TokenIdTrx then h_ChainTypeTron H
      else chainType)"

text \<open>The payment shown for an order: none for a card payment that is not confirmed.\<close>

definition pay_entry :: "http_lib \<Rightarrow> order_row \<Rightarrow> pay_row \<Rightarrow> tx_map" where
  "pay_entry H ord pay =
     (if p_Id pay = 0 then (\<lambda>_. None)
      else if o_PayTokenId ord = TokenIdStripeUSD \<and> p_Status pay \<noteq> OrderTxStatusConfirm then (\<lambda>_. None)
      else [RegisterStatusConfirmPayment \<mapsto> \<lparr>rt_ChainType = pay_chain H (o_PayTokenId ord) (p_ChainType pay),
              rt_TokenId = o_PayTokenId ord, rt_Hash = p_Hash pay\<rparr>])"

fun tx_step :: "OrderTxAction \<Rightarrow> RegisterStatus option" where
  "tx_step TxActionApplyRegister = Some RegisterStatusApplyRegister"
| "tx_step TxActionPreRegister = Some RegisterStatusPreRegister"
| "tx_step TxActionPropose = Some RegisterStatusProposal"
| "tx_step TxActionConfirmProposal = Some RegisterStatusConfirmProposal"
| "tx_step _ = None"

definition tx_entries :: "http_lib \<Rightarrow> tx_row list \<Rightarrow> tx_map \<Rightarrow> tx_map" where
  "tx_entries H txList m = fold (\<lambda>v m. case tx_step (x_Action v) of
      None \<Rightarrow> m | Some st \<Rightarrow> m(st \<mapsto> ckb_tx H (x_Hash v))) txList m"

text \<open>One year before now, in milliseconds.\<close>

definition year_ago :: "int \<Rightarrow> int" where
  "year_ago nw = nw - 365 * 24 * 3600 * 1000"

definition order_shown :: "order_row \<Rightarrow> bool" where
  "order_shown ord \<longleftrightarrow> 0 < o_Id ord \<and>
     (o_OrderStatus ord = OrderStatusDefault \<or> o_RegisterStatus ord = RegisterStatusRegistered)"

definition checkAddressOrder :: "http_lib \<Rightarrow> search_req \<Rightarrow> bool \<Rightarrow> (SearchStatus \<times> tx_map) dao" where
  "checkAddressOrder H req isGetOrderTx =
     (let accountId = h_AccountId H (s_Account req); none = (\<lambda>_. None) in
     bindM (orApi ApiCodeDbError (GetLatestRegisterOrderByAddress (s_ChainType req) (s_Address req) accountId)) (\<lambda>ord.
     bindM clockM (\<lambda>nw.
     bindM (orApi ApiCodeDbError (GetAccountInfoByAccountId accountId)) (\<lambda>acc.
     if a_Id acc = 0 \<and> o_Timestamp ord < year_ago nw then okM (SearchStatusRegisterAble, none)
     else if \<not> order_shown ord then okM (SearchStatusRegisterAble, none)
     else
       let status = FormatRegisterStatusToSearchStatus (o_RegisterStatus ord) in
       if \<not> isGetOrderTx then okM (status, none)
       else
         bindM (if o_OrderType ord = OrderTypeSelf
                then bindM (orApi ApiCodeDbError (GetPayInfoByOrderId (o_OrderId ord)))
                       (\<lambda>pay. okM (pay_entry H ord pay))
                else okM none) (\<lambda>mapTx.
         bindM (orApi ApiCodeDbError (GetOrderTxListByOrderId (o_OrderId ord))) (\<lambda>txList.
           okM (if o_OrderType ord = OrderTypeSelf \<and> o_RegisterStatus ord = RegisterStatusRegistered
                   \<and> o_CrossCoinType ord \<noteq> '''' then SearchStatusOnCross else status,
                tx_entries H txList mapTx)))))))"

definition checkOtherAddressOrder :: "http_lib \<Rightarrow> search_req \<Rightarrow> SearchStatus dao" where
  "checkOtherAddressOrder H req =
     bindM (orApi ApiCodeDbError (GetLatestRegisterOrderByLatest (h_AccountId H (s_Account req)))) (\<lambda>ord.
       okM (if 0 < o_Id ord then FormatRegisterStatusToSearchStatus (o_RegisterStatus ord)
            else SearchStatusRegisterAble))"

text \<open>\<open>None\<close> when the name is not that of a sub-account.\<close>

definition checkSubAccount :: "http_lib \<Rightarrow> search_req \<Rightarrow> (SearchStatus \<times> bool) option dao" where
  "checkSubAccount H req =
     (if 1 < length (filter (\<lambda>c. c = CHR ''.'') (s_Account req))
      then bindM (orApi ApiCodeDbError (GetAccountInfoByAccountId (h_AccountId H (s_Account req)))) (\<lambda>acc.
        okM (Some (if 0 < a_Id acc then (FormatAccountStatus acc, is_owner req acc)
                   else (SearchStatusSubAccountUnRegister, False))))
      else okM None)"

section \<open>The search handler\<close>

record search_resp =
  sr_Status :: SearchStatus
  sr_Account :: string
  sr_AccountPrice :: rat
  sr_BaseAmount :: rat
  sr_IsSelf :: bool
  sr_RegisterTxMap :: tx_map
  sr_OpenTimestamp :: int
  sr_PremiumPercentage :: rat
  sr_PremiumBase :: rat

definition no_address :: "search_req \<Rightarrow> bool" where
  "no_address req \<longleftrightarrow> s_Address req = '''' \<and> ki_Key (s_KeyInfo req) = ''''"

definition confirm_entry :: "http_lib \<Rightarrow> string \<Rightarrow> tx_map \<Rightarrow> tx_map" where
  "confirm_entry H h m =
     (if m RegisterStatusConfirmProposal = None \<and> h \<noteq> ''''
      then m(RegisterStatusConfirmProposal \<mapsto> ckb_tx H h) else m)"

definition search_account :: "(rat \<Rightarrow> rat \<Rightarrow> nat \<Rightarrow> rat) \<Rightarrow> http_lib \<Rightarrow> search_req \<Rightarrow> search_resp \<Rightarrow> search_resp dao" where
  "search_account DivRound H req resp =
     bindM (liftM (checkAccountCharSet H (s_Account req) (s_AccountCharStr req))) (\<lambda>_.
     bindM (checkAccountBase H req) (\<lambda>b.
     let resp = resp\<lparr>sr_Status := bk_Status b, sr_IsSelf := bk_IsSelf b, sr_OpenTimestamp := bk_OpenTs b\<rparr> in
     if bk_Status b \<noteq> SearchStatusRegisterAble \<and> \<not> bk_IsSelf b then okM resp
     else
     bindM (if no_address req then okM ''''
            else orApi ApiCodeError500 (liftM (h_HexToArgs H (s_ChainType req) (s_Address req)))) (\<lambda>argsStr.
     bindM (orApi ApiCodeError500 (liftM (getAccountPrice DivRound H (account_length (s_AccountCharStr req))
              argsStr (s_Account req) False))) (\<lambda>(baseAmount, accountPrice).
     let resp = resp\<lparr>sr_BaseAmount := baseAmount, sr_AccountPrice := accountPrice\<rparr>;
         adopt = (\<lambda>st. if sr_Status resp = SearchStatusRegisterAble then st else sr_Status resp) in
     bindM (checkAddressOrder H req True) (\<lambda>(status, registerTxMap).
     if status \<noteq> SearchStatusRegisterAble
     then okM (resp\<lparr>sr_Status := adopt status, sr_IsSelf := True,
                   sr_RegisterTxMap := confirm_entry H (bk_ConfirmProposalHash b) registerTxMap\<rparr>)
     else bindM (checkOtherAddressOrder H req) (\<lambda>status2.
       if status2 \<noteq> SearchStatusRegisterAble then okM (resp\<lparr>sr_Status := adopt status2\<rparr>)
       else okM resp))))))"

definition doAccountSearch :: "(rat \<Rightarrow> rat \<Rightarrow> nat \<Rightarrow> rat) \<Rightarrow> http_lib \<Rightarrow> search_req \<Rightarrow> search_resp dao" where
  "doAccountSearch DivRound H req0 =
     (let req1 = req0\<lparr>s_Account := ToLower (s_Account req0)\<rparr> in
     bindM (if no_address req1 then okM req1
            else bindM (orApi ApiCodeParamsInvalid (liftM (h_FormatChainTypeAddress H (s_KeyInfo req1))))
              (\<lambda>(chainType, address). okM (req1\<lparr>s_ChainType := chainType, s_Address := address\<rparr>))) (\<lambda>req.
     let resp = \<lparr>sr_Status = SearchStatusRegisterAble, sr_Account = s_Account req, sr_AccountPrice = 0,
           sr_BaseAmount = 0, sr_IsSelf = False, sr_RegisterTxMap = (\<lambda>_. None), sr_OpenTimestamp = 0,
           sr_PremiumPercentage = h_StripePremiumPercentage H, sr_PremiumBase = h_StripePremiumBase H\<rparr> in
     bindM (checkSubAccount H req) (\<lambda>sub.
       case sub of
         Some (status, isSelf) \<Rightarrow> okM (resp\<lparr>sr_Status := status, sr_IsSelf := isSelf\<rparr>)
       | None \<Rightarrow> search_account DivRound H req resp)))"

end
