(* ===== verification/OrderRegister.thy ===== *)
theory OrderRegister
  imports AccountSearch
begin

text \<open>
  \<open>src/http_server/handle/order_register.go\<close>, \<open>create_coupon.go\<close> and \<open>order_pay_hash.go\<close>: how a user
  creates a registration order, paid or with a gift card, checks a gift card and reports the hash of
  a payment, and how the operator creates gift cards. The coupon order is split at the Redis lock, so
  that two requests can be interleaved there.
\<close>

section \<open>The checks of an order\<close>

definition char_between :: "char \<Rightarrow> char \<Rightarrow> char \<Rightarrow> bool" where
  "char_between lo hi c \<longleftrightarrow> (of_char lo :: nat) \<le> of_char c \<and> (of_char c :: nat) \<le> of_char hi"

text \<open>The regular expression \<open>^(0|[1-9][0-9]*)$\<close>.\<close>

definition coin_type_ok :: "string \<Rightarrow> bool" where
  "coin_type_ok s \<longleftrightarrow> s = ''0'' \<or>
     (case s of [] \<Rightarrow> False
      | c # cs \<Rightarrow> char_between (CHR ''1'') (CHR ''9'') c \<and> (\<forall>d \<in> set cs. char_between (CHR ''0'') (CHR ''9'') d))"

definition check_inviter :: "http_lib \<Rightarrow> string \<Rightarrow> unit dao" where
  "check_inviter H inviter =
     (if inviter = '''' then okM ()
      else bindM (orApi ApiCodeDbError (GetAccountInfoByAccountId (h_AccountId H inviter))) (\<lambda>acc.
        if a_Id acc = 0 then apiErr ApiCodeInviterAccountNotExist
        else if a_Status acc = AccountStatusOnCross then apiErr ApiCodeOnCross
        else if EqualFold (a_Owner acc) (h_BlackHoleAddress H) then apiErr ApiCodeParamsInvalid
        else okM ()))"

text \<open>A channel account that cannot be used is dropped from the order.\<close>

definition check_channel :: "http_lib \<Rightarrow> string \<Rightarrow> string dao" where
  "check_channel H channel =
     (if channel = '''' then okM ''''
      else bindM (orApi ApiCodeDbError (GetAccountInfoByAccountId (h_AccountId H channel))) (\<lambda>acc.
        bindM clockM (\<lambda>nw.
        okM (if a_Id acc = 0 \<or> a_Status acc = AccountStatusOnCross \<or> IsExpired acc nw then ''''
             else channel))))"

definition checkOrderInfo :: "http_lib \<Rightarrow> string \<Rightarrow> string \<Rightarrow> order_base \<Rightarrow> order_base dao" where
  "checkOrderInfo H coinType crossCoinType req =
     (if ob_RegisterYears req \<le> 0 \<or> h_MaxRegisterYears H < ob_RegisterYears req
      then apiErr ApiCodeParamsInvalid
      else bindM (check_inviter H (ob_InviterAccount req)) (\<lambda>_.
      bindM (check_channel H (ob_ChannelAccount req)) (\<lambda>channel.
        if coinType \<noteq> '''' \<and> \<not> coin_type_ok coinType then apiErr ApiCodeParamsInvalid
        else if crossCoinType \<noteq> '''' \<and> crossCoinType \<noteq> h_CoinTypeEth H then apiErr ApiCodeParamsInvalid
        else okM (req\<lparr>ob_ChannelAccount := channel\<rparr>))))"

definition maxUnPayCount :: int where
  "maxUnPayCount = 300"

fun status_err :: "SearchStatus \<Rightarrow> ApiCode" where
  "status_err SearchStatusUnAvailableAccount = ApiCodeUnAvailableAccount"
| "status_err SearchStatusReservedAccount = ApiCodeReservedAccount"
| "status_err SearchStatusRegisterNotOpen = ApiCodeNotOpenForRegistration"
| "status_err _ = ApiCodeAccountAlreadyRegister"

text \<open>Everything \<open>doOrderRegister\<close> checks before it creates an order; the result is the request as it
  goes on, with the address resolved and the cross coin and unusable channel removed.\<close>

definition check_free :: "http_lib \<Rightarrow> search_req \<Rightarrow> unit dao" where
  "check_free H sreq =
     bindM (liftM (checkAccountCharSet H (s_Account sreq) (s_AccountCharStr sreq))) (\<lambda>_.
     bindM (checkAccountBase H sreq) (\<lambda>b.
     if bk_Status b \<noteq> SearchStatusRegisterAble then apiErr (status_err (bk_Status b))
     else bindM (checkAddressOrder H sreq False) (\<lambda>(status, _).
     if status \<noteq> SearchStatusRegisterAble then apiErr ApiCodeAccountAlreadyRegister
     else bindM (checkOtherAddressOrder H sreq) (\<lambda>other.
     if SearchStatusRegistering \<le> other then apiErr ApiCodeAccountAlreadyRegister
     else okM ()))))"

definition register_checks :: "http_lib \<Rightarrow> register_req \<Rightarrow> register_req dao" where
  "register_checks H req0 =
     (let req1 = req0\<lparr>rr_CrossCoinType := ''''\<rparr> in
      if s_Account (rr_Search req1) = '''' then apiErr ApiCodeParamsInvalid
      else if IsTokenIdCkbInternal (rr_PayTokenId req1) then apiErr ApiCodeParamsInvalid
      else bindM (orApi ApiCodeParamsInvalid (liftM (h_FormatChainTypeAddress H (rr_KeyInfo req1))))
        (\<lambda>(chainType, address).
      let sreq = (rr_Search req1)\<lparr>s_ChainType := chainType, s_Address := address\<rparr> in
      if \<not> checkChainType H chainType then apiErr ApiCodeParamsInvalid
      else bindM (checkSystemUpgrade H) (\<lambda>_.
      if \<not> IsLatestBlockNumber (h_ParserUrl H) (h_ParserLatest H) then apiErr ApiCodeSyncBlockNumber
      else bindM (orApi ApiCodeDbError (GetUnPayOrderCount chainType address)) (\<lambda>unPayCount.
      if maxUnPayCount < unPayCount then apiErr ApiCodeOperationFrequent
      else bindM (checkOrderInfo H (rr_CoinType req1) (rr_CrossCoinType req1) (rr_Base req1)) (\<lambda>base.
      bindM (check_free H sreq) (\<lambda>_.
        okM (req1\<lparr>rr_Search := sreq, rr_Base := base\<rparr>)))))))"

section \<open>Orders that are paid\<close>

record order_resp =
  or_OrderId :: string
  or_TokenId :: PayTokenId
  or_ReceiptAddress :: string
  or_Amount :: rat
  or_ContractAddress :: string
  or_ClientSecret :: string

text \<open>The row both kinds of registration order start from.\<close>

definition new_order :: "http_lib \<Rightarrow> register_req \<Rightarrow> int \<Rightarrow> rat \<Rightarrow> order_content \<Rightarrow> order_row" where
  "new_order H req nw amount content =
     zero_order\<lparr>o_OrderType := OrderTypeSelf,
       o_AccountId := h_AccountId H (s_Account (rr_Search req)), o_Account := s_Account (rr_Search req),
       o_Action := DasActionApplyRegister, o_ChainType := s_ChainType (rr_Search req),
       o_Address := s_Address (rr_Search req), o_Timestamp := nw, o_PayTokenId := rr_PayTokenId req,
       o_PayType := rr_PayType req, o_PayAmount := amount, o_Content := Some content,
       o_RegisterStatus := RegisterStatusConfirmPayment, o_CoinType := rr_CoinType req,
       o_CrossCoinType := rr_CrossCoinType req\<rparr>"

definition order_id :: "http_lib \<Rightarrow> order_row \<Rightarrow> string" where
  "order_id H r = CreateOrderId (h_md5 H) (h_ActionString H) (o_OrderType r) (o_AccountId r) (o_Action r)
     (o_ChainType r) (o_Address r) (o_Timestamp r)"

definition order_content_of :: "register_req \<Rightarrow> rat \<Rightarrow> rat \<Rightarrow> order_content" where
  "order_content_of req usd ckb =
     \<lparr>AccountCharStr = s_AccountCharStr (rr_Search req), InviterAccount = ob_InviterAccount (rr_Base req),
      ChannelAccount = ob_ChannelAccount (rr_Base req), RegisterYears = ob_RegisterYears (rr_Base req),
      AmountTotalUSD = usd, AmountTotalCKB = ckb, RenewYears = 0\<rparr>"

text \<open>A card payment costs a percentage and a base amount more, up to a cent: the new amount and the premium.\<close>

definition stripe_amount :: "http_lib \<Rightarrow> rat \<Rightarrow> rat \<times> rat" where
  "stripe_amount H amount =
     (let raised = ceil_rat (amount * (h_StripePremiumPercentage H + 1) + h_StripePremiumBase H * 100)
      in (raised, raised - amount))"

text \<open>\<open>BigInt().Uint64()\<close>: the low 64 bits of the integer part.\<close>

definition big_uint64 :: "rat \<Rightarrow> 64 word" where
  "big_uint64 x = of_int (if 0 \<le> x then \<lfloor>x\<rfloor> else \<lceil>x\<rceil>)"

definition check_das_balance :: "http_lib \<Rightarrow> order_row \<Rightarrow> rat \<Rightarrow> unit dao" where
  "check_das_balance H row amount =
     (if o_PayTokenId row \<noteq> TokenIdDas then okM ()
      else bindM (orApi ApiCodeError500 (liftM (h_HexToScript H (o_ChainType row) (o_Address row)))) (\<lambda>dasLock.
        case h_BalanceCells H dasLock (big_uint64 amount + h_OneCkb H) of
          Some e \<Rightarrow> apiErr (checkBalanceErr e)
        | None \<Rightarrow> okM ()))"

text \<open>
  The order unipay numbers, and the payment that is already known for a card. \<open>row\<close> is the order
  without its time, amount and number.
\<close>

definition unipay_order_rows ::
  "http_lib \<Rightarrow> order_row \<Rightarrow> rat \<Rightarrow> (order_row \<times> pay_row \<times> string \<times> string) dao" where
  "unipay_order_rows H row amount =
     bindM (orApi ApiCodeError500 (liftM (h_HexToNormal H (o_ChainType row) (o_Address row)))) (\<lambda>addrNormal.
     let stripe = (o_PayTokenId row = TokenIdStripeUSD);
         premiumPercentage = (if stripe then h_StripePremiumPercentage H else 0);
         premiumBase = (if stripe then h_StripePremiumBase H else 0);
         (payAmount, premiumAmount) = (if stripe then stripe_amount H amount else (amount, 0)) in
     thenM (emitM (UniPayCreate (GetUnipayAddress H (o_PayTokenId row)) payAmount))
     (bindM (orApi ApiCodeError500 (liftM (h_UniPayOrder H
        \<lparr>ur_Address = addrNormal, ur_Amount = payAmount, ur_PayTokenId = o_PayTokenId row,
         ur_PaymentAddress = GetUnipayAddress H (o_PayTokenId row),
         ur_PremiumPercentage = premiumPercentage, ur_PremiumBase = premiumBase,
         ur_PremiumAmount = premiumAmount, ur_Account = o_Account row,
         ur_ChainType = o_ChainType row, ur_Action = o_Action row\<rparr>))) (\<lambda>res.
     bindM clockM (\<lambda>nw.
     let ord = row\<lparr>o_Timestamp := nw, o_PayAmount := payAmount, o_OrderId := u_OrderId res,
           o_IsUniPay := IsUniPayTrue, o_PremiumPercentage := premiumPercentage,
           o_PremiumBase := premiumBase, o_PremiumAmount := premiumAmount\<rparr>;
         pay = (if stripe \<and> u_StripePaymentIntentId res \<noteq> ''''
                then zero_pay\<lparr>p_Hash := u_StripePaymentIntentId res, p_OrderId := u_OrderId res,
                       p_ChainType := o_ChainType ord, p_Address := o_Address ord,
                       p_Timestamp := nw, p_AccountId := o_AccountId ord\<rparr>
                else zero_pay) in
     okM (ord, pay, u_ContractAddress res, u_ClientSecret res)))))"

definition own_order_rows ::
  "http_lib \<Rightarrow> order_row \<Rightarrow> rat \<Rightarrow> (order_row \<times> pay_row \<times> string \<times> string) dao" where
  "own_order_rows H row amount =
     bindM clockM (\<lambda>nw.
       let ord = row\<lparr>o_Timestamp := nw, o_PayAmount := amount\<rparr> in
       okM (ord\<lparr>o_OrderId := order_id H ord\<rparr>, zero_pay, '''', ''''))"

text \<open>The last lines of every handler that makes an order to be paid.\<close>

definition create_paid_order :: "http_lib \<Rightarrow> order_row \<Rightarrow> rat \<Rightarrow> order_resp dao" where
  "create_paid_order H row amount =
     bindM ((if h_UniPayUrl H \<noteq> '''' then unipay_order_rows else own_order_rows) H row amount)
       (\<lambda>(ord, pay, contractAddress, clientSecret).
     let addr = GetUnipayAddress H (o_PayTokenId ord) in
     if addr = '''' then apiErr ApiCodeError500
     else
     bindM (orApi ApiCodeError500 (CreateOrderWithPayment ord pay)) (\<lambda>_.
     thenM (emitM (LarkOrder (o_OrderId ord)))
       (okM \<lparr>or_OrderId = o_OrderId ord, or_TokenId = o_PayTokenId row, or_ReceiptAddress = addr,
             or_Amount = o_PayAmount ord, or_ContractAddress = contractAddress,
             or_ClientSecret = clientSecret\<rparr>)))"

text \<open>An inviter on the white list is also the channel.\<close>

definition whitelist_channel :: "http_lib \<Rightarrow> register_req \<Rightarrow> register_req" where
  "whitelist_channel H req =
     (if h_InviterWhitelist H (h_AccountId H (ob_InviterAccount (rr_Base req)))
      then req\<lparr>rr_Base := (rr_Base req)\<lparr>ob_ChannelAccount := ob_InviterAccount (rr_Base req)\<rparr>\<rparr> else req)"

definition request_amount ::
  "(rat \<Rightarrow> rat \<Rightarrow> nat \<Rightarrow> rat) \<Rightarrow> http_lib \<Rightarrow> token_map \<Rightarrow> register_req \<Rightarrow> string \<Rightarrow> gerr + (rat \<times> rat \<times> rat)" where
  "request_amount DivRound H mapToken req args =
     getOrderAmount DivRound H mapToken (account_length (s_AccountCharStr (rr_Search req))) args
       (s_Account (rr_Search req)) (ob_InviterAccount (rr_Base req)) (ob_RegisterYears (rr_Base req)) False
       (rr_PayTokenId req)"

definition doRegisterOrder ::
  "(rat \<Rightarrow> rat \<Rightarrow> nat \<Rightarrow> rat) \<Rightarrow> http_lib \<Rightarrow> token_map \<Rightarrow> register_req \<Rightarrow> order_resp dao" where
  "doRegisterOrder DivRound H mapToken req0 =
     bindM (orApi ApiCodeError500 (liftM (h_HexToArgs H (s_ChainType (rr_Search req0)) (s_Address (rr_Search req0))))) (\<lambda>args.
     bindM (orApi ApiCodeError500 (liftM (request_amount DivRound H mapToken req0 args))) (\<lambda>(usd, ckb, amount).
     if usd \<le> 0 \<or> ckb \<le> 0 \<or> amount \<le> 0 then apiErr ApiCodeError500
     else
     let req = whitelist_channel H req0;
         row = new_order H req 0 0 (order_content_of req usd ckb) in
     bindM (check_das_balance H row amount) (\<lambda>_. create_paid_order H row amount)))"

section \<open>Gift cards\<close>

definition couponEncry :: "http_lib \<Rightarrow> string \<Rightarrow> string" where
  "couponEncry H code = h_Sha256 H (code @ h_CouponEncrySalt H)"

text \<open>The clock in seconds against the time window of the coupon, both ends included.\<close>

definition coupon_closed :: "coupon_row \<Rightarrow> int \<Rightarrow> bool" where
  "coupon_closed c nw \<longleftrightarrow> nw div 1000 < c_StartAt c \<or> c_ExpiredAt c < nw div 1000"

definition checkCoupon :: "http_lib \<Rightarrow> string \<Rightarrow> coupon_row dao" where
  "checkCoupon H code =
     (if h_CouponEncrySalt H = '''' then apiErr ApiCodeError500
      else bindM (orApi ApiCodeError500 (GetCouponByCode (couponEncry H code))) (\<lambda>c.
      if c_Id c = 0 then apiErr ApiCodeCouponInvalid
      else if c_OrderId c \<noteq> '''' then apiErr ApiCodeCouponUsed
      else bindM clockM (\<lambda>nw. if coupon_closed c nw then apiErr ApiCodeCouponUnopen else okM c)))"

definition checkCouponType :: "8 word \<Rightarrow> coupon_row \<Rightarrow> bool" where
  "checkCouponType len c \<longleftrightarrow>
     c_CouponType c = CouponType4byte \<and> len = 4 \<or> c_CouponType c = CouponType5byte \<and> 5 \<le> len"

text \<open>The type is only shown when the coupon exists.\<close>

definition getCouponInfo :: "http_lib \<Rightarrow> string \<Rightarrow> (CouponType option \<times> CouponStatus) dao" where
  "getCouponInfo H code =
     (if h_CouponEncrySalt H = '''' then errM (Errf ''system setting error'')
      else bindM (wrapM ''get gift card'' (GetCouponByCode (couponEncry H code))) (\<lambda>c.
      if c_Id c = 0 then okM (None, CouponStatusNotfound)
      else if c_OrderId c \<noteq> '''' then okM (Some (c_CouponType c), CouponStatusUsed)
      else bindM clockM (\<lambda>nw.
        okM (Some (c_CouponType c), if coupon_closed c nw then CouponStatusExpired else CouponStatusAvailable))))"

definition doCheckCoupon :: "http_lib \<Rightarrow> string \<Rightarrow> (CouponType option \<times> CouponStatus) dao" where
  "doCheckCoupon H coupon =
     (if coupon = '''' then apiErr ApiCodeCouponInvalid
      else orApi ApiCodeError500 (getCouponInfo H coupon))"

text \<open>The first half of \<open>doRegisterCouponOrder\<close>: the coupon, checked without any lock.\<close>

definition coupon_checks :: "http_lib \<Rightarrow> register_req \<Rightarrow> (string \<times> coupon_row) dao" where
  "coupon_checks H req =
     bindM (orApi ApiCodeError500 (liftM (h_HexToArgs H (s_ChainType (rr_Search req)) (s_Address (rr_Search req))))) (\<lambda>args.
     if ob_RegisterYears (rr_Base req) \<noteq> 1 then apiErr ApiCodeParamsInvalid
     else bindM (checkCoupon H (rr_GiftCard req)) (\<lambda>c.
     if \<not> checkCouponType (account_length (s_AccountCharStr (rr_Search req))) c then apiErr ApiCodeCouponInvalid
     else okM (args, c)))"

definition coupon_request :: "register_req \<Rightarrow> register_req" where
  "coupon_request req = req\<lparr>rr_PayTokenId := TokenCoupon,
     rr_Base := (rr_Base req)\<lparr>ob_InviterAccount := '''', ob_ChannelAccount := ''''\<rparr>\<rparr>"

definition coupon_order :: "http_lib \<Rightarrow> register_req \<Rightarrow> int \<Rightarrow> rat \<times> rat \<times> rat \<Rightarrow> order_row" where
  "coupon_order H req nw amounts = (case amounts of (usd, ckb, amount) \<Rightarrow>
     let ord = (new_order H req nw amount (order_content_of req usd ckb))\<lparr>o_PayStatus := TxStatusSending,
           o_RegisterStatus := RegisterStatusApplyRegister\<rparr>
     in ord\<lparr>o_OrderId := order_id H ord\<rparr>)"

text \<open>The second half: the lock, the order, and the lock again; an error before \<open>CreateCouponOrder\<close>
  leaves the lock to expire.\<close>

definition coupon_redeem ::
  "(rat \<Rightarrow> rat \<Rightarrow> nat \<Rightarrow> rat) \<Rightarrow> http_lib \<Rightarrow> token_map \<Rightarrow> register_req \<Rightarrow> string \<Rightarrow> coupon_row \<Rightarrow> order_resp dao" where
  "coupon_redeem DivRound H mapToken req0 args c =
     (let req = coupon_request req0 in
     bindM (orApi ApiCodeOperationFrequent (GetCouponLockWithRedis (c_Code c) (minutes 10))) (\<lambda>_.
     bindM (orApi ApiCodeError500 (liftM (request_amount DivRound H mapToken req args))) (\<lambda>amounts.
     if amounts \<noteq> (0, 0, 0) then apiErr ApiCodeError500
     else bindM clockM (\<lambda>nw.
     let ord = coupon_order H req nw amounts in
     bindM (tryM (CreateCouponOrder ord (c_Code c))) (\<lambda>res.
     thenM (catchM (DeleteCouponLockWithRedis (c_Code c)) (\<lambda>_. okM ()))
     (case res of
        Inl e \<Rightarrow> apiErr ApiCodeError500
      | Inr _ \<Rightarrow>
          thenM (emitM (LarkOrder (o_OrderId ord)))
            (okM \<lparr>or_OrderId = o_OrderId ord, or_TokenId = TokenCoupon, or_ReceiptAddress = '''',
                  or_Amount = o_PayAmount ord, or_ContractAddress = '''', or_ClientSecret = ''''\<rparr>)))))))"

definition doRegisterCouponOrder ::
  "(rat \<Rightarrow> rat \<Rightarrow> nat \<Rightarrow> rat) \<Rightarrow> http_lib \<Rightarrow> token_map \<Rightarrow> register_req \<Rightarrow> order_resp dao" where
  "doRegisterCouponOrder DivRound H mapToken req =
     bindM (coupon_checks H req) (\<lambda>(args, c). coupon_redeem DivRound H mapToken req args c)"

section \<open>The handler\<close>

definition doOrderRegister ::
  "(rat \<Rightarrow> rat \<Rightarrow> nat \<Rightarrow> rat) \<Rightarrow> http_lib \<Rightarrow> token_map \<Rightarrow> register_req \<Rightarrow> order_resp dao" where
  "doOrderRegister DivRound H mapToken req0 =
     bindM (register_checks H req0) (\<lambda>req.
       if rr_GiftCard req \<noteq> '''' then doRegisterCouponOrder DivRound H mapToken req
       else doRegisterOrder DivRound H mapToken req)"

section \<open>order\_pay\_hash.go\<close>

record pay_hash_req =
  ph_KeyInfo :: key_info
  ph_Account :: string
  ph_OrderId :: string
  ph_PayHash :: string

definition doOrderPayHash :: "http_lib \<Rightarrow> pay_hash_req \<Rightarrow> unit dao" where
  "doOrderPayHash H req =
     (if ph_Account req = '''' \<or> ph_OrderId req = '''' \<or> ph_PayHash req = ''''
      then apiErr ApiCodeParamsInvalid
      else
      let account = ToLower (ph_Account req) in
      bindM (orApi ApiCodeParamsInvalid (liftM (h_FormatChainTypeAddress H (ph_KeyInfo req)))) (\<lambda>(chainType, address).
      bindM (orApi ApiCodeDbError (GetOrderByOrderId (ph_OrderId req))) (\<lambda>ord.
      if o_Id ord = 0 then apiErr ApiCodeOrderNotExist
      else if \<not> EqualFold (o_Account ord) account then apiErr ApiCodeParamsInvalid
      else if chainType \<noteq> o_ChainType ord \<or> \<not> EqualFold address (o_Address ord)
      then apiErr ApiCodeParamsInvalid
      else bindM clockM (\<lambda>nw.
        orApi ApiCodeDbError (CreateOrderPayInfo
          (zero_pay\<lparr>p_Hash := ph_PayHash req, p_OrderId := ph_OrderId req, p_ChainType := chainType,
                    p_Address := address, p_AccountId := o_AccountId ord, p_Timestamp := nw\<rparr>))))))"

section \<open>create\_coupon.go\<close>

record coupon_group =
  cg_CouponType :: CouponType
  cg_Num :: int
  cg_FileName :: string

record create_coupon_req =
  cc_Desc :: string
  cc_ExpireTime :: string
  cc_StartTime :: string
  cc_CouponsGroup :: "coupon_group list"

fun coupon_type_code :: "CouponType \<Rightarrow> int" where
  "coupon_type_code CouponType4byte = 1"
| "coupon_type_code CouponType5byte = 2"
| "coupon_type_code (CouponTypeOther n) = n"

text \<open>The drawn codes of a group as rows: only the hash of a code is stored.\<close>

definition coupon_rows :: "http_lib \<Rightarrow> CouponType \<Rightarrow> int \<Rightarrow> int \<Rightarrow> string list \<Rightarrow> coupon_row list" where
  "coupon_rows H coupon_type startAt expireAt codes =
     map (\<lambda>code. zero_coupon\<lparr>c_Code := couponEncry H code, c_CouponType := coupon_type,
                c_ExpiredAt := expireAt, c_StartAt := startAt\<rparr>) codes"

text \<open>\<open>draw i n\<close> are the \<open>n\<close> random codes of group \<open>i\<close>, \<open>write\<close> the file of the codes.\<close>

fun create_groups ::
  "http_lib \<Rightarrow> (nat \<Rightarrow> nat \<Rightarrow> string list) \<Rightarrow> (string \<Rightarrow> string list \<Rightarrow> gerr + unit) \<Rightarrow> int \<Rightarrow> int \<Rightarrow>
   nat \<Rightarrow> coupon_group list \<Rightarrow> unit dao" where
  "create_groups H draw write startAt expireAt i [] = okM ()"
| "create_groups H draw write startAt expireAt i (g # gs) =
     (if cg_Num g \<le> 0 \<or> coupon_type_code (cg_CouponType g) \<le> 0 then apiErr ApiCodeParamsInvalid
      else
        let codes = draw i (nat (cg_Num g)) in
        bindM (orApi ApiCodeParamsInvalid (liftM (write (cg_FileName g) (map (\<lambda>c. h_CouponQrcodePrefix H @ c) codes)))) (\<lambda>_.
        bindM (orApi ApiCodeParamsInvalid (CreateCoupon (coupon_rows H (cg_CouponType g) startAt expireAt codes))) (\<lambda>_.
          create_groups H draw write startAt expireAt (Suc i) gs)))"

text \<open>\<open>parse\<close> reads a local time; the wrapper of the handler turns every returned error into
  \<open>ApiCodeParamsInvalid\<close>.\<close>

definition doCreateCoupon ::
  "http_lib \<Rightarrow> (string \<Rightarrow> int option) \<Rightarrow> (nat \<Rightarrow> nat \<Rightarrow> string list) \<Rightarrow>
   (string \<Rightarrow> string list \<Rightarrow> gerr + unit) \<Rightarrow> create_coupon_req \<Rightarrow> unit dao" where
  "doCreateCoupon H parse draw write req =
     (if h_CouponEncrySalt H = '''' \<or> h_CouponFilePath H = '''' \<or> h_CouponQrcodePrefix H = ''''
         \<or> h_CouponCodeLength H = 0 then apiErr ApiCodeParamsInvalid
      else if cc_CouponsGroup req = [] \<or> cc_Desc req = '''' \<or> cc_ExpireTime req = '''' \<or> cc_StartTime req = ''''
      then apiErr ApiCodeParamsInvalid
      else (case parse (cc_StartTime req) of
        None \<Rightarrow> apiErr ApiCodeParamsInvalid
      | Some startAt \<Rightarrow>
      (case parse (cc_ExpireTime req) of
        None \<Rightarrow> apiErr ApiCodeParamsInvalid
      | Some expireAt \<Rightarrow>
          if expireAt < startAt then apiErr ApiCodeParamsInvalid
          else create_groups H draw write startAt expireAt 0 (cc_CouponsGroup req))))"

section \<open>Pagination\<close>

record Pagination =
  Page :: int
  Size :: int

definition GetLimit :: "Pagination \<Rightarrow> int" where
  "GetLimit p = (if Size p < 1 \<or> 100 < Size p then 100 else Size p)"

definition GetOffset :: "Pagination \<Rightarrow> int" where
  "GetOffset p = ((if Page p < 1 then 1 else Page p) - 1) * GetLimit p"

section \<open>What the handlers keep\<close>

context db_reading
begin

lemma checkSystemUpgrade: "upholds R (checkSystemUpgrade H)"
  unfolding checkSystemUpgrade_def Let_def by (intro read_rules)

lemma checkAccountBase: "upholds R (checkAccountBase H req)"
  unfolding checkAccountBase_def by (intro read_rules)

lemma checkAddressOrder: "upholds R (checkAddressOrder H req b)"
  unfolding checkAddressOrder_def Let_def by (intro read_rules)

lemma checkOtherAddressOrder: "upholds R (checkOtherAddressOrder H req)"
  unfolding checkOtherAddressOrder_def by (intro read_rules)

lemma checkSubAccount: "upholds R (checkSubAccount H req)"
  unfolding checkSubAccount_def by (intro read_rules)

lemmas search_rules = read_rules checkSystemUpgrade checkAccountBase checkAddressOrder
  checkOtherAddressOrder checkSubAccount

lemma doAccountSearch: "upholds R (doAccountSearch dr H req)"
  unfolding doAccountSearch_def search_account_def Let_def by (intro search_rules)

lemma checkOrderInfo: "upholds R (checkOrderInfo H ct cct base)"
  unfolding checkOrderInfo_def check_inviter_def check_channel_def by (intro search_rules)

lemma check_free: "upholds R (check_free H sreq)"
  unfolding check_free_def by (intro search_rules)

lemma register_checks: "upholds R (register_checks H req)"
  unfolding register_checks_def Let_def by (intro search_rules checkOrderInfo check_free)

end

context dao_contract
begin

lemmas write_rules = search_rules writes

lemma order_rows: "upholds R (unipay_order_rows H row amount)" "upholds R (own_order_rows H row amount)"
  unfolding unipay_order_rows_def own_order_rows_def Let_def by (intro write_rules)+

lemma create_paid_order: "upholds R (create_paid_order H row amount)"
  unfolding create_paid_order_def Let_def by (auto intro!: write_rules order_rows)

lemma check_das_balance: "upholds R (check_das_balance H row amount)"
  unfolding check_das_balance_def by (intro write_rules)

lemma doRegisterOrder: "upholds R (doRegisterOrder dr H m req)"
  unfolding doRegisterOrder_def Let_def by (auto intro!: write_rules create_paid_order check_das_balance)

lemma coupon_checks: "upholds R (coupon_checks H req)"
  unfolding coupon_checks_def checkCoupon_def by (intro search_rules)

lemma coupon_redeem: "upholds R (coupon_redeem dr H m req args c)"
  unfolding coupon_redeem_def GetCouponLockWithRedis_def DeleteCouponLockWithRedis_def Let_def
  by (intro write_rules redis_commands)

lemma doRegisterCouponOrder: "upholds R (doRegisterCouponOrder dr H m req)"
  unfolding doRegisterCouponOrder_def by (intro write_rules coupon_checks coupon_redeem)

lemma doOrderRegister: "upholds R (doOrderRegister dr H m req)"
  unfolding doOrderRegister_def
  by (intro write_rules register_checks doRegisterOrder doRegisterCouponOrder)

lemma doOrderPayHash: "upholds R (doOrderPayHash H req)"
  unfolding doOrderPayHash_def Let_def by (intro write_rules)

lemma create_groups: "upholds R (create_groups H draw wr s e i gs)"
  by (induction gs arbitrary: i) (auto simp: Let_def intro!: write_rules)

lemma doCreateCoupon: "upholds R (doCreateCoupon H parse draw wr req)"
  unfolding doCreateCoupon_def by (intro write_rules create_groups)

lemma doCheckCoupon: "upholds R (doCheckCoupon H code)"
  unfolding doCheckCoupon_def getCouponInfo_def by (intro write_rules)

lemmas request_rules = doAccountSearch doOrderRegister doOrderPayHash doCreateCoupon doCheckCoupon

end

end
