(* ===== verification/RegisterSafety.thy ===== *)
theory RegisterSafety
  imports OrderRegister
begin

text \<open>
  Properties of the order handlers: what must hold of the account and the request when a request
  changes the database, what a successful request leaves behind, how the price is rounded, and the
  use of gift cards, with a concrete library on which the properties are instantiated.
\<close>

section \<open>Only free accounts are ordered\<close>

definition account_of :: "http_lib \<Rightarrow> db \<Rightarrow> string \<Rightarrow> account_row" where
  "account_of H t account =
     first_or zero_account (filter (\<lambda>a. a_AccountId a = h_AccountId H account) (accounts t))"

definition open_order :: "http_lib \<Rightarrow> db \<Rightarrow> string \<Rightarrow> order_row" where
  "open_order H t account = latest_order (\<lambda>r. o_AccountId r = h_AccountId H account
     \<and> o_Action r = DasActionApplyRegister \<and> o_OrderStatus r = OrderStatusDefault) t"

definition unpaid :: "db \<Rightarrow> int \<Rightarrow> string \<Rightarrow> int" where
  "unpaid t chainType address = int (length (filter (\<lambda>r. o_ChainType r = chainType \<and> o_Address r = address
        \<and> o_OrderStatus r = OrderStatusDefault \<and> o_PayStatus r = TxStatusDefault) (orders t)))"

lemma check_free_cases:
  assumes "check_free H sreq w = (Inr x, w')"
  shows "checkAccountCharSet H (s_Account sreq) (s_AccountCharStr sreq) = Inr ()"
    "a_Id (account_of H (tabs w) (s_Account sreq)) = 0
       \<or> FormatAccountStatus (account_of H (tabs w) (s_Account sreq)) = SearchStatusRegisterAble"
    "o_Id (open_order H (tabs w) (s_Account sreq)) = 0
       \<or> o_RegisterStatus (open_order H (tabs w) (s_Account sreq)) < RegisterStatusPreRegister"
proof -
  from assms obtain b w1 st m w2 other w3
    where chars: "checkAccountCharSet H (s_Account sreq) (s_AccountCharStr sreq) = Inr ()"
    and b: "checkAccountBase H sreq w = (Inr b, w1)" "bk_Status b = SearchStatusRegisterAble"
    and a: "checkAddressOrder H sreq False w1 = (Inr (st, m), w2)"
    and ot: "checkOtherAddressOrder H sreq w2 = (Inr other, w3)" "\<not> SearchStatusRegistering \<le> other"
    unfolding check_free_def by (auto simp: ok_iffs split: if_splits prod.splits)
  show "checkAccountCharSet H (s_Account sreq) (s_AccountCharStr sreq) = Inr ()" by (rule chars)
  show "a_Id (account_of H (tabs w) (s_Account sreq)) = 0
       \<or> FormatAccountStatus (account_of H (tabs w) (s_Account sreq)) = SearchStatusRegisterAble"
    using b unfolding checkAccountBase_def GetAccountInfoByAccountId_def account_of_def
    by (auto simp: ok_iffs dest!: queryM_okD split: if_splits)
  have "tabs w2 = tabs w"
    using tabs_readonly [OF readonly.checkAccountBase b(1)] tabs_readonly [OF readonly.checkAddressOrder a] by simp
  with ot show "o_Id (open_order H (tabs w) (s_Account sreq)) = 0
       \<or> o_RegisterStatus (open_order H (tabs w) (s_Account sreq)) < RegisterStatusPreRegister"
    unfolding checkOtherAddressOrder_def GetLatestRegisterOrderByLatest_def open_order_def
    by (cases "o_RegisterStatus (open_order H (tabs w) (s_Account sreq))")
      (auto simp: ok_iffs search_order register_order open_order_def dest!: queryM_okD split: if_splits)
qed

lemma checkOrderInfo_years:
  "checkOrderInfo H ct cct base w = (Inr base', w') \<Longrightarrow>
     0 < ob_RegisterYears base \<and> ob_RegisterYears base \<le> h_MaxRegisterYears H
     \<and> ob_RegisterYears base' = ob_RegisterYears base \<and> ob_InviterAccount base' = ob_InviterAccount base"
  unfolding checkOrderInfo_def by (auto simp: ok_iffs split: if_splits)

lemma register_checks_cases:
  assumes "register_checks H req w = (Inr req', w')"
  obtains chainType address base where
    "h_FormatChainTypeAddress H (rr_KeyInfo req) = Inr (chainType, address)"
    "req' = req\<lparr>rr_CrossCoinType := '''', rr_Search := (rr_Search req)\<lparr>s_ChainType := chainType,
       s_Address := address\<rparr>, rr_Base := base\<rparr>"
    "s_Account (rr_Search req) \<noteq> ''''" "\<not> h_IsUpdate H" "checkChainType H chainType"
    "unpaid (tabs w) chainType address \<le> 300"
    "0 < ob_RegisterYears base" "ob_RegisterYears base \<le> h_MaxRegisterYears H"
    "ob_RegisterYears base = ob_RegisterYears (rr_Base req)"
    "checkAccountCharSet H (s_Account (rr_Search req)) (s_AccountCharStr (rr_Search req)) = Inr ()"
    "a_Id (account_of H (tabs w) (s_Account (rr_Search req))) = 0
       \<or> FormatAccountStatus (account_of H (tabs w) (s_Account (rr_Search req))) = SearchStatusRegisterAble"
    "o_Id (open_order H (tabs w) (s_Account (rr_Search req))) = 0
       \<or> o_RegisterStatus (open_order H (tabs w) (s_Account (rr_Search req))) < RegisterStatusPreRegister"
proof -
  from assms obtain chainType address u w1 cnt w2 base w3 v w4
    where f: "s_Account (rr_Search req) \<noteq> ''''" "h_FormatChainTypeAddress H (rr_KeyInfo req) = Inr (chainType, address)"
      "checkChainType H chainType"
    and up: "checkSystemUpgrade H w = (Inr u, w1)"
    and cnt: "GetUnPayOrderCount chainType address w1 = (Inr cnt, w2)" "\<not> maxUnPayCount < cnt"
    and oi: "checkOrderInfo H (rr_CoinType req) '''' (rr_Base req) w2 = (Inr base, w3)"
    and free: "check_free H ((rr_Search req)\<lparr>s_ChainType := chainType, s_Address := address\<rparr>) w3 = (Inr v, w4)"
    and req': "req' = req\<lparr>rr_CrossCoinType := '''', rr_Search := (rr_Search req)\<lparr>s_ChainType := chainType,
       s_Address := address\<rparr>, rr_Base := base\<rparr>"
    unfolding register_checks_def Let_def by (auto simp: ok_iffs split: if_splits prod.splits)
  have t1: "tabs w1 = tabs w" using tabs_readonly [OF readonly.checkSystemUpgrade up] .
  have t2: "tabs w2 = tabs w1" and cnt': "cnt = unpaid (tabs w1) chainType address"
    using cnt(1) unfolding GetUnPayOrderCount_def unpaid_def by (auto dest!: queryM_okD)
  have t3: "tabs w3 = tabs w2" using tabs_readonly [OF readonly.checkOrderInfo oi] .
  have "\<not> h_IsUpdate H" using up unfolding checkSystemUpgrade_def by (auto simp: ok_iffs)
  with f req' cnt(2) cnt' t1 t2 t3 checkOrderInfo_years [OF oi] check_free_cases [OF free]
  show ?thesis by (intro that [of chainType address base]) (simp_all add: maxUnPayCount_def)
qed


section \<open>What a successful request leaves\<close>

lemma insert_order_ok:
  "insert_order r t = Inr (u, t') \<longleftrightarrow> o_OrderId r \<notin> o_OrderId ` set (orders t)
     \<and> t' = t\<lparr>orders := orders t @ [r\<lparr>o_Id := next_id t\<rparr>], next_id := Suc (next_id t)\<rparr>"
  by (auto simp: insert_order_def)

lemma insert_pay_orders: "insert_pay p t = Inr (u, t') \<Longrightarrow> orders t' = orders t \<and> coupons t' = coupons t"
  by (auto simp: insert_pay_def split: if_splits)

lemma CreateOrderWithPayment_ok:
  assumes "CreateOrderWithPayment r p w = (Inr u, w')"
  shows "o_OrderId r \<notin> o_OrderId ` set (orders (tabs w))
    \<and> orders (tabs w') = orders (tabs w) @ [r\<lparr>o_Id := next_id (tabs w)\<rparr>] \<and> coupons (tabs w') = coupons (tabs w)"
  using assms unfolding CreateOrderWithPayment_def
  by (auto elim!: txnM_okE simp: ok_iffs insert_order_ok dest!: stmtM_okD insert_pay_orders split: if_splits)

definition fresh_order :: "http_lib \<Rightarrow> register_req \<Rightarrow> order_row \<Rightarrow> bool" where
  "fresh_order H req r \<longleftrightarrow> o_OrderType r = OrderTypeSelf \<and> o_OrderStatus r = OrderStatusDefault
     \<and> o_PayStatus r = TxStatusDefault \<and> o_RegisterStatus r = RegisterStatusConfirmPayment
     \<and> o_PreRegisterStatus r = TxStatusDefault \<and> o_HedgeStatus r = TxStatusDefault
     \<and> o_Account r = s_Account (rr_Search req) \<and> o_AccountId r = h_AccountId H (s_Account (rr_Search req))
     \<and> o_PayTokenId r = rr_PayTokenId req \<and> RegisterYears (GetContent r) = ob_RegisterYears (rr_Base req)"

lemma fresh_new_order:
  "fresh_order H req (new_order H req nw amount content) = (RegisterYears content = ob_RegisterYears (rr_Base req))"
  by (auto simp: fresh_order_def new_order_def zero_order_def GetContent_def)

text \<open>The row as it is stored: only its id, time, amount, number and premium are new.\<close>

definition placed :: "order_row \<Rightarrow> order_row \<Rightarrow> bool" where
  "placed row r \<longleftrightarrow> o_OrderType r = o_OrderType row \<and> o_OrderStatus r = o_OrderStatus row
     \<and> o_PayStatus r = o_PayStatus row \<and> o_RegisterStatus r = o_RegisterStatus row
     \<and> o_PreRegisterStatus r = o_PreRegisterStatus row \<and> o_HedgeStatus r = o_HedgeStatus row
     \<and> o_Account r = o_Account row \<and> o_AccountId r = o_AccountId row \<and> o_PayTokenId r = o_PayTokenId row
     \<and> o_Content r = o_Content row \<and> o_Action r = o_Action row \<and> o_ChainType r = o_ChainType row
     \<and> o_Address r = o_Address row"

lemma placed_fresh: "placed row r \<Longrightarrow> fresh_order H req r = fresh_order H req row"
  by (simp add: fresh_order_def GetContent_def placed_def)

lemma order_rows_placed:
  "unipay_order_rows H row amount w = (Inr (r, p, a, b), w') \<Longrightarrow> placed row r \<and> tabs w' = tabs w"
  "own_order_rows H row amount w = (Inr (r, p, a, b), w') \<Longrightarrow> placed row r \<and> tabs w' = tabs w"
  unfolding unipay_order_rows_def own_order_rows_def
  by (auto simp: ok_iffs Let_def case_prod_beta placed_def simp del: One_nat_def)

lemma create_paid_order_ok:
  assumes "create_paid_order H row amount w = (Inr resp, w')"
  shows "\<exists>r. placed row r \<and> o_OrderId r = or_OrderId resp \<and> o_PayAmount r = or_Amount resp
    \<and> or_OrderId resp \<notin> o_OrderId ` set (orders (tabs w)) \<and> orders (tabs w') = orders (tabs w) @ [r]"
proof -
  from assms obtain r p a b w2 v w3 where
    rows: "(if h_UniPayUrl H \<noteq> '''' then unipay_order_rows else own_order_rows) H row amount w = (Inr (r, p, a, b), w2)"
    and cr: "CreateOrderWithPayment r p w2 = (Inr v, w3)"
    and w': "tabs w' = tabs w3" "or_OrderId resp = o_OrderId r" "or_Amount resp = o_PayAmount r"
    unfolding create_paid_order_def Let_def by (auto simp: ok_iffs split: if_splits prod.splits)
  from rows order_rows_placed [of H row amount w r p a b w2] have "placed row r" "tabs w2 = tabs w"
    by (auto split: if_splits)
  moreover from this(1) have "placed row (r\<lparr>o_Id := next_id (tabs w2)\<rparr>)"
    by (simp add: placed_def)
  ultimately show ?thesis
    using CreateOrderWithPayment_ok [OF cr] w'
    by (intro exI [of _ "r\<lparr>o_Id := next_id (tabs w2)\<rparr>"]) simp
qed

lemma doRegisterOrder_ok:
  assumes "doRegisterOrder DivRound H mapToken req w = (Inr resp, w')"
  shows "\<exists>r. fresh_order H req r \<and> o_OrderId r = or_OrderId resp \<and> o_PayAmount r = or_Amount resp
    \<and> or_OrderId resp \<notin> o_OrderId ` set (orders (tabs w)) \<and> orders (tabs w') = orders (tabs w) @ [r]"
proof -
  let ?rq = "whitelist_channel H req"
  from assms obtain usd ckb amount u w1 where
    bal: "check_das_balance H (new_order H ?rq 0 0 (order_content_of ?rq usd ckb)) amount w = (Inr u, w1)"
    and cr: "create_paid_order H (new_order H ?rq 0 0 (order_content_of ?rq usd ckb)) amount w1 = (Inr resp, w')"
    unfolding doRegisterOrder_def Let_def by (auto simp: ok_iffs split: if_splits prod.splits)
  have t1: "tabs w1 = tabs w" using bal unfolding check_das_balance_def
    by (auto simp: ok_iffs split: if_splits option.splits)
  have "fresh_order H req = fresh_order H ?rq"
    by (simp add: fun_eq_iff fresh_order_def whitelist_channel_def)
  then have "fresh_order H req (new_order H ?rq 0 0 (order_content_of ?rq usd ckb))"
    by (simp add: fresh_new_order order_content_of_def)
  with create_paid_order_ok [OF cr] t1 placed_fresh show ?thesis by metis
qed


section \<open>Gift cards\<close>

definition coupon_of :: "string \<Rightarrow> db \<Rightarrow> coupon_row" where
  "coupon_of code t = first_or zero_coupon (filter (\<lambda>c. c_Code c = code) (coupons t))"

lemma readonly_coupon:
  "upholds (=) (GetCouponLockWithRedis code d :: unit dao)"
  "upholds (=) (catchM (DeleteCouponLockWithRedis code) (\<lambda>_. okM ()) :: unit dao)"
  "upholds (=) (coupon_checks H req)"
  unfolding GetCouponLockWithRedis_def DeleteCouponLockWithRedis_def coupon_checks_def checkCoupon_def
  by (intro readonly.search_rules readonly.redis_commands)+

lemma filter_head: "filter P xs = y # ys \<Longrightarrow> y \<in> set xs \<and> P y"
proof -
  assume "filter P xs = y # ys"
  then have "y \<in> set (filter P xs)" by simp
  then show ?thesis by simp
qed

lemma CreateCouponOrder_ok:
  assumes "CreateCouponOrder r code w = (Inr u, w')"
  shows "o_OrderId r \<notin> o_OrderId ` set (orders (tabs w))
    \<and> orders (tabs w') = orders (tabs w) @ [r\<lparr>o_Id := next_id (tabs w)\<rparr>]
    \<and> coupons (tabs w') = update_where (\<lambda>c. c_Code c = code \<and> c_OrderId c = '''' \<and> c_UseAt c = 0)
        (\<lambda>c. c\<lparr>c_OrderId := o_OrderId r, c_UseAt := now w div 1000\<rparr>) (coupons (tabs w))"
  using assms unfolding CreateCouponOrder_def
  by (auto elim!: txnM_okE simp: ok_iffs insert_order_ok dest!: stmtM_okD updateM_okD)

lemma coupon_checks_cases:
  assumes "coupon_checks H req w = (Inr (args, c), w')"
  shows "tabs w' = tabs w" "ob_RegisterYears (rr_Base req) = 1"
    "c = coupon_of (couponEncry H (rr_GiftCard req)) (tabs w)" "c_Id c \<noteq> 0" "c_OrderId c = ''''"
    "checkCouponType (account_length (s_AccountCharStr (rr_Search req))) c"
  using assms tabs_readonly [OF readonly_coupon(3) assms]
  unfolding coupon_checks_def checkCoupon_def GetCouponByCode_def coupon_of_def
  by (auto simp: ok_iffs dest!: queryM_okD split: if_splits)

lemma coupon_redeem_cases:
  assumes "coupon_redeem DivRound H mapToken req args c w = (Inr resp, w')"
  obtains r where "orders (tabs w') = orders (tabs w) @ [r]" "o_OrderId r = or_OrderId resp"
    "o_PayStatus r = TxStatusSending" "o_RegisterStatus r = RegisterStatusApplyRegister"
    "o_PayAmount r = 0" "o_Account r = s_Account (rr_Search req)" "o_OrderId r \<notin> o_OrderId ` set (orders (tabs w))"
    "\<exists>nw. coupons (tabs w') = update_where (\<lambda>d. c_Code d = c_Code c \<and> c_OrderId d = '''' \<and> c_UseAt d = 0)
        (\<lambda>d. d\<lparr>c_OrderId := o_OrderId r, c_UseAt := nw\<rparr>) (coupons (tabs w))"
proof -
  let ?req = "coupon_request req"
  let ?ord = "\<lambda>nw. coupon_order H ?req nw (0, 0, 0)"
  from assms obtain u w1 w2 w3 res where
    lock: "GetCouponLockWithRedis (c_Code c) (minutes 10) w = (Inr u, w1)"
    and cr: "tryM (CreateCouponOrder (?ord (now w1)) (c_Code c)) w1 = (Inr res, w2)"
    and del: "catchM (DeleteCouponLockWithRedis (c_Code c)) (\<lambda>_. okM ()) w2 = (Inr (), w3)"
    and last: "(case res of Inl e \<Rightarrow> apiErr ApiCodeError500 | Inr _ \<Rightarrow> thenM (emitM (LarkOrder (o_OrderId (?ord (now w1)))))
            (okM \<lparr>or_OrderId = o_OrderId (?ord (now w1)), or_TokenId = TokenCoupon, or_ReceiptAddress = '''',
                  or_Amount = o_PayAmount (?ord (now w1)), or_ContractAddress = '''', or_ClientSecret = ''''\<rparr>)) w3 = (Inr resp, w')"
    unfolding coupon_redeem_def Let_def
    by (simp only: bindM_ok thenM_ok orApi_ok liftM_ok clockM_ok) (fastforce simp: ok_iffs split: if_splits)
  from last obtain v where res: "res = Inr v" by (cases res) (simp_all add: ok_iffs)
  with last have w': "tabs w' = tabs w3" "or_OrderId resp = o_OrderId (?ord (now w1))"
    by (auto simp: ok_iffs)
  from cr res have "CreateCouponOrder (?ord (now w1)) (c_Code c) w1 = (Inr v, w2)" by (simp add: tryM_ok)
  note t = tabs_readonly [OF readonly_coupon(1) lock] tabs_readonly [OF readonly_coupon(2) del] CreateCouponOrder_ok [OF this]
  show ?thesis
    by (rule that [of "(coupon_order H ?req (now w1) (0, 0, 0))\<lparr>o_Id := next_id (tabs w1)\<rparr>"])
      (use t w' in \<open>auto simp: coupon_order_def new_order_def coupon_request_def Let_def\<close>)
qed

text \<open>A coupon row that was free is bound by the update.\<close>

lemma coupon_bound:
  assumes "c_Code (coupon_of code t) = code \<or> c_Id (coupon_of code t) \<noteq> 0"
    and "c_OrderId (coupon_of code t) = ''''" and "c_UseAt (coupon_of code t) = 0"
    and "c_Id (coupon_of code t) \<noteq> 0"
    and "coupons t' = update_where (\<lambda>d. c_Code d = code \<and> c_OrderId d = '''' \<and> c_UseAt d = 0)
        (\<lambda>d. d\<lparr>c_OrderId := oid, c_UseAt := nw\<rparr>) (coupons t)"
  shows "c_OrderId (coupon_of code t') = oid" "c_Id (coupon_of code t') = c_Id (coupon_of code t)"
proof -
  obtain c cs where c: "filter (\<lambda>d. c_Code d = code) (coupons t) = c # cs"
    using assms(4) by (cases "filter (\<lambda>d. c_Code d = code) (coupons t)")
      (auto simp: coupon_of_def first_or_def zero_coupon_def)
  then have cc: "coupon_of code t = c" "c_Code c = code"
    using filter_head [OF c] by (simp_all add: coupon_of_def first_or_def)
  have "filter (\<lambda>d. c_Code d = code) (coupons t') = update_where (\<lambda>d. c_Code d = code \<and> c_OrderId d = '''' \<and> c_UseAt d = 0)
        (\<lambda>d. d\<lparr>c_OrderId := oid, c_UseAt := nw\<rparr>) (filter (\<lambda>d. c_Code d = code) (coupons t))"
    unfolding assms(5) by (rule filter_kept_where) simp
  with c cc assms(2,3) show "c_OrderId (coupon_of code t') = oid" "c_Id (coupon_of code t') = c_Id (coupon_of code t)"
    by (simp_all add: coupon_of_def first_or_def)
qed

text \<open>A successful request with a gift card found the card unused, binds it to the one order it
  adds, and this order is free and counts as paid.\<close>

theorem gift_card_order:
  assumes "doOrderRegister DivRound H mapToken req w = (Inr resp, w')" and "rr_GiftCard req \<noteq> ''''"
    and "\<forall>c \<in> set (coupons (tabs w)). c_OrderId c = '''' \<longrightarrow> c_UseAt c = 0"
  defines "code \<equiv> couponEncry H (rr_GiftCard req)"
  shows "c_Id (coupon_of code (tabs w)) \<noteq> 0 \<and> c_OrderId (coupon_of code (tabs w)) = ''''
    \<and> c_OrderId (coupon_of code (tabs w')) = or_OrderId resp
    \<and> (\<exists>r. orders (tabs w') = orders (tabs w) @ [r] \<and> o_OrderId r = or_OrderId resp
        \<and> o_PayStatus r = TxStatusSending \<and> o_RegisterStatus r = RegisterStatusApplyRegister
        \<and> o_PayAmount r = 0 \<and> o_Account r = s_Account (rr_Search req))"
proof -
  from assms(1) obtain req' w1 where c: "register_checks H req w = (Inr req', w1)"
    and d: "(if rr_GiftCard req' \<noteq> '''' then doRegisterCouponOrder DivRound H mapToken req'
            else doRegisterOrder DivRound H mapToken req') w1 = (Inr resp, w')"
    unfolding doOrderRegister_def by (auto simp: ok_iffs)
  have t: "tabs w1 = tabs w" using tabs_readonly [OF readonly.register_checks c] .
  from c have g: "rr_GiftCard req' = rr_GiftCard req" "s_Account (rr_Search req') = s_Account (rr_Search req)"
    by (cases rule: register_checks_cases; simp)+
  with d assms(2) obtain args cp w2 where chk: "coupon_checks H req' w1 = (Inr (args, cp), w2)"
    and red: "coupon_redeem DivRound H mapToken req' args cp w2 = (Inr resp, w')"
    unfolding doRegisterCouponOrder_def by (auto simp: ok_iffs split: prod.splits)
  note k = coupon_checks_cases [OF chk, unfolded g t]
  obtain ds where "filter (\<lambda>d. c_Code d = code) (coupons (tabs w)) = cp # ds"
    using k(3,4) by (cases "filter (\<lambda>d. c_Code d = code) (coupons (tabs w))")
      (auto simp: coupon_of_def first_or_def zero_coupon_def code_def)
  then have m: "cp \<in> set (coupons (tabs w))" "c_Code cp = code"
    using filter_head by fast+
  from red show ?thesis
  proof (cases rule: coupon_redeem_cases)
    case (1 r)
    then obtain nw where "coupons (tabs w') = update_where (\<lambda>d. c_Code d = code \<and> c_OrderId d = '''' \<and> c_UseAt d = 0)
        (\<lambda>d. d\<lparr>c_OrderId := o_OrderId r, c_UseAt := nw\<rparr>) (coupons (tabs w))"
      using k(1) t m(2) by auto
    from coupon_bound(1) [OF _ _ _ _ this] k m assms(3) 1 t show ?thesis
      by (auto simp: code_def g)
  qed
qed

text \<open>The display of a gift card and its use agree: the card is shown as available exactly when the
  check of an order accepts it, at the same moment and with the same failures.\<close>

theorem coupon_info_agrees:
  "(\<exists>k. fst (getCouponInfo H code w) = Inr (k, CouponStatusAvailable)) \<longleftrightarrow> isl (fst (checkCoupon H code w)) = False"
proof (cases "h_CouponEncrySalt H = ''''")
  case True
  then show ?thesis by (simp add: getCouponInfo_def checkCoupon_def errM_def apiErr_def)
next
  case False
  obtain r w1 where q: "GetCouponByCode (couponEncry H code) w = (r, w1)" by fastforce
  with False show ?thesis
    by (cases r) (auto simp: getCouponInfo_def checkCoupon_def bindM_def wrapM_def orApi_def catchM_def
        errM_def apiErr_def okM_def clockM_def)
qed

subsection \<open>Two requests with one card\<close>

lemma coupon_redeem_healthy:
  fixes H :: http_lib and req :: register_req and w :: "db world"
  assumes "healthy w" and "redis w = Some s" and "live (now w) s (couponKey (c_Code c)) = None"
  defines "r \<equiv> coupon_order H (coupon_request req) (now w) (0, 0, 0)"
  assumes "o_OrderId r \<notin> o_OrderId ` set (orders (tabs w))"
  shows "\<exists>resp w'. coupon_redeem DivRound H mapToken req args c w = (Inr resp, w') \<and> healthy w'
    \<and> now w' = now w \<and> redis w' = Some (s(couponKey (c_Code c) := None))
    \<and> orders (tabs w') = orders (tabs w) @ [r\<lparr>o_Id := next_id (tabs w)\<rparr>]"
proof -
  let ?k = "couponKey (c_Code c)"
  define w1 where "w1 = w\<lparr>redis := Some (redis_set ?k '''' (minutes 10) (now w) s)\<rparr>"
  have h1: "healthy w1" "now w1 = now w" "tabs w1 = tabs w" using assms(1) by (simp_all add: w1_def)
  have lock: "GetCouponLockWithRedis (c_Code c) (minutes 10) w = (Inr (), w1)"
    using assms(1-3) by (simp add: GetCouponLockWithRedis_def go_simps redis_setnx_def w1_def)
  have amt: "request_amount DivRound H mapToken (coupon_request req) args = Inr (0, 0, 0)"
    by (simp add: request_amount_def coupon_request_def getOrderAmount_def)
  obtain t2 where cr: "CreateCouponOrder r (c_Code c) w1 = (Inr (), w1\<lparr>tabs := t2\<rparr>)"
    and t2: "orders t2 = orders (tabs w) @ [r\<lparr>o_Id := next_id (tabs w)\<rparr>]"
    using h1 assms(5) by (auto simp: CreateCouponOrder_def go_simps insert_order_def)
  have del: "catchM (DeleteCouponLockWithRedis (c_Code c)) (\<lambda>_. okM ()) (w1\<lparr>tabs := t2\<rparr>) =
      (Inr (), w1\<lparr>tabs := t2, redis := Some (s(?k := None))\<rparr>)"
    using h1 by (simp add: DeleteCouponLockWithRedis_def go_simps redis_del_def redis_set_def w1_def)
  show ?thesis
    unfolding coupon_redeem_def Let_def using h1 assms(1) cr del t2
    by (simp add: go_simps lock amt r_def [symmetric] w1_def)
qed

text \<open>C31. The card is checked before its lock is taken and not again after: two requests that both
  passed the check before either redeemed the card both get a free order that counts as paid.\<close>

theorem coupon_checked_outside_lock:
  assumes "healthy w" and "redis w = Some s" and "live (now w) s (couponKey (c_Code c)) = None"
    and "coupon_checks H req1 w = (Inr (args1, c), w)" and "coupon_checks H req2 w = (Inr (args2, c), w)"
    and "r1 = coupon_order H (coupon_request req1) (now w) (0, 0, 0)"
    and "r2 = coupon_order H (coupon_request req2) (now w) (0, 0, 0)"
    and "o_OrderId r1 \<notin> o_OrderId ` set (orders (tabs w))"
    and "o_OrderId r2 \<notin> o_OrderId ` set (orders (tabs w))" and "o_OrderId r2 \<noteq> o_OrderId r1"
  shows "\<exists>resp1 w1 resp2 w2. coupon_redeem DivRound H mapToken req1 args1 c w = (Inr resp1, w1)
    \<and> coupon_redeem DivRound H mapToken req2 args2 c w1 = (Inr resp2, w2)
    \<and> map o_OrderId (orders (tabs w2)) = map o_OrderId (orders (tabs w)) @ [o_OrderId r1, o_OrderId r2]
    \<and> map o_PayStatus (orders (tabs w2)) = map o_PayStatus (orders (tabs w)) @ [TxStatusSending, TxStatusSending]
    \<and> map o_PayAmount (orders (tabs w2)) = map o_PayAmount (orders (tabs w)) @ [0, 0]"
proof -
  note red = coupon_redeem_healthy [where DivRound = DivRound and mapToken = mapToken]
  obtain resp1 w1 where 1: "coupon_redeem DivRound H mapToken req1 args1 c w = (Inr resp1, w1)" "healthy w1"
    "now w1 = now w" "redis w1 = Some (s(couponKey (c_Code c) := None))"
    "orders (tabs w1) = orders (tabs w) @ [r1\<lparr>o_Id := next_id (tabs w)\<rparr>]"
    using red [OF assms(1-3), where H = H and req = req1 and args = args1] assms(6,8) by auto
  have free: "live (now w1) (s(couponKey (c_Code c) := None)) (couponKey (c_Code c)) = None"
    by (simp add: live_def)
  obtain resp2 w2 where 2: "coupon_redeem DivRound H mapToken req2 args2 c w1 = (Inr resp2, w2)"
    "orders (tabs w2) = orders (tabs w1) @ [r2\<lparr>o_Id := next_id (tabs w1)\<rparr>]"
    using red [OF 1(2,4) free, where H = H and req = req2 and args = args2] 1 assms(7,9,10) by auto
  have "o_PayStatus r1 = TxStatusSending" "o_PayStatus r2 = TxStatusSending" "o_PayAmount r1 = 0" "o_PayAmount r2 = 0"
    by (simp_all add: assms(6,7) coupon_order_def new_order_def Let_def)
  with 1 2 show ?thesis by (intro exI [of _ resp1] exI [of _ w1] exI [of _ resp2] exI [of _ w2]) simp
qed

section \<open>Bounds of prices\<close>

context decimal_lib
begin

lemma total_usd_bounds:
  "gross_usd H p b \<le> total_usd DivRound H p b" "total_usd DivRound H p b < gross_usd H p b + 1 / 100"
proof -
  let ?n = "\<lceil>gross_usd H p b * 100\<rceil>"
  have "total_usd DivRound H p b = of_int ?n / 100"
    using pow10_exact [of 2 2 ?n] by (simp add: total_usd_def ceil_rat_def)
  moreover have "gross_usd H p b * 100 \<le> of_int ?n" "of_int ?n < gross_usd H p b * 100 + 1"
    by linarith+
  ultimately show "gross_usd H p b \<le> total_usd DivRound H p b"
    "total_usd DivRound H p b < gross_usd H p b + 1 / 100" by linarith+
qed

lemma round_up_bounds':
  "k \<le> 8 \<Longrightarrow> of_int n \<le> round_up DivRound k (of_int n) \<and> round_up DivRound k (of_int n) < of_int n + 10 ^ 8"
proof -
  assume "k \<le> 8"
  then have "(10 :: rat) ^ k \<le> 10 ^ 8" by (intro power_increasing) auto
  with round_up_bounds [of k n] \<open>k \<le> 8\<close> show ?thesis by simp
qed

lemma RoundAmount_bounds:
  "of_int n \<le> RoundAmount DivRound (of_int n) tok" "RoundAmount DivRound (of_int n) tok < of_int n + 10 ^ 8"
  by (cases tok; use round_up_bounds' [of 8 n] round_up_bounds' [of 4 n] round_up_bounds' [of 3 n]
      in \<open>simp add: RoundAmount_def\<close>)+

lemma token_amount_bounds:
  fixes usd price :: rat and d :: nat
  assumes "0 < price"
  defines "exact \<equiv> usd / price * 10 ^ d"
  shows "exact - 10 ^ d / (2 * 10 ^ 16) \<le> RoundAmount DivRound (ceil_rat (DivRound usd price 16 * 10 ^ d)) tok"
    "RoundAmount DivRound (ceil_rat (DivRound usd price 16 * 10 ^ d)) tok < exact + 10 ^ d / (2 * 10 ^ 16) + 1 + 10 ^ 8"
proof -
  let ?q = "DivRound usd price 16"
  have "usd / price - 1 / (2 * 10 ^ 16) \<le> ?q" "?q \<le> usd / price + 1 / (2 * 10 ^ 16)"
    using close_ge [of price usd 16] close_le [of price usd 16] assms(1) by simp_all
  then have q: "exact - 10 ^ d / (2 * 10 ^ 16) \<le> ?q * 10 ^ d" "?q * 10 ^ d \<le> exact + 10 ^ d / (2 * 10 ^ 16)"
    using mult_right_mono [of "usd / price - 1 / (2 * 10 ^ 16)" ?q "10 ^ d"]
      mult_right_mono [of ?q "usd / price + 1 / (2 * 10 ^ 16)" "10 ^ d"]
    by (simp_all add: exact_def algebra_simps)
  have c: "?q * 10 ^ d \<le> ceil_rat (?q * 10 ^ d)" "ceil_rat (?q * 10 ^ d) < ?q * 10 ^ d + 1"
    by (rule ceil_rat_ge, rule ceil_rat_less)
  note r = RoundAmount_bounds [of "\<lceil>?q * 10 ^ d\<rceil>" tok, folded ceil_rat_def]
  show "exact - 10 ^ d / (2 * 10 ^ 16) \<le> RoundAmount DivRound (ceil_rat (?q * 10 ^ d)) tok"
    using q(1) c(1) r(1) by linarith
  show "RoundAmount DivRound (ceil_rat (?q * 10 ^ d)) tok < exact + 10 ^ d / (2 * 10 ^ 16) + 1 + 10 ^ 8"
    using q(2) c(2) r(2) by linarith
qed

end


section \<open>A concrete library\<close>

text \<open>An instance of the parameters, and requests and databases for it, on which the examples run.\<close>

definition ex_http :: http_lib where
  "ex_http = \<lparr>h_CouponEncrySalt = ''salt'', h_CouponFilePath = ''f'', h_CouponQrcodePrefix = ''q'',
     h_CouponCodeLength = 8, h_IsUpdate = False, h_MainNet = True, h_MaxRegisterYears = 20,
     h_AccountMinLength = 4, h_AccountMaxLength = 42, h_OpenAccountMinLength = 10,
     h_OpenAccountMaxLength = 9, h_Premium = 0, h_Discount = 0, h_StripePremiumPercentage = 0,
     h_StripePremiumBase = 0, h_UniPayUrl = '''', h_ParserUrl = '''', h_PayAddressMap = (\<lambda>_. ''addr''),
     h_InviterWhitelist = (\<lambda>_. False), h_UnAvailableAccounts = (\<lambda>_. False),
     h_ReservedAccounts = (\<lambda>_. False), h_OneCkb = 100000000, h_UsdRateBase = 1000000,
     h_PercentRateBase = 10000, h_Suffix = ''.bit'', h_BlackHoleAddress = ''0x0'', h_CoinTypeEth = ''60'',
     h_ChainTypes = [1], h_ChainTypeCkb = 0, h_ChainTypeEth = 1, h_ChainTypeTron = 3,
     h_CharType = (\<lambda>_. Some AccountCharTypeEn), h_CharSet = (\<lambda>_ _. True), h_CharTypeDiff = (\<lambda>_. False),
     h_FormatChainTypeAddress = (\<lambda>k. Inr (1, ki_Key k)), h_HexToArgs = (\<lambda>_ _. Inr ''0x03''),
     h_HexToScript = (\<lambda>_ a. Inr a), h_HexToNormal = (\<lambda>_ a. Inr a), h_AccountId = (\<lambda>a. a),
     h_Blake2b20 = (\<lambda>a. a), h_Blake256Four = (\<lambda>_. 0), h_Sha256 = (\<lambda>a. a), h_md5 = (\<lambda>a. a),
     h_ActionString = (\<lambda>_. ''''), h_TimeCell = Inr 0, h_QuoteCell = Inr 5000, h_MainStatus = Inr (Inr 1),
     h_ContractStatusOK = Inr True, h_ReleaseLucky = Inr (Inr 0),
     h_PriceCell = Inr \<lparr>pc_AccountPrice = (\<lambda>_. Inr (5000000, 5000000)),
        pc_BasicCapacity = (\<lambda>_. Inr 20600000000), pc_PreparedFeeCapacity = Inr 100000000\<rparr>,
     h_InvitedDiscount = Inr (Inr 500), h_ConfigCache = Inl Fault, h_DecodeCache = (\<lambda>_. Inl Fault),
     h_BalanceCells = (\<lambda>_ _. None), h_UniPayOrder = (\<lambda>_. Inl Fault), h_ParserLatest = (\<lambda>_. Inl Fault),
     h_RandDoge = 100000000\<rparr>"

definition ex_chars :: "account_char_set list" where
  "ex_chars = map (\<lambda>c. \<lparr>CharSetName = 2, Char = [c]\<rparr>) ''alice.bit''"

definition ex_req :: "string \<Rightarrow> string \<Rightarrow> register_req" where
  "ex_req address giftCard =
     \<lparr>rr_KeyInfo = \<lparr>ki_Type = '''', ki_CoinType = ''60'', ki_Key = address\<rparr>,
      rr_Search = \<lparr>s_KeyInfo = \<lparr>ki_Type = ''blockchain'', ki_CoinType = ''60'', ki_Key = address\<rparr>,
        s_ChainType = 1, s_Address = address, s_Account = ''alice.bit'', s_AccountCharStr = ex_chars\<rparr>,
      rr_Base = \<lparr>ob_RegisterYears = 1, ob_InviterAccount = '''', ob_ChannelAccount = ''''\<rparr>,
      rr_PayTokenId = TokenIdEth, rr_PayType = '''', rr_CoinType = '''', rr_CrossCoinType = '''',
      rr_GiftCard = giftCard\<rparr>"

text \<open>One token, one unused gift card for names of five characters or more.\<close>

definition ex_token :: token_row where
  "ex_token = \<lparr>k_Id = 1, k_TokenId = TokenIdEth, k_Decimals = 18, k_Price = 2000\<rparr>"

definition ex_coupon :: coupon_row where
  "ex_coupon = \<lparr>c_Id = 1, c_Code = ''cardsalt'', c_CouponType = CouponType5byte, c_OrderId = '''',
     c_UseAt = 0, c_ExpiredAt = 2000000000, c_StartAt = 0, c_IsCheck = 0\<rparr>"

definition ex_shop :: db where
  "ex_shop = empty_db\<lparr>coupons := [ex_coupon], next_id := 2\<rparr>"

definition ex_world :: "db world" where
  "ex_world = (world_of ex_shop 1700000000000)\<lparr>redis := Some (\<lambda>_. None)\<rparr>"

lemma ex_world_simps [simp]:
  "tabs ex_world = ex_shop" "now ex_world = 1700000000000" "redis ex_world = Some (\<lambda>_. None)" "healthy ex_world"
  "orders ex_shop = []" "coupons ex_shop = [ex_coupon]" "accounts ex_shop = []"
  by (simp_all add: ex_world_def ex_shop_def empty_db_def)

lemma ex_length: "account_length ex_chars = 5"
  by (simp add: account_length_def ex_chars_def EndWithDotBitChar_def Let_def)

lemma ex_coupon_checks:
  "coupon_checks ex_http (ex_req address ''card'') ex_world = (Inr (''0x03'', ex_coupon), ex_world)"
proof -
  have "GetCouponByCode (couponEncry ex_http ''card'') ex_world = (Inr ex_coupon, ex_world)"
    by (simp add: GetCouponByCode_def go_simps couponEncry_def ex_http_def first_or_def ex_coupon_def)
  moreover have "h_CouponEncrySalt ex_http \<noteq> ''''" "h_HexToArgs ex_http a b = Inr ''0x03''" for a b
    by (simp_all add: ex_http_def)
  moreover have "checkCouponType 5 ex_coupon" by (simp add: checkCouponType_def ex_coupon_def)
  ultimately show ?thesis
    by (simp add: coupon_checks_def checkCoupon_def go_simps ex_req_def ex_length)
      (simp add: ex_coupon_def coupon_closed_def go_simps)
qed

lemma ex_check_free: "check_free ex_http (rr_Search (ex_req a g)) ex_world = (Inr (), ex_world)"
proof -
  have ex_acc: "s_Account (rr_Search (ex_req a g)) = ''alice.bit''" "s_AccountCharStr (rr_Search (ex_req a g)) = ex_chars"
    by (simp_all add: ex_req_def)
  have c: "checkAccountCharSet ex_http ''alice.bit'' ex_chars = Inr ()"
    by (simp add: checkAccountCharSet_def ex_http_def ex_chars_def HasSuffix_def suffix_def TrimSuffix_def
        check_char_def EqualFold_def Let_def)
  have b: "checkAccountBase ex_http (rr_Search (ex_req a g)) ex_world = (Inr open_account, ex_world)"
    by (simp add: checkAccountBase_def GetAccountInfoByAccountId_def go_simps first_or_def zero_account_def
        check_free_name_def ex_req_def ex_length)
      (simp add: ex_http_def Let_def)
  have ad: "checkAddressOrder ex_http (rr_Search (ex_req a g)) False ex_world
      = (Inr (SearchStatusRegisterAble, \<lambda>_. None), ex_world)"
    by (simp add: checkAddressOrder_def GetLatestRegisterOrderByAddress_def GetAccountInfoByAccountId_def
        latest_order_def first_by_def go_simps first_or_def zero_account_def zero_order_def year_ago_def Let_def)
  have ot: "checkOtherAddressOrder ex_http (rr_Search (ex_req a g)) ex_world = (Inr SearchStatusRegisterAble, ex_world)"
    by (simp add: checkOtherAddressOrder_def GetLatestRegisterOrderByLatest_def latest_order_def
        first_by_def go_simps zero_order_def)
  show ?thesis
    using c by (simp add: check_free_def go_simps b ad ot ex_acc) (simp add: open_account_def search_order)
qed

lemma ex_register_checks: "register_checks ex_http (ex_req a g) ex_world = (Inr (ex_req a g), ex_world)"
proof -
  have up: "checkSystemUpgrade ex_http ex_world = (Inr (), ex_world)"
    by (simp add: checkSystemUpgrade_def ex_http_def go_simps)
  have lt: "IsLatestBlockNumber (h_ParserUrl ex_http) p" for p
    by (simp add: IsLatestBlockNumber_def ex_http_def)
  have cnt: "GetUnPayOrderCount c ad ex_world = (Inr 0, ex_world)" for c ad
    by (simp add: GetUnPayOrderCount_def go_simps)
  have oi: "checkOrderInfo ex_http '''' '''' (rr_Base (ex_req a g)) ex_world = (Inr (rr_Base (ex_req a g)), ex_world)"
    by (simp add: checkOrderInfo_def check_inviter_def check_channel_def ex_req_def go_simps)
      (simp add: ex_http_def)
  have free: "check_free ex_http ((rr_Search (ex_req a g))\<lparr>s_ChainType := 1, s_Address := a\<rparr>) ex_world = (Inr (), ex_world)"
    using ex_check_free [of a g] by (simp add: ex_req_def)
  have "h_FormatChainTypeAddress ex_http k = Inr (1, ki_Key k)" "checkChainType ex_http 1" for k
    by (simp_all add: ex_http_def checkChainType_def)
  moreover have "rr_KeyInfo (ex_req a g) = \<lparr>ki_Type = '''', ki_CoinType = ''60'', ki_Key = a\<rparr>"
    "rr_PayTokenId (ex_req a g) = TokenIdEth" "s_Account (rr_Search (ex_req a g)) = ''alice.bit''"
    "rr_CoinType (ex_req a g) = ''''" "(ex_req a g)\<lparr>rr_CrossCoinType := ''''\<rparr> = ex_req a g"
    "(ex_req a g)\<lparr>rr_CrossCoinType := '''', rr_Search := (rr_Search (ex_req a g))\<lparr>s_ChainType := 1, s_Address := a\<rparr>\<rparr> = ex_req a g"
    "rr_CrossCoinType (ex_req a g) = ''''"
    by (simp_all add: ex_req_def)
  ultimately show ?thesis
    by (simp add: register_checks_def Let_def go_simps up lt cnt oi free IsTokenIdCkbInternal_def maxUnPayCount_def)
qed

theorem coupon_checked_outside_lock_witness:
  "\<exists>resp1 w1 resp2 w2.
     coupon_redeem half_up_div ex_http (\<lambda>_. None) (ex_req ''0xaa'' ''card'') ''0x03'' ex_coupon ex_world = (Inr resp1, w1)
     \<and> coupon_redeem half_up_div ex_http (\<lambda>_. None) (ex_req ''0xbb'' ''card'') ''0x03'' ex_coupon w1 = (Inr resp2, w2)
     \<and> map o_PayStatus (orders (tabs w2)) = [TxStatusSending, TxStatusSending]"
proof -
  have d: "o_OrderId (coupon_order ex_http (coupon_request (ex_req ''0xbb'' g)) nw (0, 0, 0))
      \<noteq> o_OrderId (coupon_order ex_http (coupon_request (ex_req ''0xaa'' g)) nw (0, 0, 0))" for g nw
    by (simp add: coupon_order_def new_order_def coupon_request_def ex_req_def order_id_def CreateOrderId_def
        ex_http_def zero_order_def Let_def)
  show ?thesis
    using coupon_checked_outside_lock [of ex_world "\<lambda>_. None" ex_coupon ex_http "ex_req ''0xaa'' ''card''" "''0x03''"
      "ex_req ''0xbb'' ''card''" "''0x03''" _ _ half_up_div "\<lambda>_. None", OF _ _ _ ex_coupon_checks ex_coupon_checks refl refl _ _ d]
    by (auto simp: live_def)
qed

lemma ex_gift_run:
  "\<exists>resp w'. doOrderRegister half_up_div ex_http m (ex_req ''0xaa'' ''card'') ex_world = (Inr resp, w')"
proof -
  have "\<exists>resp w'. coupon_redeem half_up_div ex_http m (ex_req ''0xaa'' ''card'') ''0x03'' ex_coupon ex_world = (Inr resp, w')"
    using coupon_redeem_healthy [of ex_world "\<lambda>_. None" ex_coupon ex_http "ex_req ''0xaa'' ''card''" half_up_div m "''0x03''"]
    by (auto simp: live_def)
  moreover have "rr_GiftCard (ex_req ''0xaa'' ''card'') = ''card''" by (simp add: ex_req_def)
  ultimately show ?thesis
    by (simp add: doOrderRegister_def doRegisterCouponOrder_def go_simps ex_register_checks ex_coupon_checks)
qed

theorem gift_card_order_witness:
  "\<exists>resp w'. doOrderRegister half_up_div ex_http (\<lambda>_. None) (ex_req ''0xaa'' ''card'') ex_world = (Inr resp, w')
     \<and> c_OrderId (coupon_of ''cardsalt'' ex_shop) = ''''
     \<and> c_OrderId (coupon_of ''cardsalt'' (tabs w')) = or_OrderId resp"
proof -
  obtain resp w' where r: "doOrderRegister half_up_div ex_http (\<lambda>_. None) (ex_req ''0xaa'' ''card'') ex_world = (Inr resp, w')"
    using ex_gift_run by blast
  have "couponEncry ex_http ''card'' = ''cardsalt''" by (simp add: couponEncry_def ex_http_def)
  moreover have "rr_GiftCard (ex_req ''0xaa'' ''card'') = ''card''" by (simp add: ex_req_def)
  ultimately show ?thesis
    using gift_card_order [OF r] r by (auto simp: ex_coupon_def)
qed

lemma ex_amount:
  "request_amount (\<lambda>a b p. a / b) ex_http [TokenIdEth \<mapsto> ex_token] (ex_req a g) args
     = Inr (152 / 25, 121600000000, 3040000000000000)"
proof -
  have p: "getAccountPrice (\<lambda>a b p. a / b) ex_http 5 args ''alice.bit'' False = Inr (27 / 25, 5)"
    by (simp add: getAccountPrice_def price_from_cell_def ex_http_def divR_def Let_def)
  have "GetTokenInfo [TokenIdEth \<mapsto> ex_token] TokenIdEth = ex_token"
    by (simp add: GetTokenInfo_def)
  moreover have "h_QuoteCell ex_http = Inr 5000" "h_UsdRateBase ex_http = 1000000" "h_OneCkb ex_http = 100000000"
    "h_Premium ex_http = 0" "h_Discount ex_http = 0"
    by (simp_all add: ex_http_def)
  ultimately show ?thesis
    by (simp add: request_amount_def ex_req_def ex_length getOrderAmount_def p divR_def invited_price_def
        total_usd_def gross_usd_def Let_def ex_token_def RoundAmount_def round_up_def ceil_rat_def)
qed

lemma ex_paid_run:
  "\<exists>resp w'. doOrderRegister (\<lambda>a b p. a / b) ex_http [TokenIdEth \<mapsto> ex_token] (ex_req ''0xaa'' '''') ex_world = (Inr resp, w')
     \<and> tabs w' \<noteq> ex_shop"
proof -
  let ?r = "ex_req ''0xaa'' ''''"
  have f: "h_UniPayUrl ex_http = ''''" "h_HexToArgs ex_http c ad = Inr ''0x03''" "whitelist_channel ex_http ?r = ?r"
    "rr_PayTokenId ?r = TokenIdEth" "rr_GiftCard ?r = ''''" "h_PayAddressMap ex_http x = ''addr''" for c ad x
    by (simp_all add: ex_http_def whitelist_channel_def ex_req_def)
  have "\<exists>resp w'. doRegisterOrder (\<lambda>a b p. a / b) ex_http [TokenIdEth \<mapsto> ex_token] ?r ex_world = (Inr resp, w')"
    by (simp add: doRegisterOrder_def go_simps f ex_amount check_das_balance_def create_paid_order_def own_order_rows_def Let_def
        CreateOrderWithPayment_def insert_order_def zero_pay_def new_order_def)
  then obtain resp w' where r: "doRegisterOrder (\<lambda>a b p. a / b) ex_http [TokenIdEth \<mapsto> ex_token] ?r ex_world = (Inr resp, w')"
    by blast
  with doRegisterOrder_ok [OF r] have "tabs w' \<noteq> ex_shop" by auto
  with r show ?thesis by (simp add: doOrderRegister_def go_simps ex_register_checks f)
qed




end
