(* ===== verification/Jobs.thy ===== *)
theory Jobs
  imports OrderFlow RegisterSafety
begin

text \<open>
  What the jobs of \<open>src/timer\<close> and \<open>src/unipay\<close> achieve: expiry, gift cards, refunds, hedges, the
  register report and the window of pending transactions. The functional theorems are about healthy
  worlds (no failing call); the hedge and the window hold whatever fails.
\<close>

section \<open>Expiry\<close>

definition overdue :: "int \<Rightarrow> db \<Rightarrow> order_row \<Rightarrow> bool" where
  "overdue nw t r \<longleftrightarrow> expirable r \<and>
     (o_Timestamp r < nw - 24 * 3600 * 1000 \<and> o_OrderId r \<notin> p_OrderId ` set (pays t)
      \<or> o_Timestamp r < nw - 7 * 24 * 3600 * 1000)"

lemma update_orders_twice:
  assumes "\<And>r. P r \<Longrightarrow> \<not> Q (f r)"
  shows "update_orders Q f (update_orders P f t) = update_orders (\<lambda>r. P r \<or> Q r) f t"
  using assms by (simp add: update_orders_def update_where_def)

lemma update_orders_cong:
  assumes "\<And>r. r \<in> set (orders t) \<Longrightarrow> P r = Q r"
  shows "update_orders P f t = update_orders Q f t"
  using assms by (simp add: update_orders_def update_where_def)

lemma expire_all_healthy:
  "healthy w \<Longrightarrow> expire_all ids w = (Inr (), w\<lparr>tabs := update_orders
     (\<lambda>r. o_OrderId r \<in> set ids \<and> expirable r) (\<lambda>r. r\<lparr>o_OrderStatus := OrderStatusClosed\<rparr>) (tabs w)\<rparr>)"
proof (induction ids arbitrary: w)
  case Nil
  then show ?case by (simp add: expire_all_def go_simps update_orders_def update_where_def)
next
  case (Cons i ids)
  have "expirable (r\<lparr>o_OrderStatus := OrderStatusClosed\<rparr>) = False" for r
    by (simp add: expirable_def)
  then show ?case
    using Cons.prems Cons.IH [of "w\<lparr>tabs := update_orders (\<lambda>r. o_OrderId r = i \<and> expirable r)
        (\<lambda>r. r\<lparr>o_OrderStatus := OrderStatusClosed\<rparr>) (tabs w)\<rparr>"]
    by (simp add: expire_all_def go_simps DoExpiredOrder_def update_orders_twice conj_disj_distribR)
qed

text \<open>C25. The expiry job closes exactly the orders that are overdue: the open orders of the service that
  wait for a payment, older than a day with no payment recorded, or older than a week; no other row changes.\<close>

theorem expiry_closes_exactly_the_overdue:
  assumes "healthy w" and "db_wf (tabs w)"
  shows "checkExpired w = (Inr (), w\<lparr>tabs := update_orders (overdue (now w) (tabs w))
           (\<lambda>r. r\<lparr>o_OrderStatus := OrderStatusClosed\<rparr>) (tabs w)\<rparr>)"
proof -
  define close where "close = (\<lambda>r :: order_row. r\<lparr>o_OrderStatus := OrderStatusClosed\<rparr>)"
  define A where "A = (\<lambda>r. expirable r \<and> o_Timestamp r < now w - 24 * 3600 * 1000
      \<and> o_OrderId r \<notin> p_OrderId ` set (pays (tabs w)))"
  define B where "B = (\<lambda>r. expirable r \<and> o_Timestamp r < now w - 7 * 24 * 3600 * 1000)"
  define t where "t = update_orders A close (tabs w)"
  have key: "o_OrderId r \<in> set (map o_OrderId (filter P xs)) \<longleftrightarrow> P r"
    if "r \<in> set xs" "keyed o_OrderId o_Id xs n" for r P xs n
    using that by (auto dest: keyed_unique)
  from assms(2) have wf: "keyed o_OrderId o_Id (orders (tabs w)) (next_id (tabs w))"
    by (simp add: db_wf_def)
  then have wf': "keyed o_OrderId o_Id (orders t) (next_id (tabs w))"
    by (simp add: t_def close_def keyed_update)
  have 1: "update_orders (\<lambda>r. o_OrderId r \<in> set (map o_OrderId (filter A (orders (tabs w)))) \<and> expirable r) close (tabs w) = t"
    unfolding t_def by (rule update_orders_cong) (use key [OF _ wf] in \<open>auto simp: A_def\<close>)
  have 2: "update_orders (\<lambda>r. o_OrderId r \<in> set (map o_OrderId (filter B (orders t))) \<and> expirable r) close t
      = update_orders B close t"
    by (rule update_orders_cong) (use key [OF _ wf'] in \<open>auto simp: B_def\<close>)
  have 3: "update_orders B close t = update_orders (overdue (now w) (tabs w)) close (tabs w)"
    unfolding t_def by (subst update_orders_twice)
      (auto simp: B_def close_def expirable_def A_def overdue_def intro!: update_orders_cong)
  have q1: "GetNeedExpiredOrders (now w) w = (Inr (map o_OrderId (filter A (orders (tabs w)))), w)"
    using assms(1) by (simp add: GetNeedExpiredOrders_def A_def go_simps conj_assoc)
  have q2: "GetNeedExpiredOrders2 (now w) (w\<lparr>tabs := t\<rparr>) = (Inr (map o_OrderId (filter B (orders t))), w\<lparr>tabs := t\<rparr>)"
    using assms(1) by (simp add: GetNeedExpiredOrders2_def B_def go_simps)
  note e = expire_all_healthy [folded close_def]
  have r1: "expire_all (map o_OrderId (filter A (orders (tabs w)))) w = (Inr (), w\<lparr>tabs := t\<rparr>)"
    using e [OF assms(1)] 1 by simp
  have r2: "expire_all (map o_OrderId (filter B (orders t))) (w\<lparr>tabs := t\<rparr>)
      = (Inr (), w\<lparr>tabs := update_orders (overdue (now w) (tabs w)) close (tabs w)\<rparr>)"
    using e [of "w\<lparr>tabs := t\<rparr>"] assms(1) 2 3 by simp
  show ?thesis
    unfolding close_def [symmetric] using q1 q2 r1 r2 by (simp add: checkExpired_def go_simps)
qed

theorem expiry_closes_exactly_the_overdue_witness:
  "let t = one_order_db; w = world_of t 700000000; w' = snd (checkExpired w) in
   map o_OrderStatus (orders (tabs w')) = [OrderStatusClosed]"
proof -
  have "db_wf one_order_db"
    by (simp add: db_wf_def keyed_def one_order_db_def empty_db_def one_order_def zero_order_def)
  then have "checkExpired (world_of one_order_db 700000000) = (Inr (), (world_of one_order_db 700000000)
      \<lparr>tabs := update_orders (overdue 700000000 one_order_db) (\<lambda>r. r\<lparr>o_OrderStatus := OrderStatusClosed\<rparr>) one_order_db\<rparr>)"
    using expiry_closes_exactly_the_overdue [of "world_of one_order_db 700000000"] by simp
  then show ?thesis
    by (simp add: Let_def one_order_db_def empty_db_def one_order_def zero_order_def overdue_def expirable_def sql_in_def)
qed

section \<open>Gift cards after their order is closed\<close>

text \<open>What the coupon job does to a coupon, given the orders.\<close>

definition settle_coupon :: "order_row list \<Rightarrow> coupon_row \<Rightarrow> coupon_row" where
  "settle_coupon ords c =
     (if c_OrderId c = '''' \<or> c_IsCheck c \<noteq> 0 then c
      else case filter (\<lambda>r. o_OrderId r = c_OrderId c \<and> o_OrderStatus r = OrderStatusClosed) ords of
        [] \<Rightarrow> c
      | r # _ \<Rightarrow> if o_RegisterStatus r = RegisterStatusRegistered then c\<lparr>c_IsCheck := 1\<rparr>
                 else c\<lparr>c_OrderId := '''', c_UseAt := 0\<rparr>)"

lemma order_with_id:
  assumes "keyed o_OrderId o_Id rows n" and "r \<in> set rows"
  shows "filter (\<lambda>s. o_OrderId s = o_OrderId r) rows = [r]"
proof -
  from assms(1) have "distinct (map o_OrderId rows)" by (simp add: keyed_def)
  with assms(2) show ?thesis
    by (induction rows) (auto simp: filter_empty_conv image_iff)
qed

lemma settle_coupon_cases:
  assumes "keyed o_OrderId o_Id ords n"
  shows "c_OrderId c = '''' \<or> c_IsCheck c \<noteq> 0 \<Longrightarrow> settle_coupon ords c = c"
    and "c_OrderId c \<noteq> '''' \<Longrightarrow> c_IsCheck c = 0 \<Longrightarrow> r \<in> set ords \<Longrightarrow> o_OrderId r = c_OrderId c \<Longrightarrow>
      settle_coupon ords c = (if o_OrderStatus r \<noteq> OrderStatusClosed then c
        else if o_RegisterStatus r = RegisterStatusRegistered then c\<lparr>c_IsCheck := 1\<rparr>
        else c\<lparr>c_OrderId := '''', c_UseAt := 0\<rparr>)"
    and "c_OrderId c \<notin> o_OrderId ` set ords \<Longrightarrow> settle_coupon ords c = c"
proof -
  show "c_OrderId c = '''' \<or> c_IsCheck c \<noteq> 0 \<Longrightarrow> settle_coupon ords c = c"
    by (simp add: settle_coupon_def)
  show "c_OrderId c \<notin> o_OrderId ` set ords \<Longrightarrow> settle_coupon ords c = c"
    by (auto simp: settle_coupon_def filter_empty_conv split: list.split)
      (metis (mono_tags, lifting) Cons_eq_filterD image_eqI in_set_conv_decomp)+
next
  assume a: "c_OrderId c \<noteq> ''''" "c_IsCheck c = 0" and r: "r \<in> set ords" "o_OrderId r = c_OrderId c"
  have "filter (\<lambda>s. o_OrderId s = c_OrderId c \<and> o_OrderStatus s = OrderStatusClosed) ords
      = filter (\<lambda>s. o_OrderStatus s = OrderStatusClosed) [r]"
    using order_with_id [OF assms r(1)] r(2) by (metis (no_types, lifting) filter_cong filter_filter)
  with a show "settle_coupon ords c = (if o_OrderStatus r \<noteq> OrderStatusClosed then c
        else if o_RegisterStatus r = RegisterStatusRegistered then c\<lparr>c_IsCheck := 1\<rparr>
        else c\<lparr>c_OrderId := '''', c_UseAt := 0\<rparr>)"
    by (simp add: settle_coupon_def)
qed

text \<open>The coupon job settles every used coupon by the fate of its order: while the order is open
  nothing happens; when it is closed and registered the coupon is checked off, otherwise the coupon
  is free again; unused and checked coupons, and every other table, stay as they are.\<close>

theorem coupons_settled_by_their_order:
  assumes "healthy w" and "db_wf (tabs w)"
  shows "DoResetCoupon w = (Inr (), w\<lparr>tabs := (tabs w)\<lparr>coupons :=
           map (settle_coupon (orders (tabs w))) (coupons (tabs w))\<rparr>\<rparr>)"
proof -
  define t where "t = tabs w"
  define res where "res = concat (map (\<lambda>c. filter (\<lambda>r. c_OrderId c = o_OrderId r) (orders t))
    (filter (\<lambda>c. 0 < length (c_OrderId c) \<and> c_IsCheck c = 0) (coupons t)))"
  define F where "F = failed_coupon_orders res"
  define S where "S = success_coupon_orders res"
  have wf: "keyed o_OrderId o_Id (orders t) (next_id t)" using assms(2) by (simp add: db_wf_def t_def)
  note settle = settle_coupon_cases [OF wf]
  have res: "r \<in> set res \<longleftrightarrow> r \<in> set (orders t) \<and>
      (\<exists>c \<in> set (coupons t). c_OrderId c = o_OrderId r \<and> o_OrderId r \<noteq> '''' \<and> c_IsCheck c = 0)" for r
    by (auto simp: res_def)
  have F: "x \<in> set F \<longleftrightarrow> (\<exists>r \<in> set res. o_OrderId r = x \<and> o_OrderStatus r = OrderStatusClosed
      \<and> o_RegisterStatus r \<noteq> RegisterStatusRegistered)" for x
    by (auto simp: F_def failed_coupon_orders_def)
  have S: "x \<in> set S \<longleftrightarrow> (\<exists>r \<in> set res. o_OrderId r = x \<and> o_OrderStatus r = OrderStatusClosed
      \<and> o_RegisterStatus r = RegisterStatusRegistered)" for x
    by (auto simp: S_def success_coupon_orders_def)
  have mem: "c_OrderId c \<in> set F \<longleftrightarrow> o_OrderStatus r = OrderStatusClosed \<and> o_RegisterStatus r \<noteq> RegisterStatusRegistered"
    "c_OrderId c \<in> set S \<longleftrightarrow> o_OrderStatus r = OrderStatusClosed \<and> o_RegisterStatus r = RegisterStatusRegistered"
    if c: "c \<in> set (coupons t)" "c_OrderId c \<noteq> ''''" "c_IsCheck c = 0" and r: "r \<in> set (orders t)" "o_OrderId r = c_OrderId c" for c r
  proof -
    have "r \<in> set res" using c r unfolding res by metis
    moreover have "s = r" if "s \<in> set res" "o_OrderId s = c_OrderId c" for s
      using that r(2) by (intro keyed_unique [OF wf _ r(1)]) (simp_all add: res)
    ultimately show "c_OrderId c \<in> set F \<longleftrightarrow> o_OrderStatus r = OrderStatusClosed \<and> o_RegisterStatus r \<noteq> RegisterStatusRegistered"
      "c_OrderId c \<in> set S \<longleftrightarrow> o_OrderStatus r = OrderStatusClosed \<and> o_RegisterStatus r = RegisterStatusRegistered"
      unfolding F S using r(2) by blast+
  qed
  have no: "o_OrderId r \<noteq> '''' \<and> o_OrderId r \<in> o_OrderId ` set (orders t)" if "r \<in> set res" for r
    using that by (auto simp: res)
  have out: "c_OrderId c \<notin> set F" "c_OrderId c \<notin> set S" if "c_OrderId c = '''' \<or> c_OrderId c \<notin> o_OrderId ` set (orders t)" for c
    using that no unfolding F S by metis+
  define g where "g = (\<lambda>c :: coupon_row. if c_OrderId c \<in> set F \<and> c_IsCheck c = 0 then c\<lparr>c_OrderId := '''', c_UseAt := 0\<rparr> else c)"
  define h where "h = (\<lambda>c :: coupon_row. if c_OrderId c \<in> set S \<and> c_IsCheck c = 0 then c\<lparr>c_IsCheck := 1\<rparr> else c)"
  have row: "h (g c) = settle_coupon (orders t) c" if c: "c \<in> set (coupons t)" for c
  proof (cases "c_OrderId c = '''' \<or> c_IsCheck c \<noteq> 0 \<or> c_OrderId c \<notin> o_OrderId ` set (orders t)")
    case True
    with out [of c] settle(1,3) [of c] show ?thesis by (auto simp: g_def h_def)
  next
    case False
    then obtain r where r: "r \<in> set (orders t)" "o_OrderId r = c_OrderId c" by auto
    with False have "c_OrderId c \<noteq> ''''" "c_IsCheck c = 0" by auto
    with mem [OF c this r] settle(2) [OF this r] out(2) [of "c\<lparr>c_OrderId := '''', c_UseAt := 0\<rparr>"]
    show ?thesis by (auto simp: g_def h_def)
  qed
  have 0: "GetUsedCouponNotChecked w = (Inr res, w)"
    using assms(1) by (simp add: GetUsedCouponNotChecked_def go_simps res_def t_def)
  have 1: "(if length F \<noteq> 0 then ResetCoupon F else okM ()) w = (Inr (), w\<lparr>tabs := t\<lparr>coupons := map g (coupons t)\<rparr>\<rparr>)"
  proof (cases "F = []")
    case True
    then have "g = (\<lambda>c. c)" by (auto simp: g_def)
    then show ?thesis using True by (simp add: okM_def t_def)
  next
    case False
    then show ?thesis using assms(1)
      by (simp add: ResetCoupon_def go_simps update_coupons_def update_where_def sql_in_def g_def t_def)
  qed
  have 2: "(if length S \<noteq> 0 then MarkChecked S else okM ()) v = (Inr (), v\<lparr>tabs := (tabs v)\<lparr>coupons := map h (coupons (tabs v))\<rparr>\<rparr>)"
    if "healthy v" for v
  proof (cases "S = []")
    case True
    then have "h = (\<lambda>c. c)" by (auto simp: h_def)
    then show ?thesis using True by (simp add: okM_def)
  next
    case False
    then show ?thesis using that
      by (simp add: MarkChecked_def go_simps update_coupons_def update_where_def sql_in_def h_def)
  qed
  have "DoResetCoupon w = thenM (if length F \<noteq> 0 then ResetCoupon F else okM ())
      (if length S \<noteq> 0 then MarkChecked S else okM ()) w"
    by (simp only: DoResetCoupon_def bindM_def [of GetUsedCouponNotChecked] 0 Let_def F_def S_def prod.case sum.case)
  also have "\<dots> = (if length S \<noteq> 0 then MarkChecked S else okM ()) (w\<lparr>tabs := t\<lparr>coupons := map g (coupons t)\<rparr>\<rparr>)"
    by (rule thenM_Inr) (rule 1)
  also have "\<dots> = (Inr (), w\<lparr>tabs := t\<lparr>coupons := map h (map g (coupons t))\<rparr>\<rparr>)"
    using assms(1) by (subst 2) simp_all
  also have "map h (map g (coupons t)) = map (settle_coupon (orders t)) (coupons t)"
    using row by simp
  finally show ?thesis by (simp add: t_def)
qed

section \<open>Refunds\<close>

lemma fold_updates:
  "fold (\<lambda>v m. m(k v \<mapsto> f v)) xs m = m ++ map_of (rev (map (\<lambda>v. (k v, f v)) xs))"
  by (induction xs arbitrary: m) (auto simp: fun_eq_iff map_add_def split: option.splits)

text \<open>The order of the payment is known and went through unipay.\<close>

definition through_unipay :: "db \<Rightarrow> pay_row \<Rightarrow> bool" where
  "through_unipay t p \<longleftrightarrow> (\<exists>r \<in> set (orders t). o_OrderId r = p_OrderId p \<and> o_IsUniPay r = IsUniPayTrue)"

lemma is_uni_pay_iff:
  assumes "keyed o_OrderId o_Id (orders t) n" and "p_OrderId p \<in> set ids"
  shows "is_uni_pay (filter (\<lambda>r. sql_in (o_OrderId r) ids) (orders t)) (p_OrderId p) = IsUniPayFalse
     \<longleftrightarrow> \<not> through_unipay t p"
proof -
  define rows where "rows = filter (\<lambda>r. sql_in (o_OrderId r) ids) (orders t)"
  have "distinct (map o_OrderId rows)"
    using assms(1) by (simp add: rows_def keyed_def distinct_map_filter)
  then have "map_of (rev (map (\<lambda>r. (o_OrderId r, o_IsUniPay r)) rows)) (p_OrderId p) = Some b
      \<longleftrightarrow> (\<exists>r \<in> set rows. o_OrderId r = p_OrderId p \<and> o_IsUniPay r = b)" for b
    by (subst map_of_eq_Some_iff) (auto simp: rev_map [symmetric] comp_def image_iff intro!: bexI)
  moreover have "through_unipay t p \<longleftrightarrow> (\<exists>r \<in> set rows. o_OrderId r = p_OrderId p \<and> o_IsUniPay r = IsUniPayTrue)"
    using assms(2) by (auto simp: through_unipay_def rows_def sql_in_def)
  ultimately have "through_unipay t p \<longleftrightarrow> map_of (rev (map (\<lambda>r. (o_OrderId r, o_IsUniPay r)) rows)) (p_OrderId p) = Some IsUniPayTrue"
    by simp
  then show ?thesis
    unfolding is_uni_pay_def rows_def [symmetric] fold_updates
    by (auto split: option.split) (metis IsUniPay.exhaust)
qed

definition due_refund :: "int \<Rightarrow> pay_row \<Rightarrow> bool" where
  "due_refund nw p \<longleftrightarrow> GetPaymentInfoTimestamp nw \<le> p_Timestamp p \<and> p_Status p = OrderTxStatusConfirm
     \<and> p_UniPayRefundStatus p = UniPayRefundStatusUnRefund"

lemma keyed_ident_unique:
  "keyed key ident rows n \<Longrightarrow> r \<in> set rows \<Longrightarrow> s \<in> set rows \<Longrightarrow> ident r = ident s \<Longrightarrow> r = s"
  by (auto simp: keyed_def strict_sorted_iff distinct_map dest: inj_onD)

lemma update_pays_cong:
  "(\<And>p. p \<in> set (pays t) \<Longrightarrow> (if P p then f p else p) = (if Q p then g p else p)) \<Longrightarrow>
   update_pays P f t = update_pays Q g t"
  by (simp add: update_pays_def update_where_def)

lemma update_pays_pays:
  "update_pays Q g (update_pays P f t) = t\<lparr>pays := map (\<lambda>p. let q = (if P p then f p else p) in if Q q then g q else q) (pays t)\<rparr>"
  by (simp add: update_pays_def update_where_def comp_def Let_def)

lemma update_pays_merge:
  "(\<And>p. Q (f p) = Q p) \<Longrightarrow> (\<And>p. f (f p) = f p) \<Longrightarrow>
   update_pays Q f (update_pays P f t) = update_pays (\<lambda>p. P p \<or> Q p) f t"
  by (simp add: update_pays_def update_where_def)

text \<open>The loop that takes the payments of other orders out of the refund.\<close>

lemma forM_not_unipay:
  assumes "healthy w"
  shows "forM list (\<lambda>v. if B v
          then wrapM s (UpdateUniPayRefundStatusToDefaultForNotUniPayOrder (p_Hash v) (p_OrderId v))
          else okM ()) w
     = (Inr (), w\<lparr>tabs := update_pays (\<lambda>p. p_Status p = OrderTxStatusConfirm \<and>
          (\<exists>v \<in> set list. B v \<and> p_Hash p = p_Hash v \<and> p_OrderId p = p_OrderId v))
          (\<lambda>p. p\<lparr>p_UniPayRefundStatus := UniPayRefundStatusDefault\<rparr>) (tabs w)\<rparr>)"
  using assms
proof (induction list arbitrary: w)
  case Nil
  then show ?case by (simp add: okM_def update_pays_def update_where_def)
next
  case (Cons v list)
  show ?case
  proof (cases "B v")
    case False
    then show ?thesis using Cons by (simp add: go_simps)
  next
    case True
    define d where "d = (\<lambda>p :: pay_row. p\<lparr>p_UniPayRefundStatus := UniPayRefundStatusDefault\<rparr>)"
    define P where "P = (\<lambda>p :: pay_row. p_Hash p = p_Hash v \<and> p_OrderId p = p_OrderId v \<and> p_Status p = OrderTxStatusConfirm)"
    define Q where "Q = (\<lambda>p :: pay_row. p_Status p = OrderTxStatusConfirm
        \<and> (\<exists>v \<in> set list. B v \<and> p_Hash p = p_Hash v \<and> p_OrderId p = p_OrderId v))"
    have 1: "wrapM s (UpdateUniPayRefundStatusToDefaultForNotUniPayOrder (p_Hash v) (p_OrderId v)) w
        = (Inr (), w\<lparr>tabs := update_pays P d (tabs w)\<rparr>)"
      using Cons.prems by (simp add: UpdateUniPayRefundStatusToDefaultForNotUniPayOrder_def go_simps P_def d_def)
    have "update_pays Q d (update_pays P d (tabs w)) = update_pays (\<lambda>p. P p \<or> Q p) d (tabs w)"
      by (rule update_pays_merge) (simp_all add: Q_def d_def)
    also have "(\<lambda>p. P p \<or> Q p) = (\<lambda>p. p_Status p = OrderTxStatusConfirm \<and>
          (\<exists>u \<in> set (v # list). B u \<and> p_Hash p = p_Hash u \<and> p_OrderId p = p_OrderId u))"
      using True by (auto simp: P_def Q_def fun_eq_iff)
    finally have 2: "update_pays Q d (update_pays P d (tabs w)) = update_pays (\<lambda>p. p_Status p = OrderTxStatusConfirm \<and>
          (\<exists>u \<in> set (v # list). B u \<and> p_Hash p = p_Hash u \<and> p_OrderId p = p_OrderId u)) d (tabs w)" .
    have "healthy (w\<lparr>tabs := update_pays P d (tabs w)\<rparr>)" using Cons.prems by simp
    from Cons.IH [OF this] show ?thesis
      using True 2 by (simp add: bindM_def 1 flip: d_def Q_def)
  qed
qed

text \<open>C33. The refund job asks unipay, in one request, for every payment that is marked for refund and
  not older than three days, and then no such payment is left marked: those of unipay orders are
  being refunded, the others are taken out of the refund. The request holds both kinds, also the
  payments that were just taken out.\<close>

theorem refunds_requested_and_marked:
  assumes "healthy w" and "db_wf (tabs w)" and "filter (due_refund (now w)) (pays (tabs w)) = list"
    and "list \<noteq> []" and "RefundOrder (map (\<lambda>p. (p_OrderId p, p_Hash p)) list) = Inr ()"
  shows "doRefund True RefundOrder w = (Inr (), w\<lparr>
      tabs := update_pays (due_refund (now w)) (\<lambda>p. p\<lparr>p_UniPayRefundStatus :=
        if through_unipay (tabs w) p then UniPayRefundStatusRefunding else UniPayRefundStatusDefault\<rparr>) (tabs w),
      trace := trace w @ [UniPayRefund (map (\<lambda>p. (p_OrderId p, p_Hash p)) list)]\<rparr>)"
proof -
  define t where "t = tabs w"
  define ids where "ids = map p_OrderId list"
  define ords where "ords = filter (\<lambda>r. sql_in (o_OrderId r) ids) (orders t)"
  define B where "B = (\<lambda>v :: pay_row. is_uni_pay ords (p_OrderId v) = IsUniPayFalse)"
  define P where "P = (\<lambda>p :: pay_row. p_Status p = OrderTxStatusConfirm \<and>
      (\<exists>v \<in> set list. B v \<and> p_Hash p = p_Hash v \<and> p_OrderId p = p_OrderId v))"
  define Q where "Q = (\<lambda>p :: pay_row. sql_in (p_Id p) (map p_Id list) \<and> p_Status p = OrderTxStatusConfirm
            \<and> p_UniPayRefundStatus p = UniPayRefundStatusUnRefund)"
  define d where "d = (\<lambda>p :: pay_row. p\<lparr>p_UniPayRefundStatus := UniPayRefundStatusDefault\<rparr>)"
  define e where "e = (\<lambda>p :: pay_row. p\<lparr>p_UniPayRefundStatus := UniPayRefundStatusRefunding\<rparr>)"
  from assms(2) have wf: "keyed o_OrderId o_Id (orders t) (next_id t)" "keyed p_Hash p_Id (pays t) (next_id t)"
    by (simp_all add: db_wf_def t_def)
  have mem: "p \<in> set list \<longleftrightarrow> p \<in> set (pays t) \<and> due_refund (now w) p" for p
    unfolding assms(3) [symmetric] by (simp add: t_def)
  have B: "B p \<longleftrightarrow> \<not> through_unipay t p" if "p \<in> set list" for p
    using is_uni_pay_iff [OF wf(1), of p ids] that by (simp add: B_def ords_def ids_def)
  have row: "(let q = (if P p then d p else p) in if Q q then e q else q)
      = (if due_refund (now w) p then p\<lparr>p_UniPayRefundStatus :=
          if through_unipay t p then UniPayRefundStatusRefunding else UniPayRefundStatusDefault\<rparr> else p)"
    if p: "p \<in> set (pays t)" for p
  proof -
    have "v = p" if "v \<in> set list" "p_Hash p = p_Hash v" for v
      using that keyed_unique [OF wf(2) p, of v] by (simp add: mem)
    then have "P p \<longleftrightarrow> due_refund (now w) p \<and> \<not> through_unipay t p"
      using p by (auto simp: P_def mem B due_refund_def)
    moreover have "v = p" if "v \<in> set list" "p_Id p = p_Id v" for v
      using that keyed_ident_unique [OF wf(2) p, of v] by (simp add: mem)
    then have "Q p \<longleftrightarrow> due_refund (now w) p"
      using p by (auto simp: Q_def sql_in_def mem due_refund_def image_iff)
    moreover have "\<not> Q (d p)" by (simp add: Q_def d_def)
    ultimately show ?thesis by (simp add: d_def e_def Let_def)
  qed
  have 1: "GetUnRefundList w = (Inr list, w)"
    using assms(1,3) by (simp add: GetUnRefundList_def go_simps due_refund_def [abs_def])
  have 2: "GetIsUniPayInfoByOrderIds ids w = (Inr ords, w)"
    using assms(1,4) by (simp add: GetIsUniPayInfoByOrderIds_def ids_def go_simps ords_def t_def)
  have "doRefund True RefundOrder w = (Inr (), w\<lparr>tabs := update_pays Q e (update_pays P d t),
      trace := trace w @ [UniPayRefund (map (\<lambda>p. (p_OrderId p, p_Hash p)) list)]\<rparr>)"
    using assms(1,4,5) forM_not_unipay [OF assms(1), of list B, folded P_def d_def t_def, unfolded B_def]
    by (simp add: doRefund_def go_simps 1 2 [unfolded ids_def] thenM_Inr Let_def UpdateRefundStatusToRefundIng_def
        flip: Q_def e_def t_def)
  also have "update_pays Q e (update_pays P d t) = update_pays (due_refund (now w)) (\<lambda>p. p\<lparr>p_UniPayRefundStatus :=
        if through_unipay t p then UniPayRefundStatusRefunding else UniPayRefundStatusDefault\<rparr>) t"
    unfolding update_pays_pays using row by (simp add: update_pays_def update_where_def cong: map_cong)
  finally show ?thesis by (simp add: t_def)
qed

text \<open>A closed unregistered order with a gift card and a payment to be refunded.\<close>

definition closed_order_db :: db where
  "closed_order_db = one_order_db\<lparr>
     orders := [one_order\<lparr>o_OrderStatus := OrderStatusClosed, o_IsUniPay := IsUniPayTrue\<rparr>],
     pays := [zero_pay\<lparr>p_Id := 1, p_Hash := ''h'', p_OrderId := ''o'', p_Status := OrderTxStatusConfirm,
                p_UniPayRefundStatus := UniPayRefundStatusUnRefund\<rparr>,
              zero_pay\<lparr>p_Id := 2, p_Hash := ''g'', p_OrderId := ''other'', p_Status := OrderTxStatusConfirm,
                p_UniPayRefundStatus := UniPayRefundStatusUnRefund\<rparr>],
     coupons := [zero_coupon\<lparr>c_Id := 1, c_Code := ''c'', c_OrderId := ''o'', c_UseAt := 5\<rparr>],
     next_id := 3\<rparr>"

lemma db_wf_closed_order: "db_wf closed_order_db"
  by (simp add: db_wf_def keyed_def closed_order_db_def one_order_db_def empty_db_def one_order_def
      zero_order_def zero_pay_def zero_coupon_def)

lemmas closed_order_eval = closed_order_db_def one_order_db_def empty_db_def one_order_def
  zero_order_def zero_pay_def zero_coupon_def

theorem coupons_settled_by_their_order_witness:
  "map c_OrderId (coupons (tabs (snd (DoResetCoupon (world_of closed_order_db 0))))) = ['''']"
proof -
  have "DoResetCoupon (world_of closed_order_db 0) = (Inr (), (world_of closed_order_db 0)\<lparr>tabs := closed_order_db
      \<lparr>coupons := map (settle_coupon (orders closed_order_db)) (coupons closed_order_db)\<rparr>\<rparr>)"
    using coupons_settled_by_their_order [of "world_of closed_order_db 0"] by (simp add: db_wf_closed_order)
  then show ?thesis by (simp add: closed_order_eval settle_coupon_def)
qed

theorem refunds_requested_and_marked_witness:
  "let w' = snd (doRefund True (\<lambda>_. Inr ()) (world_of closed_order_db 0)) in
   map p_UniPayRefundStatus (pays (tabs w')) = [UniPayRefundStatusRefunding, UniPayRefundStatusDefault]
   \<and> trace w' = [UniPayRefund [(''o'', ''h''), (''other'', ''g'')]]"
proof -
  have due: "filter (due_refund 0) (pays closed_order_db) = pays closed_order_db"
    by (simp add: closed_order_eval due_refund_def GetPaymentInfoTimestamp_def)
  have "doRefund True (\<lambda>_. Inr ()) (world_of closed_order_db 0) = (Inr (), (world_of closed_order_db 0)\<lparr>
      tabs := update_pays (due_refund 0) (\<lambda>p. p\<lparr>p_UniPayRefundStatus :=
        if through_unipay closed_order_db p then UniPayRefundStatusRefunding else UniPayRefundStatusDefault\<rparr>) closed_order_db,
      trace := [UniPayRefund (map (\<lambda>p. (p_OrderId p, p_Hash p)) (pays closed_order_db))]\<rparr>)"
    using refunds_requested_and_marked [of "world_of closed_order_db 0" "pays closed_order_db" "\<lambda>_. Inr ()"] due
    by (simp add: db_wf_closed_order) (simp add: closed_order_eval)
  then show ?thesis
    by (simp add: Let_def closed_order_eval due_refund_def GetPaymentInfoTimestamp_def through_unipay_def)
qed

section \<open>Hedging\<close>

definition no_hedge_of :: "string \<Rightarrow> effect \<Rightarrow> bool" where
  "no_hedge_of oid e \<longleftrightarrow> e \<noteq> Hedge oid"

definition hedged :: "string \<Rightarrow> db \<Rightarrow> bool" where
  "hedged oid t \<longleftrightarrow> oid \<in> o_OrderId ` set (orders t) \<and>
     (\<forall>r \<in> set (orders t). o_OrderId r = oid \<and> o_OrderType r = OrderTypeSelf \<longrightarrow> o_HedgeStatus r = TxStatusOk)"

lemma hedged_stays:
  assumes "hedged oid t" and "db_evolves t t'" and "db_wf t'"
  shows "hedged oid t'"
proof -
  from assms(1) db_evolves_keys(1) [OF assms(2)] have "oid \<in> o_OrderId ` set (orders t')"
    unfolding hedged_def by blast
  moreover have "o_HedgeStatus r = TxStatusOk"
    if "r \<in> set (orders t')" "o_OrderId r = oid" "o_OrderType r = OrderTypeSelf" for r
    using order_later [OF assms(2,3) that(1)] that assms(1) by (auto simp: hedged_def order_ev_def)
  ultimately show ?thesis by (auto simp: hedged_def)
qed

lemma doHedge_emits: "oid' \<noteq> oid \<Longrightarrow> emits (no_hedge_of oid) (doHedge url post oid' tok amt)"
  unfolding doHedge_def by (intro emits_intros) (auto simp: no_hedge_of_def intro: emits_intros)

lemma doOrderHedge_one_emits:
  "o_OrderId v \<noteq> oid \<Longrightarrow> emits (no_hedge_of oid) (doOrderHedge_one dr m url post v)"
  unfolding doOrderHedge_one_def Let_def UpdateHedgeStatus_def
  by (intro emits_intros doHedge_emits) (auto simp: no_hedge_of_def)

text \<open>The hedge of the order is on its way or done.\<close>

definition hedging :: "string \<Rightarrow> db \<Rightarrow> bool" where
  "hedging oid t \<longleftrightarrow> oid \<in> o_OrderId ` set (orders t) \<and>
     (\<forall>r \<in> set (orders t). o_OrderId r = oid \<and> o_OrderType r = OrderTypeSelf \<longrightarrow> o_HedgeStatus r \<noteq> TxStatusDefault)"

lemma hedging_stays:
  assumes "hedging oid t" and "db_evolves t t'" and "db_wf t'"
  shows "hedging oid t'"
proof -
  from assms(1) db_evolves_keys(1) [OF assms(2)] have "oid \<in> o_OrderId ` set (orders t')"
    unfolding hedging_def by blast
  moreover have "o_HedgeStatus r \<noteq> TxStatusDefault"
    if "r \<in> set (orders t')" "o_OrderId r = oid" "o_OrderType r = OrderTypeSelf" for r
    using order_later [OF assms(2,3) that(1)] that assms(1) by (auto simp: hedging_def order_ev_def)
  ultimately show ?thesis by (auto simp: hedging_def)
qed

lemma UpdateHedgeStatus_hedged:
  assumes "UpdateHedgeStatus oid TxStatusSending TxStatusOk w = (Inr u, w')" and "hedging oid (tabs w)"
  shows "hedged oid (tabs w')"
proof -
  have t: "orders (tabs w') = update_where
      (\<lambda>r. o_OrderId r = oid \<and> o_OrderType r = OrderTypeSelf \<and> o_HedgeStatus r = TxStatusSending)
      (\<lambda>r. r\<lparr>o_HedgeStatus := TxStatusOk\<rparr>) (orders (tabs w))"
    using assms(1) by (auto simp: UpdateHedgeStatus_def dest!: updateM_okD)
  have "o_HedgeStatus r = TxStatusOk"
    if "r \<in> set (orders (tabs w'))" "o_OrderId r = oid" "o_OrderType r = OrderTypeSelf" for r
    using that(1) unfolding t
  proof (rule update_whereE)
    assume "r \<in> set (orders (tabs w))"
      "\<not> (o_OrderId r = oid \<and> o_OrderType r = OrderTypeSelf \<and> o_HedgeStatus r = TxStatusSending)"
    with that(2,3) assms(2) have "o_HedgeStatus r \<noteq> TxStatusDefault" "o_HedgeStatus r \<noteq> TxStatusSending"
      by (auto simp: hedging_def)
    then show ?thesis by (cases "o_HedgeStatus r") simp_all
  qed simp
  with assms(2) show ?thesis by (simp add: hedged_def hedging_def t image_update_where)
qed

lemma doHedge_tail_readonly:
  "upholds (=) (catchM (doHedge url post oid tok amt) (\<lambda>_. emitM (LarkErr s)))"
  unfolding doHedge_def by (intro readonly.read_rules)

lemma hedge_one_hedged:
  assumes run: "doOrderHedge_one dr m url post v w = (r, w')" and "hedging oid (tabs w)"
    and tr: "trace w' = trace w @ es" "Hedge oid \<in> set es"
  shows "hedged oid (tabs w')"
proof -
  have oid: "o_OrderId v = oid"
  proof (rule ccontr)
    assume "o_OrderId v \<noteq> oid"
    then obtain es' where "trace w' = trace w @ es'" "\<forall>e \<in> set es'. no_hedge_of oid e"
      using emitsD [OF doOrderHedge_one_emits run] by blast
    with tr show False by (auto simp: no_hedge_of_def)
  qed
  let ?U = "wrapM ''UpdateHedgeStatus'' (UpdateHedgeStatus oid TxStatusSending TxStatusOk)"
  have quiet: "emits (no_hedge_of oid) ?U"
    unfolding UpdateHedgeStatus_def by (intro emits_intros)
  obtain q w1 where u: "?U w = (q, w1)" by fastforce
  obtain es1 where es1: "trace w1 = trace w @ es1" "\<forall>e \<in> set es1. no_hedge_of oid e"
    using emitsD [OF quiet u] by blast
  show ?thesis
  proof (cases "no_hedge (o_PayTokenId v)")
    case True
    with run oid u es1 tr show ?thesis by (auto simp: doOrderHedge_one_def no_hedge_of_def)
  next
    case nh: False
    show ?thesis
    proof (cases "k_Id (GetTokenInfo m (o_PayTokenId v)) = 0 \<or> k_Price (GetTokenInfo m (o_PayTokenId v)) \<le> 0")
      case True
      with run nh tr show ?thesis by (auto simp: doOrderHedge_one_def Let_def errM_def)
    next
      case False
      then obtain amt where split: "thenM ?U (catchM (doHedge url post oid (o_PayTokenId v) amt)
          (\<lambda>_. emitM (LarkErr ''do hedge''))) w = (r, w')"
        using run nh oid by (auto simp: doOrderHedge_one_def Let_def)
      show ?thesis
      proof (cases q)
        case (Inl e)
        with split u es1 tr show ?thesis by (auto simp: thenM_Inl no_hedge_of_def)
      next
        case (Inr x)
        with u have "hedged oid (tabs w1)"
          using UpdateHedgeStatus_hedged [OF _ assms(2)] by (simp add: wrapM_ok)
        moreover have "catchM (doHedge url post oid (o_PayTokenId v) amt) (\<lambda>_. emitM (LarkErr ''do hedge'')) w1 = (r, w')"
          using split u Inr by (simp add: thenM_Inr)
        ultimately show ?thesis using tabs_readonly [OF doHedge_tail_readonly] by metis
      qed
    qed
  qed
qed

lemma keeps_evolves_wf:
  assumes "upholds db_evolves m" and "upholds wf_kept m" and "m w = (r, w')" and "db_wf (tabs w)"
  shows "db_evolves (tabs w) (tabs w') \<and> db_wf (tabs w')"
  using upholdsD [OF assms(1), of w] upholdsD [OF assms(2), of w] assms(3,4) by (simp add: wf_kept_def)

lemma doOrderHedge_one_keeps:
  "upholds db_evolves (doOrderHedge_one dr m url post v)" "upholds wf_kept (doOrderHedge_one dr m url post v)"
  unfolding doOrderHedge_one_def by (intro evolution.dao_rules evolution.doHedge wellformed.dao_rules wellformed.doHedge)+

lemma any_effects:
  "emits (\<lambda>_. True) (doOrderHedge_one dr m url post v)"
  "emits (\<lambda>_. True) (forM list (doOrderHedge_one dr m url post))"
proof -
  have h: "emits (\<lambda>_. True) (doHedge url post oid tok amt)" for url post oid tok amt
    unfolding doHedge_def by (intro emits_intros) (auto intro: emits_intros)
  show one: "emits (\<lambda>_. True) (doOrderHedge_one dr m url post v)" for v
    unfolding doOrderHedge_one_def Let_def UpdateHedgeStatus_def by (intro emits_intros h) simp_all
  show "emits (\<lambda>_. True) (forM list (doOrderHedge_one dr m url post))"
    by (intro emits_intros one)
qed

lemma trace_grows:
  "emits P m \<Longrightarrow> m w = (r, w') \<Longrightarrow> \<exists>es. trace w' = trace w @ es \<and> (\<forall>e \<in> set es. P e)"
  unfolding emits_def by (metis snd_conv)

lemma hedge_loop:
  assumes "forM list (doOrderHedge_one dr m url post) w = (r, w')" and "hedging oid (tabs w)"
    and "db_wf (tabs w)" and "trace w' = trace w @ es" and "Hedge oid \<in> set es"
  shows "hedged oid (tabs w')"
  using assms
proof (induction list arbitrary: w es)
  case Nil
  then show ?case by (simp add: okM_def)
next
  case (Cons v list)
  let ?one = "doOrderHedge_one dr m url post"
  obtain q w1 where one: "?one v w = (q, w1)" by fastforce
  obtain es1 where es1: "trace w1 = trace w @ es1"
    using trace_grows [OF any_effects(1) one] by blast
  note k1 = keeps_evolves_wf [OF doOrderHedge_one_keeps one Cons.prems(3)]
  show ?case
  proof (cases q)
    case (Inl e)
    with Cons.prems one have "w' = w1" by (simp add: bindM_def)
    with hedge_one_hedged [OF one Cons.prems(2)] Cons.prems(4,5) show ?thesis by simp
  next
    case (Inr x)
    with Cons.prems(1) one have rest: "forM list ?one w1 = (r, w')" by (simp add: bindM_def)
    have "upholds db_evolves (forM list ?one)" "upholds wf_kept (forM list ?one)"
      by (intro ev.forM wf.forM doOrderHedge_one_keeps)+
    note k2 = keeps_evolves_wf [OF this rest k1 [THEN conjunct2]]
    obtain es2 where es2': "trace w' = trace w1 @ es2"
      using trace_grows [OF any_effects(2) rest] by blast
    with Cons.prems(4) es1 have es2: "es = es1 @ es2" "trace w' = trace w1 @ es2" by simp_all
    show ?thesis
    proof (cases "Hedge oid \<in> set es1")
      case True
      from hedge_one_hedged [OF one Cons.prems(2) es1 True] k2 show ?thesis by (blast intro: hedged_stays)
    next
      case False
      with Cons.prems(5) es2(1) have "Hedge oid \<in> set es2" by simp
      with Cons.IH [OF rest _ _ es2(2)] k1 Cons.prems(2) show ?thesis by (blast intro: hedging_stays)
    qed
  qed
qed

definition need_hedge :: "db \<Rightarrow> order_row list" where
  "need_hedge t = filter (\<lambda>r. o_OrderType r = OrderTypeSelf \<and> o_HedgeStatus r = TxStatusSending) (orders t)"

lemma doOrderHedge_split:
  assumes "doOrderHedge dr m url post w = (r, w')"
  shows "trace w' = trace w \<or> (\<exists>wq. tabs wq = tabs w \<and> trace wq = trace w
      \<and> forM (need_hedge (tabs w)) (doOrderHedge_one dr m url post) wq = (r, w'))"
proof -
  obtain q wq where g: "wrapM ''GetNeedHedgeOrderList'' GetNeedHedgeOrderList w = (q, wq)" by fastforce
  have "emits (\<lambda>_. False) (wrapM ''GetNeedHedgeOrderList'' GetNeedHedgeOrderList)"
    unfolding GetNeedHedgeOrderList_def by (intro emits_intros)
  from trace_grows [OF this g] have tr: "trace wq = trace w" by auto
  have "upholds (=) (wrapM ''GetNeedHedgeOrderList'' GetNeedHedgeOrderList)"
    by (intro readonly.read_rules)
  from tabs_readonly [OF this g] have tb: "tabs wq = tabs w" .
  show ?thesis
  proof (cases q)
    case (Inl e)
    with assms g tr show ?thesis by (simp add: doOrderHedge_def bindM_def)
  next
    case (Inr list)
    with g have "list = need_hedge (tabs w)"
      by (auto simp: wrapM_ok GetNeedHedgeOrderList_def need_hedge_def dest: queryM_okD)
    with assms g tr tb Inr show ?thesis by (auto simp: doOrderHedge_def bindM_def)
  qed
qed

lemma doOrderHedge_quiet:
  assumes "doOrderHedge dr m url post w = (r, w')" and "\<forall>v \<in> set (need_hedge (tabs w)). o_OrderId v \<noteq> oid"
    and "trace w' = trace w @ es"
  shows "Hedge oid \<notin> set es"
proof -
  have e: "emits (no_hedge_of oid) (forM (need_hedge (tabs w)) (doOrderHedge_one dr m url post))"
    using assms(2) by (intro emits_forM doOrderHedge_one_emits) simp
  from doOrderHedge_split [OF assms(1)] show ?thesis
  proof
    assume "\<exists>wq. tabs wq = tabs w \<and> trace wq = trace w
      \<and> forM (need_hedge (tabs w)) (doOrderHedge_one dr m url post) wq = (r, w')"
    then obtain wq where "trace wq = trace w" "forM (need_hedge (tabs w)) (doOrderHedge_one dr m url post) wq = (r, w')"
      by blast
    with trace_grows [OF e this(2)] assms(3) show ?thesis by (auto simp: no_hedge_of_def)
  qed (use assms(3) in simp)
qed

lemma doOrderHedge_hedged:
  assumes "doOrderHedge dr m url post w = (r, w')" and "db_wf (tabs w)"
    and "trace w' = trace w @ es" and "Hedge oid \<in> set es"
  shows "hedged oid (tabs w')"
proof -
  from doOrderHedge_quiet [OF assms(1) _ assms(3)] assms(4)
  obtain v where "v \<in> set (need_hedge (tabs w))" "o_OrderId v = oid" by blast
  then have v: "v \<in> set (orders (tabs w))" "o_HedgeStatus v = TxStatusSending" "o_OrderId v = oid"
    by (simp_all add: need_hedge_def)
  from assms(2) have wf: "keyed o_OrderId o_Id (orders (tabs w)) (next_id (tabs w))" by (simp add: db_wf_def)
  have "s = v" if "s \<in> set (orders (tabs w))" "o_OrderId s = oid" for s
    using keyed_unique [OF wf that(1) v(1)] that(2) v(3) by simp
  then have "o_HedgeStatus s \<noteq> TxStatusDefault" if "s \<in> set (orders (tabs w))" "o_OrderId s = oid" for s
    using that v(2) by force
  with v(1,3) have h: "hedging oid (tabs w)" unfolding hedging_def by blast
  from doOrderHedge_split [OF assms(1)] assms(3,4) obtain wq where "tabs wq = tabs w" "trace wq = trace w"
    "forM (need_hedge (tabs w)) (doOrderHedge_one dr m url post) wq = (r, w')" by auto
  with h hedge_loop [OF this(3), of oid es] assms(2,3,4) show ?thesis by simp
qed

text \<open>An order is hedged at most once: after a run of the job that posted its hedge, whatever
  happens to the tables and whatever the endpoint answered, no later run posts it again.\<close>

theorem hedged_in_one_run_only:
  assumes "doOrderHedge dr m url post w = (r, w1)" and "db_wf (tabs w)"
    and "trace w1 = trace w @ es" and "Hedge oid \<in> set es"
    and "db_evolves (tabs w1) (tabs w2)" and "db_wf (tabs w2)"
    and "doOrderHedge dr' m' url' post' w2 = (r', w3)" and "trace w3 = trace w2 @ es'"
  shows "Hedge oid \<notin> set es'"
proof -
  have "hedged oid (tabs w2)"
    using doOrderHedge_hedged [OF assms(1-4)] assms(5,6) by (rule hedged_stays)
  then have "\<forall>v \<in> set (need_hedge (tabs w2)). o_OrderId v \<noteq> oid"
    by (auto simp: hedged_def need_hedge_def)
  with assms(7) show ?thesis using assms(8) by (rule doOrderHedge_quiet)
qed

theorem hedged_in_one_run_only_witness:
  "let w = world_of (one_order_db\<lparr>orders := [one_order\<lparr>o_HedgeStatus := TxStatusSending, o_PayTokenId := TokenIdEth\<rparr>]\<rparr>) 0;
       job = doOrderHedge (\<lambda>a b n. a / b) (\<lambda>_. Some (zero_token\<lparr>k_Id := 1, k_Price := 1\<rparr>)) ''url'' (\<lambda>_ _ _. Inr (200, 0))
   in trace (snd (job w)) = [Hedge ''o''] \<and> Hedge ''o'' \<notin> set (trace (snd (job (world_of (tabs (snd (job w))) 0))))"
proof -
  define w where "w = world_of (one_order_db\<lparr>orders := [one_order\<lparr>o_HedgeStatus := TxStatusSending, o_PayTokenId := TokenIdEth\<rparr>]\<rparr>) 0"
  define job where "job = doOrderHedge (\<lambda>a b n. a / b) (\<lambda>_. Some (zero_token\<lparr>k_Id := 1, k_Price := 1\<rparr>)) ''url'' (\<lambda>_ _ _. Inr (200, 0))"
  define t where "t = one_order_db\<lparr>orders := [one_order\<lparr>o_HedgeStatus := TxStatusOk, o_PayTokenId := TokenIdEth\<rparr>]\<rparr>"
  have run: "job w = (Inr (), w\<lparr>tabs := t, trace := [Hedge ''o'']\<rparr>)"
    by (simp add: job_def w_def t_def doOrderHedge_def GetNeedHedgeOrderList_def go_simps doOrderHedge_one_def
        no_hedge_def GetTokenInfo_def zero_token_def UpdateHedgeStatus_def doHedge_def Let_def one_order_db_def
        empty_db_def one_order_def zero_order_def sql_updates)
  have run2: "job (world_of t 0) = (Inr (), world_of t 0)"
    by (simp add: job_def t_def doOrderHedge_def GetNeedHedgeOrderList_def go_simps one_order_db_def
        empty_db_def one_order_def zero_order_def)
  have "Hedge ''o'' \<notin> set []"
    by (rule hedged_in_one_run_only [OF run [unfolded job_def] _ _ _ _ _ run2 [unfolded job_def], where oid = "''o''" and es = "[Hedge ''o'']"])
      (simp_all add: w_def t_def db_evolves_refl db_wf_def keyed_def one_order_db_def empty_db_def one_order_def zero_order_def)
  then show ?thesis unfolding Let_def w_def [symmetric] job_def [symmetric] by (simp add: run run2)
qed

section \<open>The register report\<close>

text \<open>The report prints the open orders per step, except that the proposals are printed in the place
  of the pre-registrations (when there are any) and the number of proposals is always zero.\<close>

theorem report_counts_proposals_as_pre_registered:
  assumes "healthy w" and "key \<noteq> ''''" and "\<And>v. GetOwnerCount v = (Inr owners, v)"
  shows "doRegisterInfo key GetOwnerCount w = (Inr (), w\<lparr>trace := trace w @
     [LarkText [length (filter (\<lambda>a. a_Account a \<noteq> '''') (accounts (tabs w))), owners,
        count_status (tabs w) RegisterStatusApplyRegister,
        if 0 < count_status (tabs w) RegisterStatusProposal then count_status (tabs w) RegisterStatusProposal
        else count_status (tabs w) RegisterStatusPreRegister,
        0, count_status (tabs w) RegisterStatusConfirmProposal]]\<rparr>)"
  using assms
  by (simp add: doRegisterInfo_def GetAccountCount_def GetRegisterStatusCount_def go_simps register_nums_def)

theorem report_counts_proposals_as_pre_registered_witness:
  "let row = (\<lambda>i s. one_order\<lparr>o_OrderId := i, o_RegisterStatus := s\<rparr>);
       t = empty_db\<lparr>orders := [row ''a'' RegisterStatusPreRegister, row ''b'' RegisterStatusPreRegister,
                              row ''c'' RegisterStatusProposal]\<rparr>
   in trace (snd (doRegisterInfo ''key'' (okM 7) (world_of t 0))) = [LarkText [0, 7, 0, 1, 0, 0]]"
proof -
  note run = report_counts_proposals_as_pre_registered [where key = "''key''" and GetOwnerCount = "okM 7" and owners = 7]
  show ?thesis
    unfolding Let_def by (subst run) (simp_all add: okM_def count_status_def empty_db_def one_order_def zero_order_def)
qed

section \<open>Pending transactions\<close>

text \<open>A window of the pending job (which nothing in the repository starts) that is a positive multiple of
  ten stays one, whatever fails, and changes by ten at most.\<close>

lemma pending_window_bounds:
  assumes "checkPending n w = (Inr n', w')" and "10 \<le> n" and "10 dvd n"
  shows "10 \<le> n' \<and> 10 dvd n' \<and> \<bar>n' - n\<bar> \<le> 10"
proof -
  from assms(1) have "n' = n \<or> n' = n + 10 \<or> (10 < n \<and> n' = n - 10)"
    by (auto simp: checkPending_def ok_iffs split: if_splits)
  moreover have "20 \<le> n" if "10 < n"
    using that assms(3) by (auto simp: dvd_def)
  ultimately show ?thesis using assms(2,3) by auto
qed

end
