(* ===== verification/Reparse.thy ===== *)
theory Reparse
  imports OrderFlow DaoWf
begin

text \<open>
  Blocks are parsed again after a failure or a fork (\<open>failed_block_is_retried\<close>), so the transaction
  handlers must be idempotent. Here: which handlers are, what a confirmed proposal does to the orders
  and payments of its accounts, and the proposal that stops the parser.
\<close>

section \<open>Handling a block twice\<close>

lemma update_where_again:
  "(\<And>r. P r \<Longrightarrow> P (f r) \<Longrightarrow> f (f r) = f r) \<Longrightarrow> update_where P f (update_where P f xs) = update_where P f xs"
  by (rule update_where_twice)

text \<open>The tables after \<open>DoActionApplyRegister\<close> and \<open>DoActionPreRegister\<close>.\<close>

definition applied :: "string \<Rightarrow> string \<Rightarrow> db \<Rightarrow> db" where
  "applied orderId hash t = update_orders
     (\<lambda>r. o_OrderId r = orderId \<and> o_RegisterStatus r < RegisterStatusPreRegister)
     (\<lambda>r. r\<lparr>o_RegisterStatus := RegisterStatusPreRegister\<rparr>)
     (update_orders (\<lambda>r. o_OrderId r = orderId \<and> o_PreRegisterStatus r = TxStatusDefault
               \<and> o_OrderStatus r = OrderStatusDefault)
        (\<lambda>r. r\<lparr>o_PreRegisterStatus := TxStatusSending\<rparr>) (confirm_tx orderId hash t))"

definition preregistered :: "string \<Rightarrow> string \<Rightarrow> db \<Rightarrow> db" where
  "preregistered orderId hash t = update_orders
     (\<lambda>r. o_OrderId r = orderId \<and> o_RegisterStatus r < RegisterStatusProposal)
     (\<lambda>r. r\<lparr>o_RegisterStatus := RegisterStatusProposal\<rparr>) (confirm_tx orderId hash t)"

lemma confirm_tx_twice: "confirm_tx orderId hash (confirm_tx orderId hash t) = confirm_tx orderId hash t"
  by (simp add: confirm_tx_def update_txs_def update_where_def)

lemma confirm_tx_update_orders:
  "confirm_tx orderId hash (update_orders P f t) = update_orders P f (confirm_tx orderId hash t)"
  by (simp add: confirm_tx_def sql_updates)

lemma applied_twice: "applied orderId hash (applied orderId hash t) = applied orderId hash t"
proof -
  define f where "f = (\<lambda>r :: order_row. if o_OrderId r = orderId \<and> o_PreRegisterStatus r = TxStatusDefault
      \<and> o_OrderStatus r = OrderStatusDefault then r\<lparr>o_PreRegisterStatus := TxStatusSending\<rparr> else r)"
  define g where "g = (\<lambda>r :: order_row. if o_OrderId r = orderId \<and> o_RegisterStatus r < RegisterStatusPreRegister
      then r\<lparr>o_RegisterStatus := RegisterStatusPreRegister\<rparr> else r)"
  have a: "applied orderId hash t = (confirm_tx orderId hash t)\<lparr>orders := map g (map f (orders t))\<rparr>" for t
    by (simp add: applied_def update_orders_def update_where_def f_def g_def confirm_tx_def)
  have "g (f (g (f r))) = g (f r)" for r
    by (simp add: f_def g_def)
  then show ?thesis unfolding a by (simp add: confirm_tx_def update_txs_def update_where_def)
qed

lemma preregistered_twice: "preregistered orderId hash (preregistered orderId hash t) = preregistered orderId hash t"
proof -
  define g where "g = (\<lambda>r :: order_row. if o_OrderId r = orderId \<and> o_RegisterStatus r < RegisterStatusProposal
      then r\<lparr>o_RegisterStatus := RegisterStatusProposal\<rparr> else r)"
  have a: "preregistered orderId hash t = (confirm_tx orderId hash t)\<lparr>orders := map g (orders t)\<rparr>" for t
    by (simp add: preregistered_def update_orders_def update_where_def g_def confirm_tx_def)
  have "g (g r) = g r" for r
    by (simp add: g_def)
  then show ?thesis unfolding a by (simp add: confirm_tx_def update_txs_def update_where_def)
qed

lemma registered_txs:
  "txs (applied orderId hash t) = txs (confirm_tx orderId hash t)"
  "txs (preregistered orderId hash t) = txs (confirm_tx orderId hash t)"
  by (simp_all add: applied_def preregistered_def)

text \<open>Confirming a transaction does not change which one a hash finds.\<close>

lemma find_confirmed:
  assumes "first_or zero_tx (filter (\<lambda>x. x_Action x = a \<and> x_Hash x = h) (txs t)) = x"
  shows "\<exists>y. first_or zero_tx (filter (\<lambda>x. x_Action x = a \<and> x_Hash x = h) (txs (confirm_tx orderId hash t))) = y
     \<and> x_Id y = x_Id x \<and> x_OrderId y = x_OrderId x \<and> x_Hash y = x_Hash x"
proof -
  define f where "f = (\<lambda>x :: tx_row. if x_OrderId x = orderId \<and> x_Hash x = hash then x\<lparr>x_Status := OrderTxStatusConfirm\<rparr> else x)"
  have "filter (\<lambda>x. x_Action x = a \<and> x_Hash x = h) (map f xs) = map f (filter (\<lambda>x. x_Action x = a \<and> x_Hash x = h) xs)" for xs
    by (induction xs) (simp_all add: f_def)
  moreover have "txs (confirm_tx orderId hash t) = map f (txs t)"
    by (simp add: confirm_tx_def update_txs_def update_where_def f_def)
  ultimately have e: "filter (\<lambda>x. x_Action x = a \<and> x_Hash x = h) (txs (confirm_tx orderId hash t))
      = map f (filter (\<lambda>x. x_Action x = a \<and> x_Hash x = h) (txs t))" by simp
  show ?thesis
    using assms unfolding e
    by (cases "filter (\<lambda>x. x_Action x = a \<and> x_Hash x = h) (txs t)") (auto simp: first_or_def f_def)
qed

definition find_tx :: "OrderTxAction \<Rightarrow> string \<Rightarrow> db \<Rightarrow> tx_row" where
  "find_tx a h t = first_or zero_tx (filter (\<lambda>x. x_Action x = a \<and> x_Hash x = h) (txs t))"

lemma DoAction_healthy:
  assumes "healthy w"
  shows "DoActionApplyRegister orderId hash w = (Inr (), w\<lparr>tabs := applied orderId hash (tabs w)\<rparr>)"
    and "DoActionPreRegister orderId hash w = (Inr (), w\<lparr>tabs := preregistered orderId hash (tabs w)\<rparr>)"
  using assms by (simp_all add: DoActionApplyRegister_def DoActionPreRegister_def go_simps applied_def preregistered_def)

lemma ActionApplyRegister_run:
  assumes "healthy w"
  shows "ActionApplyRegister L req w =
    (case isCurrentVersionTx L (q_Tx req) DasContractNameApplyRegisterCellType of
       Inl e \<Rightarrow> (Inl (if e = GoPanic then e else In ''isCurrentVersion'' e), w)
     | Inr isCV \<Rightarrow>
       if \<not> isCV then (Inr (), w)
       else let x = find_tx TxActionApplyRegister (q_TxHash req) (tabs w) in
         if 0 < x_Id x
         then (Inr (), w\<lparr>tabs := applied (x_OrderId x) (x_Hash x) (tabs w), trace := trace w @
                [LarkRegister (o_Account (find_order (x_OrderId x) (tabs w))) (o_OrderId (find_order (x_OrderId x) (tabs w)))]\<rparr>)
         else (Inr (), w\<lparr>trace := trace w @ [LarkRegister ''unknown'' '''']\<rparr>))"
  using assms
  by (auto simp: ActionApplyRegister_def when_current_def go_simps GetOrderTxByHash_def GetOrderByOrderId_def
      DoAction_healthy Let_def find_tx_def wrapM_def catchM_def liftM_def errM_def bindM_Inl split: sum.split)

lemma find_tx_applied:
  assumes "find_tx a h t = x" and "0 < x_Id x"
    and "txs t' = txs (confirm_tx (x_OrderId x) hash t)"
  shows "x_Id (find_tx a h t') = x_Id x" "x_OrderId (find_tx a h t') = x_OrderId x" "x_Hash (find_tx a h t') = x_Hash x"
  using find_confirmed [of a h t x "x_OrderId x" hash] assms by (auto simp: find_tx_def)

lemma reparse_apply:
  assumes "healthy w" and "ActionApplyRegister L req w = (Inr (), w1)"
  shows "\<exists>w2. ActionApplyRegister L req w1 = (Inr (), w2) \<and> tabs w2 = tabs w1 \<and> healthy w1"
proof -
  define x where "x = find_tx TxActionApplyRegister (q_TxHash req) (tabs w)"
  have w1: "healthy w1 \<and> (tabs w1 = tabs w \<and> x_Id x = 0
      \<or> 0 < x_Id x \<and> tabs w1 = applied (x_OrderId x) (x_Hash x) (tabs w)
      \<or> isCurrentVersionTx L (q_Tx req) DasContractNameApplyRegisterCellType = Inr False \<and> tabs w1 = tabs w)"
    using assms by (auto simp: ActionApplyRegister_run Let_def x_def [symmetric] split: sum.splits if_splits)
  have iscv: "\<exists>b. isCurrentVersionTx L (q_Tx req) DasContractNameApplyRegisterCellType = Inr b"
    using assms by (auto simp: ActionApplyRegister_run split: sum.splits)
  show ?thesis
  proof (cases "0 < x_Id x \<and> tabs w1 = applied (x_OrderId x) (x_Hash x) (tabs w)")
    case True
    note f = find_tx_applied [OF x_def [symmetric], of "tabs w1" "x_Hash x"]
    from True have "txs (tabs w1) = txs (confirm_tx (x_OrderId x) (x_Hash x) (tabs w))"
      by (simp add: registered_txs)
    with f True w1 iscv show ?thesis
      by (auto simp: ActionApplyRegister_run Let_def applied_twice)
  next
    case False
    with w1 iscv show ?thesis
      by (auto simp: ActionApplyRegister_run Let_def x_def)
  qed
qed

lemma CreateOrderAndOrderTxs_healthy:
  "healthy w \<Longrightarrow> list \<noteq> [] \<Longrightarrow>
   CreateOrderAndOrderTxs r list w = (Inr (), w\<lparr>tabs := fold upsert_tx list (upsert_order r (tabs w))\<rparr>)"
  by (simp add: CreateOrderAndOrderTxs_def go_simps upsert_txs_def)

text \<open>The order and the two transactions of a pre-registration the service did not make.\<close>

definition foreign_txs :: "handle_req \<Rightarrow> string \<Rightarrow> string \<Rightarrow> tx_row list" where
  "foreign_txs req orderId applyHash =
     [\<lparr>x_Id = 0, x_OrderId = orderId, x_Hash = applyHash, x_Action = TxActionApplyRegister,
       x_Status = OrderTxStatusConfirm, x_Timestamp = q_Time req\<rparr>,
      \<lparr>x_Id = 0, x_OrderId = orderId, x_Hash = q_TxHash req, x_Action = TxActionPreRegister,
       x_Status = OrderTxStatusConfirm, x_Timestamp = q_Time req\<rparr>]"

lemma ActionPreRegister_known:
  assumes "healthy w" and "isCurrentVersionTx L (q_Tx req) DasContractNamePreAccountCellType = Inr True"
    and "x = find_tx TxActionPreRegister (q_TxHash req) (tabs w)" and "0 < x_Id x"
  shows "ActionPreRegister L req w = (Inr (), w\<lparr>tabs := preregistered (x_OrderId x) (x_Hash x) (tabs w), trace := trace w @
      [LarkRegister (o_Account (find_order (x_OrderId x) (tabs w))) (o_OrderId (find_order (x_OrderId x) (tabs w)))]\<rparr>)"
  using assms
  by (simp add: ActionPreRegister_def when_current_def go_simps GetOrderTxByHash_def GetOrderByOrderId_def
      DoAction_healthy find_tx_def)

lemma indexM_ok: "indexM xs i w = (Inr y, w') \<longleftrightarrow> i < length xs \<and> y = xs ! i \<and> w' = w"
  by (auto simp: indexM_def okM_def errM_def)

lemma pre_register_status: "o_RegisterStatus (pre_register_order L req a ct ad st) = RegisterStatusProposal"
  by (simp add: pre_register_order_def)

lemma ActionPreRegister_unknown:
  assumes "healthy w" and "isCurrentVersionTx L (q_Tx req) DasContractNamePreAccountCellType = Inr True"
    and "x_Id (find_tx TxActionPreRegister (q_TxHash req) (tabs w)) = 0"
    and "ActionPreRegister L req w = (Inr (), w1)"
  shows "\<exists>r h. o_RegisterStatus r = RegisterStatusProposal \<and> healthy w1
     \<and> tabs w1 = fold upsert_tx (foreign_txs req (o_OrderId r) h) (upsert_order r (tabs w))"
proof -
  from assms have "\<exists>st a ct ad h es w2. CreateOrderAndOrderTxs (pre_register_order L req a ct ad st)
      (foreign_txs req (o_OrderId (pre_register_order L req a ct ad st)) h) w = (Inr (), w2) \<and> w1 = w2\<lparr>trace := es\<rparr>"
    by (auto simp: ActionPreRegister_def when_current_def ok_iffs GetOrderTxByHash_def queryM_healthy find_tx_def
        GetAccountInfoByAccountId_def indexM_ok foreign_txs_def Let_def case_prod_beta) blast+
  then obtain r h es w2 where r: "o_RegisterStatus r = RegisterStatusProposal"
    and run: "CreateOrderAndOrderTxs r (foreign_txs req (o_OrderId r) h) w = (Inr (), w2)" "w1 = w2\<lparr>trace := es\<rparr>"
    by (metis pre_register_status)
  have "foreign_txs req (o_OrderId r) h \<noteq> []" by (simp add: foreign_txs_def)
  with CreateOrderAndOrderTxs_healthy [OF assms(1) this, of r] run r assms(1) show ?thesis by auto
qed

lemma upsert_tx_txs:
  "txs (upsert_tx r t) =
     (if \<exists>s \<in> set (txs t). same_tx r s
      then update_where (same_tx r) (\<lambda>s. s\<lparr>x_Action := x_Action r, x_Status := x_Status r, x_Timestamp := x_Timestamp r\<rparr>) (txs t)
      else txs t @ [r\<lparr>x_Id := next_id t\<rparr>])"
  by (simp add: upsert_tx_def)

lemma upsert_tx_rows:
  assumes "s \<in> set (txs (upsert_tx r t))"
  shows "s \<in> set (txs t) \<and> \<not> same_tx r s \<or> same_tx r s \<and> x_Action s = x_Action r \<and> x_Status s = x_Status r"
proof (cases "\<exists>s \<in> set (txs t). same_tx r s")
  case True
  from assms show ?thesis
    unfolding upsert_tx_txs if_P [OF True] by (rule update_whereE) (simp_all add: same_tx_def)
next
  case False
  with assms have "s \<in> set (txs t) \<or> s = r\<lparr>x_Id := next_id t\<rparr>"
    unfolding upsert_tx_txs if_not_P [OF False] by auto
  with False show ?thesis by (elim disjE) (blast, simp add: same_tx_def)
qed

lemma upsert_tx_present: "\<exists>s \<in> set (txs (upsert_tx r t)). same_tx r s \<and> x_Action s = x_Action r"
proof (cases "\<exists>s \<in> set (txs t). same_tx r s")
  case True
  then obtain s where s: "s \<in> set (txs t)" "same_tx r s" by blast
  let ?f = "\<lambda>s. s\<lparr>x_Action := x_Action r, x_Status := x_Status r, x_Timestamp := x_Timestamp r\<rparr>"
  have "?f s \<in> set (update_where (same_tx r) ?f (txs t))"
    using s by (auto simp: update_where_def image_iff intro!: bexI [of _ s])
  then have "?f s \<in> set (txs (upsert_tx r t))" using True by (simp add: upsert_tx_txs)
  with s(2) show ?thesis by (intro bexI [of _ "?f s"]) (simp_all add: same_tx_def)
next
  case False
  then have "r\<lparr>x_Id := next_id t\<rparr> \<in> set (txs (upsert_tx r t))" by (simp add: upsert_tx_txs)
  then show ?thesis by (intro bexI [of _ "r\<lparr>x_Id := next_id t\<rparr>"]) (simp_all add: same_tx_def)
qed

lemma upsert_order_status:
  assumes "s \<in> set (orders (upsert_order r t))" and "o_OrderId s = o_OrderId r"
  shows "o_RegisterStatus s = o_RegisterStatus r"
proof (cases "o_OrderId r \<in> o_OrderId ` set (orders t)")
  case True
  with assms show ?thesis
    unfolding upsert_order_def by simp (erule update_whereE; simp)
next
  case False
  with assms show ?thesis unfolding upsert_order_def by (auto simp: image_iff)
qed

lemma upsert_tx_other [simp]: "orders (upsert_tx r t) = orders t" "txs (upsert_order o' t) = txs t"
  by (simp_all add: upsert_tx_def upsert_order_def)

lemma find_tx_none:
  assumes "db_wf t" and "x_Id (find_tx a h t) = 0" and "x \<in> set (txs t)"
  shows "\<not> (x_Action x = a \<and> x_Hash x = h)"
proof
  assume x: "x_Action x = a \<and> x_Hash x = h"
  obtain y ys where y: "filter (\<lambda>x. x_Action x = a \<and> x_Hash x = h) (txs t) = y # ys"
    using assms(3) x by (cases "filter (\<lambda>x. x_Action x = a \<and> x_Hash x = h) (txs t)") (auto simp: filter_empty_conv)
  then have "y \<in> set (txs t)" by (metis Cons_eq_filterD in_set_conv_decomp)
  with assms(1) have "0 < x_Id y" by (auto simp: db_wf_def keyed_def)
  with y assms(2) show False by (simp add: find_tx_def first_or_def)
qed

text \<open>After a foreign pre-registration has been recorded, it is a known one with nothing left to do.\<close>

lemma foreign_recorded:
  assumes wf: "db_wf t" and none: "x_Id (find_tx TxActionPreRegister (q_TxHash req) t) = 0"
    and r: "o_RegisterStatus r = RegisterStatusProposal"
    and t'_def: "t' = fold upsert_tx (foreign_txs req (o_OrderId r) h) (upsert_order r t)"
  shows "let x = find_tx TxActionPreRegister (q_TxHash req) t' in
    0 < x_Id x \<and> preregistered (x_OrderId x) (x_Hash x) t' = t'"
proof -
  let ?P = "\<lambda>x. x_Action x = TxActionPreRegister \<and> x_Hash x = q_TxHash req"
  obtain x1 x2 where xs: "foreign_txs req (o_OrderId r) h = [x1, x2]" and
    x: "x_OrderId x1 = o_OrderId r" "x_Action x1 = TxActionApplyRegister" "x_OrderId x2 = o_OrderId r"
      "x_Hash x2 = q_TxHash req" "x_Action x2 = TxActionPreRegister" "x_Status x2 = OrderTxStatusConfirm"
    by (simp add: foreign_txs_def)
  have t': "t' = upsert_tx x2 (upsert_tx x1 (upsert_order r t))" by (simp add: t'_def xs)
  have rows: "x_OrderId s = o_OrderId r \<and> x_Status s = OrderTxStatusConfirm" if "s \<in> set (txs t')" "?P s" for s
    using upsert_tx_rows [OF that(1) [unfolded t']] that(2) x upsert_tx_rows [of s x1 "upsert_order r t"]
      find_tx_none [OF wf none, of s] by (auto simp: same_tx_def)
  obtain s where s: "s \<in> set (txs t')" "?P s"
    using upsert_tx_present [of x2 "upsert_tx x1 (upsert_order r t)"] x unfolding t' same_tx_def by metis
  then obtain y ys where y: "filter ?P (txs t') = y # ys"
    by (cases "filter ?P (txs t')") (auto simp: filter_empty_conv)
  have fy: "find_tx TxActionPreRegister (q_TxHash req) t' = y"
    by (simp add: find_tx_def first_or_def y)
  have "y \<in> set (filter ?P (txs t'))" unfolding y by simp
  then have my: "y \<in> set (txs t')" "?P y" by simp_all
  have "db_wf t'"
    unfolding t' using wf wf_upsert_tx wf_upsert_order unfolding wf_kept_def by blast
  with my(1) have "0 < x_Id y" by (auto simp: db_wf_def keyed_def)
  have "x_Status s = OrderTxStatusConfirm"
    if "s \<in> set (txs t')" "x_OrderId s = o_OrderId r" "x_Hash s = q_TxHash req" for s
    using upsert_tx_rows [OF that(1) [unfolded t']] that(2,3) x by (auto simp: same_tx_def)
  then have c: "confirm_tx (o_OrderId r) (q_TxHash req) t' = t'"
    unfolding confirm_tx_def update_txs_def by (subst update_where_id) auto
  have o: "\<not> o_RegisterStatus q < RegisterStatusProposal" if "q \<in> set (orders t')" "o_OrderId q = o_OrderId r" for q
    using that upsert_order_status [of q r t] r by (simp add: t')
  have "preregistered (o_OrderId r) (q_TxHash req) t' = t'"
    using o unfolding preregistered_def c update_orders_def by (subst update_where_id) auto
  with \<open>0 < x_Id y\<close> rows [OF my] my(2) show ?thesis by (simp add: fy)
qed

lemma when_current_ok:
  "when_current L req name body w = (Inr u, w') \<longleftrightarrow>
     (isCurrentVersionTx L (q_Tx req) name = Inr False \<and> w' = w
      \<or> isCurrentVersionTx L (q_Tx req) name = Inr True \<and> body w = (Inr u, w'))"
proof (cases "isCurrentVersionTx L (q_Tx req) name")
  case (Inl e)
  then show ?thesis by (auto simp: when_current_def ok_iffs)
next
  case (Inr b)
  then show ?thesis by (cases b) (auto simp: when_current_def ok_iffs okM_def unit_eq)
qed

lemma reparse_pre:
  assumes "healthy w" and wf: "db_wf (tabs w)" and run: "ActionPreRegister L req w = (Inr (), w1)"
  shows "\<exists>w2. ActionPreRegister L req w1 = (Inr (), w2) \<and> tabs w2 = tabs w1"
proof -
  let ?cv = "isCurrentVersionTx L (q_Tx req) DasContractNamePreAccountCellType"
  define x where "x = find_tx TxActionPreRegister (q_TxHash req) (tabs w)"
  consider "?cv = Inr False" "w1 = w" | "?cv = Inr True"
    using run unfolding ActionPreRegister_def when_current_ok by blast
  then show ?thesis
  proof cases
    case 1
    with run show ?thesis by blast
  next
    case cv: 2
    show ?thesis
    proof (cases "0 < x_Id x")
      case True
      from ActionPreRegister_known [OF assms(1) cv x_def True] run
      have w1: "healthy w1" "tabs w1 = preregistered (x_OrderId x) (x_Hash x) (tabs w)"
        using assms(1) by auto
      note f = find_tx_applied [OF x_def [symmetric] True, of "tabs w1" "x_Hash x"]
      from ActionPreRegister_known [OF w1(1) cv refl] f True w1(2) show ?thesis
        by (simp add: registered_txs preregistered_twice)
    next
      case False
      then have none: "x_Id (find_tx TxActionPreRegister (q_TxHash req) (tabs w)) = 0" by (simp add: x_def)
      from ActionPreRegister_unknown [OF assms(1) cv none run] obtain r h where
        r: "o_RegisterStatus r = RegisterStatusProposal" "healthy w1"
          "tabs w1 = fold upsert_tx (foreign_txs req (o_OrderId r) h) (upsert_order r (tabs w))" by blast
      from foreign_recorded [OF wf none r(1,3)] ActionPreRegister_known [OF r(2) cv refl] show ?thesis
        by (auto simp: Let_def)
    qed
  qed
qed

text \<open>C10. The registration handlers may see a transaction twice (a block is parsed again after a failure
  or a fork): the second time succeeds and leaves the tables as they are, also for a pre-registration
  the service did not make, whose order the first time has created.\<close>

theorem reparsing_registration_is_idempotent:
  assumes "m \<in> {ActionApplyRegister L req, ActionPreRegister L req}"
    and "healthy w" and "db_wf (tabs w)" and "m w = (Inr (), w1)"
  shows "\<exists>w2. m w1 = (Inr (), w2) \<and> tabs w2 = tabs w1"
  using assms reparse_apply [of w L req w1] reparse_pre [of w L req w1] by auto

text \<open>A library that knows one contract and one account.\<close>

definition parse_lib :: lib where
  "parse_lib = \<lparr>GetDasContractInfo = (\<lambda>_. Inr \<lparr>ContractTypeId = ''ty'', IsSameTypeId = (\<lambda>h. h = ''ty'')\<rparr>),
     ActionFromTx = (\<lambda>_. Inr DasActionPreRegister), ProposalIndexOld = (\<lambda>_. Inr 0),
     PreAccountsOld = (\<lambda>_. Inr [(''id'', \<lparr>v_Account = ''alice.bit'', v_InviterId = '''', v_OwnerLockArgs = ''args''\<rparr>)]),
     PreAccountDeps = (\<lambda>_. Inr [(0, ''alice.bit'')]),
     PreAccountNew = (\<lambda>_. Inr \<lparr>v_Account = ''alice.bit'', v_InviterId = '''', v_OwnerLockArgs = ''args''\<rparr>),
     AccountsNew = (\<lambda>_. Inr (\<lambda>_. None)), AccountOld = (\<lambda>_. Inl Fault), AccountNew = (\<lambda>_. Inl Fault),
     ArgsToHex = (\<lambda>_. Inr (1, ''addr'')), NodeGetTransaction = (\<lambda>_. Inl Fault), AsyncDasConfigCell = Inr (),
     AccountIdOf = (\<lambda>_. ''id''), OutPoint2String = (\<lambda>h n. h), md5 = (\<lambda>s. ''new''), ActionString = (\<lambda>_. ''''),
     OneYearSec = 31536000\<rparr>"

definition parse_req :: handle_req where
  "parse_req = \<lparr>q_Tx = \<lparr>t_Hash = ''pre'', t_Inputs = [(''apply'', 0)],
       t_Outputs = [\<lparr>l_CodeHash = ''c'', l_Args = ''args'', l_Type = Some ''ty''\<rparr>], t_CellDeps = [(''pre'', 0)]\<rparr>,
     q_BlockNumber = 7, q_BlockTimestamp = 9, q_Action = DasActionPreRegister\<rparr>"

theorem reparsing_registration_is_idempotent_witness:
  "let w1 = snd (ActionPreRegister parse_lib parse_req (world_of empty_db 0)) in
   map o_OrderId (orders (tabs w1)) = [''new'']
   \<and> (\<exists>w2. ActionPreRegister parse_lib parse_req w1 = (Inr (), w2) \<and> tabs w2 = tabs w1)"
proof -
  define w1 where "w1 = snd (ActionPreRegister parse_lib parse_req (world_of empty_db 0))"
  have run: "ActionPreRegister parse_lib parse_req (world_of empty_db 0) = (Inr (), w1)"
    and o: "map o_OrderId (orders (tabs w1)) = [''new'']"
    by (simp_all add: w1_def ActionPreRegister_def when_current_def isCurrentVersionTx_def parse_lib_def parse_req_def
        go_simps GetOrderTxByHash_def GetAccountInfoByAccountId_def first_or_def empty_db_def zero_tx_def
        zero_account_def indexM_def CreateOrderAndOrderTxs_healthy pre_register_order_def upsert_order_def
        upsert_tx_def same_tx_def CreateOrderId_def Let_def)
  have "db_wf empty_db" by (simp add: db_wf_def empty_db_def)
  with reparsing_registration_is_idempotent [of "ActionPreRegister parse_lib parse_req" parse_lib parse_req "world_of empty_db 0" w1] run o show ?thesis
    by (simp flip: w1_def)
qed

section \<open>Handlers that fail\<close>

definition undone :: "'a dao \<Rightarrow> bool" where
  "undone m \<longleftrightarrow> (\<forall>w. isl (fst (m w)) \<longrightarrow> tabs (snd (m w)) = tabs w)"

named_theorems undone_intros \<open>operations that leave the tables as they were when they fail\<close>

lemma undone_readonly: "upholds (=) m \<Longrightarrow> undone m"
  by (simp add: undone_def upholds_def)

lemma undone_bindM [undone_intros]:
  assumes "upholds (=) m" and "\<And>x. undone (k x)"
  shows "undone (bindM m k)"
  unfolding undone_def
proof (intro allI impI)
  fix w
  assume err: "isl (fst (bindM m k w))"
  obtain r w1 where m: "m w = (r, w1)" by fastforce
  note t = tabs_readonly [OF assms(1) m]
  show "tabs (snd (bindM m k w)) = tabs w"
  proof (cases r)
    case (Inl e)
    with m t show ?thesis by (simp add: bindM_def)
  next
    case (Inr x)
    with err m have "isl (fst (k x w1))" by (simp add: bindM_def)
    with assms(2) [of x] t m Inr show ?thesis by (simp add: bindM_def undone_def)
  qed
qed

lemma undone_wrapM [undone_intros]:
  assumes "undone m"
  shows "undone (wrapM s m)"
  unfolding undone_def
proof (intro allI impI)
  fix w
  obtain r w1 where m: "m w = (r, w1)" by fastforce
  with assms have "isl r \<Longrightarrow> tabs w1 = tabs w" unfolding undone_def by (metis fst_conv snd_conv)
  moreover assume "isl (fst (wrapM s m w))"
  ultimately show "tabs (snd (wrapM s m w)) = tabs w"
    using m by (cases r) (simp_all add: wrapM_def catchM_def errM_def)
qed

lemma undone_stmtM [undone_intros]: "undone (stmtM f)"
  by (auto simp: undone_def stmtM_def Let_def split: prod.splits sum.splits dest: next_fault_cases)

lemma undone_updateM [undone_intros]: "undone (updateM f)"
  unfolding updateM_def by (rule undone_stmtM)

lemma undone_txnM [undone_intros]: "confined m \<Longrightarrow> undone (txnM m)"
  by (simp add: undone_def txn_atomic)

lemma undone_if [undone_intros]: "undone m \<Longrightarrow> undone n \<Longrightarrow> undone (if b then m else n)"
  by simp

text \<open>What follows the write only notifies, and does not fail.\<close>

definition notices :: "unit dao \<Rightarrow> bool" where
  "notices n \<longleftrightarrow> (\<forall>w. \<exists>es. n w = (Inr (), w\<lparr>trace := es\<rparr>))"

lemma notices_emitM: "notices (emitM e)"
  by (auto simp: notices_def emitM_def)

lemma notices_thenM:
  assumes "notices m" and "notices n"
  shows "notices (thenM m n)"
  unfolding notices_def
proof
  fix w
  from assms(1) obtain es where m: "m w = (Inr (), w\<lparr>trace := es\<rparr>)" unfolding notices_def by blast
  from assms(2) obtain es' where "n (w\<lparr>trace := es\<rparr>) = (Inr (), w\<lparr>trace := es, trace := es'\<rparr>)" unfolding notices_def by blast
  with m show "\<exists>es. thenM m n w = (Inr (), w\<lparr>trace := es\<rparr>)" by (auto simp: thenM_def bindM_def)
qed

lemma notices_forM: "(\<And>x. notices (f x)) \<Longrightarrow> notices (forM xs f)"
proof (induction xs)
  case Nil
  have "\<exists>es. w = w\<lparr>trace := es\<rparr>" for w :: "db world" by (rule exI [of _ "trace w"]) simp
  then show ?case unfolding notices_def by (auto simp: okM_def)
next
  case (Cons x xs)
  then show ?case using notices_thenM [of "f x" "forM xs f"] by (simp add: thenM_def)
qed

lemma undone_notices [undone_intros]:
  assumes "undone m" and "notices n"
  shows "undone (thenM m n)"
  unfolding undone_def
proof (intro allI impI)
  fix w
  assume err: "isl (fst (thenM m n w))"
  obtain r w1 where m: "m w = (r, w1)" by fastforce
  show "tabs (snd (thenM m n w)) = tabs w"
  proof (cases r)
    case (Inl e)
    with m assms(1) show ?thesis by (simp add: thenM_def bindM_def undone_def) (metis fst_conv isl_def snd_conv)
  next
    case (Inr x)
    from assms(2) obtain es where "n w1 = (Inr (), w1\<lparr>trace := es\<rparr>)" unfolding notices_def by blast
    with err m Inr show ?thesis by (simp add: thenM_def bindM_def)
  qed
qed

lemma undone_when_current [undone_intros]: "undone b \<Longrightarrow> undone (when_current L req name b)"
  unfolding when_current_def
  by (intro undone_intros readonly.rules) (simp_all add: undone_readonly readonly.okM)

lemma when_current_True:
  "isCurrentVersionTx L (q_Tx req) name = Inr True \<Longrightarrow> when_current L req name b w = b w"
  by (simp add: when_current_def liftM_def wrapM_def catchM_def bindM_def)

lemmas undone_rules = undone_intros notices_emitM notices_thenM notices_forM

lemma undone_confirm_pending_out: "undone (confirm_pending_out L req)"
  unfolding confirm_pending_out_def UpdatePendingStatusToConfirm_def by (intro undone_rules)

lemma undone_pending_handlers:
  "undone (ActionEditRecords L req)" "undone (ActionEditManager L req)"
  "undone (ActionTransferAccount L req)" "undone (HandleDidCellUpdate L req)"
  "undone (ActionTransferBalance L req)" "undone (ActionWithdrawFromWallet L req)"
  "undone (ActionTransferPayment L req)"
  unfolding ActionEditRecords_def ActionEditManager_def ActionTransferAccount_def HandleDidCellUpdate_def
    ActionTransferBalance_def ActionWithdrawFromWallet_def ActionTransferPayment_def clear_inputs_def
  by (intro undone_rules undone_confirm_pending_out readonly.rules readonly.spends_das_balance
      undone_readonly [OF readonly.okM])+

lemmas handler_reads = readonly.rules readonly.spends_das_balance readonly.depHashes readonly.when_current
  readonly.read_rules

lemma undone_proposals:
  "undone (ActionPropose L req)" "undone (ActionConfirmProposal L req)"
  unfolding ActionPropose_def ActionConfirmProposal_def DoActionPropose_def DoActionConfirmProposal_def Let_def
  by (intro undone_rules handler_reads confined_intros; (simp add: case_prod_beta)?; intro undone_rules handler_reads confined_intros)+

definition failing_handlers :: "(lib \<Rightarrow> handle_req \<Rightarrow> unit dao) list" where
  "failing_handlers = [ActionPropose, ActionConfirmProposal, ActionEditRecords, ActionEditManager,
     ActionTransferAccount, HandleDidCellUpdate, ActionTransferBalance, ActionWithdrawFromWallet,
     ActionTransferPayment]"

text \<open>C11. The parser's handlers of proposals, account edits, transfers and withdrawals change nothing when
  they fail, whichever statement or query fails (an apply, a pre-registration and a renewal can fail
  after their write).
\<close>

theorem failed_handlers_change_nothing:
  assumes "h \<in> set failing_handlers" and "h L req w = (Inl e, w')"
  shows "tabs w' = tabs w"
proof -
  have "undone (h L req)"
    using assms(1) undone_proposals undone_pending_handlers by (auto simp: failing_handlers_def)
  with assms(2) show ?thesis unfolding undone_def by (metis fst_conv isl_def snd_conv)
qed


definition stray_proposal :: handle_req where
  "stray_proposal = parse_req\<lparr>q_Action := DasActionPropose\<rparr>"

definition stray_lib :: lib where
  "stray_lib = parse_lib\<lparr>PreAccountDeps := (\<lambda>_. Inr [(0, ''alice'')])\<rparr>"

lemma stray_proposal_fails:
  "ActionPropose stray_lib stray_proposal (world_of empty_db 0) = (Inl (In ''DoActionPropose'' EmptySlice), world_of empty_db 0)"
  by (simp add: ActionPropose_def when_current_def isCurrentVersionTx_def stray_lib_def stray_proposal_def
      parse_lib_def parse_req_def go_simps indexM_def GetOrderTxByActionAndHashList_def DoActionPropose_def
      follow_txs_def upsert_txs_def empty_db_def update_orders_def)

theorem failed_handlers_change_nothing_witness:
  "tabs (snd (ActionPropose stray_lib stray_proposal (world_of empty_db 0))) = empty_db"
  using failed_handlers_change_nothing [of ActionPropose, OF _ stray_proposal_fails]
  by (simp add: failing_handlers_def stray_proposal_fails)


section \<open>Confirmed proposals\<close>

text \<open>What a confirmed proposal makes of an order, given the order ids it registers and the accounts it settles.\<close>

definition settled_order :: "string list \<Rightarrow> string list \<Rightarrow> order_row \<Rightarrow> order_row" where
  "settled_order winners accs r =
     r\<lparr>o_RegisterStatus := if o_OrderId r \<in> set winners then RegisterStatusRegistered else o_RegisterStatus r,
       o_OrderStatus := if o_AccountId r \<in> set accs then OrderStatusClosed else o_OrderStatus r,
       o_HedgeStatus := if o_OrderId r \<in> set winners \<and> o_OrderType r = OrderTypeSelf
           \<and> o_HedgeStatus r = TxStatusDefault then TxStatusSending else o_HedgeStatus r\<rparr>"

text \<open>An order is kept from refunds when it is registered by the proposal, or was paid for and closed before.\<close>

definition kept_orders :: "string list \<Rightarrow> string list \<Rightarrow> db \<Rightarrow> string set" where
  "kept_orders winners accs t = set winners \<union> {o_OrderId r | r. r \<in> set (orders t) \<and> o_AccountId r \<in> set accs
     \<and> o_OrderType r = OrderTypeSelf \<and> o_PayStatus r \<noteq> TxStatusDefault \<and> o_OrderStatus r = OrderStatusClosed}"

definition settled_pay :: "string set \<Rightarrow> string list \<Rightarrow> pay_row \<Rightarrow> pay_row" where
  "settled_pay kept accs p =
     (if p_AccountId p \<in> set accs \<and> p_OrderId p \<notin> kept \<and> p_RefundStatus p = TxStatusDefault
      then p\<lparr>p_RefundStatus := TxStatusSending, p_UniPayRefundStatus := UniPayRefundStatusUnRefund\<rparr> else p)"

lemma fold_upsert_tx_others:
  "orders (fold upsert_tx xs t) = orders t \<and> pays (fold upsert_tx xs t) = pays t"
  by (induction xs arbitrary: t) (simp_all add: upsert_tx_def)

lemma upsert_txs_ok: "upsert_txs xs t = Inr (u, t') \<longleftrightarrow> xs \<noteq> [] \<and> t' = fold upsert_tx xs t"
  by (auto simp: upsert_txs_def)

lemma DoActionConfirmProposal_run:
  assumes "DoActionConfirmProposal winners oks accs list w = (Inr (), w')"
  shows "list \<noteq> [] \<and> orders (tabs w') = map (settled_order winners accs) (orders (tabs w))
    \<and> (oks \<noteq> [] \<longrightarrow> pays (tabs w') = map (settled_pay (set oks) accs) (pays (tabs w)))"
  using assms unfolding DoActionConfirmProposal_def
  by (elim txnM_okE) (auto simp: thenM_ok upsert_txs_ok fold_upsert_tx_others update_where_def sql_in_def
      sql_not_in_def settled_order_def settled_pay_def dest!: updateM_okD stmtM_okD)

text \<open>C9. A confirmed proposal registers exactly the orders whose proposal it confirms, closes every order of
  their accounts, starts the hedge of the registered orders of the service, and asks the refund of
  the other payments for these accounts: those of no registered and no earlier paid and closed order.
\<close>

theorem confirm_proposal_settles:
  assumes run: "ActionConfirmProposal L req w = (Inr (), w')"
    and cv: "isCurrentVersionTx L (q_Tx req) DasContractNameAccountCellType = Inr True"
    and ix: "ProposalIndexOld L (q_Tx req) = Inr index" and pres: "PreAccountsOld L (q_Tx req) = Inr pres"
  shows "let winners = map x_OrderId (filter (\<lambda>x. x_Action x = TxActionPropose
               \<and> x_Hash x = fst (t_Inputs (q_Tx req) ! index)) (txs (tabs w)));
             accs = map fst pres
         in winners \<noteq> [] \<and> orders (tabs w') = map (settled_order winners accs) (orders (tabs w))
            \<and> pays (tabs w') = map (settled_pay (kept_orders winners accs (tabs w)) accs) (pays (tabs w))"
proof -
  from run have "\<exists>hi w1 list w2 accounts oks w3 inviters w4 w5 ys.
      indexM (t_Inputs (q_Tx req)) index w = (Inr hi, w1)
      \<and> GetOrderTxByActionAndHashList TxActionPropose [fst hi] w1 = (Inr list, w2)
      \<and> GetHistoryOkOrders (map fst pres) w2 = (Inr oks, w3)
      \<and> GetAccountInfoByAccountIds inviters w3 = (Inr accounts, w4)
      \<and> DoActionConfirmProposal (map x_OrderId list) (map o_OrderId oks @ map x_OrderId list) (map fst pres)
          (follow_txs req TxActionConfirmProposal list) w4 = (Inr (), w5)
      \<and> thenM (emitM (LarkRegister (concat (map (\<lambda>(k, v). v_Account v) pres)) ''''))
          (forM ys (\<lambda>ys. emitM (LarkText ys))) w5 = (Inr (), w')"
    by (simp add: ActionConfirmProposal_def when_current_True cv ix pres ok_iffs case_prod_beta Let_def) blast
  then obtain hi w1 list w2 accounts oks w3 inviters w4 w5 ys
    where i: "indexM (t_Inputs (q_Tx req)) index w = (Inr hi, w1)"
      and q: "GetOrderTxByActionAndHashList TxActionPropose [fst hi] w1 = (Inr list, w2)"
      and o: "GetHistoryOkOrders (map fst pres) w2 = (Inr oks, w3)"
      and a: "GetAccountInfoByAccountIds inviters w3 = (Inr accounts, w4)"
      and d: "DoActionConfirmProposal (map x_OrderId list) (map o_OrderId oks @ map x_OrderId list) (map fst pres)
          (follow_txs req TxActionConfirmProposal list) w4 = (Inr (), w5)"
      and n: "thenM (emitM (LarkRegister (concat (map (\<lambda>(k, v). v_Account v) pres)) ''''))
          (forM ys (\<lambda>ys. emitM (LarkText ys))) w5 = (Inr (), w')"
    by blast
  have "tabs w' = tabs w5"
    using n by (rule tabs_readonly [rotated]) (intro readonly.rules)
  moreover have "tabs w4 = tabs w3"
    using a by (rule tabs_readonly [rotated]) (intro readonly.read_rules)
  moreover from i have "hi = t_Inputs (q_Tx req) ! index" "tabs w1 = tabs w"
    by (auto simp: indexM_def ok_iffs split: if_splits)
  moreover from q have "list = filter (\<lambda>x. x_Action x = TxActionPropose \<and> x_Hash x = fst hi) (txs (tabs w1))"
    "tabs w2 = tabs w1"
    by (auto simp: GetOrderTxByActionAndHashList_def sql_in_def dest: queryM_okD)
  moreover from o have "oks = filter (\<lambda>r. sql_in (o_AccountId r) (map fst pres) \<and> o_OrderType r = OrderTypeSelf
        \<and> o_PayStatus r \<noteq> TxStatusDefault \<and> o_OrderStatus r = OrderStatusClosed) (orders (tabs w2))"
    "tabs w3 = tabs w2"
    by (auto simp: GetHistoryOkOrders_def dest: queryM_okD)
  moreover note DoActionConfirmProposal_run [OF d]
  moreover have "set (map o_OrderId oks @ map x_OrderId list) = kept_orders (map x_OrderId list) (map fst pres) (tabs w2)"
    if "oks = filter (\<lambda>r. sql_in (o_AccountId r) (map fst pres) \<and> o_OrderType r = OrderTypeSelf
        \<and> o_PayStatus r \<noteq> TxStatusDefault \<and> o_OrderStatus r = OrderStatusClosed) (orders (tabs w2))"
    unfolding that kept_orders_def by (auto simp: sql_in_def)
  ultimately show ?thesis by (simp add: Let_def follow_txs_def)
qed

text \<open>Two orders for one account: the proposal of \<open>o\<close> is confirmed, \<open>l\<close> was paid too.\<close>

definition race_db :: db where
  "race_db = empty_db\<lparr>
     orders := [one_order\<lparr>o_AccountId := ''id''\<rparr>, one_order\<lparr>o_Id := 2, o_OrderId := ''l'', o_AccountId := ''id''\<rparr>],
     pays := [zero_pay\<lparr>p_Id := 3, p_Hash := ''h'', p_OrderId := ''l'', p_AccountId := ''id''\<rparr>],
     txs := [zero_tx\<lparr>x_Id := 4, x_OrderId := ''o'', x_Hash := ''apply'', x_Action := TxActionPropose\<rparr>],
     next_id := 5\<rparr>"

lemma race_db_lists:
  "orders race_db = [one_order\<lparr>o_AccountId := ''id''\<rparr>, one_order\<lparr>o_Id := 2, o_OrderId := ''l'', o_AccountId := ''id''\<rparr>]"
  "pays race_db = [zero_pay\<lparr>p_Id := 3, p_Hash := ''h'', p_OrderId := ''l'', p_AccountId := ''id''\<rparr>]"
  "txs race_db = [zero_tx\<lparr>x_Id := 4, x_OrderId := ''o'', x_Hash := ''apply'', x_Action := TxActionPropose\<rparr>]"
  "accounts race_db = []"
  by (simp_all add: race_db_def empty_db_def)

lemma race_run: "fst (ActionConfirmProposal parse_lib parse_req (world_of race_db 0)) = Inr ()"
  by (simp add: ActionConfirmProposal_def when_current_True isCurrentVersionTx_def parse_lib_def parse_req_def go_simps
      race_db_lists indexM_def GetOrderTxByActionAndHashList_def GetHistoryOkOrders_def GetAccountInfoByAccountIds_def
      DoActionConfirmProposal_def follow_txs_def upsert_txs_def sql_in_def register_notices_def zero_tx_def)

theorem confirm_proposal_settles_witness:
  "let w' = snd (ActionConfirmProposal parse_lib parse_req (world_of race_db 0)) in
   map o_RegisterStatus (orders (tabs w')) = [RegisterStatusRegistered, RegisterStatusDefault]
   \<and> map o_OrderStatus (orders (tabs w')) = [OrderStatusClosed, OrderStatusClosed]
   \<and> map p_RefundStatus (pays (tabs w')) = [TxStatusSending]"
proof -
  have "ActionConfirmProposal parse_lib parse_req (world_of race_db 0)
      = (Inr (), snd (ActionConfirmProposal parse_lib parse_req (world_of race_db 0)))"
    using race_run by (metis prod.collapse)
  note t = confirm_proposal_settles [OF this, of 0 "[(''id'', \<lparr>v_Account = ''alice.bit'', v_InviterId = '''', v_OwnerLockArgs = ''args''\<rparr>)]"]
  have cv: "isCurrentVersionTx parse_lib (q_Tx parse_req) DasContractNameAccountCellType = Inr True"
    and ix: "ProposalIndexOld parse_lib (q_Tx parse_req) = Inr 0" and i: "fst (t_Inputs (q_Tx parse_req) ! 0) = ''apply''"
    and ps: "PreAccountsOld parse_lib (q_Tx parse_req) = Inr [(''id'', \<lparr>v_Account = ''alice.bit'', v_InviterId = '''', v_OwnerLockArgs = ''args''\<rparr>)]"
    by (simp_all add: isCurrentVersionTx_def parse_lib_def parse_req_def)
  have "map x_OrderId (filter (\<lambda>x. x_Action x = TxActionPropose \<and> x_Hash x = ''apply'') (txs race_db)) = [''o'']"
    by (simp add: race_db_lists)
  moreover have "kept_orders [''o''] [''id''] race_db = {''o''}"
    by (auto simp: kept_orders_def race_db_lists one_order_def zero_order_def)
  ultimately show ?thesis using t [OF cv ix ps] i
    by (simp add: Let_def race_db_lists settled_order_def settled_pay_def one_order_def
        zero_order_def zero_pay_def)
qed

end
