(* ===== verification/BlockParser.thy ===== *)
theory BlockParser
  imports BlockActions
begin

text \<open>
  \<open>src/block_parser/block_parser.go\<close> and \<open>block_parser_handle.go\<close>: the dispatch of transactions
  to their handlers, one parsing round in its two modes, and the loop of \<open>Run\<close>. The answers of the
  node may differ from round to round; they are a parameter of each round. \<open>CurrentBlockNumber\<close> is a
  \<open>uint64\<close> that outlives a failing round, so the rounds return it beside their error.
\<close>

section \<open>Dispatch\<close>

fun mapTransactionHandle :: "DasAction \<Rightarrow> (lib \<Rightarrow> handle_req \<Rightarrow> unit dao) option" where
  "mapTransactionHandle DasActionConfig = Some ActionConfigCell"
| "mapTransactionHandle DasActionTransferBalance = Some ActionTransferBalance"
| "mapTransactionHandle DasActionWithdrawFromWallet = Some ActionWithdrawFromWallet"
| "mapTransactionHandle DasActionTransfer = Some ActionTransferPayment"
| "mapTransactionHandle DasActionApplyRegister = Some ActionApplyRegister"
| "mapTransactionHandle DasActionPreRegister = Some ActionPreRegister"
| "mapTransactionHandle DasActionPropose = Some ActionPropose"
| "mapTransactionHandle DasActionExtendPropose = Some ActionPropose"
| "mapTransactionHandle DasActionConfirmProposal = Some ActionConfirmProposal"
| "mapTransactionHandle DasActionRenewAccount = Some ActionRenewAccount"
| "mapTransactionHandle DasActionEditRecords = Some ActionEditRecords"
| "mapTransactionHandle DasActionEditManager = Some ActionEditManager"
| "mapTransactionHandle DasActionTransferAccount = Some ActionTransferAccount"
| "mapTransactionHandle DasActionBidExpiredAccountAuction = Some ActionBidExpiredAccountAuction"
| "mapTransactionHandle DidCellActionUpdate = Some HandleDidCellUpdate"
| "mapTransactionHandle _ = None"

record chain_block =
  h_Number :: "64 word"
  h_Hash :: string
  h_ParentHash :: string
  h_Timestamp :: "64 word"
  h_Transactions :: "chain_tx list"

text \<open>
  The node and the contract versions in one round. \<open>GetTipBlockNumber i\<close> is the answer to the
  \<open>i\<close>-th request; \<open>CheckVersion\<close> the error of \<open>CheckContractVersionV2\<close>, if any; \<open>MayCancel\<close>
  is \<open>b.Cancel != nil && !NotExit\<close>.
\<close>

record chain =
  GetTipBlockNumber :: "nat \<Rightarrow> gerr + 64 word"
  GetBlockByNumber :: "64 word \<Rightarrow> gerr + chain_block"
  SystemStatus :: "gerr + unit"
  CheckVersion :: "ContractName \<Rightarrow> gerr option"
  MayCancel :: bool

definition ErrContractMajorVersionDiff :: gerr where
  "ErrContractMajorVersionDiff = Errf ''contract major version diff''"

definition contractNames :: "ContractName list" where
  "contractNames = [DasContractNameApplyRegisterCellType, DasContractNamePreAccountCellType,
     DasContractNameProposalCellType, DasContractNameConfigCellType, DasContractNameAccountCellType]"

definition checkContractVersion :: "chain \<Rightarrow> unit dao" where
  "checkContractVersion nd =
     thenM (wrapM ''ConfigCellDataBuilderByTypeArgs'' (liftM (SystemStatus nd)))
       (forM contractNames (\<lambda>v.
          case CheckVersion nd v of
            None \<Rightarrow> okM ()
          | Some e \<Rightarrow>
              if e = ErrContractMajorVersionDiff
              then thenM (if MayCancel nd then emitM Cancelled else okM ()) (errM e)
              else errM (In ''CheckContractVersion'' e)))"

text \<open>One transaction of a block: no action, an empty one or an unknown one is skipped.\<close>

definition parsing_tx :: "lib \<Rightarrow> chain_block \<Rightarrow> chain_tx \<Rightarrow> unit dao" where
  "parsing_tx L block tx =
     (case ActionFromTx L tx of
        Inl _ \<Rightarrow> okM ()
      | Inr action \<Rightarrow>
          if action = DasActionOther '''' then okM ()
          else (case mapTransactionHandle action of
                  None \<Rightarrow> okM ()
                | Some handle \<Rightarrow>
                    catchM (handle L \<lparr>q_Tx = tx, q_BlockNumber = h_Number block,
                              q_BlockTimestamp = h_Timestamp block, q_Action = action\<rparr>)
                      (\<lambda>e. thenM (emitM (LarkErr ''Block Parse'')) (errM e))))"

definition parsingBlockData :: "lib \<Rightarrow> chain \<Rightarrow> chain_block \<Rightarrow> unit dao" where
  "parsingBlockData L nd block =
     thenM (checkContractVersion nd) (forM (h_Transactions block) (parsing_tx L block))"

section \<open>Rounds\<close>

definition ParserTypeDAS :: int where
  "ParserTypeDAS = 99"

definition checkFork :: "64 word \<Rightarrow> string \<Rightarrow> bool dao" where
  "checkFork cur parentHash =
     bindM (FindBlockInfoByBlockNumber ParserTypeDAS (cur - 1)) (\<lambda>block.
       okM (b_Id block \<noteq> 0 \<and> b_BlockHash block \<noteq> parentHash))"

text \<open>\<open>if err := m; err != nil { return fmt.Errorf(...) }\<close> in a round at number \<open>cur\<close>.\<close>

definition stepM :: "string \<Rightarrow> 'a dao \<Rightarrow> 64 word \<Rightarrow> ('a \<Rightarrow> ((gerr + unit) \<times> 64 word) dao) \<Rightarrow>
  ((gerr + unit) \<times> 64 word) dao" where
  "stepM s m cur k =
     bindM (tryM m) (\<lambda>r. case r of Inl e \<Rightarrow> okM (Inl (In s e), cur) | Inr x \<Rightarrow> k x)"

definition parserSubMode :: "lib \<Rightarrow> chain \<Rightarrow> 64 word \<Rightarrow> ((gerr + unit) \<times> 64 word) dao" where
  "parserSubMode L nd cur =
     stepM ''GetBlockByNumber'' (liftM (GetBlockByNumber nd cur)) cur (\<lambda>block.
     stepM ''checkFork'' (checkFork cur (h_ParentHash block)) cur (\<lambda>fork.
     if fork then okM (Inr (), cur - 1)
     else
     stepM ''parsingBlockData'' (parsingBlockData L nd block) cur (\<lambda>_.
     stepM ''CreateBlockInfo''
       (CreateBlockInfo ParserTypeDAS cur (h_Hash block) (h_ParentHash block)) cur (\<lambda>_.
     stepM ''DeleteBlockInfo'' (DeleteBlockInfo ParserTypeDAS (cur + 1 - 20)) (cur + 1) (\<lambda>_.
       okM (Inr (), cur + 1))))))"

fun concurrency_loop :: "lib \<Rightarrow> chain \<Rightarrow> nat \<Rightarrow> 64 word \<Rightarrow> ((gerr + unit) \<times> 64 word) dao" where
  "concurrency_loop L nd 0 cur =
     stepM ''DeleteBlockInfo'' (DeleteBlockInfo ParserTypeDAS (cur - 20)) cur (\<lambda>_. okM (Inr (), cur))"
| "concurrency_loop L nd (Suc n) cur =
     stepM ''GetBlockByNumber'' (liftM (GetBlockByNumber nd cur)) cur (\<lambda>block.
     stepM ''parsingBlockData'' (parsingBlockData L nd block) cur (\<lambda>_.
     stepM ''CreateBlockInfo''
       (CreateBlockInfo ParserTypeDAS cur (h_Hash block) (h_ParentHash block)) cur (\<lambda>_.
       concurrency_loop L nd n (cur + 1))))"

definition parserConcurrencyMode ::
  "lib \<Rightarrow> chain \<Rightarrow> 64 word \<Rightarrow> 64 word \<Rightarrow> ((gerr + unit) \<times> 64 word) dao" where
  "parserConcurrencyMode L nd ConcurrencyNum cur = concurrency_loop L nd (unat ConcurrencyNum) cur"

section \<open>Run\<close>

text \<open>When no attempt was made, \<open>lastErr.Error()\<close> is a call on nil.\<close>

fun tip_loop :: "(nat \<Rightarrow> gerr + 64 word) \<Rightarrow> nat \<Rightarrow> nat \<Rightarrow> gerr option \<Rightarrow> gerr + 64 word" where
  "tip_loop call 0 i lastErr =
     Inl (case lastErr of None \<Rightarrow> GoPanic | Some e \<Rightarrow> In ''GetTipBlockNumber failed'' e)"
| "tip_loop call (Suc n) i lastErr =
     (case call i of Inr b \<Rightarrow> Inr b | Inl e \<Rightarrow> tip_loop call n (Suc i) (Some e))"

definition getTipBlockNumberWithRetry :: "chain \<Rightarrow> nat \<Rightarrow> gerr + 64 word" where
  "getTipBlockNumberWithRetry nd maxRetries = tip_loop (GetTipBlockNumber nd) maxRetries 0 None"

definition initCurrentBlockNumber :: "64 word \<Rightarrow> 64 word \<Rightarrow> 64 word dao" where
  "initCurrentBlockNumber cur currentBlockNumber =
     bindM (FindBlockInfo ParserTypeDAS) (\<lambda>block. okM
       (if 0 < b_Id block then b_BlockNumber block
        else if cur = 0 \<and> 0 < currentBlockNumber then currentBlockNumber
        else cur))"

text \<open>The part of \<open>Run\<close> before the loop: the first number to parse.\<close>

definition run_start :: "chain \<Rightarrow> 64 word \<Rightarrow> 64 word dao" where
  "run_start nd cur =
     bindM (wrapM ''GetTipBlockNumber'' (liftM (getTipBlockNumberWithRetry nd 5))) (\<lambda>tip.
     bindM (wrapM ''initCurrentBlockNumber'' (initCurrentBlockNumber cur tip)) (\<lambda>cur'. okM (cur' + 1)))"

text \<open>One turn of the loop of \<open>Run\<close>; errors are logged and the number is kept.\<close>

definition run_round :: "lib \<Rightarrow> 64 word \<Rightarrow> 64 word \<Rightarrow> chain \<Rightarrow> 64 word \<Rightarrow> 64 word dao" where
  "run_round L ConcurrencyNum ConfirmNum nd cur =
     bindM (tryM (liftM (getTipBlockNumberWithRetry nd 3))) (\<lambda>tip.
       case tip of
         Inl _ \<Rightarrow> okM cur
       | Inr latestBlockNumber \<Rightarrow>
           if 1 < ConcurrencyNum \<and> cur < latestBlockNumber - ConfirmNum - ConcurrencyNum
           then bindM (parserConcurrencyMode L nd ConcurrencyNum cur) (\<lambda>r. okM (snd r))
           else if cur < latestBlockNumber - ConfirmNum
           then bindM (parserSubMode L nd cur) (\<lambda>r. okM (snd r))
           else okM cur)"

definition run_rounds :: "lib \<Rightarrow> 64 word \<Rightarrow> 64 word \<Rightarrow> chain list \<Rightarrow> 64 word \<Rightarrow> 64 word dao" where
  "run_rounds L ConcurrencyNum ConfirmNum nds cur =
     foldM nds (run_round L ConcurrencyNum ConfirmNum) cur"

end
