(* ===== verification/BlockChain.thy ===== *)
theory BlockChain
  imports BlockParser
begin

text \<open>
  Correctness of the block parser. The handlers keep every \<open>dao_contract\<close> and the rounds every
  \<open>block_contract\<close>; the table of parsed blocks is an interpretation of the abstract
  \<open>block_store\<close>; and the rounds of the sequential mode keep the stored blocks linked, whatever the
  node answers and whichever calls fail.
\<close>

section \<open>Handlers keep the contract\<close>

context dao_contract
begin

lemma mapTransactionHandle:
  "mapTransactionHandle a = Some h \<Longrightarrow> upholds R (h L req)"
  by (cases a) (auto intro!: handler_rules)

lemma checkContractVersion: "upholds R (checkContractVersion nd)"
  unfolding checkContractVersion_def by (intro dao_rules)

lemma parsing_tx: "upholds R (parsing_tx L block tx)"
  unfolding parsing_tx_def by (intro dao_rules mapTransactionHandle)

lemma parsingBlockData: "upholds R (parsingBlockData L nd block)"
  unfolding parsingBlockData_def by (intro dao_rules checkContractVersion parsing_tx)

lemma stepM: "upholds R m \<Longrightarrow> (\<And>x. upholds R (k x)) \<Longrightarrow> upholds R (stepM s m cur k)"
  unfolding stepM_def by (intro dao_rules)

lemma checkFork: "upholds R (checkFork cur ph)"
  unfolding checkFork_def by (intro dao_rules)

end

context block_contract
begin

lemma parserSubMode: "upholds R (parserSubMode L nd cur)"
  unfolding parserSubMode_def
  by (intro dao_rules stepM checkFork parsingBlockData CreateBlockInfo DeleteBlockInfo)

lemma concurrency_loop: "upholds R (concurrency_loop L nd n cur)"
  by (induction n arbitrary: cur)
    (simp_all add: dao_rules stepM parsingBlockData CreateBlockInfo DeleteBlockInfo)

lemma run_round: "upholds R (run_round L conc conf nd cur)"
  unfolding run_round_def parserConcurrencyMode_def
  by (intro dao_rules parserSubMode concurrency_loop)

lemma run_rounds: "upholds R (run_rounds L conc conf nds cur)"
  unfolding run_rounds_def by (intro dao_rules run_round)

end

section \<open>The table of parsed blocks as a store\<close>

text \<open>
  What the parser needs of the table: a lookup by number, an upsert and a prune. \<open>linked look cur\<close>:
  wherever two consecutive numbers below \<open>cur\<close> are stored, the later block's parent is the earlier.
\<close>

definition linked :: "(64 word \<Rightarrow> (string \<times> string) option) \<Rightarrow> 64 word \<Rightarrow> bool" where
  "linked look cur \<longleftrightarrow>
     (\<forall>n h p h' p'. look n = Some (h, p) \<and> look (n + 1) = Some (h', p') \<and> n < n + 1 \<and> n + 1 < cur
        \<longrightarrow> p' = h)"

lemma word_less_Suc: "(m :: 64 word) < c + 1 \<Longrightarrow> m \<noteq> c \<Longrightarrow> m < c"
  by (cases "1 + c = 0")
    (auto simp: add.commute [of c] word_less_nat_alt unatSuc less_Suc_eq simp flip: word_unat_eq_iff)

lemma word_pred_less: "0 < (c :: 64 word) \<Longrightarrow> c - 1 < c"
  by (metis measure_unat word_gt_0 word_less_nat_alt)

locale block_store =
  fixes ok :: "'s \<Rightarrow> bool"
    and look :: "'s \<Rightarrow> 64 word \<Rightarrow> (string \<times> string) option"
    and put :: "64 word \<Rightarrow> string \<Rightarrow> string \<Rightarrow> 's \<Rightarrow> 's"
    and prune :: "64 word \<Rightarrow> 's \<Rightarrow> 's"
  assumes look_put: "ok s \<Longrightarrow> look (put n h p s) = (look s)(n \<mapsto> (h, p))"
    and look_prune: "ok s \<Longrightarrow> look (prune c s) n = (if n < c then None else look s n)"
    and ok_put: "ok s \<Longrightarrow> ok (put n h p s)"
begin

lemma linked_prune: "ok s \<Longrightarrow> linked (look s) cur \<Longrightarrow> linked (look (prune c s)) cur"
  unfolding linked_def by (auto simp: look_prune split: if_splits)

lemma linked_put:
  assumes "ok s" and "linked (look s) cur"
    and "\<And>h' p'. look s (cur - 1) = Some (h', p') \<Longrightarrow> h' = p"
  shows "linked (look (put cur h p s)) (cur + 1)"
  unfolding linked_def look_put [OF assms(1)]
proof (intro allI impI, elim conjE)
  fix n h1 p1 h2 p2
  assume n: "((look s)(cur \<mapsto> (h, p))) n = Some (h1, p1)"
    and n1: "((look s)(cur \<mapsto> (h, p))) (n + 1) = Some (h2, p2)"
    and lt: "n < n + 1" "n + 1 < cur + 1"
  have ne: "n \<noteq> cur"
  proof
    assume "n = cur" then show False using lt(2) by simp
  qed
  show "p2 = h1"
  proof (cases "n + 1 = cur")
    case True
    then have "cur - 1 = n" by (metis add_diff_cancel_right')
    then show ?thesis using True n n1 ne assms(3) [of h1 p1] by simp
  next
    case False
    then have "n + 1 < cur" using lt(2) by (auto intro: word_less_Suc)
    then show ?thesis using assms(2) n n1 ne False lt(1) unfolding linked_def by auto
  qed
qed

lemma linked_back: "linked (look s) cur \<Longrightarrow> 0 < cur \<Longrightarrow> linked (look s) (cur - 1)"
  unfolding linked_def using word_pred_less [of cur] by (blast intro: less_trans)

end

definition block_at :: "db \<Rightarrow> 64 word \<Rightarrow> (string \<times> string) option" where
  "block_at t n = (let b = find_block ParserTypeDAS n t in
     if b_Id b = 0 then None else Some (b_BlockHash b, b_ParentHash b))"

lemma option_pair_eqI:
  assumes "\<And>h p. x = Some (h, p) \<longleftrightarrow> y = Some (h, p)"
  shows "x = y"
proof (cases x)
  case None
  show ?thesis
  proof (cases y)
    case (Some z) with assms [of "fst z" "snd z"] None show ?thesis by simp
  qed (simp add: None)
next
  case (Some z)
  with assms [of "fst z" "snd z"] show ?thesis by simp
qed

abbreviation stored_block :: "db \<Rightarrow> 64 word \<Rightarrow> block_row \<Rightarrow> bool" where
  "stored_block t n b \<equiv> b \<in> set (blocks t) \<and> b_ParserType b = ParserTypeDAS \<and> b_BlockNumber b = n"

lemma block_at_None: "\<nexists>b. stored_block t n b \<Longrightarrow> block_at t n = None"
proof -
  assume "\<nexists>b. stored_block t n b"
  then have "filter (\<lambda>b. b_ParserType b = ParserTypeDAS \<and> b_BlockNumber b = n) (blocks t) = []"
    by (auto simp: filter_empty_conv)
  then show ?thesis by (simp add: block_at_def find_block_def first_or_def zero_block_def)
qed

lemma block_at_Some:
  assumes "db_wf t" and "stored_block t n b"
  shows "block_at t n = Some (b_BlockHash b, b_ParentHash b)"
proof -
  let ?P = "\<lambda>b. b_ParserType b = ParserTypeDAS \<and> b_BlockNumber b = n"
  have k: "keyed (\<lambda>b. (b_ParserType b, b_BlockNumber b)) b_Id (blocks t) (next_id t)"
    using assms(1) by (simp add: db_wf_def)
  obtain b' bs where f: "filter ?P (blocks t) = b' # bs"
    using assms(2) by (cases "filter ?P (blocks t)") (auto simp: filter_empty_conv)
  then have "b' \<in> set (filter ?P (blocks t))" by simp
  then have "b' = b" using keyed_unique [OF k, of b' b] assms(2) by simp
  moreover have "b_Id b \<noteq> 0" using k assms(2) by (auto simp: keyed_def)
  ultimately show ?thesis by (simp add: block_at_def find_block_def first_or_def f Let_def)
qed

lemma block_at_iff:
  assumes "db_wf t"
  shows "block_at t n = Some (h, p) \<longleftrightarrow>
     (\<exists>b. stored_block t n b \<and> b_BlockHash b = h \<and> b_ParentHash b = p)"
proof (cases "\<exists>b. stored_block t n b")
  case True
  then obtain b where b: "stored_block t n b" by blast
  have "keyed (\<lambda>b. (b_ParserType b, b_BlockNumber b)) b_Id (blocks t) (next_id t)"
    using assms by (simp add: db_wf_def)
  from keyed_unique [OF this] b have "\<forall>b'. stored_block t n b' \<longrightarrow> b' = b" by simp
  then have "(\<exists>b'. stored_block t n b' \<and> b_BlockHash b' = h \<and> b_ParentHash b' = p)
      \<longleftrightarrow> b_BlockHash b = h \<and> b_ParentHash b = p" using b by blast
  then show ?thesis using block_at_Some [OF assms b] by simp
next
  case False
  have "block_at t n = None" using False by (rule block_at_None)
  with False show ?thesis by simp blast
qed

lemma block_update_id:
  "b\<lparr>b_BlockHash := h, b_ParentHash := p\<rparr> = b \<Longrightarrow> b_BlockHash b = h \<and> b_ParentHash b = p"
  by (cases b) simp

lemma block_row_new:
  "b = \<lparr>b_Id = i, b_ParserType = pt, b_BlockNumber = n, b_BlockHash = h, b_ParentHash = p\<rparr> \<Longrightarrow>
   b_BlockHash b = h \<and> b_ParentHash b = p"
  by simp

lemma stored_upsert:
  "(\<exists>b. stored_block (upsert_block ParserTypeDAS n h p t) m b \<and> b_BlockHash b = h' \<and> b_ParentHash b = p')
   \<longleftrightarrow> (if m = n then h' = h \<and> p' = p
        else \<exists>b. stored_block t m b \<and> b_BlockHash b = h' \<and> b_ParentHash b = p')"
proof (cases "\<exists>b. stored_block t n b")
  case True
  then obtain b0 where "stored_block t n b0" by blast
  then show ?thesis by (auto simp: upsert_block_def set_update_where dest: block_update_id split: if_splits)
next
  case False
  then show ?thesis by (auto simp: upsert_block_def dest: block_row_new)
qed

lemma blocks_delete:
  "b \<in> set (blocks (delete_blocks pt c t)) \<longleftrightarrow>
     b \<in> set (blocks t) \<and> \<not> (b_ParserType b = pt \<and> b_BlockNumber b < c)"
  by (simp add: delete_blocks_def)

interpretation parsed: block_store db_wf block_at "upsert_block ParserTypeDAS" "delete_blocks ParserTypeDAS"
proof (unfold_locales, goal_cases)
  case (1 t n h p)
  have wf': "db_wf (upsert_block ParserTypeDAS n h p t)"
    using wf_upsert_block [of t] 1 by (simp add: wf_kept_def)
  show ?case
  proof (rule ext, rule option_pair_eqI)
    fix m h' p'
    show "block_at (upsert_block ParserTypeDAS n h p t) m = Some (h', p')
        \<longleftrightarrow> ((block_at t)(n \<mapsto> (h, p))) m = Some (h', p')"
      using stored_upsert [of n h p t m h' p'] by (auto simp: block_at_iff [OF wf'] block_at_iff [OF 1])
  qed
next
  case (2 t c n)
  have wf': "db_wf (delete_blocks ParserTypeDAS c t)"
    using wf_delete_blocks [of t] 2 by (simp add: wf_kept_def)
  show ?case
    by (rule option_pair_eqI) (auto simp: block_at_iff [OF wf'] block_at_iff [OF 2] blocks_delete)
next
  case (3 t n h p)
  then show ?case using wf_upsert_block [of t] by (simp add: wf_kept_def)
qed

section \<open>The invariant of the parser\<close>

text \<open>
  The stored blocks below the current number are linked, the genesis block is not stored and the
  current number is not 0 (the parser starts above 0).
\<close>

definition chain_ok :: "db \<Rightarrow> 64 word \<Rightarrow> bool" where
  "chain_ok t cur \<longleftrightarrow> db_wf t \<and> linked (block_at t) cur \<and> cur \<noteq> 0 \<and> block_at t 0 = None"

definition same_blocks :: "db \<Rightarrow> db \<Rightarrow> bool" where
  "same_blocks t t' \<longleftrightarrow> blocks t' = blocks t"

interpretation still: db_relation same_blocks
  by unfold_locales (auto simp: same_blocks_def)

lemma same_blocks_upd:
  "same_blocks t (update_orders P f t)" "same_blocks t (update_pays P' g t)"
  "same_blocks t (update_txs P'' h t)" "same_blocks t (update_pendings P3 h3 t)"
  "same_blocks t (update_coupons P4 h4 t)" "same_blocks t (t\<lparr>coupons := cs\<rparr>)"
  by (simp_all add: same_blocks_def sql_updates update_pendings_def update_coupons_def)

lemma same_blocks_insert_order: "insert_order r t = Inr (x, t') \<Longrightarrow> same_blocks t t'"
  by (auto simp: same_blocks_def insert_order_def split: if_splits)

lemma same_blocks_insert_pay: "insert_pay p t = Inr (x, t') \<Longrightarrow> same_blocks t t'"
  by (auto simp: same_blocks_def insert_pay_def split: if_splits)

lemma same_blocks_insert_ignore_pay: "same_blocks t (insert_ignore_pay p t)"
  by (auto simp: insert_ignore_pay_def still.refl same_blocks_insert_pay split: sum.splits)

lemma same_blocks_upsert_order: "same_blocks t (upsert_order r t)"
  by (simp add: same_blocks_def upsert_order_def sql_updates)

lemma same_blocks_upsert_tx: "same_blocks t (upsert_tx x t)"
  by (simp add: same_blocks_def upsert_tx_def sql_updates)

lemma same_blocks_upsert_txs: "upsert_txs xs t = Inr (u, t') \<Longrightarrow> same_blocks t t'"
proof -
  have "same_blocks t (fold upsert_tx xs t)"
    by (induction xs arbitrary: t) (auto simp: still.refl intro: still.trans [OF same_blocks_upsert_tx])
  then show "upsert_txs xs t = Inr (u, t') \<Longrightarrow> same_blocks t t'"
    by (auto simp: upsert_txs_def split: if_splits)
qed

lemmas still_intros = still.rules still.txnM still.updateM still.outsideM still.stmtM
  same_blocks_upd same_blocks_insert_ignore_pay same_blocks_upsert_order same_blocks_upsert_tx

interpretation unparsed: dao_contract same_blocks
  by (unfold_locales; unfold order_writes other_writes confirm_tx_def;
      intro still_intros;
      auto simp: same_blocks_def
           dest: same_blocks_insert_order same_blocks_insert_pay same_blocks_upsert_txs split: if_splits)

lemma block_at_cong: "blocks t' = blocks t \<Longrightarrow> block_at t' = block_at t"
  by (simp add: fun_eq_iff block_at_def find_block_def)

lemma stepM_cases:
  assumes "stepM s m cur k w = (r, w')"
  obtains (panic) "m w = (Inl GoPanic, w')" "r = Inl GoPanic"
  | (error) e where "m w = (Inl e, w')" "r = Inr (Inl (In s e), cur)"
  | (step) x w1 where "m w = (Inr x, w1)" "k x w1 = (r, w')"
proof (cases "m w")
  case (Pair q w1)
  show thesis
  proof (cases q)
    case (Inl e)
    with Pair assms show thesis
      by (cases "e = GoPanic") (auto simp: stepM_def go_simps intro: panic error)
  next
    case (Inr x)
    with Pair assms show thesis
      by (auto simp: stepM_def go_simps intro: step)
  qed
qed

text \<open>Whether the stored parent contradicts \<open>parentHash\<close>.\<close>

definition forks :: "db \<Rightarrow> 64 word \<Rightarrow> string \<Rightarrow> bool" where
  "forks t cur parentHash =
     (case block_at t (cur - 1) of None \<Rightarrow> False | Some (h, p) \<Rightarrow> h \<noteq> parentHash)"

lemma checkFork_cases:
  assumes "checkFork cur ph w = (r, w')"
  shows "tabs w' = tabs w" "r = Inr b \<Longrightarrow> b = forks (tabs w) cur ph"
proof -
  obtain q w1 where q: "FindBlockInfoByBlockNumber ParserTypeDAS (cur - 1) w = (q, w1)" by fastforce
  note query_cases [OF q [unfolded FindBlockInfoByBlockNumber_def]]
  with assms q show "tabs w' = tabs w" "r = Inr b \<Longrightarrow> b = forks (tabs w) cur ph"
    by (auto simp: checkFork_def bindM_def okM_def forks_def block_at_def Let_def split: sum.splits)
qed

lemma chain_ok_put:
  assumes "chain_ok t cur" and "\<not> forks t cur p" and "cur + 1 \<noteq> 0"
  shows "chain_ok (upsert_block ParserTypeDAS cur h p t) (cur + 1)"
proof -
  have "linked (block_at (upsert_block ParserTypeDAS cur h p t)) (cur + 1)"
    using assms by (intro parsed.linked_put) (auto simp: chain_ok_def forks_def split: option.splits)
  with assms show ?thesis
    by (auto simp: chain_ok_def parsed.look_put parsed.ok_put)
qed

lemma chain_ok_prune: "chain_ok t cur \<Longrightarrow> chain_ok (delete_blocks ParserTypeDAS c t) cur"
  using wf_delete_blocks [of t ParserTypeDAS c]
  by (auto simp: chain_ok_def wf_kept_def parsed.linked_prune parsed.look_prune)

lemma chain_ok_back:
  assumes "chain_ok t cur" and "forks t cur p"
  shows "chain_ok t (cur - 1)"
proof -
  from assms have "cur - 1 \<noteq> 0" by (auto simp: chain_ok_def forks_def)
  then show ?thesis using assms(1) by (auto simp: chain_ok_def word_gt_0 intro: parsed.linked_back)
qed

text \<open>After a round that did not panic, the invariant holds at the number it leaves.\<close>

definition round_ok :: "gerr + ((gerr + unit) \<times> 64 word) \<Rightarrow> db \<Rightarrow> bool" where
  "round_ok r t = (case r of Inl _ \<Rightarrow> True | Inr (_, cur') \<Rightarrow> chain_ok t cur')"

lemma stepM_ok:
  assumes "stepM s m cur k w = (r, w')"
    and "\<And>e w1. m w = (Inl e, w1) \<Longrightarrow> chain_ok (tabs w1) cur"
    and "\<And>x w1. m w = (Inr x, w1) \<Longrightarrow> k x w1 = (r, w') \<Longrightarrow> round_ok r (tabs w')"
  shows "round_ok r (tabs w')"
  using assms(1) by (cases rule: stepM_cases) (auto simp: round_ok_def dest: assms(2,3))

lemma forks_cong: "blocks t' = blocks t \<Longrightarrow> forks t' = forks t"
  using block_at_cong [of t' t] by (simp add: fun_eq_iff forks_def)

lemma write_block_ok:
  assumes "chain_ok (tabs w) cur" and "\<not> forks (tabs w) cur ph" and "cur + 1 \<noteq> 0"
    and "stepM s1 (CreateBlockInfo ParserTypeDAS cur h ph) cur k w = (r, w')"
    and "\<And>u w1. chain_ok (tabs w1) (cur + 1) \<Longrightarrow> k u w1 = (r, w') \<Longrightarrow> round_ok r (tabs w')"
  shows "round_ok r (tabs w')"
  using assms(4)
proof (rule stepM_ok, goal_cases)
  case (1 e w1)
  then show ?case using assms(1) by (simp add: CreateBlockInfo_def update_cases)
next
  case (2 x w1)
  then have "tabs w1 = upsert_block ParserTypeDAS cur h ph (tabs w)"
    by (simp add: CreateBlockInfo_def update_cases)
  then show ?case using chain_ok_put [OF assms(1-3), of h] assms(5) 2(2) by metis
qed

lemma prune_ok:
  assumes "chain_ok (tabs w) cur"
    and "stepM s (DeleteBlockInfo ParserTypeDAS c) cur (\<lambda>_. okM (q, cur)) w = (r, w')"
  shows "round_ok r (tabs w')"
  using assms(2)
proof (rule stepM_ok, goal_cases)
  case (1 e w1)
  then show ?case using assms(1) by (simp add: DeleteBlockInfo_def update_cases)
next
  case (2 x w1)
  then show ?case using chain_ok_prune [OF assms(1), of c]
    by (auto simp: DeleteBlockInfo_def update_cases okM_def round_ok_def)
qed

lemma parsing_ok:
  assumes "chain_ok (tabs w) cur" and "parsingBlockData L nd block w = (x, w1)"
  shows "chain_ok (tabs w1) cur" and "forks (tabs w1) = forks (tabs w)"
proof -
  have "wf_kept (tabs w) (tabs (snd (parsingBlockData L nd block w)))"
    by (rule upholdsD) (rule wellformed.parsingBlockData)
  moreover have "same_blocks (tabs w) (tabs (snd (parsingBlockData L nd block w)))"
    by (rule upholdsD) (rule unparsed.parsingBlockData)
  ultimately have "db_wf (tabs w1)" "blocks (tabs w1) = blocks (tabs w)"
    using assms by (auto simp: wf_kept_def same_blocks_def chain_ok_def)
  then show "chain_ok (tabs w1) cur" "forks (tabs w1) = forks (tabs w)"
    using assms(1) block_at_cong [of "tabs w1" "tabs w"] forks_cong [of "tabs w1" "tabs w"]
    by (simp_all add: chain_ok_def)
qed

lemma parse_and_store_ok:
  assumes "chain_ok (tabs w) cur" and "\<not> forks (tabs w) cur ph" and "cur + 1 \<noteq> 0"
    and "stepM s1 (parsingBlockData L nd block) cur (\<lambda>_.
         stepM s2 (CreateBlockInfo ParserTypeDAS cur h ph) cur (\<lambda>_.
         stepM s3 (DeleteBlockInfo ParserTypeDAS c) (cur + 1) (\<lambda>_. okM (q, cur + 1)))) w = (r, w')"
  shows "round_ok r (tabs w')"
  using assms(4)
proof (rule stepM_ok, goal_cases)
  case (1 e w1)
  then show ?case by (rule parsing_ok(1) [OF assms(1)])
next
  case (2 x w1)
  note p = parsing_ok [OF assms(1) 2(1)]
  from p(1) assms(2) [folded p(2)] assms(3) 2(2) show ?case
    by (rule write_block_ok) (rule prune_ok)
qed

lemma parserSubMode_ok:
  assumes ok: "chain_ok (tabs w) cur" and "cur + 1 \<noteq> 0" and "parserSubMode L nd cur w = (r, w')"
  shows "round_ok r (tabs w')"
  using assms(3) unfolding parserSubMode_def
proof (rule stepM_ok, goal_cases)
  case (1 e w1)
  then show ?case using ok by (simp add: liftM_def)
next
  case (2 block w1)
  then have w1: "w1 = w" by (simp add: liftM_def)
  from 2(2) show ?case unfolding w1
  proof (rule stepM_ok, goal_cases)
    case (1 e w2)
    then show ?case using ok by (simp add: checkFork_cases)
  next
    case (2 fork w2)
    note f = checkFork_cases(1) [OF 2(1)] checkFork_cases(2) [OF 2(1) refl]
    then have ok2: "chain_ok (tabs w2) cur" using ok by simp
    show ?case
    proof (cases fork)
      case True
      then show ?thesis using 2(2) f ok by (auto simp: okM_def round_ok_def intro: chain_ok_back)
    next
      case False
      with f have nf: "\<not> forks (tabs w2) cur (h_ParentHash block)" by simp
      from False 2(2) ok2 nf assms(2) show ?thesis by (auto intro: parse_and_store_ok)
    qed
  qed
qed

lemma word_less_Suc_neq: "(c :: 64 word) < n \<Longrightarrow> c + 1 \<noteq> 0"
proof
  assume "c < n" and "c + 1 = 0"
  then have "c = - 1" by (simp add: eq_neg_iff_add_eq_0)
  with \<open>c < n\<close> show False by (simp add: word_order.extremum_strict)
qed

lemma run_round_ok:
  assumes "chain_ok (tabs w) cur" and "\<not> 1 < conc" and "run_round L conc conf nd cur w = (Inr cur', w')"
  shows "chain_ok (tabs w') cur'"
proof (cases "getTipBlockNumberWithRetry nd 3")
  case (Inl e)
  with assms show ?thesis
    by (cases "e = GoPanic") (auto simp: run_round_def tryM_def catchM_def bindM_def liftM_def okM_def)
next
  case (Inr tip)
  show ?thesis
  proof (cases "cur < tip - conf")
    case True
    obtain r w1 where r: "parserSubMode L nd cur w = (r, w1)" by fastforce
    have "round_ok r (tabs w1)"
      by (rule parserSubMode_ok [OF assms(1) word_less_Suc_neq [OF True] r])
    then show ?thesis using assms True Inr r
      by (auto simp: run_round_def tryM_def catchM_def bindM_def liftM_def okM_def round_ok_def
          split: sum.splits)
  next
    case False
    then show ?thesis using assms Inr
      by (auto simp: run_round_def tryM_def catchM_def bindM_def liftM_def okM_def)
  qed
qed

lemma run_rounds_ok:
  "chain_ok (tabs w) cur \<Longrightarrow> \<not> 1 < conc \<Longrightarrow> run_rounds L conc conf nds cur w = (Inr cur', w') \<Longrightarrow>
   chain_ok (tabs w') cur'"
proof (induction nds arbitrary: cur w)
  case Nil
  then show ?case by (simp add: run_rounds_def okM_def)
next
  case (Cons nd nds)
  obtain r w1 where r: "run_round L conc conf nd cur w = (r, w1)" by fastforce
  with Cons.prems(3) obtain c where "r = Inr c"
    by (cases r) (auto simp: run_rounds_def bindM_def)
  with r Cons.prems(3) have "run_rounds L conc conf nds c w1 = (Inr cur', w')"
    by (simp add: run_rounds_def bindM_def)
  with run_round_ok [of w cur conc L conf nd c w1] Cons.IH [of w1 c] Cons.prems r \<open>r = Inr c\<close>
  show ?case by simp
qed

section \<open>Properties of the rounds\<close>

text \<open>C6. The sequential parser follows the chain: started on linked stored blocks, however many
  rounds it runs, whatever the node answers in each (forks included), and whichever statements fail,
  consecutive stored blocks below the current number are parent and child, and the keys hold.\<close>

theorem rounds_keep_chain_linked:
  assumes "chain_ok (tabs w) cur" and "conc \<le> 1"
    and "run_rounds L conc conf nds cur w = (Inr cur', w')"
  shows "chain_ok (tabs w') cur'"
  using assms by (intro run_rounds_ok [of w cur conc L conf nds cur' w']) auto

definition quiet_node :: "64 word \<Rightarrow> chain" where
  "quiet_node tip = \<lparr>GetTipBlockNumber = (\<lambda>_. Inr tip),
     GetBlockByNumber = (\<lambda>n. Inr \<lparr>h_Number = n, h_Hash = ''h'', h_ParentHash = ''h'', h_Timestamp = 0,
        h_Transactions = []\<rparr>),
     SystemStatus = Inr (), CheckVersion = (\<lambda>_. None), MayCancel = True\<rparr>"

lemma chain_ok_empty: "cur \<noteq> 0 \<Longrightarrow> chain_ok empty_db cur"
  by (simp add: chain_ok_def db_wf_def empty_db_def linked_def block_at_def find_block_def
      first_or_def zero_block_def)

lemma parsing_quiet:
  "healthy w \<Longrightarrow> parsingBlockData L (quiet_node tip)
     \<lparr>h_Number = n, h_Hash = h, h_ParentHash = p, h_Timestamp = ts, h_Transactions = []\<rparr> w = (Inr (), w)"
  by (simp add: parsingBlockData_def checkContractVersion_def contractNames_def quiet_node_def go_simps)

lemma stepM_simps [go_simps]:
  "m w = (Inr x, w') \<Longrightarrow> stepM s m cur k w = k x w'"
  "m w = (Inl e, w') \<Longrightarrow> e \<noteq> GoPanic \<Longrightarrow> stepM s m cur k w = (Inr (Inl (In s e), cur), w')"
  by (simp_all add: stepM_def go_simps)

lemma quiet_sub:
  assumes "healthy w" and "\<not> forks (tabs w) cur ''h''"
  shows "parserSubMode L (quiet_node tip) cur w = (Inr (Inr (), cur + 1), w\<lparr>tabs :=
     delete_blocks ParserTypeDAS (cur + 1 - 20) (upsert_block ParserTypeDAS cur ''h'' ''h'' (tabs w))\<rparr>)"
proof -
  have cf: "checkFork cur ''h'' w = (Inr False, w)"
    using assms by (auto simp: checkFork_def FindBlockInfoByBlockNumber_def go_simps forks_def
        block_at_def Let_def split: if_splits)
  have "GetBlockByNumber (quiet_node tip) cur = Inr \<lparr>h_Number = cur, h_Hash = ''h'',
      h_ParentHash = ''h'', h_Timestamp = 0, h_Transactions = []\<rparr>"
    by (simp add: quiet_node_def)
  with assms(1) show ?thesis
    by (simp add: parserSubMode_def go_simps stepM_simps(1) [of "checkFork cur ''h''" w False w, OF cf]
        parsing_quiet CreateBlockInfo_def DeleteBlockInfo_def)
qed

lemma quiet_round:
  assumes "healthy w" and "cur < 40" and "\<not> forks (tabs w) cur ''h''"
  shows "run_round L 1 2 (quiet_node 50) cur w = (Inr (cur + 1), w\<lparr>tabs :=
     delete_blocks ParserTypeDAS (cur + 1 - 20) (upsert_block ParserTypeDAS cur ''h'' ''h'' (tabs w))\<rparr>)"
proof -
  have "cur < 48" using assms(2) by (simp add: word_less_nat_alt)
  moreover have "getTipBlockNumberWithRetry (quiet_node 50) 3 = Inr 50"
    by (simp add: quiet_node_def getTipBlockNumberWithRetry_def eval_nat_numeral)
  ultimately show ?thesis
    using quiet_sub [OF assms(1,3), of L 50] by (simp add: run_round_def go_simps)
qed

theorem rounds_keep_chain_linked_witness:
  "\<forall>L. \<exists>w'. run_rounds L 1 2 [quiet_node 50] 30 (world_of empty_db 0) = (Inr 31, w')
     \<and> blocks (tabs w') \<noteq> [] \<and> chain_ok (tabs w') 31"
proof
  fix L
  have "\<not> forks (tabs (world_of empty_db 0)) 30 ''h''"
    by (simp add: forks_def block_at_def find_block_def empty_db_def first_or_def zero_block_def)
  from quiet_round [OF _ _ this, of L]
  have *: "run_rounds L 1 2 [quiet_node 50] 30 (world_of empty_db 0) = (Inr 31, (world_of empty_db 0)\<lparr>tabs :=
     delete_blocks ParserTypeDAS 11 (upsert_block ParserTypeDAS 30 ''h'' ''h'' empty_db)\<rparr>)"
    by (simp add: run_rounds_def go_simps)
  have "chain_ok empty_db 30" by (rule chain_ok_empty) simp
  with rounds_keep_chain_linked [OF _ _ *]
  show "\<exists>w'. run_rounds L 1 2 [quiet_node 50] 30 (world_of empty_db 0) = (Inr 31, w')
     \<and> blocks (tabs w') \<noteq> [] \<and> chain_ok (tabs w') 31" unfolding * by (simp add: delete_blocks_def upsert_block_def empty_db_def)
qed

text \<open>A fork is answered by stepping back one block: when the stored parent differs from the
  parent the node reports, the round parses nothing, writes nothing and moves to the number below.\<close>

theorem fork_steps_back:
  assumes "healthy w" and "GetBlockByNumber nd cur = Inr block"
    and "forks (tabs w) cur (h_ParentHash block)"
  shows "parserSubMode L nd cur w = (Inr (Inr (), cur - 1), w)"
proof -
  have "checkFork cur (h_ParentHash block) w = (Inr True, w)"
    using assms(1,3) by (auto simp: checkFork_def FindBlockInfoByBlockNumber_def go_simps forks_def
        block_at_def Let_def split: if_splits)
  then show ?thesis
    using assms(1,2) by (simp add: parserSubMode_def stepM_def go_simps)
qed

definition one_block_db :: "64 word \<Rightarrow> string \<Rightarrow> db" where
  "one_block_db n h = upsert_block ParserTypeDAS n h ''p'' empty_db"

lemma one_block_db: "db_wf (one_block_db n h)" "block_at (one_block_db n h) = [n \<mapsto> (h, ''p'')]"
proof -
  have wf: "db_wf empty_db" using chain_ok_empty [of 1] by (simp add: chain_ok_def)
  have "block_at empty_db = (\<lambda>_. None)"
    by (simp add: fun_eq_iff block_at_def find_block_def empty_db_def first_or_def zero_block_def)
  then show "db_wf (one_block_db n h)" "block_at (one_block_db n h) = [n \<mapsto> (h, ''p'')]"
    by (simp_all add: one_block_db_def parsed.ok_put [OF wf] parsed.look_put [OF wf])
qed

theorem fork_steps_back_witness:
  "\<forall>L. parserSubMode L (quiet_node 50) 5 (world_of (one_block_db 4 ''g'') 0)
     = (Inr (Inr (), 4), world_of (one_block_db 4 ''g'') 0)"
proof
  fix L
  have "forks (one_block_db 4 ''g'') 5 ''h''" by (simp add: forks_def one_block_db)
  then show "parserSubMode L (quiet_node 50) 5 (world_of (one_block_db 4 ''g'') 0)
     = (Inr (Inr (), 4), world_of (one_block_db 4 ''g'') 0)"
    using fork_steps_back [of "world_of (one_block_db 4 ''g'') 0" "quiet_node 50" 5 _ L]
    by (simp add: quiet_node_def)
qed

text \<open>A block is left behind only when every transaction of it was handled: when parsing it
  fails, the round keeps its number, so the block is parsed again, and no block is recorded.\<close>

theorem failed_block_is_retried:
  assumes "GetBlockByNumber nd cur = Inr block" and "checkFork cur (h_ParentHash block) w = (Inr False, w1)"
    and "parsingBlockData L nd block w1 = (Inl e, w2)" and "e \<noteq> GoPanic"
  shows "parserSubMode L nd cur w = (Inr (Inl (In ''parsingBlockData'' e), cur), w2)
     \<and> blocks (tabs w2) = blocks (tabs w)"
proof -
  have "blocks (tabs w2) = blocks (tabs w1)"
    using upholdsD [OF unparsed.parsingBlockData, of w1 L nd block] assms(3) by (simp add: same_blocks_def)
  moreover have "tabs w1 = tabs w" using assms(2) by (rule checkFork_cases)
  ultimately show ?thesis
    using assms by (simp add: parserSubMode_def stepM_def go_simps)
qed

lemma prune_bound:
  fixes n cur :: "64 word"
  assumes "uint n < 2 ^ 63"
  shows "n < cur + 1 - 20 \<longleftrightarrow> \<not> (19 \<le> cur \<and> cur - 19 \<le> n)"
proof (cases "19 \<le> cur")
  case True
  then show ?thesis by (simp add: linorder_not_le)
next
  case False
  then have "uint cur < 19" by (simp add: word_le_def)
  moreover have "0 \<le> uint cur" by simp
  ultimately have "(uint cur - 19 + 2 ^ 64) mod 2 ^ 64 = uint cur - 19 + 2 ^ 64"
    by (intro mod_pos_pos_trivial) simp_all
  then have "uint (cur - 19) = uint cur - 19 + 2 ^ 64"
    unfolding uint_word_ariths(2) by (simp only: mod_add_self2) simp
  moreover have "0 \<le> uint cur" by simp
  moreover have "k < x" if "x = c - 19 + 2 ^ 64" "0 \<le> c" "k < 2 ^ 63" for x c k :: int
    using that by simp
  ultimately have "uint n < uint (cur - 19)" using assms by blast
  with False show ?thesis by (simp add: word_less_def)
qed

lemma round_success:
  assumes "parserSubMode L nd cur w = (Inr (Inr (), cur'), w')"
  shows "cur' = cur - 1 \<and> tabs w' = tabs w
     \<or> cur' = cur + 1 \<and> (\<exists>block w1 w2. GetBlockByNumber nd cur = Inr block \<and> tabs w1 = tabs w
          \<and> parsingBlockData L nd block w1 = (Inr (), w2)
          \<and> tabs w' = delete_blocks ParserTypeDAS (cur + 1 - 20)
              (upsert_block ParserTypeDAS cur (h_Hash block) (h_ParentHash block) (tabs w2)))"
  using assms unfolding parserSubMode_def
proof (cases rule: stepM_cases)
  case (step block w1)
  then have w1: "w1 = w" "GetBlockByNumber nd cur = Inr block" by (simp_all add: liftM_def)
  from step(2) show ?thesis
  proof (cases rule: stepM_cases)
    case (step fork w2)
    have "tabs w2 = tabs w" using checkFork_cases(1) [OF step(1)] w1 by simp
    with step(2) w1(2) show ?thesis
      by (cases fork)
        (auto simp: okM_def CreateBlockInfo_def DeleteBlockInfo_def elim!: stepM_cases
          dest!: update_cases(2) [OF _ refl])
  qed simp_all
qed simp_all

text \<open>The pruning bound is computed on \<open>uint64\<close>. After a round that parsed block \<open>cur\<close>,
  the blocks from 19 below \<open>cur\<close> on are kept; but when \<open>cur\<close> is less than 19 the bound wraps
  around and every block is deleted, the one just parsed too, so that the next round sees no fork.\<close>

theorem round_prunes:
  assumes "db_wf (tabs w)" and "parserSubMode L nd cur w = (Inr (Inr (), cur + 1), w')"
    and "n \<noteq> cur" and "uint n < 2 ^ 63"
  shows "block_at (tabs w') n = (if 19 \<le> cur \<and> cur - 19 \<le> n then block_at (tabs w) n else None)"
proof -
  have "cur + 1 \<noteq> cur - 1"
  proof
    assume "cur + 1 = cur - 1"
    then have "(2 :: 64 word) = 0" by (simp add: algebra_simps)
    then show False by simp
  qed
  then obtain block w1 w2 where "tabs w1 = tabs w" "parsingBlockData L nd block w1 = (Inr (), w2)"
    and w': "tabs w' = delete_blocks ParserTypeDAS (cur + 1 - 20)
              (upsert_block ParserTypeDAS cur (h_Hash block) (h_ParentHash block) (tabs w2))"
    using round_success [OF assms(2)] by auto
  then have wf: "db_wf (tabs w2)" and "blocks (tabs w2) = blocks (tabs w)"
    using upholdsD [OF wellformed.parsingBlockData, of w1 L nd block] assms(1)
      upholdsD [OF unparsed.parsingBlockData, of w1 L nd block]
    by (simp_all add: wf_kept_def same_blocks_def)
  from this(2) have same: "block_at (tabs w2) = block_at (tabs w)" by (rule block_at_cong)
  have "block_at (tabs w') n = (if n < cur + 1 - 20 then None else block_at (tabs w) n)"
    unfolding w' parsed.look_prune [OF parsed.ok_put [OF wf]] parsed.look_put [OF wf] same
    by (simp only: fun_upd_apply assms(3) if_False)
  with prune_bound [OF assms(4), of cur] show ?thesis by presburger
qed

theorem round_prunes_witness:
  "\<forall>L. \<exists>w'. parserSubMode L (quiet_node 50) 5 (world_of (one_block_db 4 ''h'') 0) = (Inr (Inr (), 6), w')
     \<and> block_at (one_block_db 4 ''h'') 4 \<noteq> None \<and> block_at (tabs w') 4 = None"
proof
  fix L
  let ?w = "world_of (one_block_db 4 ''h'') 0"
  have "\<not> forks (tabs ?w) 5 ''h''" by (simp add: forks_def one_block_db)
  from quiet_sub [OF _ this] obtain w'
    where *: "parserSubMode L (quiet_node 50) 5 ?w = (Inr (Inr (), 6), w')" by simp
  then have "block_at (tabs w') 4 = None"
    using round_prunes [of ?w L "quiet_node 50" 5 w' 4] by (simp add: one_block_db)
  with * show "\<exists>w'. parserSubMode L (quiet_node 50) 5 ?w = (Inr (Inr (), 6), w')
     \<and> block_at (one_block_db 4 ''h'') 4 \<noteq> None \<and> block_at (tabs w') 4 = None"
    by (simp add: one_block_db)
qed

theorem failed_block_is_retried_witness:
  "\<forall>L. parserSubMode L ((quiet_node 50)\<lparr>SystemStatus := Inl Fault\<rparr>) 5 (world_of empty_db 0)
     = (Inr (Inl (In ''parsingBlockData'' (In ''ConfigCellDataBuilderByTypeArgs'' Fault)), 5), world_of empty_db 0)"
proof
  fix L
  let ?nd = "(quiet_node 50)\<lparr>SystemStatus := Inl Fault\<rparr>" and ?w = "world_of empty_db 0"
  have "checkFork 5 ''h'' ?w = (Inr False, ?w)"
    by (simp add: checkFork_def FindBlockInfoByBlockNumber_def go_simps find_block_def first_or_def
        empty_db_def zero_block_def)
  moreover have "parsingBlockData L ?nd b ?w = (Inl (In ''ConfigCellDataBuilderByTypeArgs'' Fault), ?w)" for b
    by (simp add: parsingBlockData_def checkContractVersion_def go_simps)
  ultimately show "parserSubMode L ?nd 5 ?w
     = (Inr (Inl (In ''parsingBlockData'' (In ''ConfigCellDataBuilderByTypeArgs'' Fault)), 5), ?w)"
    using failed_block_is_retried [of ?nd 5 "\<lparr>h_Number = 5, h_Hash = ''h'', h_ParentHash = ''h'',
      h_Timestamp = 0, h_Transactions = []\<rparr>" ?w ?w L _ ?w]
    by (simp add: quiet_node_def)
qed

end
