(* ===== verification/OrderRenew.thy ===== *)
theory OrderRenew
  imports OrderRegister
begin

text \<open>
  The other handlers that make orders: \<open>order_renew.go\<close>, \<open>order_change.go\<close>, and
  \<open>account_register.go\<close> and \<open>account_renew.go\<close>, whose orders need no payment from the user
  (their pay status starts at sending). What they read of the account cell is the record \<open>renew_lib\<close>.
\<close>

section \<open>order\_renew.go\<close>

record renew_req =
  n_KeyInfo :: key_info
  n_ChainType :: int
  n_Address :: string
  n_Account :: string
  n_PayTokenId :: PayTokenId
  n_PayType :: string
  n_RenewYears :: int

text \<open>
  \<open>nl_GracePeriod\<close> is the configuration cell of accounts with its field, read without its error;
  \<open>nl_CellChars\<close> the number of characters of the accounts of the transaction of an outpoint.
\<close>

record renew_lib =
  nl_GracePeriod :: "gerr + (gerr + 32 word)"
  nl_CellChars :: "string \<Rightarrow> gerr + (string \<Rightarrow> 8 word option)"

definition checkRenewOrder :: "http_lib \<Rightarrow> renew_lib \<Rightarrow> renew_req \<Rightarrow> account_row dao" where
  "checkRenewOrder H G req =
     (if n_RenewYears req < 1 \<or> h_MaxRegisterYears H < n_RenewYears req then apiErr ApiCodeParamsInvalid
      else bindM (orApi ApiCodeDbError (GetAccountInfoByAccountId (h_AccountId H (n_Account req)))) (\<lambda>acc.
      if a_Id acc = 0 then apiErr ApiCodeAccountNotExist
      else if a_ParentAccountId acc \<noteq> '''' then apiErr ApiCodeParamsInvalid
      else if a_Status acc = AccountStatusOnCross then apiErr ApiCodeOnCross
      else bindM (orApi ApiCodeError500 (liftM (nl_GracePeriod G))) (\<lambda>builder.
      let grace = (case builder of Inl _ \<Rightarrow> 0 | Inr g \<Rightarrow> g) in
      bindM clockM (\<lambda>nw.
      if sint (a_ExpiredAt acc + ucast grace) \<le> nw div 1000 then apiErr ApiCodeAfterGracePeriod
      else okM acc))))"

text \<open>The characters of the account in its cell.\<close>

definition cell_chars :: "renew_lib \<Rightarrow> account_row \<Rightarrow> gerr + 8 word" where
  "cell_chars G acc =
     bindR (nl_CellChars G (a_Outpoint acc)) (\<lambda>mapAcc.
       case mapAcc (a_AccountId acc) of None \<Rightarrow> Inl (Errf ''mapAcc is nil'') | Some n \<Rightarrow> Inr n)"

definition renew_content :: "int \<Rightarrow> rat \<Rightarrow> rat \<Rightarrow> order_content" where
  "renew_content years usd ckb =
     \<lparr>AccountCharStr = [], InviterAccount = '''', ChannelAccount = '''', RegisterYears = 0,
      AmountTotalUSD = usd, AmountTotalCKB = ckb, RenewYears = years\<rparr>"

definition renew_row :: "http_lib \<Rightarrow> renew_req \<Rightarrow> order_content \<Rightarrow> order_row" where
  "renew_row H req content =
     zero_order\<lparr>o_OrderType := OrderTypeSelf, o_AccountId := h_AccountId H (n_Account req),
       o_Account := n_Account req, o_Action := DasActionRenewAccount, o_ChainType := n_ChainType req,
       o_Address := n_Address req, o_PayTokenId := n_PayTokenId req, o_PayType := n_PayType req,
       o_Content := Some content\<rparr>"

text \<open>The arguments of the owner's lock; an error leaves them empty, which reads \<open>0x\<close>.\<close>

definition owner_args :: "http_lib \<Rightarrow> int \<Rightarrow> string \<Rightarrow> string" where
  "owner_args H chainType address =
     (case h_HexToArgs H chainType address of Inl _ \<Rightarrow> ''0x'' | Inr args \<Rightarrow> args)"

definition doRenewOrder ::
  "(rat \<Rightarrow> rat \<Rightarrow> nat \<Rightarrow> rat) \<Rightarrow> http_lib \<Rightarrow> renew_lib \<Rightarrow> token_map \<Rightarrow> account_row \<Rightarrow> renew_req \<Rightarrow> order_resp dao" where
  "doRenewOrder DivRound H G mapToken acc req =
     bindM (orApi ApiCodeError500 (liftM (cell_chars G acc))) (\<lambda>len.
     bindM (orApi ApiCodeError500 (liftM (getOrderAmount DivRound H mapToken len
       (owner_args H (n_ChainType req) (n_Address req)) (n_Account req) '''' (n_RenewYears req) True
       (n_PayTokenId req)))) (\<lambda>(usd, ckb, amount).
     if usd \<le> 0 \<or> ckb \<le> 0 \<or> amount \<le> 0 then apiErr ApiCodeError500
     else
     let row = renew_row H req (renew_content (n_RenewYears req) usd ckb) in
     bindM (check_das_balance H row amount) (\<lambda>_. create_paid_order H row amount)))"

definition doOrderRenew ::
  "(rat \<Rightarrow> rat \<Rightarrow> nat \<Rightarrow> rat) \<Rightarrow> http_lib \<Rightarrow> renew_lib \<Rightarrow> token_map \<Rightarrow> renew_req \<Rightarrow> order_resp dao" where
  "doOrderRenew DivRound H G mapToken req0 =
     (if n_Account req0 = '''' \<or> \<not> HasSuffix (n_Account req0) (h_Suffix H) then apiErr ApiCodeParamsInvalid
      else let req1 = req0\<lparr>n_Account := ToLower (n_Account req0)\<rparr> in
      if IsTokenIdCkbInternal (n_PayTokenId req1) then apiErr ApiCodeParamsInvalid
      else bindM (orApi ApiCodeParamsInvalid (liftM (h_FormatChainTypeAddress H (n_KeyInfo req1))))
        (\<lambda>(chainType, address).
      let req = req1\<lparr>n_ChainType := chainType, n_Address := address\<rparr> in
      bindM (checkSystemUpgrade H) (\<lambda>_.
      if \<not> IsLatestBlockNumber (h_ParserUrl H) (h_ParserLatest H) then apiErr ApiCodeSyncBlockNumber
      else bindM (checkRenewOrder H G req) (\<lambda>acc.
        doRenewOrder DivRound H G mapToken acc req))))"

section \<open>order\_change.go\<close>

record change_req =
  cr_KeyInfo :: key_info
  cr_ChainType :: int
  cr_Address :: string
  cr_Account :: string
  cr_PayTokenId :: PayTokenId
  cr_PayType :: string
  cr_CoinType :: string
  cr_CrossCoinType :: string
  cr_Base :: order_base

text \<open>The content of the latest open registration order of the address, which must still wait for its payment.\<close>

definition oldOrderCheck :: "http_lib \<Rightarrow> change_req \<Rightarrow> order_content dao" where
  "oldOrderCheck H req =
     bindM (orApi ApiCodeDbError (GetLatestRegisterOrderBySelf (cr_ChainType req) (cr_Address req)
       (h_AccountId H (cr_Account req)))) (\<lambda>ord.
     if o_Id ord = 0 then apiErr ApiCodeOrderNotExist
     else if o_RegisterStatus ord \<noteq> RegisterStatusConfirmPayment then apiErr ApiCodeOrderPaid
     else if o_OrderStatus ord \<noteq> OrderStatusDefault then apiErr ApiCodeOrderNotExist
     else case o_Content ord of None \<Rightarrow> apiErr ApiCodeError500 | Some content \<Rightarrow> okM content)"

definition change_channel :: "http_lib \<Rightarrow> change_req \<Rightarrow> order_base" where
  "change_channel H req =
     (let base = cr_Base req in
      if h_InviterWhitelist H (h_AccountId H (ob_InviterAccount base))
      then base\<lparr>ob_ChannelAccount := ob_InviterAccount base\<rparr> else base)"

definition change_content :: "order_content \<Rightarrow> order_base \<Rightarrow> rat \<Rightarrow> rat \<Rightarrow> order_content" where
  "change_content old base usd ckb =
     \<lparr>AccountCharStr = AccountCharStr old, InviterAccount = ob_InviterAccount base,
      ChannelAccount = ob_ChannelAccount base, RegisterYears = ob_RegisterYears base,
      AmountTotalUSD = usd, AmountTotalCKB = ckb, RenewYears = 0\<rparr>"

definition change_row :: "http_lib \<Rightarrow> change_req \<Rightarrow> order_content \<Rightarrow> order_row" where
  "change_row H req content =
     zero_order\<lparr>o_OrderType := OrderTypeSelf, o_AccountId := h_AccountId H (cr_Account req),
       o_Account := cr_Account req, o_Action := DasActionApplyRegister, o_ChainType := cr_ChainType req,
       o_Address := cr_Address req, o_PayTokenId := cr_PayTokenId req, o_PayType := cr_PayType req,
       o_Content := Some content, o_RegisterStatus := RegisterStatusConfirmPayment,
       o_CoinType := cr_CoinType req, o_CrossCoinType := cr_CrossCoinType req\<rparr>"

definition doNewOrder ::
  "(rat \<Rightarrow> rat \<Rightarrow> nat \<Rightarrow> rat) \<Rightarrow> http_lib \<Rightarrow> token_map \<Rightarrow> change_req \<Rightarrow> order_content \<Rightarrow> order_resp dao" where
  "doNewOrder DivRound H mapToken req old =
     bindM (orApi ApiCodeError500 (liftM (h_HexToArgs H (cr_ChainType req) (cr_Address req)))) (\<lambda>args.
     bindM (orApi ApiCodeError500 (liftM (getOrderAmount DivRound H mapToken (account_length (AccountCharStr old))
       args (cr_Account req) (ob_InviterAccount (cr_Base req)) (ob_RegisterYears (cr_Base req)) False
       (cr_PayTokenId req)))) (\<lambda>(usd, ckb, amount).
     if usd \<le> 0 \<or> ckb \<le> 0 \<or> amount \<le> 0 then apiErr ApiCodeError500
     else create_paid_order H (change_row H req (change_content old (change_channel H req) usd ckb)) amount))"

definition doOrderChange ::
  "(rat \<Rightarrow> rat \<Rightarrow> nat \<Rightarrow> rat) \<Rightarrow> http_lib \<Rightarrow> token_map \<Rightarrow> change_req \<Rightarrow> order_resp dao" where
  "doOrderChange DivRound H mapToken req0 =
     (if cr_Account req0 = '''' then apiErr ApiCodeParamsInvalid
      else let req1 = req0\<lparr>cr_Account := ToLower (cr_Account req0)\<rparr> in
      if IsTokenIdCkbInternal (cr_PayTokenId req1) then apiErr ApiCodeParamsInvalid
      else bindM (orApi ApiCodeParamsInvalid (liftM (h_FormatChainTypeAddress H (cr_KeyInfo req1))))
        (\<lambda>(chainType, address).
      let req2 = req1\<lparr>cr_ChainType := chainType, cr_Address := address\<rparr> in
      bindM (checkSystemUpgrade H) (\<lambda>_.
      if \<not> IsLatestBlockNumber (h_ParserUrl H) (h_ParserLatest H) then apiErr ApiCodeSyncBlockNumber
      else bindM (checkOrderInfo H (cr_CoinType req2) (cr_CrossCoinType req2) (cr_Base req2)) (\<lambda>base.
      let req = req2\<lparr>cr_Base := base\<rparr> in
      bindM (oldOrderCheck H req) (\<lambda>old. doNewOrder DivRound H mapToken req old)))))"

section \<open>account\_register.go\<close>

record internal_req =
  ir_Search :: search_req
  ir_Base :: order_base
  ir_CoinType :: string
  ir_FromPadge :: bool

definition internal_token :: "internal_req \<Rightarrow> PayTokenId" where
  "internal_token req = (if ir_FromPadge req then TokenIdPadgeInternal else TokenIdCkbInternal)"

definition internal_row :: "http_lib \<Rightarrow> internal_req \<Rightarrow> int \<Rightarrow> rat \<Rightarrow> rat \<Rightarrow> rat \<Rightarrow> order_row" where
  "internal_row H req nw usd ckb amount =
     (let ord = zero_order\<lparr>o_OrderType := OrderTypeSelf,
        o_AccountId := h_AccountId H (s_Account (ir_Search req)), o_Account := s_Account (ir_Search req),
        o_Action := DasActionApplyRegister, o_ChainType := s_ChainType (ir_Search req),
        o_Address := s_Address (ir_Search req), o_Timestamp := nw, o_PayTokenId := internal_token req,
        o_PayAmount := amount,
        o_Content := Some \<lparr>AccountCharStr = s_AccountCharStr (ir_Search req),
          InviterAccount = ob_InviterAccount (ir_Base req), ChannelAccount = ob_ChannelAccount (ir_Base req),
          RegisterYears = ob_RegisterYears (ir_Base req), AmountTotalUSD = usd, AmountTotalCKB = ckb,
          RenewYears = 0\<rparr>,
        o_PayStatus := TxStatusSending, o_RegisterStatus := RegisterStatusConfirmPayment,
        o_CoinType := ir_CoinType req\<rparr>
      in ord\<lparr>o_OrderId := order_id H ord\<rparr>)"

text \<open>The last lines of both handlers; the answer is the order id.\<close>

definition create_internal_order :: "order_row \<Rightarrow> string dao" where
  "create_internal_order ord =
     bindM (orApi ApiCodeError500 (CreateOrder ord)) (\<lambda>_.
       thenM (emitM (LarkOrder (o_OrderId ord))) (okM (o_OrderId ord)))"

definition doInternalRegisterOrder ::
  "(rat \<Rightarrow> rat \<Rightarrow> nat \<Rightarrow> rat) \<Rightarrow> http_lib \<Rightarrow> token_map \<Rightarrow> internal_req \<Rightarrow> string dao" where
  "doInternalRegisterOrder DivRound H mapToken req =
     bindM (orApi ApiCodeError500 (liftM (h_HexToArgs H (s_ChainType (ir_Search req)) (s_Address (ir_Search req))))) (\<lambda>args.
     bindM (orApi ApiCodeError500 (liftM (getOrderAmount DivRound H mapToken
       (account_length (s_AccountCharStr (ir_Search req))) args (s_Account (ir_Search req))
       (ob_InviterAccount (ir_Base req)) (ob_RegisterYears (ir_Base req)) False (internal_token req))))
       (\<lambda>(usd, ckb, amount).
     if usd \<le> 0 \<or> ckb \<le> 0 \<or> amount \<le> 0 then apiErr ApiCodeError500
     else bindM clockM (\<lambda>nw. create_internal_order (internal_row H req nw usd ckb amount))))"

text \<open>Missing characters are looked up (\<open>GetAccountCharSetList\<close>, the parameter \<open>charList\<close>).\<close>

definition internal_chars :: "(string \<Rightarrow> gerr + account_char_set list) \<Rightarrow> search_req \<Rightarrow> account_char_set list dao" where
  "internal_chars charList sreq =
     (if s_AccountCharStr sreq = [] then orApi ApiCodeParamsInvalid (liftM (charList (s_Account sreq)))
      else okM (s_AccountCharStr sreq))"

definition doAccountRegister ::
  "(rat \<Rightarrow> rat \<Rightarrow> nat \<Rightarrow> rat) \<Rightarrow> http_lib \<Rightarrow> (string \<Rightarrow> gerr + account_char_set list) \<Rightarrow> token_map \<Rightarrow>
   internal_req \<Rightarrow> string dao" where
  "doAccountRegister DivRound H charList mapToken req0 =
     (if s_Account (ir_Search req0) = '''' then apiErr ApiCodeParamsInvalid
      else bindM (internal_chars charList (ir_Search req0)) (\<lambda>chars.
      bindM (orApi ApiCodeParamsInvalid (liftM (h_FormatChainTypeAddress H (s_KeyInfo (ir_Search req0)))))
        (\<lambda>(chainType, address).
      let sreq = (ir_Search req0)\<lparr>s_AccountCharStr := chars, s_ChainType := chainType, s_Address := address\<rparr> in
      if \<not> checkChainType H chainType then apiErr ApiCodeParamsInvalid
      else bindM (checkSystemUpgrade H) (\<lambda>_.
      if \<not> IsLatestBlockNumber (h_ParserUrl H) (h_ParserLatest H) then apiErr ApiCodeSyncBlockNumber
      else bindM (checkOrderInfo H '''' '''' (ir_Base req0)) (\<lambda>base.
      bindM (check_free H sreq) (\<lambda>_.
        doInternalRegisterOrder DivRound H mapToken (req0\<lparr>ir_Search := sreq, ir_Base := base\<rparr>)))))))"

section \<open>account\_renew.go\<close>

text \<open>The request of a renewal; its token is fixed.\<close>

definition internal_renew_row :: "http_lib \<Rightarrow> renew_req \<Rightarrow> int \<Rightarrow> rat \<Rightarrow> rat \<Rightarrow> rat \<Rightarrow> order_row" where
  "internal_renew_row H req nw usd ckb amount =
     (let ord = (renew_row H (req\<lparr>n_PayTokenId := TokenIdCkbInternal, n_PayType := ''''\<rparr>)
            (renew_content (n_RenewYears req) usd ckb))
          \<lparr>o_Timestamp := nw, o_PayAmount := amount, o_PayStatus := TxStatusSending,
           o_RegisterStatus := RegisterStatusConfirmPayment\<rparr>
      in ord\<lparr>o_OrderId := order_id H ord\<rparr>)"

definition doInternalRenewOrder ::
  "(rat \<Rightarrow> rat \<Rightarrow> nat \<Rightarrow> rat) \<Rightarrow> http_lib \<Rightarrow> renew_lib \<Rightarrow> token_map \<Rightarrow> account_row \<Rightarrow> renew_req \<Rightarrow> string dao" where
  "doInternalRenewOrder DivRound H G mapToken acc req =
     bindM (orApi ApiCodeError500 (liftM (cell_chars G acc))) (\<lambda>len.
     bindM (orApi ApiCodeError500 (liftM (getOrderAmount DivRound H mapToken len '''' (n_Account req) ''''
       (n_RenewYears req) True TokenIdCkbInternal))) (\<lambda>(usd, ckb, amount).
     if usd \<le> 0 \<or> ckb \<le> 0 \<or> amount \<le> 0 then apiErr ApiCodeError500
     else bindM clockM (\<lambda>nw. create_internal_order (internal_renew_row H req nw usd ckb amount))))"

text \<open>Unlike \<open>checkRenewOrder\<close>, nothing is asked about the grace period.\<close>

definition doAccountRenew ::
  "(rat \<Rightarrow> rat \<Rightarrow> nat \<Rightarrow> rat) \<Rightarrow> http_lib \<Rightarrow> renew_lib \<Rightarrow> token_map \<Rightarrow> renew_req \<Rightarrow> string dao" where
  "doAccountRenew DivRound H G mapToken req0 =
     (let req1 = req0\<lparr>n_Account := ToLower (n_Account req0)\<rparr> in
      if n_Account req1 = '''' \<or> \<not> HasSuffix (n_Account req1) (h_Suffix H) then apiErr ApiCodeParamsInvalid
      else bindM (orApi ApiCodeParamsInvalid (liftM (h_FormatChainTypeAddress H (n_KeyInfo req1))))
        (\<lambda>(chainType, address).
      let req = req1\<lparr>n_ChainType := chainType, n_Address := address\<rparr> in
      bindM (checkSystemUpgrade H) (\<lambda>_.
      if \<not> IsLatestBlockNumber (h_ParserUrl H) (h_ParserLatest H) then apiErr ApiCodeSyncBlockNumber
      else if n_RenewYears req < 1 \<or> h_MaxRegisterYears H < n_RenewYears req then apiErr ApiCodeParamsInvalid
      else bindM (orApi ApiCodeDbError (GetAccountInfoByAccountId (h_AccountId H (n_Account req)))) (\<lambda>acc.
      if a_Id acc = 0 then apiErr ApiCodeAccountNotExist
      else if a_ParentAccountId acc \<noteq> '''' then apiErr ApiCodeParamsInvalid
      else if a_Status acc = AccountStatusOnCross then apiErr ApiCodeOnCross
      else doInternalRenewOrder DivRound H G mapToken acc req))))"

section \<open>What the handlers keep\<close>

context db_reading
begin

lemma checkRenewOrder: "upholds R (checkRenewOrder H G req)"
  unfolding checkRenewOrder_def Let_def by (intro search_rules)

lemma oldOrderCheck: "upholds R (oldOrderCheck H req)"
  unfolding oldOrderCheck_def by (intro search_rules)

lemma das_balance_reads: "upholds R (check_das_balance H row amount)"
  unfolding check_das_balance_def by (intro search_rules)

end

context dao_contract
begin

lemma doOrderRenew: "upholds R (doOrderRenew dr H G m req)"
  unfolding doOrderRenew_def doRenewOrder_def Let_def
  by (auto intro!: write_rules checkRenewOrder create_paid_order check_das_balance)

lemma doOrderChange: "upholds R (doOrderChange dr H m req)"
  unfolding doOrderChange_def doNewOrder_def Let_def
  by (auto intro!: write_rules oldOrderCheck create_paid_order checkOrderInfo)

lemma create_internal_order: "upholds R (create_internal_order ord)"
  unfolding create_internal_order_def by (intro write_rules)

lemma doAccountRegister: "upholds R (doAccountRegister dr H cl m req)"
  unfolding doAccountRegister_def doInternalRegisterOrder_def internal_chars_def Let_def
  by (auto intro!: write_rules checkOrderInfo check_free create_internal_order)

lemma doAccountRenew: "upholds R (doAccountRenew dr H G m req)"
  unfolding doAccountRenew_def doInternalRenewOrder_def Let_def
  by (auto intro!: write_rules create_internal_order)

lemmas order_rules = doOrderRenew doOrderChange doAccountRegister doAccountRenew

end

end
