(* ===== verification/SignTx.thy ===== *)
theory SignTx
  imports OrderRegister
begin

text \<open>
  Transactions a user signs: \<open>buildTx\<close> (in \<open>reverse_declare.go\<close>) builds the transaction of a
  request, takes the fee from one of its outputs and caches it under a sign key; \<open>doTransactionSend\<close>
  (\<open>transaction_send.go\<close>) adds the signatures to the cached transaction and sends it, or caches it
  for the job of \<open>did_cell.go\<close>. The transaction builder of das-lib is the record \<open>sign_lib\<close>.
\<close>

section \<open>common.go\<close>

record auction_info =
  ai_BasicPrice :: rat
  ai_PremiumPrice :: rat
  ai_BidTime :: int

definition zero_auction :: auction_info where
  "zero_auction = \<lparr>ai_BasicPrice = 0, ai_PremiumPrice = 0, ai_BidTime = 0\<rparr>"

text \<open>\<open>txbuilder.DasTxBuilderTransaction\<close>: the transaction, and what else the builder keeps of it.\<close>

record builder_tx =
  bt_Transaction :: tx_params
  bt_Rest :: string

record sign_data =
  sd_SignType :: int
  sd_SignMsg :: string

record sign_info =
  si_SignKey :: string
  si_SignAddress :: string
  si_SignList :: "sign_data list"
  si_MMJson :: "string option"
  si_CKBTx :: string

record sign_cache =
  sc_OrderId :: string
  sc_ChainType :: int
  sc_Address :: string
  sc_Action :: DasAction
  sc_Account :: string
  sc_Capacity :: "64 word"
  sc_BuilderTx :: builder_tx
  sc_AuctionInfo :: auction_info

record build_req =
  rb_OrderId :: string
  rb_Action :: DasAction
  rb_ChainType :: int
  rb_Address :: string
  rb_Account :: string
  rb_Capacity :: "64 word"
  rb_EvmChainId :: int
  rb_AuctionInfo :: auction_info

text \<open>
  \<open>sl_TxOutputs op\<close> is the outputs of the transaction of an outpoint and \<open>sl_Index op\<close> its index;
  \<open>sl_CheckTxFee\<close> gives another transaction when the server pays the fee; \<open>sl_Encode\<close>, \<open>sl_Decode\<close>
  and \<open>sl_EncodeDidTx\<close> are the JSON of the cached values; \<open>sl_Nano\<close> is the part of the clock below
  a millisecond; \<open>sl_KeyIndex\<close> is \<open>GetIdxOfKeylist\<close>; \<open>sl_ParseTx\<close> is \<open>rpc.TransactionFromString\<close>.
\<close>

record sign_lib =
  sl_TxTeeRate :: "64 word"
  sl_AlgEth712 :: int
  sl_AlgWebauthn :: int
  sl_Nano :: int
  sl_Copy :: "tx_params \<Rightarrow> gerr + tx_params"
  sl_Build :: "tx_params \<Rightarrow> gerr + builder_tx"
  sl_SizeInBlock :: "builder_tx \<Rightarrow> 64 word"
  sl_TxOutputs :: "string \<Rightarrow> gerr + out_cell list"
  sl_Index :: "string \<Rightarrow> nat"
  sl_CheckTxFee :: "tx_params \<Rightarrow> 64 word \<Rightarrow> gerr + builder_tx option"
  sl_Digests :: "builder_tx \<Rightarrow> nat list \<Rightarrow> gerr + sign_data list"
  sl_MMJson :: "builder_tx \<Rightarrow> int \<Rightarrow> gerr + string"
  sl_Encode :: "sign_cache \<Rightarrow> string"
  sl_Decode :: "string \<Rightarrow> gerr + sign_cache"
  sl_NormalToHex :: "string \<Rightarrow> gerr + string"
  sl_KeyIndex :: "string \<Rightarrow> string \<Rightarrow> gerr + int"
  sl_AddPkIndex :: "string \<Rightarrow> int \<Rightarrow> string"
  sl_ParseTx :: "string \<Rightarrow> gerr + tx_params"
  sl_AddSignature :: "builder_tx \<Rightarrow> sign_data list \<Rightarrow> gerr + builder_tx"
  sl_EncodeDidTx :: "builder_tx \<Rightarrow> string"
  sl_ComputeHash :: "tx_params \<Rightarrow> gerr + string"
  sl_Send :: "builder_tx \<Rightarrow> gerr + string"

definition SignKey :: "http_lib \<Rightarrow> sign_lib \<Rightarrow> int \<Rightarrow> int \<Rightarrow> string \<Rightarrow> DasAction \<Rightarrow> string" where
  "SignKey H S nw chainType address action =
     h_md5 H (show_int chainType @ address @ h_ActionString H action @ show_int (nw * 1000000 + sl_Nano S))"

section \<open>buildTx\<close>

text \<open>The output that pays the fee, of \<open>n\<close> outputs, if the action has one.\<close>

fun fee_output :: "DasAction \<Rightarrow> nat \<Rightarrow> nat option" where
  "fee_output DidCellActionRecycle n = Some 0"
| "fee_output DasActionConfigSubAccountCustomScript n = Some 1"
| "fee_output DasActionTransfer n = Some (n - 1)"
| "fee_output DasActionWithdrawFromWallet n = Some (n - 1)"
| "fee_output DasActionTransferBalance n = Some (n - 1)"
| "fee_output DasActionEditRecords n = Some 0"
| "fee_output DasActionEditManager n = Some 0"
| "fee_output DasActionTransferAccount n = Some 0"
| "fee_output DasActionBidExpiredAccountAuction n = Some 0"
| "fee_output DasActionRenewAccount n = Some (n - 1)"
| "fee_output _ n = None"

definition charge_output :: "nat \<Rightarrow> 64 word \<Rightarrow> out_cell list \<Rightarrow> gerr + out_cell list" where
  "charge_output i fee outs =
     (if i < length outs then Inr (outs[i := (outs ! i)\<lparr>oc_Capacity := oc_Capacity (outs ! i) - fee\<rparr>])
      else Inl GoPanic)"

definition pay_fee :: "DasAction \<Rightarrow> 64 word \<Rightarrow> builder_tx \<Rightarrow> gerr + builder_tx" where
  "pay_fee action fee b =
     (let tx = bt_Transaction b; outs = tp_Outputs tx in
      case fee_output action (length outs) of
        None \<Rightarrow> Inr b
      | Some i \<Rightarrow> bindR (charge_output i fee outs) (\<lambda>outs'.
          Inr (b\<lparr>bt_Transaction := tx\<lparr>tp_Outputs := outs'\<rparr>\<rparr>)))"

text \<open>The lock of the cell an input spends; both indexings panic out of range.\<close>

definition input_lock :: "sign_lib \<Rightarrow> tx_params \<Rightarrow> nat \<Rightarrow> gerr + string" where
  "input_lock S p i =
     (if i < length (tp_Inputs p)
      then let op = fst (tp_Inputs p ! i) in
        bindR (wrapR ''GetTransaction'' (sl_TxOutputs S op)) (\<lambda>outs.
          if sl_Index S op < length outs then Inr (oc_Lock (outs ! sl_Index S op)) else Inl GoPanic)
      else Inl GoPanic)"

text \<open>The groups of inputs the user does not sign.\<close>

definition skip_groups :: "sign_lib \<Rightarrow> DasAction \<Rightarrow> tx_params \<Rightarrow> gerr + nat list" where
  "skip_groups S action p =
     (if action = DasActionConfigSubAccountCustomScript then Inr [1]
      else if action = DasActionRenewAccount then Inr [0]
      else if action = DasActionBidExpiredAccountAuction
      then bindR (input_lock S p 0) (\<lambda>accLock. bindR (input_lock S p 1) (\<lambda>dpLock.
             Inr (if accLock \<noteq> dpLock then [0] else [])))
      else Inr [])"

text \<open>The typed data of EIP 712, when a digest asks for it.\<close>

definition mm_json :: "sign_lib \<Rightarrow> build_req \<Rightarrow> builder_tx \<Rightarrow> sign_data list \<Rightarrow> gerr + string option" where
  "mm_json S req b signList =
     (if \<exists>v \<in> set signList. sd_SignType v = sl_AlgEth712 S \<and> sd_SignMsg v \<noteq> ''''
      then (case sl_MMJson S b (rb_EvmChainId req) of
          Inr mm \<Rightarrow> Inr (Some mm)
        | Inl e \<Rightarrow> if rb_Action req \<noteq> DasActionTransferBalance then Inl (In ''txBuilder.BuildMMJsonObj'' e)
                   else Inr None)
      else Inr None)"

definition txFee :: "sign_lib \<Rightarrow> builder_tx \<Rightarrow> 64 word" where
  "txFee S b = (let rate = (if sl_TxTeeRate S = 0 then 1 else sl_TxTeeRate S) in rate * sl_SizeInBlock S b + 1000)"

text \<open>The transaction to sign, what to sign of it, and the typed data.\<close>

definition signable :: "sign_lib \<Rightarrow> build_req \<Rightarrow> tx_params \<Rightarrow> gerr + (builder_tx \<times> sign_data list \<times> string option)" where
  "signable S req txParams =
     bindR (wrapR ''deepCopy'' (sl_Copy S txParams)) (\<lambda>rebuildTxParams.
     bindR (wrapR ''txBuilder.BuildTransaction'' (sl_Build S txParams)) (\<lambda>built.
     bindR (skip_groups S (rb_Action req) txParams) (\<lambda>skipGroups.
     bindR (pay_fee (rb_Action req) (txFee S built) built) (\<lambda>charged.
     bindR (wrapR ''CheckTxFee'' (sl_CheckTxFee S rebuildTxParams (txFee S built))) (\<lambda>newTxBuilder.
     let b = (case newTxBuilder of None \<Rightarrow> charged | Some b' \<Rightarrow> b') in
     bindR (wrapR ''txBuilder.GenerateDigestListFromTx'' (sl_Digests S b skipGroups)) (\<lambda>signList.
     bindR (mm_json S req b signList) (\<lambda>mm.
       Inr (b, signList, mm))))))))"

definition cached_tx :: "build_req \<Rightarrow> builder_tx \<Rightarrow> sign_cache" where
  "cached_tx req b =
     \<lparr>sc_OrderId = rb_OrderId req, sc_ChainType = rb_ChainType req, sc_Address = rb_Address req,
      sc_Action = rb_Action req, sc_Account = rb_Account req, sc_Capacity = rb_Capacity req, sc_BuilderTx = b,
      sc_AuctionInfo = (if rb_Action req = DasActionBidExpiredAccountAuction then rb_AuctionInfo req
                        else zero_auction)\<rparr>"

definition buildTx :: "http_lib \<Rightarrow> sign_lib \<Rightarrow> build_req \<Rightarrow> tx_params \<Rightarrow> sign_info dao" where
  "buildTx H S req txParams =
     bindM (liftM (signable S req txParams)) (\<lambda>(b, signList, mm).
     bindM clockM (\<lambda>nw.
     let signKey = SignKey H S nw (rb_ChainType req) (rb_Address req) (rb_Action req) in
     thenM (wrapM ''SetSignTxCache'' (SetSignTxCache signKey (sl_Encode S (cached_tx req b))))
       (okM \<lparr>si_SignKey = signKey, si_SignAddress = '''', si_SignList = signList, si_MMJson = mm,
             si_CKBTx = ''''\<rparr>)))"

text \<open>An error answered with the number \<open>f\<close> gives it.\<close>

definition orApiBy :: "(gerr \<Rightarrow> ApiCode) \<Rightarrow> ('t, 'a) act \<Rightarrow> ('t, 'a) act" where
  "orApiBy f m = catchM m (\<lambda>e. apiErr (f e))"

lemma orApiBy_ok [ok_iffs]: "orApiBy f m w = (Inr y, w') \<longleftrightarrow> m w = (Inr y, w')"
  by (auto simp: orApiBy_def catchM_def apiErr_def errM_def split: prod.splits sum.splits if_splits)

fun doBuildTxErr :: "gerr \<Rightarrow> ApiCode" where
  "doBuildTxErr err =
     (if contains err ''not live'' \<and> contains err ''addInputsForBaseTx err'' then ApiCodeRejectedOutPoint
      else ApiCodeError500)"

declare doBuildTxErr.simps [simp del]

section \<open>transaction\_send.go\<close>

definition load_cached :: "sign_lib \<Rightarrow> string \<Rightarrow> sign_cache dao" where
  "load_cached S signKey =
     bindM (tryM (GetSignTxCache signKey)) (\<lambda>res.
       case res of
         Inl e \<Rightarrow> apiErr (if e = Errf ''redis: nil'' then ApiCodeTxExpired else ApiCodeCacheError)
       | Inr txStr \<Rightarrow> orApi ApiCodeError500 (liftM (sl_Decode S txStr)))"

definition is_webauthn :: "sign_lib \<Rightarrow> sign_data \<Rightarrow> bool" where
  "is_webauthn S v \<longleftrightarrow> sd_SignType v = sl_AlgWebauthn S \<and> sd_SignMsg v \<noteq> ''''"

text \<open>The signature of a passkey also says which key of the account's list made it.\<close>

definition webauthn_list :: "sign_lib \<Rightarrow> sign_cache \<Rightarrow> sign_info \<Rightarrow> sign_data list dao" where
  "webauthn_list S sic req =
     (if \<exists>v \<in> set (si_SignList req). is_webauthn S v
      then if si_SignAddress req = '''' then apiErr ApiCodeParamsInvalid
        else bindM (orApi ApiCodeParamsInvalid (liftM (sl_NormalToHex S (si_SignAddress req)))) (\<lambda>signAddressHex.
          bindM (orApi ApiCodeParamsInvalid (liftM (sl_KeyIndex S (sc_Address sic) signAddressHex))) (\<lambda>idx.
          if idx = -1 then apiErr ApiCodePermissionDenied
          else okM (map (\<lambda>v. if is_webauthn S v then v\<lparr>sd_SignMsg := sl_AddPkIndex S (sd_SignMsg v) idx\<rparr> else v)
                      (si_SignList req))))
      else okM (si_SignList req))"

text \<open>The transaction of a CKB wallet must have the inputs of the cached one and pay the same locks.\<close>

definition same_inputs_and_locks :: "tx_params \<Rightarrow> tx_params \<Rightarrow> bool" where
  "same_inputs_and_locks tx userTx \<longleftrightarrow>
     length (tp_Inputs userTx) = length (tp_Inputs tx) \<and> length (tp_Outputs userTx) = length (tp_Outputs tx)
     \<and> (\<forall>i < length (tp_Inputs tx). fst (tp_Inputs tx ! i) = fst (tp_Inputs userTx ! i))
     \<and> (\<forall>i < length (tp_Outputs tx). oc_Lock (tp_Outputs tx ! i) = oc_Lock (tp_Outputs userTx ! i))"

definition user_tx :: "sign_lib \<Rightarrow> string \<Rightarrow> builder_tx \<Rightarrow> builder_tx dao" where
  "user_tx S ckbTx b =
     (if ckbTx = '''' then okM b
      else bindM (orApi ApiCodeError500 (liftM (sl_ParseTx S ckbTx))) (\<lambda>userTx.
        if same_inputs_and_locks (bt_Transaction b) userTx then okM (b\<lparr>bt_Transaction := userTx\<rparr>)
        else apiErr ApiCodeError500))"

text \<open>\<open>account cell -> did cell\<close>: the transaction waits for the payment of its order.\<close>

definition for_did_cell :: "sign_cache \<Rightarrow> bool" where
  "for_did_cell sic \<longleftrightarrow> sc_Action sic \<in> {DasActionTransferAccount, DasActionRenewAccount} \<and> sc_OrderId sic \<noteq> ''''"

definition keep_for_did_cell :: "sign_lib \<Rightarrow> sign_cache \<Rightarrow> builder_tx \<Rightarrow> string dao" where
  "keep_for_did_cell S sic stx =
     thenM (orApi ApiCodeError500 (SetCache (sc_OrderId sic) (sl_EncodeDidTx S stx) (minutes (24 * 60))))
    (thenM (emitM (AddOutPoints (map fst (tp_Inputs (bt_Transaction stx)))))
       (orApi ApiCodeError500 (liftM (sl_ComputeHash S (bt_Transaction stx)))))"

fun send_error :: "gerr \<Rightarrow> ApiCode" where
  "send_error err =
     (if contains err ''PoolRejectedDuplicatedTransaction'' \<or> contains err ''Dead(OutPoint(''
         \<or> contains err ''Unknown(OutPoint('' \<or> contains err ''getInputCell'' \<and> contains err ''not live''
      then ApiCodeRejectedOutPoint
      else if contains err ''error code -102'' then ApiCodeOperationFrequent
      else if contains err ''error code 65'' then ApiCodeTooManyRecords
      else ApiCodeError500)"

declare send_error.simps [simp del]

definition sent_pending :: "sign_cache \<Rightarrow> int \<Rightarrow> string \<Rightarrow> pending_row" where
  "sent_pending sic nw hash =
     \<lparr>g_Id = 0, g_BlockNumber = 0, g_Account = sc_Account sic, g_Action = sc_Action sic, g_ChainType = sc_ChainType sic,
      g_Address = sc_Address sic, g_Capacity = sc_Capacity sic, g_Outpoint = hash @ ''-0'',
      g_BlockTimestamp = of_int nw, g_Status = 0\<rparr>"

definition sent_auction :: "http_lib \<Rightarrow> sign_cache \<Rightarrow> string \<Rightarrow> auction_row" where
  "sent_auction H sic outpoint =
     (let v = \<lparr>au_Id = 0, au_Account = sc_Account sic, au_AccountId = h_AccountId H (sc_Account sic),
                au_OrderId = '''', au_Address = sc_Address sic, au_ChainType = sc_ChainType sic,
                au_BasicPrice = ai_BasicPrice (sc_AuctionInfo sic),
                au_PremiumPrice = ai_PremiumPrice (sc_AuctionInfo sic),
                au_BidTime = ai_BidTime (sc_AuctionInfo sic), au_Outpoint = outpoint\<rparr>
      in v\<lparr>au_OrderId := CreateOrderId (h_md5 H) (h_ActionString H) OrderTypeSelf (au_AccountId v)
             DasActionBidExpiredAccountAuction (au_ChainType v) (au_Address v) (au_BidTime v)\<rparr>)"

text \<open>What the service notes of a sent transaction; every failure is only logged.\<close>

definition note_sent :: "http_lib \<Rightarrow> sign_cache \<Rightarrow> string \<Rightarrow> unit dao" where
  "note_sent H sic hash =
     (if sc_Address sic = '''' then okM ()
      else
        thenM (catchM (SetApiLimit (sc_ChainType sic) (sc_Address sic) (h_ActionString H (sc_Action sic))) (\<lambda>_. okM ()))
       (thenM (catchM (SetAccountLimit (sc_Account sic) (minutes 2)) (\<lambda>_. okM ()))
       (thenM (emitM AddCellInputs)
       (bindM clockM (\<lambda>nw.
        thenM (catchM (CreatePending (sent_pending sic nw hash)) (\<lambda>_. okM ()))
         (if sc_Action sic = DasActionBidExpiredAccountAuction
          then catchM (CreateAuctionOrder (sent_auction H sic (hash @ ''-0''))) (\<lambda>_. okM ())
          else okM ()))))))"

definition send_signed :: "http_lib \<Rightarrow> sign_lib \<Rightarrow> string \<Rightarrow> sign_cache \<Rightarrow> builder_tx \<Rightarrow> string dao" where
  "send_signed H S signKey sic stx =
     (case sl_Send S stx of
        Inl e \<Rightarrow> thenM (emitM (SendTxFailed signKey)) (apiErr (send_error e))
      | Inr hash \<Rightarrow> thenM (emitM (SendTx signKey hash)) (thenM (note_sent H sic hash) (okM hash)))"

text \<open>The answer is the hash.\<close>

definition doTransactionSend :: "http_lib \<Rightarrow> sign_lib \<Rightarrow> sign_info \<Rightarrow> string dao" where
  "doTransactionSend H S req =
     bindM (load_cached S (si_SignKey req)) (\<lambda>sic.
     bindM (webauthn_list S sic req) (\<lambda>signList.
     bindM (user_tx S (si_CKBTx req) (sc_BuilderTx sic)) (\<lambda>b.
     bindM (orApi ApiCodeError500 (liftM (sl_AddSignature S b signList))) (\<lambda>stx.
     if for_did_cell sic then keep_for_did_cell S sic stx
     else send_signed H S (si_SignKey req) sic stx))))"

section \<open>What the operations keep\<close>

context db_reading
begin

lemma orApiBy: "upholds R m \<Longrightarrow> upholds R (orApiBy f m)"
  unfolding orApiBy_def by (rule catchM) (auto intro: apiErr)

lemma cache_commands:
  "upholds R (SetSignTxCache k v)" "upholds R (GetSignTxCache k)" "upholds R (SetCache k v e)"
  "upholds R (SetApiLimit ct a act)" "upholds R (SetAccountLimit acc e)"
  "upholds R (AccountLimitExist acc)"
  unfolding SetSignTxCache_def GetSignTxCache_def SetCache_def SetApiLimit_def SetAccountLimit_def
    AccountLimitExist_def set_checked_def get_checked_def exists_checked_def
  by (intro rules if_nil redis_commands)+

lemma buildTx: "upholds R (buildTx H S req p)"
  unfolding buildTx_def Let_def by (intro rules cache_commands)

lemma transaction_checks:
  "upholds R (load_cached S k)" "upholds R (webauthn_list S sic req)" "upholds R (user_tx S c b)"
  "upholds R (keep_for_did_cell S sic b)"
  unfolding load_cached_def webauthn_list_def user_tx_def keep_for_did_cell_def
  by (intro rules cache_commands)+

end

context dao_contract
begin

lemma doTransactionSend: "upholds R (doTransactionSend H S req)"
  unfolding doTransactionSend_def send_signed_def note_sent_def
  by (intro dao_rules transaction_checks cache_commands)

end

end
