(* ===== verification/EditAccount.thy ===== *)
theory EditAccount
  imports SignTx
begin

text \<open>
  The handlers that build the transaction of an owner or manager of an account: \<open>edit_records.go\<close>,
  \<open>edit_manager.go\<close>, \<open>edit_owner.go\<close> and \<open>edit_script.go\<close>. Each checks the account and who asks,
  builds the transaction that spends the account cell and recreates it, and hands it to \<open>buildTx\<close>.
\<close>

section \<open>Requests and the library\<close>

record record_item =
  ri_Key :: string
  ri_Type :: string
  ri_Label :: string
  ri_Value :: string
  ri_TTL :: "32 word"

record req_record =
  rq_Key :: string
  rq_Type :: string
  rq_Label :: string
  rq_Value :: string
  rq_TTL :: string

record edit_records_req =
  er_KeyInfo :: key_info
  er_Account :: string
  er_EvmChainId :: int
  er_Records :: "req_record list"

text \<open>\<open>edit_manager.go\<close> and \<open>edit_owner.go\<close>: the new manager or owner is the target.\<close>

record edit_lock_req =
  eo_KeyInfo :: key_info
  eo_Account :: string
  eo_EvmChainId :: int
  eo_TargetChainType :: int
  eo_TargetCoinType :: string
  eo_TargetAddress :: string

record edit_script_req =
  ec_KeyInfo :: key_info
  ec_Account :: string
  ec_CustomScriptArgs :: string
  ec_EvmChainId :: int

text \<open>
  Outpoints are arguments: \<open>el_AccTx op\<close> is the outputs and the output data of the transaction of
  the account cell, \<open>el_AccIndex op\<close> the index of each account in its witnesses, \<open>el_AccWitness\<close>
  the witness and data \<open>GenWitness\<close> makes of it, \<open>el_AccIdWitness\<close> the same by account id for
  \<open>edit_script.go\<close>; \<open>el_LockScript\<close> is \<open>ToScript(args)\<close>; \<open>el_RecordsSize\<close> the length of the
  records in the cell; \<open>el_SubAccountCells\<close> the outpoint, output and data of the sub-account cells.
\<close>

record edit_lib =
  el_Sign :: sign_lib
  el_Tx :: txlib
  el_ChainTypeMixin :: int
  el_NormalToHex :: "int \<Rightarrow> string \<Rightarrow> gerr + (int \<times> string)"
  el_RecordKeys :: "gerr + string list"
  el_RecordsSize :: "record_item list \<Rightarrow> nat"
  el_AccTx :: "string \<Rightarrow> gerr + (out_cell list \<times> string list)"
  el_AccIndex :: "string \<Rightarrow> gerr + (string \<Rightarrow> nat option)"
  el_AccWitness :: "string \<Rightarrow> DasAction \<Rightarrow> int \<Rightarrow> record_item list \<Rightarrow> string \<times> string"
  el_AccIdWitness :: "string \<Rightarrow> gerr + (string \<Rightarrow> string option)"
  el_Args :: "int \<times> string \<Rightarrow> int \<times> string \<Rightarrow> gerr + string"
  el_LockScript :: "string \<Rightarrow> string \<Rightarrow> string"
  el_OwnerWitness :: "DasAction \<Rightarrow> gerr + string"
  el_Hex2Bytes :: "string \<Rightarrow> string"
  el_SubAccountCells :: "string \<Rightarrow> gerr + (string \<times> out_cell \<times> string) list"
  el_SubData :: "string \<Rightarrow> string \<Rightarrow> string"

fun checkBuildTxErr :: "gerr \<Rightarrow> ApiCode" where
  "checkBuildTxErr err = (if contains err ''not live'' then ApiCodeOperationFrequent else ApiCodeError500)"

declare checkBuildTxErr.simps [simp del]

section \<open>The account to edit\<close>

definition edit_open :: "http_lib \<Rightarrow> string \<Rightarrow> unit dao" where
  "edit_open H account =
     bindM (checkSystemUpgrade H) (\<lambda>_.
       if \<not> IsLatestBlockNumber (h_ParserUrl H) (h_ParserLatest H) then apiErr ApiCodeSyncBlockNumber
       else bindM (AccountLimitExist account) (\<lambda>exi.
         if exi then apiErr ApiCodeOperationFrequent else okM ()))"

definition account_to_edit :: "http_lib \<Rightarrow> string \<Rightarrow> account_row dao" where
  "account_to_edit H account =
     bindM (orApi ApiCodeDbError (GetAccountInfoByAccountId (h_AccountId H account))) (\<lambda>acc.
     bindM clockM (\<lambda>nw.
       if a_Id acc = 0 then apiErr ApiCodeAccountNotExist
       else if \<not> CheckStatus acc then apiErr ApiCodeAccountStatusNotNormal
       else if IsExpired acc nw then apiErr ApiCodeAccountIsExpired
       else okM acc))"

text \<open>The address of the new owner or manager, by coin type or else by chain type.\<close>

definition target_address :: "http_lib \<Rightarrow> edit_lib \<Rightarrow> edit_lock_req \<Rightarrow> (int \<times> string) dao" where
  "target_address H E req =
     (if eo_TargetCoinType req \<noteq> ''''
      then orApi ApiCodeInvalidTargetAddress (liftM (h_FormatChainTypeAddress H
             \<lparr>ki_Type = ''blockchain'', ki_CoinType = eo_TargetCoinType req, ki_Key = eo_TargetAddress req\<rparr>))
      else orApi ApiCodeParamsInvalid (liftM (el_NormalToHex E (eo_TargetChainType req) (eo_TargetAddress req))))"

text \<open>\<open>ChainTypeMixin\<close> accounts only go to \<open>ChainTypeMixin\<close>, the others never.\<close>

definition mixin_apart :: "edit_lib \<Rightarrow> int \<Rightarrow> int \<Rightarrow> bool" where
  "mixin_apart E chainType target \<longleftrightarrow> (chainType = el_ChainTypeMixin E) \<noteq> (target = el_ChainTypeMixin E)"

section \<open>The transaction of an edited account\<close>

definition cell_at :: "'a list \<Rightarrow> nat \<Rightarrow> gerr + 'a" where
  "cell_at xs i = (if i < length xs then Inr (xs ! i) else Inl GoPanic)"

text \<open>\<open>data[32:]\<close> panics on shorter data.\<close>

definition tail_data :: "string \<Rightarrow> gerr + string" where
  "tail_data d = (if length d < 32 then Inl GoPanic else Inr (drop 32 d))"

text \<open>The three builders differ in action, records, lock and configuration cells.\<close>

definition edit_tx ::
  "edit_lib \<Rightarrow> DasAction \<Rightarrow> record_item list \<Rightarrow> int \<times> string \<Rightarrow> int \<times> string \<Rightarrow> ConfigArgs list \<Rightarrow>
   string \<Rightarrow> account_row \<Rightarrow> gerr + tx_params" where
  "edit_tx E action recs owner manager configs account acc =
     (let L = el_Tx E; op = a_Outpoint acc in
      bindR (wrapR ''GenActionDataWitness'' (ActionWitness L action)) (\<lambda>actionWitness.
      bindR (wrapR ''GetTransaction'' (el_AccTx E op)) (\<lambda>(outs, outsData).
      bindR (wrapR ''AccountCellDataBuilderMapFromTx'' (el_AccIndex E op)) (\<lambda>builderMap.
      case builderMap account of None \<Rightarrow> Inl (Errf ''builderMap not exist account'') | Some index \<Rightarrow>
      bindR (wrapR ''GetTimeCell'' (GetTimeCell L)) (\<lambda>(timeCell, timestamp).
      let accWitness = el_AccWitness E op action timestamp recs in
      bindR (bindR (cell_at outsData index) tail_data) (\<lambda>rest.
      bindR (cell_at outs index) (\<lambda>old.
      bindR (wrapR ''GetDasContractInfo'' (Contract L DasContractNameAccountCellType)) (\<lambda>(accScript, _).
      bindR (wrapR ''GetDasContractInfo'' (Contract L DasContractNameDispatchCellType)) (\<lambda>(dasScript, _).
      bindR (wrapR ''HexToArgs'' (el_Args E owner manager)) (\<lambda>lockArgs.
      bindR (wrapR ''GetHeightCell'' (GetHeightCell L)) (\<lambda>heightCell.
      bindR (mapR (\<lambda>c. wrapR ''GetDasConfigCellInfo'' (ConfigCell L c)) configs) (\<lambda>configCells.
      Inr \<lparr>tp_HeadDeps = [], tp_Inputs = [(op, 0)],
           tp_Outputs = [\<lparr>oc_Capacity = oc_Capacity old, oc_Lock = el_LockScript E dasScript lockArgs,
                          oc_Type = Some accScript\<rparr>],
           tp_OutputsData = [snd accWitness @ rest], tp_Witnesses = [actionWitness, fst accWitness],
           tp_CellDeps = [heightCell, timeCell] @ configCells\<rparr>))))))))))))"

definition owner_of :: "account_row \<Rightarrow> int \<times> string" where
  "owner_of acc = (a_OwnerChainType acc, a_Owner acc)"

definition manager_of :: "account_row \<Rightarrow> int \<times> string" where
  "manager_of acc = (a_ManagerChainType acc, a_Manager acc)"

definition buildEditRecordsTx :: "edit_lib \<Rightarrow> string \<Rightarrow> account_row \<Rightarrow> record_item list \<Rightarrow> gerr + tx_params" where
  "buildEditRecordsTx E account acc recs =
     edit_tx E DasActionEditRecords recs (owner_of acc) (manager_of acc)
       [ConfigCellTypeArgsAccount, ConfigCellTypeArgsRecordNamespace] account acc"

definition buildEditManagerTx :: "edit_lib \<Rightarrow> string \<Rightarrow> account_row \<Rightarrow> int \<times> string \<Rightarrow> gerr + tx_params" where
  "buildEditManagerTx E account acc manager =
     edit_tx E DasActionEditManager [] (owner_of acc) manager [ConfigCellTypeArgsAccount] account acc"

definition buildEditOwnerTx :: "edit_lib \<Rightarrow> string \<Rightarrow> account_row \<Rightarrow> int \<times> string \<Rightarrow> gerr + tx_params" where
  "buildEditOwnerTx E account acc owner =
     edit_tx E DasActionTransferAccount [] owner owner [ConfigCellTypeArgsAccount] account acc"

section \<open>edit\_records.go\<close>

definition is_digit :: "char \<Rightarrow> bool" where
  "is_digit c \<longleftrightarrow> 48 \<le> (of_char c :: nat) \<and> (of_char c :: nat) \<le> 57"

definition digit_value :: "char \<Rightarrow> int" where
  "digit_value c = int (of_char c) - 48"

text \<open>\<open>^[0-9a-z_]+$\<close> and \<open>^(0|[1-9][0-9]*)$\<close>.\<close>

definition custom_key :: "string \<Rightarrow> bool" where
  "custom_key s \<longleftrightarrow> s \<noteq> '''' \<and>
     (\<forall>c \<in> set s. is_digit c \<or> 97 \<le> (of_char c :: nat) \<and> (of_char c :: nat) \<le> 122 \<or> c = CHR ''_'')"

definition decimal_key :: "string \<Rightarrow> bool" where
  "decimal_key s \<longleftrightarrow> s = ''0'' \<or>
     (case s of [] \<Rightarrow> False | c # cs \<Rightarrow> is_digit c \<and> c \<noteq> CHR ''0'' \<and> (\<forall>d \<in> set cs. is_digit d))"

text \<open>\<open>strconv.ParseInt(s, 10, 64)\<close>: an optional sign and digits, within the range.\<close>

definition ParseInt :: "string \<Rightarrow> int option" where
  "ParseInt s =
     (let (neg, ds) = (case s of [] \<Rightarrow> (False, [])
            | c # cs \<Rightarrow> if c = CHR ''-'' then (True, cs) else if c = CHR ''+'' then (False, cs) else (False, s)) in
      if ds = [] \<or> (\<exists>c \<in> set ds. \<not> is_digit c) then None
      else let n = fold (\<lambda>c k. 10 * k + digit_value c) ds 0; i = (if neg then - n else n) in
        if - (2 ^ 63) \<le> i \<and> i < 2 ^ 63 then Some i else None)"

definition record_allowed :: "string list \<Rightarrow> req_record \<Rightarrow> bool" where
  "record_allowed keys v \<longleftrightarrow>
     (let rec = rq_Type v @ ''.'' @ rq_Key v in
      if rq_Type v = ''custom_key'' then custom_key (rq_Key v)
      else if rq_Type v = ''address'' then decimal_key (rq_Key v) \<or> rec \<in> set keys
      else rec \<in> set keys)"

text \<open>A time to live that is no number is 300 seconds; a number is cut to 32 bits.\<close>

definition record_of :: "req_record \<Rightarrow> record_item" where
  "record_of v = \<lparr>ri_Key = rq_Key v, ri_Type = rq_Type v, ri_Label = rq_Label v, ri_Value = rq_Value v,
     ri_TTL = (case ParseInt (rq_TTL v) of Some ttl \<Rightarrow> of_int ttl | None \<Rightarrow> 300)\<rparr>"

definition edit_request :: "DasAction \<Rightarrow> string \<Rightarrow> int \<Rightarrow> string \<Rightarrow> int \<Rightarrow> build_req" where
  "edit_request action account chainType address evmChainId =
     \<lparr>rb_OrderId = '''', rb_Action = action, rb_ChainType = chainType, rb_Address = address, rb_Account = account,
      rb_Capacity = 0, rb_EvmChainId = evmChainId, rb_AuctionInfo = zero_auction\<rparr>"

definition doEditRecords :: "http_lib \<Rightarrow> edit_lib \<Rightarrow> edit_records_req \<Rightarrow> sign_info dao" where
  "doEditRecords H E req =
     bindM (orApi ApiCodeParamsInvalid (liftM (h_FormatChainTypeAddress H (er_KeyInfo req)))) (\<lambda>(chainType, address).
     if er_Account req = '''' then apiErr ApiCodeParamsInvalid
     else if address = '''' then apiErr ApiCodeParamsInvalid
     else bindM (edit_open H (er_Account req)) (\<lambda>_.
     bindM (account_to_edit H (er_Account req)) (\<lambda>acc.
     if chainType \<noteq> a_ManagerChainType acc \<or> \<not> EqualFold address (a_Manager acc) then apiErr ApiCodePermissionDenied
     else if a_ParentAccountId acc \<noteq> '''' then apiErr ApiCodeParamsInvalid
     else bindM (orApi ApiCodeError500 (liftM (el_RecordKeys E))) (\<lambda>keys.
     if \<exists>v \<in> set (er_Records req). \<not> record_allowed keys v then apiErr ApiCodeRecordInvalid
     else let recs = map record_of (er_Records req);
              rb = edit_request DasActionEditRecords (er_Account req) chainType address (er_EvmChainId req) in
     if 5000 \<le> el_RecordsSize E recs then apiErr ApiCodeTooManyRecords
     else bindM (orApiBy checkBuildTxErr (liftM (buildEditRecordsTx E (er_Account req) acc recs))) (\<lambda>txParams.
       orApiBy doBuildTxErr (buildTx H (el_Sign E) rb txParams))))))"

section \<open>edit\_manager.go and edit\_owner.go\<close>

definition doEditManager :: "http_lib \<Rightarrow> edit_lib \<Rightarrow> edit_lock_req \<Rightarrow> sign_info dao" where
  "doEditManager H E req =
     (let account = ToLower (eo_Account req) in
     bindM (orApi ApiCodeParamsInvalid (liftM (h_FormatChainTypeAddress H (eo_KeyInfo req)))) (\<lambda>(chainType, address).
     bindM (target_address H E req) (\<lambda>(managerChainType, managerAddress).
     if \<not> checkChainType H managerChainType then apiErr ApiCodeInvalidTargetAddress
     else if account = '''' then apiErr ApiCodeParamsInvalid
     else if address = '''' \<or> managerAddress = '''' then apiErr ApiCodeParamsInvalid
     else bindM (edit_open H account) (\<lambda>_.
     bindM (account_to_edit H account) (\<lambda>acc.
     if chainType \<noteq> a_OwnerChainType acc \<or> \<not> EqualFold address (a_Owner acc) then apiErr ApiCodePermissionDenied
     else if managerChainType = a_ManagerChainType acc \<and> EqualFold managerAddress (a_Manager acc) then apiErr ApiCodeSameLock
     else if a_ParentAccountId acc \<noteq> '''' then apiErr ApiCodeParamsInvalid
     else if mixin_apart E chainType managerChainType then apiErr ApiCodeParamsInvalid
     else let rb = edit_request DasActionEditManager account chainType address (eo_EvmChainId req) in
     bindM (orApiBy checkBuildTxErr (liftM (buildEditManagerTx E account acc (managerChainType, managerAddress))))
       (\<lambda>txParams. orApiBy checkBuildTxErr (buildTx H (el_Sign E) rb txParams)))))))"

definition doEditOwner :: "http_lib \<Rightarrow> edit_lib \<Rightarrow> edit_lock_req \<Rightarrow> sign_info dao" where
  "doEditOwner H E req =
     (let account = ToLower (eo_Account req) in
     bindM (orApi ApiCodeParamsInvalid (liftM (h_FormatChainTypeAddress H (eo_KeyInfo req)))) (\<lambda>(chainType, address).
     bindM (target_address H E req) (\<lambda>(ownerChainType, ownerAddress).
     if \<not> checkChainType H ownerChainType then apiErr ApiCodeInvalidTargetAddress
     else if account = '''' then apiErr ApiCodeParamsInvalid
     else if address = '''' \<or> ownerAddress = '''' then apiErr ApiCodeParamsInvalid
     else bindM (edit_open H account) (\<lambda>_.
     bindM (account_to_edit H account) (\<lambda>acc.
     if chainType \<noteq> a_OwnerChainType acc \<or> \<not> EqualFold address (a_Owner acc) then apiErr ApiCodePermissionDenied
     else if ownerChainType = a_OwnerChainType acc \<and> EqualFold ownerAddress (a_Owner acc) then apiErr ApiCodeSameLock
     else if a_ParentAccountId acc \<noteq> '''' then apiErr ApiCodeParamsInvalid
     else if mixin_apart E chainType ownerChainType then apiErr ApiCodeParamsInvalid
     else let rb = edit_request DasActionTransferAccount account chainType address (eo_EvmChainId req) in
     bindM (orApiBy checkBuildTxErr (liftM (buildEditOwnerTx E account acc (ownerChainType, ownerAddress))))
       (\<lambda>txParams. orApiBy checkBuildTxErr (buildTx H (el_Sign E) rb txParams)))))))"

section \<open>edit\_script.go\<close>

definition getSubAccountCell :: "edit_lib \<Rightarrow> string \<Rightarrow> gerr + (string \<times> out_cell \<times> string)" where
  "getSubAccountCell E parentAccountId =
     bindR (wrapR ''GetCells'' (el_SubAccountCells E parentAccountId)) (\<lambda>cells.
       case cells of [c] \<Rightarrow> Inr c | _ \<Rightarrow> Inl (Errf ''sub account outpoint len''))"

definition script_deps :: "txlib \<Rightarrow> string \<Rightarrow> gerr + string list" where
  "script_deps L subAccDep =
     bindR (wrapR ''GetHeightCell'' (GetHeightCell L)) (\<lambda>heightCell.
     bindR (wrapR ''GetTimeCell'' (GetTimeCell L)) (\<lambda>(timeCell, _).
     bindR (wrapR ''GetDasConfigCellInfo'' (ConfigCell L ConfigCellTypeArgsAccount)) (\<lambda>configCellAcc.
     bindR (wrapR ''GetDasConfigCellInfo'' (ConfigCell L ConfigCellTypeArgsSubAccount)) (\<lambda>configCellSubAcc.
     bindR (wrapR ''GetDasContractInfo'' (Contract L DasContractNameAccountCellType)) (\<lambda>(_, accDep).
     bindR (wrapR ''GetDasContractInfo'' (Contract L DasContractNameDispatchCellType)) (\<lambda>(_, dasDep).
     Inr [dasDep, accDep, subAccDep, heightCell, timeCell, configCellAcc, configCellSubAcc]))))))"

definition buildEditScript :: "edit_lib \<Rightarrow> account_row \<Rightarrow> string \<Rightarrow> gerr + tx_params" where
  "buildEditScript E acc customScriptArgs =
     (let L = el_Tx E; op = a_Outpoint acc; index = sl_Index (el_Sign E) op in
      bindR (wrapR ''GetDasContractInfo'' (Contract L DASContractNameSubAccountCellType)) (\<lambda>(_, subAccDep).
      bindR (wrapR ''getSubAccountCell'' (getSubAccountCell E (a_AccountId acc))) (\<lambda>(subOp, subCell, subData).
      bindR (wrapR ''GetTransaction'' (el_AccTx E op)) (\<lambda>(outs, outsData).
      bindR (cell_at outs index) (\<lambda>old.
      bindR (cell_at outsData index) (\<lambda>oldData.
      bindR (wrapR ''GenActionDataWitness'' (el_OwnerWitness E DasActionConfigSubAccountCustomScript)) (\<lambda>actionWitness.
      bindR (wrapR ''AccountIdCellDataBuilderFromTx'' (el_AccIdWitness E op)) (\<lambda>builderMap.
      case builderMap (a_AccountId acc) of None \<Rightarrow> Inl (Errf ''builderMap not exist account'') | Some accWitness \<Rightarrow>
      bindR (script_deps L subAccDep) (\<lambda>deps.
      Inr \<lparr>tp_HeadDeps = [], tp_Inputs = [(op, 0), (subOp, 0)], tp_Outputs = [old, subCell],
           tp_OutputsData = [oldData, el_SubData E subData customScriptArgs],
           tp_Witnesses = [actionWitness, accWitness], tp_CellDeps = deps\<rparr>)))))))))"

text \<open>No arguments stand for 33 zero bytes.\<close>

definition custom_script_args :: "edit_lib \<Rightarrow> string \<Rightarrow> string option" where
  "custom_script_args E arg =
     (if arg = '''' then Some (replicate 33 (CHR 0x00))
      else let tmpArgs = el_Hex2Bytes E arg in if length tmpArgs \<noteq> 33 then None else Some tmpArgs)"

definition doEditScript :: "http_lib \<Rightarrow> edit_lib \<Rightarrow> edit_script_req \<Rightarrow> sign_info dao" where
  "doEditScript H E req =
     bindM (orApi ApiCodeParamsInvalid (liftM (h_FormatChainTypeAddress H (ec_KeyInfo req)))) (\<lambda>(chainType, address).
     if ec_Account req = '''' then apiErr ApiCodeParamsInvalid
     else bindM (checkSystemUpgrade H) (\<lambda>_.
     if \<not> IsLatestBlockNumber (h_ParserUrl H) (h_ParserLatest H) then apiErr ApiCodeSyncBlockNumber
     else bindM (account_to_edit H (ec_Account req)) (\<lambda>acc.
     if chainType \<noteq> a_OwnerChainType acc \<or> \<not> EqualFold (a_Owner acc) address then apiErr ApiCodePermissionDenied
     else if a_EnableSubAccount acc \<noteq> 1 then apiErr ApiCodeSubAccountNotEnabled
     else case custom_script_args E (ec_CustomScriptArgs req) of None \<Rightarrow> apiErr ApiCodeParamsInvalid
     | Some args \<Rightarrow>
       let rb = edit_request DasActionConfigSubAccountCustomScript (ec_Account req) chainType address (ec_EvmChainId req) in
       bindM (orApi ApiCodeError500 (liftM (buildEditScript E acc args))) (\<lambda>txParams.
         orApi ApiCodeError500 (buildTx H (el_Sign E) rb txParams)))))"

section \<open>What the handlers keep\<close>

context db_reading
begin

lemma edit_checks:
  "upholds R (edit_open H acc)" "upholds R (account_to_edit H acc)" "upholds R (target_address H E req')"
  unfolding edit_open_def account_to_edit_def target_address_def
  by (intro search_rules cache_commands)+

lemmas edit_steps = search_rules edit_checks buildTx orApiBy

lemma edits:
  "upholds R (doEditRecords H E rreq)" "upholds R (doEditManager H E lreq)"
  "upholds R (doEditOwner H E lreq)" "upholds R (doEditScript H E sreq)"
  unfolding doEditRecords_def doEditManager_def doEditOwner_def doEditScript_def Let_def
  by (intro edit_steps)+

end

end
