(* ===== verification/Balance.thy ===== *)
theory Balance
  imports EditAccount
begin

text \<open>
  The handlers that move CKB: \<open>balance_pay.go\<close> pays an order from the payer's balance,
  \<open>balance_withdraw.go\<close> and \<open>balance_deposit.go\<close> send a balance out and in, \<open>balance_transfer.go\<close>
  moves the cells of an old lock to the new one. Scripts are opaque strings.
\<close>

section \<open>The library\<close>

record parsed_address =
  pa_Mainnet :: bool
  pa_Full :: bool
  pa_Script :: string
  pa_CodeHash :: string
  pa_Args :: string

text \<open>
  \<open>bl_Cells lock need keep\<close> is \<open>GetBalanceCells\<close>: outpoints with capacities, and their total;
  \<open>bl_ServerCells\<close> is \<open>GetBalanceCellWithLock\<close>, which answers the change instead; \<open>bl_HexToScript\<close>
  is told whether to use the signing algorithm EIP 712; \<open>bl_ContractId\<close> and \<open>bl_ContractScript\<close> are
  the type id and script of a contract; \<open>bl_ArgsEth712\<close> decodes lock arguments and says whether their
  owner signs with EIP 712.
\<close>

record bal_lib =
  bl_Sign :: sign_lib
  bl_Tx :: txlib
  bl_OneCkb :: "64 word"
  bl_MinCell :: "64 word"
  bl_MinBalance :: "64 word"
  bl_OccupiedBalance :: "64 word"
  bl_Parse :: "string \<Rightarrow> gerr + parsed_address"
  bl_HexToScript :: "bool \<Rightarrow> int \<Rightarrow> string \<Rightarrow> gerr + (string \<times> string option)"
  bl_Cells :: "string \<Rightarrow> 64 word \<Rightarrow> 64 word \<Rightarrow> balance_err + ((string \<times> 64 word) list \<times> 64 word)"
  bl_ServerCells :: "string \<Rightarrow> 64 word \<Rightarrow> 64 word \<Rightarrow> balance_err + ((string \<times> 64 word) list \<times> 64 word)"
  bl_Split :: "64 word \<Rightarrow> 64 word \<Rightarrow> nat \<Rightarrow> string \<Rightarrow> string option \<Rightarrow> gerr + out_cell list"
  bl_ContractId :: "ContractName \<Rightarrow> gerr + string"
  bl_ContractScript :: "ContractName \<Rightarrow> string"
  bl_ArgsEth712 :: "string \<Rightarrow> gerr + bool"
  bl_DepositWitness :: "gerr + string"

text \<open>\<open>checkBalanceErr\<close> on a failing search for cells.\<close>

definition cellsM :: "balance_err + 'a \<Rightarrow> 'a dao" where
  "cellsM r = (case r of Inl e \<Rightarrow> apiErr (checkBalanceErr e) | Inr x \<Rightarrow> okM x)"

lemma cellsM_ok [ok_iffs]: "cellsM r w = (Inr x, w') \<longleftrightarrow> r = Inr x \<and> w' = w"
  by (auto simp: cellsM_def apiErr_def errM_def okM_def split: sum.splits)

definition pay_out :: "64 word \<Rightarrow> string \<Rightarrow> string option \<Rightarrow> out_cell" where
  "pay_out capacity lock ty = \<lparr>oc_Capacity = capacity, oc_Lock = lock, oc_Type = ty\<rparr>"

text \<open>One payment, with its data, and the change, if there is any.\<close>

definition pay_tx :: "(string \<times> 64 word) list \<Rightarrow> out_cell \<Rightarrow> string \<Rightarrow> out_cell list \<Rightarrow> string \<Rightarrow> tx_params" where
  "pay_tx liveCells payment data change actionWitness =
     add_change change (add_inputs liveCells
       (no_params\<lparr>tp_Outputs := [payment], tp_OutputsData := [data], tp_Witnesses := [actionWitness]\<rparr>))"

definition change_cell :: "64 word \<Rightarrow> string \<Rightarrow> string option \<Rightarrow> out_cell list" where
  "change_cell change lock ty = (if 0 < change then [pay_out change lock ty] else [])"

definition balance_request :: "DasAction \<Rightarrow> string \<Rightarrow> int \<Rightarrow> string \<Rightarrow> 64 word \<Rightarrow> int \<Rightarrow> build_req" where
  "balance_request action account chainType address capacity evmChainId =
     (edit_request action account chainType address evmChainId)\<lparr>rb_Capacity := capacity\<rparr>"

section \<open>balance\_pay.go\<close>

record balance_pay_req =
  bp_KeyInfo :: key_info
  bp_OrderId :: string
  bp_EvmChainId :: int

record balance_pay_params =
  by_orderId :: string
  by_liveCells :: "(string \<times> 64 word) list"
  by_totalCapacity :: "64 word"
  by_payCapacity :: "64 word"
  by_minCellCapacity :: "64 word"
  by_serverLiveCells :: "(string \<times> 64 word) list"
  by_serverTotalCapacity :: "64 word"
  by_fromLockScript :: string
  by_fromTypeScript :: "string option"
  by_toLockScript :: string

definition pay_change :: "bal_lib \<Rightarrow> balance_pay_params \<Rightarrow> gerr + out_cell list" where
  "pay_change B p =
     (let change = by_totalCapacity p - by_payCapacity p in
      if 0 < change
      then wrapR ''SplitOutputCell'' (bl_Split B change (2000 * bl_OneCkb B) 20 (by_fromLockScript p) (by_fromTypeScript p))
      else Inr [])"

definition buildBalancePayTx :: "bal_lib \<Rightarrow> balance_pay_params \<Rightarrow> gerr + tx_params" where
  "buildBalancePayTx B p =
     bindR (pay_change B p) (\<lambda>changeList.
     bindR (wrapR ''GenActionDataWitness'' (ActionWitness (bl_Tx B) DasActionTransfer)) (\<lambda>actionWitness.
       Inr (pay_tx (by_liveCells p @ (if by_minCellCapacity p \<noteq> 0 then by_serverLiveCells p else []))
              (pay_out (by_payCapacity p + by_serverTotalCapacity p) (by_toLockScript p) None)
              (by_orderId p) changeList actionWitness)))"

text \<open>A payment too small for a cell is topped up from the server's cells.\<close>

definition server_share :: "bal_lib \<Rightarrow> string \<Rightarrow> 64 word \<Rightarrow> (64 word \<times> (string \<times> 64 word) list \<times> 64 word) dao" where
  "server_share B script needCapacity =
     (if needCapacity \<le> bl_MinCell B
      then bindM (cellsM (bl_ServerCells B script (bl_MinCell B) (bl_MinBalance B))) (\<lambda>(cells, change).
             okM (bl_MinCell B, cells, bl_MinCell B + change))
      else okM (0, [], 0))"

definition order_to_pay :: "string \<Rightarrow> order_row dao" where
  "order_to_pay orderId =
     bindM (orApi ApiCodeDbError (GetOrderByOrderId orderId)) (\<lambda>ord.
       if o_Id ord = 0 then apiErr ApiCodeOrderNotExist
       else if o_PayStatus ord \<noteq> TxStatusDefault then apiErr ApiCodeOrderPaid
       else if o_PayTokenId ord \<noteq> TokenIdDas then apiErr ApiCodePayTypeInvalid
       else okM ord)"

definition doBalancePay :: "http_lib \<Rightarrow> bal_lib \<Rightarrow> balance_pay_req \<Rightarrow> sign_info dao" where
  "doBalancePay H B req =
     bindM (orApi ApiCodeParamsInvalid (liftM (h_FormatChainTypeAddress H (bp_KeyInfo req)))) (\<lambda>(chainType, address).
     if bp_OrderId req = '''' \<or> address = '''' then apiErr ApiCodeParamsInvalid
     else bindM (order_to_pay (bp_OrderId req)) (\<lambda>ord.
     let addr = GetUnipayAddress H (o_PayTokenId ord) in
     if addr = '''' then apiErr ApiCodeError500
     else bindM (orApi ApiCodeError500 (liftM (bl_Parse B addr))) (\<lambda>parseAddress.
     bindM (orApi ApiCodeError500 (liftM (bl_HexToScript B True chainType address))) (\<lambda>(dasLock, dasType).
     let needCapacity = big_uint64 (o_PayAmount ord) in
     bindM (server_share B (pa_Script parseAddress) needCapacity) (\<lambda>(minCellCapacity, serverLiveCells, serverTotalCapacity).
     bindM (cellsM (bl_Cells B dasLock needCapacity (bl_MinBalance B))) (\<lambda>(liveCells, totalCapacity).
     let rb = balance_request DasActionTransfer (o_Account ord) chainType address needCapacity (bp_EvmChainId req);
         p = \<lparr>by_orderId = bp_OrderId req, by_liveCells = liveCells, by_totalCapacity = totalCapacity,
              by_payCapacity = needCapacity, by_minCellCapacity = minCellCapacity,
              by_serverLiveCells = serverLiveCells, by_serverTotalCapacity = serverTotalCapacity,
              by_fromLockScript = dasLock, by_fromTypeScript = dasType, by_toLockScript = pa_Script parseAddress\<rparr> in
     bindM (orApi ApiCodeError500 (liftM (buildBalancePayTx B p))) (\<lambda>txParams.
       orApi ApiCodeError500 (buildTx H (bl_Sign B) rb txParams))))))))"

section \<open>balance\_withdraw.go\<close>

record withdraw_req =
  bw_KeyInfo :: key_info
  bw_ReceiverAddress :: string
  bw_Amount :: rat
  bw_WithdrawAll :: bool
  bw_EvmChainId :: int

text \<open>\<open>Amount.BigInt()\<close>, which drops the fraction, and \<open>IsUint64\<close>.\<close>

definition is_uint64 :: "rat \<Rightarrow> bool" where
  "is_uint64 x \<longleftrightarrow> (let i = (if 0 \<le> x then \<lfloor>x\<rfloor> else \<lceil>x\<rceil>) in 0 \<le> i \<and> i < 2 ^ 64)"

text \<open>The receiver's type script; small amounts are refused for short addresses and DAS locks.\<close>

definition withdraw_receiver :: "bal_lib \<Rightarrow> withdraw_req \<Rightarrow> parsed_address \<Rightarrow> string option dao" where
  "withdraw_receiver B req to =
     (if pa_Full to
      then bindM (orApi ApiCodeError500 (liftM (bl_ContractId B DasContractNameDispatchCellType))) (\<lambda>dasId.
        if pa_CodeHash to = dasId
        then if \<not> bw_WithdrawAll req \<and> big_uint64 (bw_Amount req) < bl_MinBalance B then apiErr ApiCodeParamsInvalid
          else bindM (orApi ApiCodeError500 (liftM (bl_ContractId B DasContractNameBalanceCellType))) (\<lambda>_.
            okM (Some (bl_ContractScript B DasContractNameBalanceCellType)))
        else okM None)
      else if \<not> bw_WithdrawAll req \<and> big_uint64 (bw_Amount req) < bl_MinCell B then apiErr ApiCodeParamsInvalid
      else okM None)"

record withdraw_params =
  wp_LiveCellList :: "(string \<times> 64 word) list"
  wp_InputsAmount :: "64 word"
  wp_WithdrawAmount :: "64 word"
  wp_ToLockScript :: string
  wp_ToTypeScript :: "string option"
  wp_FromLockScript :: string
  wp_FromTypeScript :: "string option"

definition buildBalanceWithdrawTx :: "bal_lib \<Rightarrow> withdraw_params \<Rightarrow> gerr + tx_params" where
  "buildBalanceWithdrawTx B p =
     bindR (wrapR ''GenActionDataWitness'' (ActionWitness (bl_Tx B) DasActionWithdrawFromWallet)) (\<lambda>actionWitness.
       Inr (pay_tx (wp_LiveCellList p) (pay_out (wp_WithdrawAmount p) (wp_ToLockScript p) (wp_ToTypeScript p)) ''''
              (change_cell (wp_InputsAmount p - wp_WithdrawAmount p) (wp_FromLockScript p) (wp_FromTypeScript p))
              actionWitness))"

definition doBalanceWithdraw :: "http_lib \<Rightarrow> bal_lib \<Rightarrow> withdraw_req \<Rightarrow> sign_info dao" where
  "doBalanceWithdraw H B req =
     bindM (orApi ApiCodeParamsInvalid (liftM (h_FormatChainTypeAddress H (bw_KeyInfo req)))) (\<lambda>(chainType, address).
     if \<not> is_uint64 (bw_Amount req) then apiErr ApiCodeAmountInvalid
     else bindM (orApi ApiCodeNotSupportAddress (liftM (bl_Parse B (bw_ReceiverAddress req)))) (\<lambda>to.
     if h_MainNet H \<noteq> pa_Mainnet to then apiErr ApiCodeParamsInvalid
     else bindM (withdraw_receiver B req to) (\<lambda>toTypeScript.
     bindM (orApi ApiCodeError500 (liftM (bl_HexToScript B True chainType address))) (\<lambda>(dasLock, dasType).
     let amount = big_uint64 (bw_Amount req); allAmount = (if bw_WithdrawAll req then 0 else amount) in
     bindM (cellsM (bl_Cells B dasLock allAmount (bl_MinBalance B + bl_OneCkb B))) (\<lambda>(liveCell, totalAmount).
     let withdrawAmount = (if bw_WithdrawAll req then totalAmount else amount);
         rb = balance_request DasActionWithdrawFromWallet '''' chainType address withdrawAmount (bw_EvmChainId req);
         p = \<lparr>wp_LiveCellList = liveCell, wp_InputsAmount = totalAmount, wp_WithdrawAmount = withdrawAmount,
              wp_ToLockScript = pa_Script to, wp_ToTypeScript = toTypeScript,
              wp_FromLockScript = dasLock, wp_FromTypeScript = dasType\<rparr> in
     bindM (orApi ApiCodeError500 (liftM (buildBalanceWithdrawTx B p))) (\<lambda>txParams.
       orApi ApiCodeError500 (buildTx H (bl_Sign B) rb txParams)))))))"

section \<open>balance\_transfer.go\<close>

record transfer_req =
  bt_KeyInfo :: key_info
  bt_TransferAddress :: string

definition buildBalanceTransferTx ::
  "bal_lib \<Rightarrow> (string \<times> 64 word) list \<Rightarrow> 64 word \<Rightarrow> 64 word \<Rightarrow> string \<Rightarrow> string \<Rightarrow> string option \<Rightarrow> gerr + tx_params" where
  "buildBalanceTransferTx B liveCells inputsAmount transferAmount fromScript toScript toType =
     bindR (wrapR ''GenActionDataWitness'' (ActionWitness (bl_Tx B) DasActionTransferBalance)) (\<lambda>actionWitness.
       Inr (pay_tx liveCells (pay_out transferAmount toScript toType) ''''
              (change_cell (inputsAmount - transferAmount) fromScript None) actionWitness))"

text \<open>All cells of a lock, whatever the error.\<close>

definition all_cells :: "bal_lib \<Rightarrow> string \<Rightarrow> ((string \<times> 64 word) list \<times> 64 word) dao" where
  "all_cells B lock = (case bl_Cells B lock 0 0 of Inl _ \<Rightarrow> apiErr ApiCodeError500 | Inr r \<Rightarrow> okM r)"

text \<open>The cells of the old lock, or else of the given short address.\<close>

definition transfer_cells :: "bal_lib \<Rightarrow> transfer_req \<Rightarrow> string \<Rightarrow> (string \<times> (string \<times> 64 word) list \<times> 64 word) dao" where
  "transfer_cells B req fromLock =
     bindM (all_cells B fromLock) (\<lambda>(cells, total).
     if bl_MinBalance B < total then okM (fromLock, cells, total)
     else if bt_TransferAddress req = '''' then apiErr ApiCodeInsufficientBalance
     else bindM (orApi ApiCodeParamsInvalid (liftM (bl_Parse B (bt_TransferAddress req)))) (\<lambda>parseAddress.
       if pa_Full parseAddress then apiErr ApiCodeParamsInvalid
       else bindM (all_cells B (pa_Script parseAddress)) (\<lambda>(cells', total').
         if total' \<le> bl_MinBalance B then apiErr ApiCodeInsufficientBalance
         else okM (pa_Script parseAddress, cells', total'))))"

definition doBalanceTransfer :: "http_lib \<Rightarrow> bal_lib \<Rightarrow> transfer_req \<Rightarrow> sign_info dao" where
  "doBalanceTransfer H B req =
     bindM (orApi ApiCodeParamsInvalid (liftM (h_FormatChainTypeAddress H (bt_KeyInfo req)))) (\<lambda>(chainType, address).
     if chainType \<noteq> h_ChainTypeEth H then apiErr ApiCodeParamsInvalid
     else bindM (orApi ApiCodeError500 (liftM (bl_HexToScript B True chainType address))) (\<lambda>(toLock, toType).
     bindM (orApi ApiCodeError500 (liftM (bl_HexToScript B False chainType address))) (\<lambda>(oldLock, _).
     bindM (transfer_cells B req oldLock) (\<lambda>(fromLock, liveCells, totalAmount).
     let rb = balance_request DasActionTransferBalance '''' chainType address totalAmount 0 in
     bindM (orApi ApiCodeError500 (liftM (buildBalanceTransferTx B liveCells totalAmount totalAmount fromLock toLock toType)))
       (\<lambda>txParams. orApi ApiCodeError500 (buildTx H (bl_Sign B) rb txParams))))))"

section \<open>balance\_deposit.go\<close>

record deposit_req =
  bd_FromCkbAddress :: string
  bd_ToCkbAddress :: string
  bd_Amount :: "64 word"

definition deposit_type :: "bal_lib \<Rightarrow> deposit_req \<Rightarrow> string \<Rightarrow> parsed_address \<Rightarrow> string option dao" where
  "deposit_type B req dasId to =
     (if pa_CodeHash to = dasId
      then bindM (orApi ApiCodeError500 (liftM (bl_ArgsEth712 B (pa_Args to)))) (\<lambda>eth712.
        if bd_Amount req < bl_OccupiedBalance B then apiErr ApiCodeError500
        else okM (if eth712 then Some (bl_ContractScript B DasContractNameBalanceCellType) else None))
      else okM None)"

definition buildBalanceDepositTx ::
  "bal_lib \<Rightarrow> (string \<times> 64 word) list \<Rightarrow> 64 word \<Rightarrow> 64 word \<Rightarrow> 64 word \<Rightarrow> string \<Rightarrow> string \<Rightarrow> string option \<Rightarrow> gerr + tx_params" where
  "buildBalanceDepositTx B liveCells tot amount fee fromLock toLock toType =
     bindR (wrapR ''GenActionDataWitness'' (bl_DepositWitness B)) (\<lambda>actionWitness.
       Inr (pay_tx liveCells (pay_out amount toLock toType) '''' (change_cell (tot - amount - fee) fromLock None) actionWitness))"

text \<open>\<open>doBalanceDeposit\<close> does what \<open>buildTx\<close> does, but for the fee.\<close>

definition cache_deposit :: "http_lib \<Rightarrow> bal_lib \<Rightarrow> string \<Rightarrow> builder_tx \<Rightarrow> sign_data list \<Rightarrow> sign_info dao" where
  "cache_deposit H B args b signList =
     (let S = bl_Sign B; action = DasActionBalanceDeposit in
      bindM clockM (\<lambda>nw.
      let signKey = SignKey H S nw (h_ChainTypeCkb H) args action;
          sic = \<lparr>sc_OrderId = '''', sc_ChainType = h_ChainTypeCkb H, sc_Address = args, sc_Action = action,
                 sc_Account = '''', sc_Capacity = 0, sc_BuilderTx = b, sc_AuctionInfo = zero_auction\<rparr> in
      thenM (orApi ApiCodeError500 (SetSignTxCache signKey (sl_Encode S sic)))
        (okM \<lparr>si_SignKey = signKey, si_SignAddress = '''', si_SignList = signList, si_MMJson = None, si_CKBTx = ''''\<rparr>)))"

definition doBalanceDeposit :: "http_lib \<Rightarrow> bal_lib \<Rightarrow> deposit_req \<Rightarrow> sign_info dao" where
  "doBalanceDeposit H B req =
     bindM (orApi ApiCodeError500 (liftM (bl_Parse B (bd_FromCkbAddress req)))) (\<lambda>src.
     bindM (orApi ApiCodeError500 (liftM (bl_Parse B (bd_ToCkbAddress req)))) (\<lambda>to.
     if h_MainNet H \<noteq> pa_Mainnet src \<or> h_MainNet H \<noteq> pa_Mainnet to then apiErr ApiCodeError500
     else bindM (orApi ApiCodeError500 (liftM (bl_ContractId B DasContractNameDispatchCellType))) (\<lambda>dasId.
     bindM (orApi ApiCodeError500 (liftM (bl_ContractId B DasContractNameBalanceCellType))) (\<lambda>_.
     if pa_CodeHash src = dasId then apiErr ApiCodeError500
     else bindM (deposit_type B req dasId to) (\<lambda>toTypeScript.
     let fee = 10000 in
     bindM (cellsM (bl_Cells B (pa_Script src) (bd_Amount req + fee) (bl_OccupiedBalance B))) (\<lambda>(liveCell, tot).
     bindM (orApi ApiCodeError500 (liftM (buildBalanceDepositTx B liveCell tot (bd_Amount req) fee
       (pa_Script src) (pa_Script to) toTypeScript))) (\<lambda>txParams.
     bindM (orApi ApiCodeError500 (liftM (sl_Build (bl_Sign B) txParams))) (\<lambda>b.
     bindM (orApi ApiCodeError500 (liftM (sl_Digests (bl_Sign B) b []))) (\<lambda>signList.
       cache_deposit H B (pa_Args src) b signList)))))))))"

section \<open>What the handlers keep\<close>

context db_reading
begin

lemma balance_steps:
  "upholds R (cellsM r)" "upholds R (server_share B s n)" "upholds R (order_to_pay oid)"
  "upholds R (withdraw_receiver B wreq to)" "upholds R (all_cells B l)"
  "upholds R (deposit_type B dreq i to)" "upholds R (cache_deposit H B a b sl)"
  unfolding cellsM_def server_share_def order_to_pay_def withdraw_receiver_def all_cells_def deposit_type_def
    cache_deposit_def Let_def
  by (intro read_rules cache_commands)+

lemma transfer_cells: "upholds R (transfer_cells B req l)"
  unfolding transfer_cells_def by (intro read_rules balance_steps)

lemma balances:
  "upholds R (doBalancePay H B preq)" "upholds R (doBalanceWithdraw H B wreq)"
  "upholds R (doBalanceTransfer H B treq)" "upholds R (doBalanceDeposit H B dreq)"
  unfolding doBalancePay_def doBalanceWithdraw_def doBalanceTransfer_def doBalanceDeposit_def Let_def
  by (intro edit_steps balance_steps transfer_cells)+

end

end
