(* ===== verification/DidCell.thy ===== *)
theory DidCell
  imports OrderRenew Balance
begin

text \<open>
  The handlers of DID cells: transfer and upgrade (\<open>did_cell_edit_owner.go\<close>), renewal
  (\<open>did_cell_renew.go\<close>), records (\<open>did_cell_edit_record.go\<close> and the unused branch of
  \<open>edit_records.go\<close>), transfer from a DAS lock (\<open>did_cell_das_lock_edit_owner.go\<close>), recycling
  (\<open>did_cell_recycle.go\<close>) and the price of an upgrade (\<open>did_cell_upgrade_price.go\<close>). The
  transaction itself is built by das-lib's \<open>BuildDidCellTx\<close>, a parameter.
\<close>

section \<open>The library\<close>

text \<open>\<open>core.DasAddressHex\<close>; the parsed address is there for CKB addresses that are no DAS lock.\<close>

record did_addr =
  da_ChainType :: int
  da_AddressHex :: string
  da_Alg :: int
  da_Parsed :: "parsed_address option"

text \<open>\<open>common.DidCellAction...\<close>.\<close>

datatype did_action = BuildEditOwner | BuildEditRecords | BuildRenew | BuildRecycle

text \<open>\<open>txbuilder.DidCellTxParams\<close>; outpoints and locks may be nil.\<close>

record did_params =
  dp_Action :: did_action
  dp_DidCellOutPoint :: "string option"
  dp_AccountCellOutPoint :: "string option"
  dp_EditRecords :: "record_item list"
  dp_EditOwnerLock :: "string option"
  dp_RenewYears :: int
  dp_NormalCellScript :: "string option"

definition no_did_params :: did_params where
  "no_did_params = \<lparr>dp_Action = BuildEditOwner, dp_DidCellOutPoint = None, dp_AccountCellOutPoint = None,
     dp_EditRecords = [], dp_EditOwnerLock = None, dp_RenewYears = 0, dp_NormalCellScript = None\<rparr>"

text \<open>
  \<open>dl_Address\<close> is \<open>FormatChainTypeAddress\<close>, \<open>dl_ChainId\<close> is \<open>GetChainId\<close>, \<open>dl_Parse\<close> is
  \<open>address.Parse\<close>, \<open>dl_Capacity\<close> is \<open>GetDidCellOccupiedCapacity\<close>, \<open>dl_Build\<close> is \<open>BuildDidCellTx\<close>,
  \<open>dl_NilTx\<close> the nil pointer it returns with an error, and \<open>dl_TxString\<close> is \<open>TxString\<close>. The argument
  bytes of a script are \<open>pa_Args\<close>, its code hash in hexadecimal \<open>pa_CodeHash\<close>.
\<close>

record did_lib =
  dl_Edit :: edit_lib
  dl_AlgAnyLock :: int
  dl_AlgBitcoin :: int
  dl_DasLockAlgs :: "int list"
  dl_CoinTypeCKB :: string
  dl_SighashAll :: string
  dl_PayServerAddress :: string
  dl_Address :: "key_info \<Rightarrow> gerr + did_addr"
  dl_ChainId :: "key_info \<Rightarrow> int"
  dl_Parse :: "string \<Rightarrow> gerr + parsed_address"
  dl_ScriptToHex :: "string \<Rightarrow> gerr + did_addr"
  dl_HexToScript :: "did_addr \<Rightarrow> gerr + string"
  dl_Bytes2Hex :: "string \<Rightarrow> string"
  dl_Capacity :: "string \<Rightarrow> string \<Rightarrow> gerr + 64 word"
  dl_Build :: "did_params \<Rightarrow> gerr + tx_params"
  dl_NilTx :: tx_params
  dl_TxString :: "tx_params \<Rightarrow> string"

text \<open>Reading a field of a nil parsed address panics.\<close>

definition parsedM :: "did_addr \<Rightarrow> parsed_address dao" where
  "parsedM a = (case da_Parsed a of None \<Rightarrow> errM GoPanic | Some p \<Rightarrow> okM p)"

lemma parsedM_ok [ok_iffs]: "parsedM a w = (Inr p, w') \<longleftrightarrow> da_Parsed a = Some p \<and> w' = w"
  by (auto simp: parsedM_def okM_def errM_def split: option.splits)

definition pay_server :: "did_lib \<Rightarrow> string dao" where
  "pay_server D = bindM (orApi ApiCodeError500 (liftM (dl_Parse D (dl_PayServerAddress D)))) (\<lambda>p. okM (pa_Script p))"

text \<open>\<open>buildTx\<close> with the first of its results too, the text of the transaction.\<close>

definition buildTxStr :: "http_lib \<Rightarrow> did_lib \<Rightarrow> build_req \<Rightarrow> tx_params \<Rightarrow> (string \<times> sign_info) dao" where
  "buildTxStr H D req p =
     bindM (buildTx H (el_Sign (dl_Edit D)) req p) (\<lambda>si.
       case signable (el_Sign (dl_Edit D)) req p of
         Inl e \<Rightarrow> errM e
       | Inr (b, _, _) \<Rightarrow> okM (dl_TxString D (bt_Transaction b), si))"

text \<open>The text goes to the user only when a DID cell is spent.\<close>

definition with_text :: "bool \<Rightarrow> string \<times> sign_info \<Rightarrow> sign_info" where
  "with_text did r = (if did then (snd r)\<lparr>si_CKBTx := fst r\<rparr> else snd r)"

section \<open>Who may spend which cell\<close>

definition did_account :: "http_lib \<Rightarrow> string \<Rightarrow> account_row dao" where
  "did_account H account =
     bindM (orApi ApiCodeDbError (GetAccountInfoByAccountId (h_AccountId H account))) (\<lambda>acc.
     bindM clockM (\<lambda>nw.
       if a_Id acc = 0 then apiErr ApiCodeAccountNotExist
       else if IsExpired acc nw then apiErr ApiCodeAccountIsExpired
       else if a_ParentAccountId acc \<noteq> '''' then apiErr ApiCodeParamsInvalid
       else okM acc))"

definition did_of :: "string \<Rightarrow> did_row dao" where
  "did_of accountId =
     bindM (orApi ApiCodeDbError (GetDidAccountByAccountIdWithoutArgs accountId)) (\<lambda>d.
       if d_Id d = 0 then apiErr ApiCodeAccountNotExist else okM d)"

definition same_args :: "did_lib \<Rightarrow> did_row \<Rightarrow> parsed_address \<Rightarrow> bool" where
  "same_args D d p \<longleftrightarrow> el_Hex2Bytes (dl_Edit D) (d_Args d) = pa_Args p"

text \<open>
  The cell to spend, the DID cell first: of an account that is not upgraded, its cell, for \<open>who\<close>,
  its owner or its manager; of an upgraded one, its DID cell, for the holder of the lock.
\<close>

definition authorised_cells ::
  "did_lib \<Rightarrow> string \<Rightarrow> did_addr \<Rightarrow> int \<times> string \<Rightarrow> account_row \<Rightarrow> (string option \<times> string option) dao" where
  "authorised_cells D accountId addr who acc =
     (if a_Status acc = AccountStatusNormal
      then if da_ChainType addr \<noteq> fst who \<or> \<not> EqualFold (da_AddressHex addr) (snd who)
           then apiErr ApiCodePermissionDenied
           else okM (None, Some (a_Outpoint acc))
      else if a_Status acc = AccountStatusOnUpgrade
      then bindM (did_of accountId) (\<lambda>d.
        case da_Parsed addr of
          None \<Rightarrow> apiErr ApiCodeNoAccountPermissions
        | Some p \<Rightarrow> if same_args D d p then okM (Some (d_Outpoint d), None)
                    else apiErr ApiCodeNoAccountPermissions)
      else apiErr ApiCodeAccountStatusNotNormal)"

section \<open>did\_cell\_edit\_owner.go\<close>

record did_owner_req =
  do_KeyInfo :: key_info
  do_Account :: string
  do_ReceiverCoinType :: string
  do_ReceiverAddress :: string
  do_PayTokenId :: PayTokenId
  do_IsUpgrade :: bool

record did_resp =
  dr_OrderId :: string
  dr_ReceiptAddress :: string
  dr_Amount :: rat
  dr_ContractAddress :: string
  dr_ClientSecret :: string
  dr_SignInfo :: sign_info

definition receiver_of :: "did_lib \<Rightarrow> string \<Rightarrow> string \<Rightarrow> did_addr dao" where
  "receiver_of D coinType key =
     orApi ApiCodeInvalidTargetAddress (liftM (dl_Address D
       \<lparr>ki_Type = ''blockchain'', ki_CoinType = coinType, ki_Key = key\<rparr>))"

text \<open>A DID cell only goes to another lock than those of DAS, and not to the default CKB lock.\<close>

definition check_receiver :: "did_lib \<Rightarrow> bool \<Rightarrow> did_addr \<Rightarrow> did_addr \<Rightarrow> unit dao" where
  "check_receiver D upgrade fr to =
     (let anyFrom = (da_Alg fr = dl_AlgAnyLock D); anyTo = (da_Alg to = dl_AlgAnyLock D);
          bad = apiErr ApiCodeAnyLockAddressInvalid;
          not_default = bindM (parsedM to) (\<lambda>p. if pa_CodeHash p = dl_SighashAll D then bad else okM ()) in
      if upgrade then if \<not> anyTo then bad else not_default
      else if anyFrom then if \<not> anyTo then bad else not_default
      else if anyTo then apiErr ApiCodeInvalidTargetAddress else okM ())"

text \<open>The new lock, and the capacity a new DID cell takes.\<close>

definition edit_owner_lock :: "did_lib \<Rightarrow> string \<Rightarrow> did_addr \<Rightarrow> did_addr \<Rightarrow> (string \<times> 64 word) dao" where
  "edit_owner_lock D account fr to =
     (let anyFrom = (da_Alg fr = dl_AlgAnyLock D); anyTo = (da_Alg to = dl_AlgAnyLock D) in
      if anyFrom \<and> anyTo then bindM (parsedM to) (\<lambda>p. okM (pa_Script p, 0))
      else if \<not> anyFrom
      then if \<not> anyTo
           then bindM (orApi ApiCodeParamsInvalid (liftM (dl_HexToScript D to))) (\<lambda>lock. okM (lock, 0))
           else bindM (parsedM to) (\<lambda>p.
             bindM (orApi ApiCodeError500 (liftM (dl_Capacity D (pa_Script p) account))) (\<lambda>capacity.
               okM (pa_Script p, capacity)))
      else apiErr ApiCodeParamsInvalid)"

text \<open>The dollars of a capacity, and the amount of a token for it.\<close>

definition capacity_usd :: "(rat \<Rightarrow> rat \<Rightarrow> nat \<Rightarrow> rat) \<Rightarrow> http_lib \<Rightarrow> 64 word \<Rightarrow> 64 word \<Rightarrow> gerr + rat" where
  "capacity_usd DivRound H capacity quote =
     divR DivRound (of_nat (unat (capacity div h_OneCkb H)) * of_nat (unat quote)) (h_UsdRateBase H) 6"

definition capacity_amount ::
  "(rat \<Rightarrow> rat \<Rightarrow> nat \<Rightarrow> rat) \<Rightarrow> http_lib \<Rightarrow> token_row \<Rightarrow> 64 word \<Rightarrow> 64 word \<Rightarrow> gerr + rat" where
  "capacity_amount DivRound H payToken capacity quote =
     bindR (capacity_usd DivRound H capacity quote) (\<lambda>usd.
     bindR (divR DivRound usd (k_Price payToken) 16) (\<lambda>tok.
       Inr (if k_TokenId payToken = TokenIdCkb then of_nat (unat capacity)
            else ceil_rat (tok * 10 ^ k_Decimals payToken))))"

definition did_order_row :: "http_lib \<Rightarrow> did_owner_req \<Rightarrow> did_addr \<Rightarrow> order_row" where
  "did_order_row H req fr =
     zero_order\<lparr>o_OrderType := OrderTypeSelf, o_AccountId := h_AccountId H (do_Account req),
       o_Account := do_Account req, o_Action := DasActionTransferAccount, o_ChainType := da_ChainType fr,
       o_Address := da_AddressHex fr, o_PayTokenId := do_PayTokenId req, o_IsDidCell := IsDidCellYes\<rparr>"

text \<open>The rows are made as for the other orders, but unipay gets the address as the user wrote it.\<close>

definition unipay_rows_for ::
  "http_lib \<Rightarrow> string \<Rightarrow> order_row \<Rightarrow> rat \<Rightarrow> (order_row \<times> pay_row \<times> string \<times> string) dao" where
  "unipay_rows_for H key = unipay_order_rows (H\<lparr>h_HexToNormal := \<lambda>_ _. Inr key\<rparr>)"

definition no_sign_info :: sign_info where
  "no_sign_info = \<lparr>si_SignKey = '''', si_SignAddress = '''', si_SignList = [], si_MMJson = None, si_CKBTx = ''''\<rparr>"

definition no_did_resp :: did_resp where
  "no_did_resp = \<lparr>dr_OrderId = '''', dr_ReceiptAddress = '''', dr_Amount = 0, dr_ContractAddress = '''',
     dr_ClientSecret = '''', dr_SignInfo = no_sign_info\<rparr>"

definition did_resp_of :: "order_row \<Rightarrow> string \<Rightarrow> string \<Rightarrow> string \<Rightarrow> did_resp" where
  "did_resp_of ord addr contractAddress clientSecret =
     \<lparr>dr_OrderId = o_OrderId ord, dr_ReceiptAddress = addr, dr_Amount = o_PayAmount ord,
      dr_ContractAddress = contractAddress, dr_ClientSecret = clientSecret, dr_SignInfo = no_sign_info\<rparr>"

text \<open>The order that pays the capacity of an upgrade.\<close>

definition upgrade_order ::
  "(rat \<Rightarrow> rat \<Rightarrow> nat \<Rightarrow> rat) \<Rightarrow> http_lib \<Rightarrow> token_map \<Rightarrow> did_owner_req \<Rightarrow> did_addr \<Rightarrow> 64 word \<Rightarrow> did_resp dao" where
  "upgrade_order DivRound H mapToken req fr capacity =
     (if do_PayTokenId req = TokenIdOther '''' then apiErr ApiCodeParamsInvalid
      else if GetUnipayAddress H (do_PayTokenId req) = '''' then apiErr ApiCodeError500
      else let payToken = GetTokenInfo mapToken (do_PayTokenId req) in
      if k_TokenId payToken = TokenIdOther '''' then apiErr ApiCodeParamsInvalid
      else bindM (orApi ApiCodeError500 (liftM (h_QuoteCell H))) (\<lambda>quote.
      bindM (liftM (capacity_amount DivRound H payToken capacity quote)) (\<lambda>amount.
      bindM (unipay_rows_for H (ki_Key (do_KeyInfo req)) (did_order_row H req fr) amount)
        (\<lambda>(ord, pay, contractAddress, clientSecret).
      thenM (orApi ApiCodeError500 (CreateOrderWithPayment ord pay))
        (okM (did_resp_of ord (GetUnipayAddress H (do_PayTokenId req)) contractAddress clientSecret))))))"

definition did_request :: "string \<Rightarrow> DasAction \<Rightarrow> string \<Rightarrow> did_addr \<Rightarrow> int \<Rightarrow> build_req" where
  "did_request orderId action account addr evmChainId =
     (edit_request action account (da_ChainType addr) (da_AddressHex addr) evmChainId)\<lparr>rb_OrderId := orderId\<rparr>"

definition doDidCellEditOwner ::
  "(rat \<Rightarrow> rat \<Rightarrow> nat \<Rightarrow> rat) \<Rightarrow> http_lib \<Rightarrow> did_lib \<Rightarrow> token_map \<Rightarrow> did_owner_req \<Rightarrow> did_resp dao" where
  "doDidCellEditOwner DivRound H D mapToken req0 =
     (let req = req0\<lparr>do_Account := ToLower (do_Account req0)\<rparr>; account = do_Account req in
      bindM (orApi ApiCodeParamsInvalid (liftM (dl_Address D (do_KeyInfo req)))) (\<lambda>fr.
      if da_Alg fr = dl_AlgBitcoin D then apiErr ApiCodeParamsInvalid
      else bindM (receiver_of D (do_ReceiverCoinType req) (do_ReceiverAddress req)) (\<lambda>to.
      bindM (check_receiver D (do_IsUpgrade req) fr to) (\<lambda>_.
      if EqualFold (ki_Key (do_KeyInfo req)) (do_ReceiverAddress req) then apiErr ApiCodeSameLock
      else bindM (checkSystemUpgrade H) (\<lambda>_.
      if \<not> IsLatestBlockNumber (h_ParserUrl H) (h_ParserLatest H) then apiErr ApiCodeSyncBlockNumber
      else bindM (did_account H account) (\<lambda>acc.
      bindM (authorised_cells D (h_AccountId H account) fr (owner_of acc) acc) (\<lambda>(didCell, accCell).
      bindM (edit_owner_lock D account fr to) (\<lambda>(lock, capacity).
      bindM (pay_server D) (\<lambda>normal.
      bindM (orApi ApiCodeError500 (liftM (dl_Build D (no_did_params
        \<lparr>dp_Action := BuildEditOwner, dp_DidCellOutPoint := didCell, dp_AccountCellOutPoint := accCell,
         dp_EditOwnerLock := Some lock, dp_NormalCellScript := Some normal\<rparr>)))) (\<lambda>txParams.
      bindM (if 0 < capacity then upgrade_order DivRound H mapToken req fr capacity else okM no_did_resp) (\<lambda>resp.
      bindM (orApiBy checkBuildTxErr (buildTxStr H D (did_request (dr_OrderId resp) DasActionTransferAccount account fr
        (dl_ChainId D (do_KeyInfo req))) txParams)) (\<lambda>si.
      okM (resp\<lparr>dr_SignInfo := with_text (a_Status acc = AccountStatusOnUpgrade) si\<rparr>)))))))))))))"

section \<open>did\_cell\_das\_lock\_edit\_owner.go\<close>

record das_lock_req =
  dk_KeyInfo :: key_info
  dk_Account :: string
  dk_ReceiverCoinType :: string
  dk_ReceiverAddress :: string

text \<open>\<open>dl_DasLockAlgs\<close> lists the algorithms Eth, Tron, Eth712 and Webauthn.\<close>

definition doDidCellDasLockEditOwner :: "http_lib \<Rightarrow> did_lib \<Rightarrow> das_lock_req \<Rightarrow> sign_info dao" where
  "doDidCellDasLockEditOwner H D req =
     (let account = ToLower (dk_Account req) in
      if ki_CoinType (dk_KeyInfo req) \<noteq> dl_CoinTypeCKB D then apiErr ApiCodeParamsInvalid
      else bindM (orApi ApiCodeParamsInvalid (liftM (dl_Parse D (ki_Key (dk_KeyInfo req))))) (\<lambda>addrFrom.
      bindM (orApi ApiCodeParamsInvalid (liftM (dl_ScriptToHex D (pa_Script addrFrom)))) (\<lambda>formHex.
      if da_Alg formHex \<notin> set (dl_DasLockAlgs D) then apiErr ApiCodeParamsInvalid
      else bindM (receiver_of D (dk_ReceiverCoinType req) (dk_ReceiverAddress req)) (\<lambda>to.
      if EqualFold (ki_Key (dk_KeyInfo req)) (dk_ReceiverAddress req) then apiErr ApiCodeSameLock
      else bindM (checkSystemUpgrade H) (\<lambda>_.
      if \<not> IsLatestBlockNumber (h_ParserUrl H) (h_ParserLatest H) then apiErr ApiCodeSyncBlockNumber
      else bindM (did_account H account) (\<lambda>acc.
      if a_Status acc \<noteq> AccountStatusOnUpgrade then apiErr ApiCodeParamsInvalid
      else bindM (did_of (h_AccountId H account)) (\<lambda>d.
      if \<not> same_args D d addrFrom then apiErr ApiCodeNoAccountPermissions
      else if da_Alg to \<noteq> dl_AlgAnyLock D then apiErr ApiCodeParamsInvalid
      else bindM (parsedM to) (\<lambda>p.
      bindM (pay_server D) (\<lambda>normal.
      bindM (orApi ApiCodeError500 (liftM (dl_Build D (no_did_params
        \<lparr>dp_Action := BuildEditOwner, dp_DidCellOutPoint := Some (d_Outpoint d),
         dp_EditOwnerLock := Some (pa_Script p), dp_NormalCellScript := Some normal\<rparr>)))) (\<lambda>txParams.
      orApiBy checkBuildTxErr (buildTx H (el_Sign (dl_Edit D))
        (did_request '''' DasActionTransferAccount account formHex (dl_ChainId D (dk_KeyInfo req))) txParams)))))))))))"

section \<open>did\_cell\_renew.go\<close>

record did_renew_req =
  dn_KeyInfo :: key_info
  dn_Account :: string
  dn_PayTokenId :: PayTokenId
  dn_RenewYears :: int

text \<open>The request as \<open>checkRenewOrder\<close> and the row of a renewal read it: the order keeps the key.\<close>

definition renew_req_of :: "did_renew_req \<Rightarrow> did_addr \<Rightarrow> renew_req" where
  "renew_req_of req addr =
     \<lparr>n_KeyInfo = dn_KeyInfo req, n_ChainType = da_ChainType addr, n_Address = ki_Key (dn_KeyInfo req),
      n_Account = dn_Account req, n_PayTokenId = dn_PayTokenId req, n_PayType = '''',
      n_RenewYears = dn_RenewYears req\<rparr>"

text \<open>The transaction that renews an upgraded account.\<close>

definition did_renew_tx :: "did_lib \<Rightarrow> did_renew_req \<Rightarrow> string \<Rightarrow> account_row \<Rightarrow> tx_params option dao" where
  "did_renew_tx D req accountId acc =
     (if a_Status acc \<noteq> AccountStatusOnUpgrade then okM None
      else bindM (did_of accountId) (\<lambda>d.
      bindM (pay_server D) (\<lambda>normal.
      bindM (orApi ApiCodeError500 (liftM (dl_Build D (no_did_params
        \<lparr>dp_Action := BuildRenew, dp_DidCellOutPoint := Some (d_Outpoint d),
         dp_AccountCellOutPoint := Some (a_Outpoint acc), dp_RenewYears := dn_RenewYears req,
         dp_NormalCellScript := Some normal\<rparr>)))) (\<lambda>tx. okM (Some tx)))))"

definition did_das_balance :: "http_lib \<Rightarrow> did_lib \<Rightarrow> did_renew_req \<Rightarrow> did_addr \<Rightarrow> rat \<Rightarrow> unit dao" where
  "did_das_balance H D req addr amount =
     (if dn_PayTokenId req \<noteq> TokenIdDas then okM ()
      else if da_Alg addr = dl_AlgAnyLock D then apiErr ApiCodeParamsInvalid
      else bindM (orApi ApiCodeError500 (liftM (dl_HexToScript D addr))) (\<lambda>dasLock.
        case h_BalanceCells H dasLock (big_uint64 amount + h_OneCkb H) of
          Some e \<Rightarrow> apiErr (checkBalanceErr e)
        | None \<Rightarrow> okM ()))"

text \<open>The transaction is built for the order before the order is written.\<close>

definition did_renew_sign ::
  "http_lib \<Rightarrow> did_lib \<Rightarrow> did_renew_req \<Rightarrow> order_row \<Rightarrow> tx_params option \<Rightarrow> (order_row \<times> sign_info) dao" where
  "did_renew_sign H D req ord txParams =
     (case txParams of
        None \<Rightarrow> okM (ord, no_sign_info)
      | Some tx \<Rightarrow>
          bindM (orApiBy checkBuildTxErr (buildTxStr H D
            ((edit_request DasActionRenewAccount (dn_Account req) 0 (ki_Key (dn_KeyInfo req))
               (dl_ChainId D (dn_KeyInfo req)))\<lparr>rb_OrderId := o_OrderId ord\<rparr>) tx)) (\<lambda>si.
          okM (ord\<lparr>o_IsDidCell := IsDidCellYes\<rparr>, with_text True si)))"

definition doDidCellRenew ::
  "(rat \<Rightarrow> rat \<Rightarrow> nat \<Rightarrow> rat) \<Rightarrow> http_lib \<Rightarrow> renew_lib \<Rightarrow> did_lib \<Rightarrow> token_map \<Rightarrow> did_renew_req \<Rightarrow> did_resp dao" where
  "doDidCellRenew DivRound H G D mapToken req0 =
     bindM (orApi ApiCodeError500 (liftM (dl_Address D (dn_KeyInfo req0)))) (\<lambda>addr.
     if dn_Account req0 = '''' \<or> \<not> HasSuffix (dn_Account req0) (h_Suffix H) then apiErr ApiCodeParamsInvalid
     else let req = req0\<lparr>dn_Account := ToLower (dn_Account req0)\<rparr>; rreq = renew_req_of req addr in
     if IsTokenIdCkbInternal (dn_PayTokenId req) then apiErr ApiCodeParamsInvalid
     else bindM (checkSystemUpgrade H) (\<lambda>_.
     if \<not> IsLatestBlockNumber (h_ParserUrl H) (h_ParserLatest H) then apiErr ApiCodeSyncBlockNumber
     else bindM (checkRenewOrder H G rreq) (\<lambda>acc.
     bindM (did_renew_tx D req (h_AccountId H (dn_Account req)) acc) (\<lambda>txParams.
     bindM (orApi ApiCodeError500 (liftM (cell_chars G acc))) (\<lambda>len.
     bindM (orApi ApiCodeError500 (liftM (getOrderAmount DivRound H mapToken len '''' (dn_Account req) ''''
       (dn_RenewYears req) True (dn_PayTokenId req)))) (\<lambda>(usd, ckb, amount).
     if usd \<le> 0 \<or> ckb \<le> 0 \<or> amount \<le> 0 then apiErr ApiCodeError500
     else bindM (did_das_balance H D req addr amount) (\<lambda>_.
     if h_UniPayUrl H = '''' then apiErr ApiCodeError500
     else bindM (unipay_rows_for H (ki_Key (dn_KeyInfo req))
       (renew_row H rreq (renew_content (dn_RenewYears req) usd ckb)) amount)
       (\<lambda>(ord0, pay, contractAddress, clientSecret).
     let receipt = GetUnipayAddress H (o_PayTokenId ord0) in
     if receipt = '''' then apiErr ApiCodeError500
     else bindM (did_renew_sign H D req ord0 txParams) (\<lambda>(ord, si).
     thenM (orApi ApiCodeError500 (CreateOrderWithPayment ord pay))
    (thenM (emitM (LarkOrder (o_OrderId ord)))
       (okM ((did_resp_of ord receipt contractAddress clientSecret)\<lparr>dr_SignInfo := si\<rparr>))))))))))))"

section \<open>did\_cell\_edit\_record.go\<close>

record did_record_req =
  dc_KeyInfo :: key_info
  dc_Account :: string
  dc_Records :: "req_record list"

text \<open>The records of a request, all of which must be allowed.\<close>

definition checked_records :: "edit_lib \<Rightarrow> req_record list \<Rightarrow> record_item list dao" where
  "checked_records E recs =
     bindM (orApi ApiCodeError500 (liftM (el_RecordKeys E))) (\<lambda>keys.
       if \<exists>v \<in> set recs. \<not> record_allowed keys v then apiErr ApiCodeRecordInvalid
       else okM (map record_of recs))"

text \<open>The error of the builder is dropped.\<close>

definition built_or_nil :: "did_lib \<Rightarrow> did_params \<Rightarrow> tx_params" where
  "built_or_nil D p = (case dl_Build D p of Inr tx \<Rightarrow> tx | Inl _ \<Rightarrow> dl_NilTx D)"

definition doDidCellEditRecord :: "http_lib \<Rightarrow> did_lib \<Rightarrow> did_record_req \<Rightarrow> sign_info dao" where
  "doDidCellEditRecord H D req =
     (let account = ToLower (dc_Account req) in
      bindM (orApi ApiCodeParamsInvalid (liftM (dl_Address D (dc_KeyInfo req)))) (\<lambda>addr.
      if account = '''' then apiErr ApiCodeParamsInvalid
      else bindM (checkSystemUpgrade H) (\<lambda>_.
      if \<not> IsLatestBlockNumber (h_ParserUrl H) (h_ParserLatest H) then apiErr ApiCodeSyncBlockNumber
      else bindM (did_account H account) (\<lambda>acc.
      bindM (authorised_cells D (h_AccountId H account) addr (manager_of acc) acc) (\<lambda>(didCell, accCell).
      bindM (checked_records (dl_Edit D) (dc_Records req)) (\<lambda>recs.
      let txParams = built_or_nil D (no_did_params
            \<lparr>dp_Action := BuildEditRecords, dp_DidCellOutPoint := didCell, dp_AccountCellOutPoint := accCell,
             dp_EditRecords := recs\<rparr>) in
      if 5000 \<le> el_RecordsSize (dl_Edit D) recs then apiErr ApiCodeTooManyRecords
      else bindM (orApiBy doBuildTxErr (buildTxStr H D (did_request '''' DasActionEditRecords account addr
        (dl_ChainId D (dc_KeyInfo req))) txParams)) (\<lambda>si.
      okM (with_text (a_Status acc = AccountStatusOnUpgrade) si))))))))"

text \<open>\<open>doEditRecordsForDidCell\<close> of \<open>edit_records.go\<close>, which no route reaches.\<close>

definition doEditRecordsForDidCell ::
  "http_lib \<Rightarrow> did_lib \<Rightarrow> edit_records_req \<Rightarrow> parsed_address \<Rightarrow> sign_info dao" where
  "doEditRecordsForDidCell H D req addrParse =
     (if er_Account req = '''' then apiErr ApiCodeParamsInvalid
      else bindM (orApi ApiCodeDbError (GetDidAccountByAccountId (h_AccountId H (er_Account req))
        (dl_Bytes2Hex D (pa_Args addrParse)))) (\<lambda>d.
      bindM clockM (\<lambda>nw.
      if d_Id d = 0 then apiErr ApiCodeAccountNotExist
      else if sint (d_ExpiredAt d) \<le> nw div 1000 then apiErr ApiCodeAccountIsExpired
      else bindM (checked_records (dl_Edit D) (er_Records req)) (\<lambda>recs.
      let txParams = built_or_nil D (no_did_params
            \<lparr>dp_Action := BuildEditRecords, dp_DidCellOutPoint := Some (d_Outpoint d), dp_EditRecords := recs\<rparr>) in
      orApiBy doBuildTxErr (buildTx H (el_Sign (dl_Edit D)) (edit_request DasActionEditRecords (er_Account req) 0
        (ki_Key (er_KeyInfo req)) (er_EvmChainId req)) txParams)))))"

section \<open>did\_cell\_recycle.go and did\_cell\_upgrade\_price.go\<close>

record did_account_req =
  dq_KeyInfo :: key_info
  dq_Account :: string

text \<open>The latest expiry a DID cell can be recycled with; the difference is one of 64 bits.\<close>

definition recycle_before :: "http_lib \<Rightarrow> renew_lib \<Rightarrow> 64 word dao" where
  "recycle_before H G =
     bindM (orApi ApiCodeError500 (liftM (h_TimeCell H))) (\<lambda>timestamp.
     bindM (orApi ApiCodeError500 (liftM (nl_GracePeriod G))) (\<lambda>builder.
     bindM (orApi ApiCodeError500 (liftM builder)) (\<lambda>grace.
       okM (of_int timestamp - ucast grace))))"

definition doDidCellRecycle :: "http_lib \<Rightarrow> renew_lib \<Rightarrow> did_lib \<Rightarrow> did_account_req \<Rightarrow> sign_info dao" where
  "doDidCellRecycle H G D req =
     (let account = ToLower (dq_Account req) in
      bindM (orApi ApiCodeParamsInvalid (liftM (dl_Address D (dq_KeyInfo req)))) (\<lambda>addr.
      if da_Alg addr \<noteq> dl_AlgAnyLock D then apiErr ApiCodeParamsInvalid
      else bindM (parsedM addr) (\<lambda>p.
      bindM (orApi ApiCodeDbError (GetDidAccountByAccountId (h_AccountId H account) (dl_Bytes2Hex D (pa_Args p)))) (\<lambda>d.
      if d_Id d = 0 then apiErr ApiCodeAccountNotExist
      else bindM (recycle_before H G) (\<lambda>expiredAt.
      if expiredAt < d_ExpiredAt d then apiErr ApiCodeNotYetDueForRecycle
      else bindM (orApi ApiCodeError500 (liftM (dl_Build D (no_did_params
        \<lparr>dp_Action := BuildRecycle, dp_DidCellOutPoint := Some (d_Outpoint d)\<rparr>)))) (\<lambda>txParams.
      bindM (orApiBy doBuildTxErr (buildTxStr H D (did_request '''' DidCellActionRecycle account addr 0) txParams)) (\<lambda>si.
      okM (with_text True si))))))))"

text \<open>The price in dollars and in CKB, the latter read as signed.\<close>

definition doDidCellUpgradePrice ::
  "(rat \<Rightarrow> rat \<Rightarrow> nat \<Rightarrow> rat) \<Rightarrow> http_lib \<Rightarrow> did_lib \<Rightarrow> did_account_req \<Rightarrow> (rat \<times> rat) dao" where
  "doDidCellUpgradePrice DivRound H D req =
     (let account = ToLower (dq_Account req) in
      bindM (orApi ApiCodeParamsInvalid (liftM (dl_Address D (dq_KeyInfo req)))) (\<lambda>addr.
      if da_Alg addr \<noteq> dl_AlgAnyLock D then apiErr ApiCodeParamsInvalid
      else bindM (orApi ApiCodeError500 (liftM (h_QuoteCell H))) (\<lambda>quote.
      bindM (parsedM addr) (\<lambda>p.
      bindM (orApi ApiCodeError500 (liftM (dl_Capacity D (pa_Script p) account))) (\<lambda>capacity.
      bindM (liftM (capacity_usd DivRound H capacity quote)) (\<lambda>usd.
        okM (usd, of_int (sint capacity))))))))"

section \<open>What the handlers keep\<close>

context db_reading
begin

lemma parsedM: "upholds R (parsedM a)"
  unfolding parsedM_def by (auto intro: rules split: option.splits)

lemma did_checks:
  "upholds R (pay_server D)" "upholds R (buildTxStr H D rb p)" "upholds R (did_account H acc)"
  "upholds R (did_of aid)" "upholds R (receiver_of D ct k)" "upholds R (check_receiver D u fr to)"
  "upholds R (edit_owner_lock D acc fr to)" "upholds R (recycle_before H G)" "upholds R (checked_records E recs)"
  unfolding pay_server_def buildTxStr_def did_account_def did_of_def receiver_of_def check_receiver_def
    edit_owner_lock_def recycle_before_def checked_records_def Let_def
  by (intro edit_steps parsedM)+

lemma authorised_cells: "upholds R (authorised_cells D accountId addr who acc)"
  unfolding authorised_cells_def by (intro edit_steps did_checks)

lemma did_renew_checks:
  "upholds R (did_renew_tx D req aid acc)" "upholds R (did_das_balance H D req addr amount)"
  "upholds R (did_renew_sign H D req ord tx)"
  unfolding did_renew_tx_def did_das_balance_def did_renew_sign_def
  by (intro edit_steps did_checks)+

lemmas did_rules = edit_steps did_checks did_renew_checks authorised_cells parsedM checkRenewOrder

lemma did_readers:
  "upholds R (doDidCellDasLockEditOwner H D kreq)" "upholds R (doDidCellEditRecord H D creq)"
  "upholds R (doEditRecordsForDidCell H D ereq p)" "upholds R (doDidCellRecycle H G D qreq)"
  "upholds R (doDidCellUpgradePrice dr H D qreq)"
  unfolding doDidCellDasLockEditOwner_def doDidCellEditRecord_def doEditRecordsForDidCell_def
    doDidCellRecycle_def doDidCellUpgradePrice_def Let_def
  by (intro did_rules)+

end

context dao_contract
begin

lemma unipay_rows_for: "upholds R (unipay_rows_for H key row amount)"
  unfolding unipay_rows_for_def by (rule order_rows)

lemma upgrade_order: "upholds R (upgrade_order dr H m req fr c)"
  unfolding upgrade_order_def Let_def by (intro write_rules unipay_rows_for)

lemma did_writers:
  "upholds R (doDidCellEditOwner dr H D m oreq)" "upholds R (doDidCellRenew dr H G D m nreq)"
  unfolding doDidCellEditOwner_def doDidCellRenew_def Let_def
  by (intro did_rules writes upgrade_order unipay_rows_for)+

lemmas did_cell_rules = did_readers did_writers

end

end
