(* ===== verification/DaoPages.thy ===== *)
theory DaoPages
  imports DaoContract
begin

text \<open>
  The statements of \<open>src/dao\<close> behind the pages: accounts, transactions, records, reverse records and
  rewards of the parser's database, DID cells, and the auction orders joined with their pending
  transactions. Rows come in the order of the statement, and rows it leaves equal, or does not
  order, in that of the table.
\<close>

section \<open>SQL\<close>

text \<open>\<open>LIMIT limit OFFSET offset\<close>.\<close>

definition page :: "int \<Rightarrow> int \<Rightarrow> 'a list \<Rightarrow> 'a list" where
  "page limit offset xs = take (nat limit) (drop (nat offset) xs)"

text \<open>\<open>text LIKE pattern\<close>, the pattern first: \<open>%\<close> is any text, \<open>_\<close> any character, and a backslash
  takes the next character as it is. The collation does not tell letters by case.\<close>

definition same_letter :: "char \<Rightarrow> char \<Rightarrow> bool" where
  "same_letter a b \<longleftrightarrow>
     (let low = (\<lambda>c. let n = of_char c :: nat in if 65 \<le> n \<and> n \<le> 90 then n + 32 else n) in low a = low b)"

function (sequential) like :: "string \<Rightarrow> string \<Rightarrow> bool" where
  "like [] s = (s = [])"
| "like (p # ps) s =
     (if p = CHR ''%'' then if s = [] then like ps s else like ps s \<or> like (p # ps) (tl s)
      else if s = [] then False
      else if p = CHR ''_'' then like ps (tl s)
      else if p = CHR 0x5C \<and> ps \<noteq> [] then same_letter (hd ps) (hd s) \<and> like (tl ps) (tl s)
      else same_letter p (hd s) \<and> like ps (tl s))"
  by pat_completeness auto
termination
  by (relation "measure (\<lambda>(p, s). length p + length s)") (auto simp: Suc_diff_Suc neq_Nil_conv)

declare like.simps [simp del]

definition keyword_where :: "string \<Rightarrow> string \<Rightarrow> bool" where
  "keyword_where keyword account \<longleftrightarrow> keyword = '''' \<or> like (''%'' @ keyword @ ''%'') account"

text \<open>\<open>ORDER BY\<close> a comparison.\<close>

fun insert_by :: "('r \<Rightarrow> 'r \<Rightarrow> bool) \<Rightarrow> 'r \<Rightarrow> 'r list \<Rightarrow> 'r list" where
  "insert_by lt r [] = [r]"
| "insert_by lt r (s # ss) = (if lt s r then s # insert_by lt r ss else r # s # ss)"

definition sort_by :: "('r \<Rightarrow> 'r \<Rightarrow> bool) \<Rightarrow> 'r list \<Rightarrow> 'r list" where
  "sort_by lt rs = foldr (insert_by lt) rs []"

section \<open>Accounts\<close>

datatype Category =
    CategoryDefault | CategoryMainAccount | CategorySubAccount | CategoryOnSale | CategoryExpireSoon
  | CategoryToBeRecycled | CategoryMainAccountDisableSecondLevelDID
  | CategoryMainAccountEnableSecondLevelDID | CategoryOther int

definition owned_by :: "int \<Rightarrow> string \<Rightarrow> account_row \<Rightarrow> bool" where
  "owned_by chainType address a \<longleftrightarrow> a_OwnerChainType a = chainType \<and> a_Owner a = address"

definition managed_by :: "int \<Rightarrow> string \<Rightarrow> account_row \<Rightarrow> bool" where
  "managed_by chainType address a \<longleftrightarrow> a_ManagerChainType a = chainType \<and> a_Manager a = address"

text \<open>\<open>Where(A).Or(B).Where(C)\<close> reads \<open>A OR B AND C\<close>.\<close>

definition SearchAccountList :: "int \<Rightarrow> string \<Rightarrow> account_row list dao" where
  "SearchAccountList chainType address =
     bindM clockM (\<lambda>nw. queryM (\<lambda>t. filter (\<lambda>a. owned_by chainType address a
        \<or> managed_by chainType address a \<and> a_Status a = AccountStatusNormal
          \<and> nw div 1000 - 90 * 86400 \<le> uint (a_ExpiredAt a)) (accounts t)))"

fun category_where :: "bool \<Rightarrow> int \<Rightarrow> Category \<Rightarrow> account_row \<Rightarrow> bool" where
  "category_where mainNet nw CategoryMainAccount a \<longleftrightarrow> a_ParentAccountId a = ''''"
| "category_where mainNet nw CategoryMainAccountDisableSecondLevelDID a \<longleftrightarrow>
     a_ParentAccountId a = '''' \<and> a_EnableSubAccount a = 0"
| "category_where mainNet nw CategoryMainAccountEnableSecondLevelDID a \<longleftrightarrow>
     a_ParentAccountId a = '''' \<and> a_EnableSubAccount a = 1"
| "category_where mainNet nw CategorySubAccount a \<longleftrightarrow> a_ParentAccountId a \<noteq> ''''"
| "category_where mainNet nw CategoryOnSale a \<longleftrightarrow> a_Status a = AccountStatusOnSale"
| "category_where mainNet nw CategoryExpireSoon a \<longleftrightarrow>
     nw div 1000 \<le> uint (a_ExpiredAt a) \<and> uint (a_ExpiredAt a) \<le> nw div 1000 + 30 * 86400"
| "category_where mainNet nw CategoryToBeRecycled a \<longleftrightarrow>
     uint (a_ExpiredAt a) \<le> nw div 1000
     \<and> nw div 1000 - (if mainNet then 90 else 30) * 86400 \<le> uint (a_ExpiredAt a)"
| "category_where mainNet nw _ a \<longleftrightarrow> True"

text \<open>The conditions the list and its count share.\<close>

definition account_where :: "bool \<Rightarrow> int \<Rightarrow> int \<Rightarrow> string \<Rightarrow> string \<Rightarrow> Category \<Rightarrow> account_row \<Rightarrow> bool" where
  "account_where mainNet nw chainType address keyword category a \<longleftrightarrow>
     (owned_by chainType address a \<or> managed_by chainType address a)
     \<and> a_Status a \<noteq> AccountStatusOnCross \<and> a_Status a \<noteq> AccountStatusOnUpgrade
     \<and> nw div 1000 - 90 * 86400 \<le> uint (a_ExpiredAt a)
     \<and> category_where mainNet nw category a \<and> keyword_where keyword (a_Account a)"

definition SearchAccountListWithPage ::
  "bool \<Rightarrow> int \<Rightarrow> string \<Rightarrow> string \<Rightarrow> int \<Rightarrow> int \<Rightarrow> Category \<Rightarrow> account_row list dao" where
  "SearchAccountListWithPage mainNet chainType address keyword limit offset category =
     bindM clockM (\<lambda>nw. queryM (\<lambda>t. page limit offset (sort_key (\<lambda>a. uint (a_ExpiredAt a))
        (filter (account_where mainNet nw chainType address keyword category) (accounts t)))))"

definition GetAccountsCount :: "bool \<Rightarrow> int \<Rightarrow> string \<Rightarrow> string \<Rightarrow> Category \<Rightarrow> nat dao" where
  "GetAccountsCount mainNet chainType address keyword category =
     bindM clockM (\<lambda>nw. queryM (\<lambda>t. length
        (filter (account_where mainNet nw chainType address keyword category) (accounts t))))"

section \<open>Records and reverse records\<close>

definition SearchRecordsByAccount :: "string \<Rightarrow> records_row list dao" where
  "SearchRecordsByAccount accountId = queryM (\<lambda>t. filter (\<lambda>r. rc_AccountId r = accountId) (records t))"

definition zero_records :: records_row where
  "zero_records = \<lparr>rc_Id = 0, rc_AccountId = '''', rc_Account = '''', rc_Key = '''', rc_Type = '''',
     rc_Label = '''', rc_Value = '''', rc_Ttl = ''''\<rparr>"

definition SearchAccountReverseRecords :: "string \<Rightarrow> string \<Rightarrow> records_row dao" where
  "SearchAccountReverseRecords account address =
     queryM (\<lambda>t. first_or zero_records (filter (\<lambda>r. rc_Account r = account \<and> rc_Type r = ''address''
        \<and> rc_Value r = address) (records t)))"

definition reverse_before :: "reverse_row \<Rightarrow> reverse_row \<Rightarrow> bool" where
  "reverse_before a b \<longleftrightarrow> rv_BlockNumber b < rv_BlockNumber a
     \<or> rv_BlockNumber b = rv_BlockNumber a \<and> str_less (rv_Outpoint b) (rv_Outpoint a)"

definition SearchLatestReverse :: "int \<Rightarrow> string \<Rightarrow> reverse_row dao" where
  "SearchLatestReverse chainType address = stmtM (\<lambda>t.
     case sort_by reverse_before (filter (\<lambda>v. rv_ChainType v = chainType \<and> rv_Address v = address) (reverses t)) of
       [] \<Rightarrow> Inl RecordNotFound
     | v # _ \<Rightarrow> Inr (v, t))"

definition SearchReverseList :: "int \<Rightarrow> string \<Rightarrow> reverse_row list dao" where
  "SearchReverseList chainType address =
     queryM (\<lambda>t. sort_by reverse_before
        (filter (\<lambda>v. rv_ChainType v = chainType \<and> rv_Address v = address) (reverses t)))"

section \<open>Transactions of the chain\<close>

definition actionList :: "DasAction list" where
  "actionList = [DasActionTransferAccount, DasActionEditManager, DasActionEditRecords,
     DasActionRedeclareReverseRecord, DasActionEditAccountSale, DasActionConfirmProposal,
     DasActionRenewAccount, DasActionOfferAccepted, DasActionEditSubAccount, DasActionBalanceDeposit,
     DasActionLockAccountForCrossChain, DasActionUnlockAccountForCrossChain,
     DasActionConfigSubAccountCustomScript]"

definition transaction_where :: "int \<Rightarrow> string \<Rightarrow> transaction_row \<Rightarrow> bool" where
  "transaction_where chainType address r \<longleftrightarrow> r_ChainType r = chainType \<and> r_Address r = address
     \<and> sql_not_in (r_Action r) actionList"

definition GetTransactionList :: "int \<Rightarrow> string \<Rightarrow> int \<Rightarrow> int \<Rightarrow> transaction_row list dao" where
  "GetTransactionList chainType address limit offset =
     queryM (\<lambda>t. page limit offset (sort_key (\<lambda>r. - int (r_Id r))
        (filter (\<lambda>r. transaction_where chainType address r \<and> 0 < r_Capacity r) (transactions t))))"

text \<open>The count has no condition on the capacity.\<close>

definition GetTransactionListTotal :: "int \<Rightarrow> string \<Rightarrow> nat dao" where
  "GetTransactionListTotal chainType address =
     queryM (\<lambda>t. length (filter (transaction_where chainType address) (transactions t)))"

definition action_where :: "int \<Rightarrow> string \<Rightarrow> DasAction \<Rightarrow> transaction_row \<Rightarrow> bool" where
  "action_where chainType address action r \<longleftrightarrow>
     r_ChainType r = chainType \<and> r_Address r = address \<and> r_Action r = action"

definition GetTransactionListByAction :: "int \<Rightarrow> string \<Rightarrow> DasAction \<Rightarrow> int \<Rightarrow> int \<Rightarrow> transaction_row list dao" where
  "GetTransactionListByAction chainType address action limit offset =
     queryM (\<lambda>t. page limit offset (sort_key (\<lambda>r. - int (r_Id r))
        (filter (action_where chainType address action) (transactions t))))"

text \<open>The sum of no rows is null, which is read as zero.\<close>

definition GetTransactionTotalCapacityByAction :: "int \<Rightarrow> string \<Rightarrow> DasAction \<Rightarrow> (nat \<times> nat) dao" where
  "GetTransactionTotalCapacityByAction chainType address action =
     queryM (\<lambda>t. let rows = filter (action_where chainType address action) (transactions t) in
        (length rows, sum_list (map (\<lambda>r. unat (r_Capacity r)) rows)))"

section \<open>Rewards\<close>

definition reward_where :: "int \<Rightarrow> string \<Rightarrow> int \<Rightarrow> int list \<Rightarrow> rebate_row \<Rightarrow> bool" where
  "reward_where chainType address serviceType rewardType r \<longleftrightarrow> re_InviterChainType r = chainType
     \<and> re_InviterAddress r = address \<and> re_ServiceType r = serviceType \<and> sql_in (re_RewardType r) rewardType"

definition GetMyRewards :: "int \<Rightarrow> string \<Rightarrow> int \<Rightarrow> int list \<Rightarrow> int \<Rightarrow> int \<Rightarrow> rebate_row list dao" where
  "GetMyRewards chainType address serviceType rewardType limit offset =
     queryM (\<lambda>t. page limit offset (sort_key (\<lambda>r. - int (re_Id r))
        (filter (reward_where chainType address serviceType rewardType) (rebates t))))"

definition GetMyRewardsCount :: "int \<Rightarrow> string \<Rightarrow> int \<Rightarrow> int list \<Rightarrow> (nat \<times> nat) dao" where
  "GetMyRewardsCount chainType address serviceType rewardType =
     queryM (\<lambda>t. let rows = filter (reward_where chainType address serviceType rewardType) (rebates t) in
        (length rows, sum_list (map (\<lambda>r. unat (re_Reward r)) rows)))"

section \<open>DID cells\<close>

definition GetDidCellRecycleExpiredAt :: "int \<Rightarrow> 64 word" where
  "GetDidCellRecycleExpiredAt nw = of_int (nw div 1000 - 24 * 30 * 3 * 3600)"

definition DidIsExpired :: "did_row \<Rightarrow> int \<Rightarrow> bool" where
  "DidIsExpired t nw \<longleftrightarrow> sint (d_ExpiredAt t) \<le> nw div 1000"

definition upgradable_where :: "int \<Rightarrow> int \<Rightarrow> string \<Rightarrow> string \<Rightarrow> account_row \<Rightarrow> bool" where
  "upgradable_where nw chainType address keyword a \<longleftrightarrow> owned_by chainType address a
     \<and> a_Status a = AccountStatusNormal \<and> nw div 1000 \<le> uint (a_ExpiredAt a)
     \<and> a_ParentAccountId a = '''' \<and> keyword_where keyword (a_Account a)"

definition GetAccountUpgradableList :: "int \<Rightarrow> string \<Rightarrow> string \<Rightarrow> int \<Rightarrow> int \<Rightarrow> account_row list dao" where
  "GetAccountUpgradableList chainType address keyword limit offset =
     bindM clockM (\<lambda>nw. queryM (\<lambda>t. page limit offset (sort_key (\<lambda>a. uint (a_ExpiredAt a))
        (filter (upgradable_where nw chainType address keyword) (accounts t)))))"

definition GetAccountUpgradableListTotal :: "int \<Rightarrow> string \<Rightarrow> string \<Rightarrow> nat dao" where
  "GetAccountUpgradableListTotal chainType address keyword =
     bindM clockM (\<lambda>nw. queryM (\<lambda>t. length (filter (upgradable_where nw chainType address keyword) (accounts t))))"

definition GetUpgradeOrder :: "string list \<Rightarrow> order_row list dao" where
  "GetUpgradeOrder accountIds =
     (if accountIds = [] then okM []
      else bindM clockM (\<lambda>nw. queryM (\<lambda>t. filter (\<lambda>r. sql_in (o_AccountId r) accountIds
        \<and> o_Action r = DasActionTransferAccount \<and> o_OrderStatus r = OrderStatusDefault
        \<and> sql_in (o_PayStatus r) [TxStatusDefault, TxStatusSending, TxStatusOk]
        \<and> nw - 15 * 60 * 1000 \<le> o_Timestamp r) (orders t))))"

definition did_where :: "int \<Rightarrow> string \<Rightarrow> string \<Rightarrow> did_row \<Rightarrow> bool" where
  "did_where nw args keyword d \<longleftrightarrow> d_Args d = args \<and> GetDidCellRecycleExpiredAt nw \<le> d_ExpiredAt d
     \<and> keyword_where keyword (d_Account d)"

definition GetDidAccountList :: "string \<Rightarrow> string \<Rightarrow> int \<Rightarrow> int \<Rightarrow> did_row list dao" where
  "GetDidAccountList args keyword limit offset =
     bindM clockM (\<lambda>nw. queryM (\<lambda>t. page limit offset (filter (did_where nw args keyword) (did_cells t))))"

definition GetDidAccountListTotal :: "string \<Rightarrow> string \<Rightarrow> nat dao" where
  "GetDidAccountListTotal args keyword =
     bindM clockM (\<lambda>nw. queryM (\<lambda>t. length (filter (did_where nw args keyword) (did_cells t))))"

definition recyclable_where :: "string \<Rightarrow> string \<Rightarrow> 64 word \<Rightarrow> did_row \<Rightarrow> bool" where
  "recyclable_where args keyword expiredAt d \<longleftrightarrow>
     d_Args d = args \<and> d_ExpiredAt d \<le> expiredAt \<and> keyword_where keyword (d_Account d)"

definition GetDidCellRecyclableList :: "string \<Rightarrow> string \<Rightarrow> int \<Rightarrow> int \<Rightarrow> 64 word \<Rightarrow> did_row list dao" where
  "GetDidCellRecyclableList args keyword limit offset expiredAt =
     queryM (\<lambda>t. page limit offset (filter (recyclable_where args keyword expiredAt) (did_cells t)))"

definition GetDidCellRecyclableListTotal :: "string \<Rightarrow> string \<Rightarrow> 64 word \<Rightarrow> nat dao" where
  "GetDidCellRecyclableListTotal args keyword expiredAt =
     queryM (\<lambda>t. length (filter (recyclable_where args keyword expiredAt) (did_cells t)))"

definition GetRecyclingByAddr :: "int \<Rightarrow> string \<Rightarrow> string list \<Rightarrow> pending_row list dao" where
  "GetRecyclingByAddr chainType address accs =
     (if accs = [] then okM []
      else queryM (\<lambda>t. filter (\<lambda>g. g_ChainType g = chainType \<and> g_Address g = address
        \<and> g_Action g = DidCellActionRecycle \<and> sql_in (g_Account g) accs \<and> g_Status g \<noteq> -1) (pendings t)))"

definition das_lock_where :: "int \<Rightarrow> string \<Rightarrow> string \<Rightarrow> did_row \<Rightarrow> bool" where
  "das_lock_where nw args codeHash d \<longleftrightarrow> d_Args d = args \<and> d_LockCodeHash d = codeHash
     \<and> GetDidCellRecycleExpiredAt nw \<le> d_ExpiredAt d"

definition GetDasLockDidCellList :: "string \<Rightarrow> string \<Rightarrow> int \<Rightarrow> int \<Rightarrow> did_row list dao" where
  "GetDasLockDidCellList args codeHash limit offset =
     bindM clockM (\<lambda>nw. queryM (\<lambda>t. page limit offset (filter (das_lock_where nw args codeHash) (did_cells t))))"

definition GetDasLockDidCellListTotal :: "string \<Rightarrow> string \<Rightarrow> nat dao" where
  "GetDasLockDidCellListTotal args codeHash =
     bindM clockM (\<lambda>nw. queryM (\<lambda>t. length (filter (das_lock_where nw args codeHash) (did_cells t))))"

section \<open>Auction orders\<close>

text \<open>
  Orders with their pending transactions. The three reads drop their error, so that a failing
  statement reads as no rows. Their statements have the values pasted in; the model reads them for
  values without quotes and backslashes.
\<close>

definition auction_join :: "db \<Rightarrow> (auction_row \<times> pending_row) list" where
  "auction_join t =
     concat (map (\<lambda>ao. map (Pair ao) (filter (\<lambda>p. g_Outpoint p = au_Outpoint ao) (pendings t))) (auctions t))"

definition GetPendingAuctionOrder :: "int \<Rightarrow> string \<Rightarrow> (auction_row \<times> pending_row) list dao" where
  "GetPendingAuctionOrder chainType addr =
     catchM (queryM (\<lambda>t. sort_key (\<lambda>(ao, _). - au_BidTime ao) (filter (\<lambda>(ao, p). au_ChainType ao = chainType
        \<and> au_Address ao = addr \<and> g_Status p = 0) (auction_join t)))) (\<lambda>_. okM [])"

definition GetAuctionOrderByAccount :: "string \<Rightarrow> int \<Rightarrow> (auction_row \<times> pending_row) list dao" where
  "GetAuctionOrderByAccount account createTime =
     catchM (queryM (\<lambda>t. filter (\<lambda>(ao, p). au_Account ao = account \<and> g_Status p \<noteq> -1
        \<and> createTime < au_BidTime ao) (auction_join t))) (\<lambda>_. okM [])"

definition GetAuctionOrderStatus :: "int \<Rightarrow> string \<Rightarrow> string \<Rightarrow> (auction_row \<times> pending_row) option dao" where
  "GetAuctionOrderStatus chainType addr hash =
     catchM (queryM (\<lambda>t. case sort_key (\<lambda>(ao, _). - au_BidTime ao) (filter (\<lambda>(ao, p).
          g_Outpoint p = hash @ ''-0'' \<and> au_ChainType ao = chainType \<and> au_Address ao = addr) (auction_join t))
        of [] \<Rightarrow> None | x # _ \<Rightarrow> Some x)) (\<lambda>_. okM None)"

section \<open>Reading keeps every relation\<close>

context db_reading
begin

lemma page_reads:
  "upholds R (SearchAccountList ct ad)" "upholds R (SearchAccountListWithPage mn ct ad kw l off cat)"
  "upholds R (GetAccountsCount mn ct ad kw cat)" "upholds R (SearchRecordsByAccount acc)"
  "upholds R (SearchAccountReverseRecords acc ad)" "upholds R (SearchReverseList ct ad)"
  "upholds R (GetTransactionList ct ad l off)" "upholds R (GetTransactionListTotal ct ad)"
  "upholds R (GetTransactionListByAction ct ad act l off)"
  "upholds R (GetTransactionTotalCapacityByAction ct ad act)"
  "upholds R (GetMyRewards ct ad st rt l off)" "upholds R (GetMyRewardsCount ct ad st rt)"
  "upholds R (GetAccountUpgradableList ct ad kw l off)" "upholds R (GetAccountUpgradableListTotal ct ad kw)"
  "upholds R (GetUpgradeOrder accs)" "upholds R (GetDidAccountList args kw l off)"
  "upholds R (GetDidAccountListTotal args kw)" "upholds R (GetDidCellRecyclableList args kw l off ex)"
  "upholds R (GetDidCellRecyclableListTotal args kw ex)" "upholds R (GetRecyclingByAddr ct ad accs)"
  "upholds R (GetDasLockDidCellList args ch l off)" "upholds R (GetDasLockDidCellListTotal args ch)"
  "upholds R (GetPendingAuctionOrder ct ad)" "upholds R (GetAuctionOrderByAccount acc tm)"
  "upholds R (GetAuctionOrderStatus ct ad h)"
  unfolding SearchAccountList_def SearchAccountListWithPage_def GetAccountsCount_def
    SearchRecordsByAccount_def SearchAccountReverseRecords_def SearchReverseList_def
    GetTransactionList_def GetTransactionListTotal_def GetTransactionListByAction_def
    GetTransactionTotalCapacityByAction_def GetMyRewards_def GetMyRewardsCount_def
    GetAccountUpgradableList_def GetAccountUpgradableListTotal_def GetUpgradeOrder_def
    GetDidAccountList_def GetDidAccountListTotal_def GetDidCellRecyclableList_def
    GetDidCellRecyclableListTotal_def GetRecyclingByAddr_def GetDasLockDidCellList_def
    GetDasLockDidCellListTotal_def GetPendingAuctionOrder_def GetAuctionOrderByAccount_def
    GetAuctionOrderStatus_def
  by (intro read_rules)+

lemma SearchLatestReverse: "upholds R (SearchLatestReverse ct ad)"
  unfolding SearchLatestReverse_def by (rule stmtM) (auto simp: refl split: list.splits)

end

end
