(* ===== verification/Auction.thy ===== *)
theory Auction
  imports DidCell DaoPages
begin

text \<open>
  The Dutch auction of expired accounts: the window of \<open>checkDutchAuction\<close> (\<open>account_detail.go\<close>),
  the configuration and the bid (\<open>auction_bid.go\<close>), and the pages \<open>auction_info.go\<close>,
  \<open>auction_price.go\<close>, \<open>auction_pending_order.go\<close> and \<open>auction_order_status.go\<close>. An error that is
  not \<open>Api\<close> is returned without an answer being filled in.
\<close>

section \<open>Configuration\<close>

record auction_config =
  ac_GracePeriodTime :: "32 word"
  ac_AuctionPeriodTime :: "32 word"
  ac_DeliverPeriodTime :: "32 word"

text \<open>The configuration cell of accounts, each of whose fields may fail.\<close>

record auction_cell =
  ab_Grace :: "gerr + 32 word"
  ab_Auction :: "gerr + 32 word"
  ab_Deliver :: "gerr + 32 word"

text \<open>
  \<open>ul_Premium start now\<close> is the premium of das-lib as a decimal; \<open>ul_DpCells lock amount\<close> is
  \<open>GetDpCells\<close>: outpoints, their DID points and their capacity; \<open>ul_SplitDP\<close> gives outputs, their data
  and the capacity they need; \<open>ul_ArgsToHex\<close> reads the owner of a lock; \<open>ul_TimeBytes\<close> is
  \<open>Go64ToBytes\<close>, \<open>ul_TimeCell\<close> the time cell as a dependency, and the expiry of an account's data ends at \<open>ul_ExpireEnd\<close>.
\<close>

record auction_lib =
  ul_Did :: did_lib
  ul_Bal :: bal_lib
  ul_ConfigCell :: "gerr + auction_cell"
  ul_DecodeConfig :: "string \<Rightarrow> gerr + auction_config"
  ul_AccountLength :: "string \<Rightarrow> gerr + nat"
  ul_Premium :: "int \<Rightarrow> int \<Rightarrow> rat"
  ul_TransferWhitelist :: string
  ul_CapacityWhitelist :: string
  ul_ServerScript :: string
  ul_AddressByCoin :: "string \<Rightarrow> string \<Rightarrow> gerr + string"
  ul_DpCells :: "string \<Rightarrow> 64 word \<Rightarrow> balance_err + (string list \<times> 64 word \<times> 64 word)"
  ul_SplitDP :: "string \<Rightarrow> string \<Rightarrow> string list \<times> 64 word \<times> 64 word \<Rightarrow> 64 word \<Rightarrow> string \<Rightarrow>
    gerr + (out_cell list \<times> string list \<times> 64 word)"
  ul_ArgsToHex :: "string \<Rightarrow> gerr + (int \<times> string)"
  ul_OneYearSec :: int
  ul_TimeBytes :: "int \<Rightarrow> string"
  ul_ExpireEnd :: nat
  ul_ExpireLen :: nat
  ul_TimeCell :: string
  ul_ConfigMain :: "gerr + string"
  ul_ConfigDP :: "gerr + string"
  ul_ContractDP :: "gerr + string"
  ul_OutpointHash :: "string \<Rightarrow> string"

text \<open>
  The two results of \<open>GetAuctionConfig\<close>. When the cell cannot be read the cached copy is, but the
  error of the cell is returned with it: \<open>err\<close> is the named result, and nothing clears it.
\<close>

definition GetAuctionConfig :: "http_lib \<Rightarrow> auction_lib \<Rightarrow> auction_config option \<times> gerr option" where
  "GetAuctionConfig H U =
     (case ul_ConfigCell U of
        Inl e \<Rightarrow>
          let failed = (None, Some (In ''ConfigCellDataBuilderByTypeArgs'' e)) in
          (case h_ConfigCache H of
             Inl _ \<Rightarrow> failed
           | Inr strCache \<Rightarrow>
               if strCache = '''' then failed
               else (case ul_DecodeConfig U strCache of
                 Inl _ \<Rightarrow> failed
               | Inr cached \<Rightarrow> (Some cached, Some e)))
      | Inr builder \<Rightarrow>
          (case (ab_Grace builder, ab_Auction builder, ab_Deliver builder) of
             (Inl e, _, _) \<Rightarrow> (None, Some (In ''ExpirationGracePeriod'' e))
           | (Inr _, Inl e, _) \<Rightarrow> (None, Some (In ''ExpirationAuctionPeriod'' e))
           | (Inr _, Inr _, Inl e) \<Rightarrow> (None, Some (In ''ExpirationDeliverPeriod'' e))
           | (Inr g, Inr a, Inr d) \<Rightarrow>
               (Some \<lparr>ac_GracePeriodTime = g, ac_AuctionPeriodTime = a, ac_DeliverPeriodTime = d\<rparr>, None)))"

text \<open>Every caller looks at the error first.\<close>

definition auction_config_of :: "http_lib \<Rightarrow> auction_lib \<Rightarrow> gerr + auction_config" where
  "auction_config_of H U =
     (case GetAuctionConfig H U of
        (_, Some e) \<Rightarrow> Inl (In ''GetAuctionConfig'' e)
      | (Some c, None) \<Rightarrow> Inr c
      | (None, None) \<Rightarrow> Inl GoPanic)"

section \<open>The window of the auction\<close>

text \<open>Differences of 64 bits, and a sum of periods of 32 bits; the first status is the zero of its type.\<close>

definition auction_status :: "auction_config \<Rightarrow> 64 word \<Rightarrow> 64 word \<Rightarrow> SearchStatus \<times> 64 word" where
  "auction_status c expiredAt nowTime =
     (let g = ucast (ac_GracePeriodTime c); a = ucast (ac_AuctionPeriodTime c); d = ucast (ac_DeliverPeriodTime c);
          status = (if nowTime - g - a < expiredAt \<and> expiredAt < nowTime - g then SearchStatusOnDutchAuction
                    else SearchStatusRegisterAble) in
      if nowTime - g - a - d < expiredAt \<and> expiredAt < nowTime - g - a
      then (SearchStatusAuctionRecycling,
            expiredAt + ucast (ac_GracePeriodTime c + ac_AuctionPeriodTime c + ac_DeliverPeriodTime c))
      else (status, 0))"

definition checkDutchAuction :: "http_lib \<Rightarrow> auction_lib \<Rightarrow> 64 word \<Rightarrow> 64 word \<Rightarrow> gerr + (SearchStatus \<times> 64 word)" where
  "checkDutchAuction H U expiredAt nowTime =
     bindR (auction_config_of H U) (\<lambda>c. Inr (auction_status c expiredAt nowTime))"

text \<open>The first lines of three handlers, from the time cell on: the time and that the account is for sale.\<close>

definition on_auction :: "http_lib \<Rightarrow> auction_lib \<Rightarrow> account_row \<Rightarrow> int dao" where
  "on_auction H U acc =
     bindM (orApi ApiCodeError500 (liftM (h_TimeCell H))) (\<lambda>nowTime.
     bindM (orApi ApiCodeError500 (liftM (checkDutchAuction H U (a_ExpiredAt acc) (of_int nowTime)))) (\<lambda>(status, _).
       if status \<noteq> SearchStatusOnDutchAuction then apiErr ApiCodeAuctionAccountNotFound else okM nowTime))"

text \<open>Base amount and price of a new registration of the account.\<close>

definition auction_prices :: "(rat \<Rightarrow> rat \<Rightarrow> nat \<Rightarrow> rat) \<Rightarrow> http_lib \<Rightarrow> auction_lib \<Rightarrow> string \<Rightarrow> (rat \<times> rat) dao" where
  "auction_prices DivRound H U account =
     bindM (liftM (ul_AccountLength U account)) (\<lambda>accLen.
     if accLen = 0 then errM (Errf ''accLen is 0'')
     else orApi ApiCodeError500 (liftM (getAccountPrice DivRound H (of_nat accLen) '''' account False)))"

definition premium_price :: "auction_lib \<Rightarrow> auction_config \<Rightarrow> account_row \<Rightarrow> int \<Rightarrow> rat" where
  "premium_price U c acc nowTime = ul_Premium U (sint (a_ExpiredAt acc + ucast (ac_GracePeriodTime c))) nowTime"

section \<open>The bid\<close>

record bid_req =
  bi_KeyInfo :: key_info
  bi_Account :: string

record auction_bid_params =
  bp_Acc :: account_row
  bp_DefaultRecord :: "record_item list"
  bp_AmountDP :: "64 word"
  bp_FromLock :: string
  bp_ToLock :: string
  bp_NormalCellLock :: string
  bp_Time :: int

text \<open>The data of the account cell with its expiry replaced; the slices panic on shorter data.\<close>

definition with_expiry :: "auction_lib \<Rightarrow> string \<Rightarrow> int \<Rightarrow> gerr + string" where
  "with_expiry U accData t =
     (if length accData < ul_ExpireEnd U then Inl GoPanic
      else Inr (take (ul_ExpireEnd U - ul_ExpireLen U) accData @ ul_TimeBytes U t @ drop (ul_ExpireEnd U) accData))"

definition bid_deps :: "auction_lib \<Rightarrow> string \<Rightarrow> string \<Rightarrow> gerr + string list" where
  "bid_deps U dasDep quoteDep =
     (let L = el_Tx (dl_Edit (ul_Did U)) in
      bindR (wrapR ''GetDasConfigCellInfo'' (ConfigCell L ConfigCellTypeArgsAccount)) (\<lambda>configCellAcc.
      bindR (wrapR ''GetDasContractInfo'' (Contract L DasContractNameAccountCellType)) (\<lambda>(_, accDep).
      bindR (wrapR ''GetDasConfigCellInfo'' (ul_ConfigMain U)) (\<lambda>configCellMain.
      bindR (wrapR ''GetDasConfigCellInfo'' (ul_ConfigDP U)) (\<lambda>configCellDP.
      bindR (wrapR ''GetDasContractInfo'' (ul_ContractDP U)) (\<lambda>contractDP.
      bindR (wrapR ''GetHeightCell'' (GetHeightCell L)) (\<lambda>heightCell.
      bindR (wrapR ''GetDasConfigCellInfo'' (ConfigCell L ConfigCellTypeArgsPrice)) (\<lambda>priceConfig.
      Inr [configCellAcc, priceConfig, configCellMain, configCellDP, contractDP, ul_TimeCell U, accDep, dasDep,
           heightCell, quoteDep]))))))))"

text \<open>The outputs a bid adds: the DID points, the capacity of the old owner's cell, and the change.\<close>

definition bid_outputs :: "string \<Rightarrow> out_cell list \<Rightarrow> out_cell \<Rightarrow> 64 word \<Rightarrow> out_cell list" where
  "bid_outputs serverScript dp refund change =
     dp @ [refund] @ (if 0 < change then [pay_out change serverScript None] else [])"

definition buildAuctionBidTx :: "auction_lib \<Rightarrow> build_req \<Rightarrow> auction_bid_params \<Rightarrow> gerr + tx_params" where
  "buildAuctionBidTx U req p =
     (let E = dl_Edit (ul_Did U); L = el_Tx E; op = a_Outpoint (bp_Acc p); server = ul_ServerScript U in
      bindR (wrapR ''GetDasContractInfo'' (Contract L DasContractNameDispatchCellType)) (\<lambda>(dasScript, dasDep).
      bindR (wrapR ''GetDasContractInfo'' (Contract L DasContractNameBalanceCellType)) (\<lambda>(balScript, _).
      bindR (wrapR ''GetQuoteCell'' (GetQuoteCell L)) (\<lambda>(quoteDep, _).
      bindR (wrapR ''GetTransaction'' (el_AccTx E op)) (\<lambda>(outs, outsData).
      bindR (wrapR ''AccountCellDataBuilderMapFromTx'' (el_AccIndex E op)) (\<lambda>builderMap.
      case builderMap (rb_Account req) of None \<Rightarrow> Inl (Errf ''builderMap not exist account'') | Some index \<Rightarrow>
      bindR (cell_at outs index) (\<lambda>old.
      bindR (wrapR ''ArgsToHex'' (ul_ArgsToHex U (oc_Lock old))) (\<lambda>oldOwner.
      bindR (wrapR ''HexToArgs'' (el_Args E oldOwner oldOwner)) (\<lambda>oldAccOwnerArgs.
      bindR (wrapR ''GenActionDataWitness'' (ActionWitness L DasActionBidExpiredAccountAuction)) (\<lambda>actionWitness.
      let accWitness = el_AccWitness E op DasActionBidExpiredAccountAuction (bp_Time p) (bp_DefaultRecord p);
          owner = (rb_ChainType req, rb_Address req);
          lockArgs = (case el_Args E owner owner of Inl _ \<Rightarrow> '''' | Inr a \<Rightarrow> a) in
      bindR (bindR (cell_at outsData index) tail_data) (\<lambda>rest.
      bindR (with_expiry U (snd accWitness @ rest) (bp_Time p + ul_OneYearSec U)) (\<lambda>newAccData.
      bindR (case ul_DpCells U (bp_FromLock p) (bp_AmountDP p) of Inl _ \<Rightarrow> Inl (Errf ''GetDpCells err'') | Inr c \<Rightarrow> Inr c) (\<lambda>dpCells.
      bindR (wrapR ''SplitDPCell'' (ul_SplitDP U (bp_FromLock p) (bp_ToLock p) dpCells (bp_AmountDP p)
        (bp_NormalCellLock p))) (\<lambda>(dp, dpData, normalCellCapacity).
      if length dpData < length dp then Inl GoPanic
      else bindR (case bl_Cells (ul_Bal U) server (normalCellCapacity + oc_Capacity old) (bl_MinCell (ul_Bal U)) of
          Inl _ \<Rightarrow> Inl (Errf ''GetBalanceCells err'') | Inr c \<Rightarrow> Inr c) (\<lambda>(normalCells, totalNormal).
      bindR (bid_deps U dasDep quoteDep) (\<lambda>deps.
      let change = totalNormal - normalCellCapacity - oc_Capacity old in
      Inr \<lparr>tp_HeadDeps = [],
           tp_Inputs = (op, 0) # map (\<lambda>o'. (o', 0)) (fst dpCells) @ map (\<lambda>c. (fst c, 0)) normalCells,
           tp_Outputs = \<lparr>oc_Capacity = oc_Capacity old, oc_Lock = el_LockScript E dasScript lockArgs,
                         oc_Type = oc_Type old\<rparr>
             # bid_outputs server dp (pay_out (oc_Capacity old) (el_LockScript E dasScript oldAccOwnerArgs)
                 (Some (el_LockScript E balScript ''''))) change,
           tp_OutputsData = newAccData # take (length dp) dpData @ [''''] @ (if 0 < change then [''''] else []),
           tp_Witnesses = [actionWitness, fst accWitness], tp_CellDeps = deps\<rparr>))))))))))))))))"

definition dp_needed :: "http_lib \<Rightarrow> rat \<Rightarrow> rat \<Rightarrow> 64 word" where
  "dp_needed H basicPrice premiumPrice = big_uint64 ((basicPrice + premiumPrice) * h_UsdRateBase H)"

definition default_record :: "auction_lib \<Rightarrow> string \<Rightarrow> string \<Rightarrow> record_item list" where
  "default_record U coinType address =
     (case ul_AddressByCoin U coinType address of
        Inr addr \<Rightarrow> [\<lparr>ri_Key = coinType, ri_Type = ''address'', ri_Label = '''', ri_Value = addr, ri_TTL = 300\<rparr>]
      | Inl _ \<Rightarrow> [])"

text \<open>Missing white lists are an error without an answer.\<close>

definition bid_locks :: "auction_lib \<Rightarrow> (string \<times> string) dao" where
  "bid_locks U =
     (if ul_TransferWhitelist U = '''' \<or> ul_CapacityWhitelist U = ''''
      then errM (Errf ''TransferWhitelist or CapacityWhitelist is empty'')
      else bindM (orApi ApiCodeError500 (liftM (dl_Parse (ul_Did U) (ul_TransferWhitelist U)))) (\<lambda>to.
        bindM (orApi ApiCodeError500 (liftM (dl_Parse (ul_Did U) (ul_CapacityWhitelist U)))) (\<lambda>normal.
          okM (pa_Script to, pa_Script normal))))"

definition bid_request :: "did_addr \<Rightarrow> string \<Rightarrow> int \<Rightarrow> rat \<Rightarrow> rat \<Rightarrow> int \<Rightarrow> build_req" where
  "bid_request addr account evmChainId basicPrice premiumPrice nowTime =
     (did_request '''' DasActionBidExpiredAccountAuction account addr evmChainId)
       \<lparr>rb_AuctionInfo := \<lparr>ai_BasicPrice = basicPrice, ai_PremiumPrice = premiumPrice, ai_BidTime = nowTime\<rparr>\<rparr>"

definition doAccountAuctionBid :: "(rat \<Rightarrow> rat \<Rightarrow> nat \<Rightarrow> rat) \<Rightarrow> http_lib \<Rightarrow> auction_lib \<Rightarrow> bid_req \<Rightarrow> sign_info dao" where
  "doAccountAuctionBid DivRound H U req =
     (let D = ul_Did U; account = bi_Account req in
      bindM (orApi ApiCodeParamsInvalid (liftM (dl_Address D (bi_KeyInfo req)))) (\<lambda>addr.
      bindM (orApi ApiCodeParamsInvalid (liftM (dl_HexToScript D addr))) (\<lambda>fromLock.
      bindM (orApi ApiCodeDbError (GetAccountInfoByAccountId (h_AccountId H account))) (\<lambda>acc.
      if a_Status acc \<noteq> AccountStatusNormal \<and> a_Status acc \<noteq> AccountStatusOnCross
      then apiErr ApiCodeAccountStatusNotNormal
      else bindM (on_auction H U acc) (\<lambda>nowTime.
      bindM (auction_prices DivRound H U account) (\<lambda>(baseAmount, accountPrice).
      bindM (liftM (auction_config_of H U)) (\<lambda>c.
      let basicPrice = baseAmount + accountPrice; premiumPrice = premium_price U c acc nowTime;
          amountDP = dp_needed H basicPrice premiumPrice;
          rb = bid_request addr account (dl_ChainId D (bi_KeyInfo req)) basicPrice premiumPrice nowTime in
      case ul_DpCells U fromLock amountDP of
        Inl e \<Rightarrow> apiErr (if e = ErrInsufficientFunds then ApiCodeInsufficientBalance else ApiCodeError500)
      | Inr _ \<Rightarrow>
      bindM (bid_locks U) (\<lambda>(toLock, normalLock).
      bindM (orApi ApiCodeError500 (liftM (buildAuctionBidTx U rb
        \<lparr>bp_Acc = acc, bp_DefaultRecord = default_record U (ki_CoinType (bi_KeyInfo req)) (da_AddressHex addr),
         bp_AmountDP = amountDP, bp_FromLock = fromLock, bp_ToLock = toLock, bp_NormalCellLock = normalLock,
         bp_Time = nowTime\<rparr>))) (\<lambda>txParams.
      orApi ApiCodeError500 (buildTx H (el_Sign (dl_Edit D)) rb txParams))))))))))"

section \<open>The pages\<close>

datatype BidStatus = BidStatusNoOne | BidStatusByOthers | BidStatusByMe

record auction_page =
  aq_AccountId :: string
  aq_Account :: string
  aq_BidStatus :: BidStatus
  aq_Hash :: string
  aq_StartsaleTime :: "64 word"
  aq_EndSaleTime :: "64 word"
  aq_ExipiredTime :: "64 word"
  aq_AccountPrice :: rat
  aq_BaseAmount :: rat

definition no_auction_page :: auction_page where
  "no_auction_page = \<lparr>aq_AccountId = '''', aq_Account = '''', aq_BidStatus = BidStatusNoOne, aq_Hash = '''',
     aq_StartsaleTime = 0, aq_EndSaleTime = 0, aq_ExipiredTime = 0, aq_AccountPrice = 0, aq_BaseAmount = 0\<rparr>"

text \<open>Of the bids on an account, the last one of the address counts as its own.\<close>

definition my_bid :: "auction_lib \<Rightarrow> int \<times> string \<Rightarrow> (auction_row \<times> pending_row) list \<Rightarrow> BidStatus \<times> string" where
  "my_bid U me bids =
     fold (\<lambda>(v, _) r. if au_ChainType v = fst me \<and> au_Address v = snd me
                      then (BidStatusByMe, ul_OutpointHash U (au_Outpoint v)) else r)
       bids (BidStatusByOthers, '''')"

definition doGetAccountAuctionInfo ::
  "(rat \<Rightarrow> rat \<Rightarrow> nat \<Rightarrow> rat) \<Rightarrow> http_lib \<Rightarrow> auction_lib \<Rightarrow> bid_req \<Rightarrow> auction_page dao" where
  "doGetAccountAuctionInfo DivRound H U req =
     (let account = bi_Account req in
      bindM (if ki_Key (bi_KeyInfo req) = '''' then okM None
             else bindM (orApi ApiCodeParamsInvalid (liftM (dl_Address (ul_Did U) (bi_KeyInfo req)))) (\<lambda>a. okM (Some a)))
        (\<lambda>addrHex.
      bindM (orApi ApiCodeDbError (GetAccountInfoByAccountId (h_AccountId H account))) (\<lambda>acc.
      if a_Id acc = 0 then apiErr ApiCodeAccountNotExist
      else bindM (on_auction H U acc) (\<lambda>_.
      bindM clockM (\<lambda>nw.
      bindM (orApi ApiCodeDbError (GetAuctionOrderByAccount account (nw div 1000 - 365 * 86400))) (\<lambda>bids.
      if addrHex \<noteq> None \<and> bids \<noteq> []
      then let (status, hash) = my_bid U (da_ChainType (the addrHex), da_AddressHex (the addrHex)) bids in
        okM (no_auction_page\<lparr>aq_BidStatus := status, aq_Hash := hash\<rparr>)
      else bindM (auction_prices DivRound H U account) (\<lambda>(baseAmount, accountPrice).
      bindM (liftM (auction_config_of H U)) (\<lambda>c.
      okM (no_auction_page
        \<lparr>aq_AccountId := a_AccountId acc, aq_Account := account,
         aq_StartsaleTime := a_ExpiredAt acc + ucast (ac_GracePeriodTime c),
         aq_EndSaleTime := a_ExpiredAt acc + ucast (ac_GracePeriodTime c + ac_AuctionPeriodTime c),
         aq_ExipiredTime := a_ExpiredAt acc, aq_AccountPrice := accountPrice, aq_BaseAmount := baseAmount\<rparr>)))))))))"

text \<open>Base amount, price and premium.\<close>

definition doGetAccountAuctionPrice ::
  "(rat \<Rightarrow> rat \<Rightarrow> nat \<Rightarrow> rat) \<Rightarrow> http_lib \<Rightarrow> auction_lib \<Rightarrow> string \<Rightarrow> (rat \<times> rat \<times> rat) dao" where
  "doGetAccountAuctionPrice DivRound H U account =
     bindM (orApi ApiCodeDbError (GetAccountInfoByAccountId (h_AccountId H account))) (\<lambda>acc.
     bindM (on_auction H U acc) (\<lambda>nowTime.
     bindM (auction_prices DivRound H U account) (\<lambda>(baseAmount, accountPrice).
     bindM (liftM (auction_config_of H U)) (\<lambda>c.
       okM (baseAmount, accountPrice, premium_price U c acc nowTime)))))"

record auction_reply =
  ay_Account :: string
  ay_Hash :: string
  ay_Status :: int
  ay_BasicPrice :: rat
  ay_PremiumPrice :: rat

definition auction_reply_of :: "auction_lib \<Rightarrow> auction_row \<times> pending_row \<Rightarrow> auction_reply" where
  "auction_reply_of U = (\<lambda>(v, p). \<lparr>ay_Account = au_Account v, ay_Hash = ul_OutpointHash U (au_Outpoint v),
     ay_Status = g_Status p, ay_BasicPrice = au_BasicPrice v, ay_PremiumPrice = au_PremiumPrice v\<rparr>)"

definition doGetPendingAuctionOrder :: "auction_lib \<Rightarrow> key_info \<Rightarrow> auction_reply list dao" where
  "doGetPendingAuctionOrder U key =
     bindM (orApi ApiCodeParamsInvalid (liftM (dl_Address (ul_Did U) key))) (\<lambda>addr.
     bindM (orApi ApiCodeDbError (GetPendingAuctionOrder (da_ChainType addr) (da_AddressHex addr))) (\<lambda>bids.
       okM (map (auction_reply_of U) bids)))"

definition doGetAuctionOrderStatus :: "auction_lib \<Rightarrow> key_info \<Rightarrow> string \<Rightarrow> auction_reply dao" where
  "doGetAuctionOrderStatus U key hash =
     bindM (orApi ApiCodeParamsInvalid (liftM (dl_Address (ul_Did U) key))) (\<lambda>addr.
     bindM (orApi ApiCodeDbError (GetAuctionOrderStatus (da_ChainType addr) (da_AddressHex addr) hash)) (\<lambda>bid.
       case bid of None \<Rightarrow> apiErr ApiCodeAuctionOrderNotFound | Some b \<Rightarrow> okM (auction_reply_of U b)))"

section \<open>What the handlers keep\<close>

context db_reading
begin

lemma auction_steps:
  "upholds R (on_auction H U acc)" "upholds R (auction_prices dr H U account)" "upholds R (bid_locks U)"
  unfolding on_auction_def auction_prices_def bid_locks_def by (intro edit_steps)+

lemma auctions:
  "upholds R (doAccountAuctionBid dr H U breq)" "upholds R (doGetAccountAuctionInfo dr H U breq)"
  "upholds R (doGetAccountAuctionPrice dr H U account)" "upholds R (doGetPendingAuctionOrder U key)"
  "upholds R (doGetAuctionOrderStatus U key hash)"
  unfolding doAccountAuctionBid_def doGetAccountAuctionInfo_def doGetAccountAuctionPrice_def
    doGetPendingAuctionOrder_def doGetAuctionOrderStatus_def Let_def
  by (intro edit_steps auction_steps page_reads)+

end

section \<open>The window\<close>

text \<open>Where the clock is past the periods, the window is the one of the times themselves.\<close>

lemma auction_status_iff:
  fixes c :: auction_config
  defines "g \<equiv> uint (ac_GracePeriodTime c)" and "a \<equiv> uint (ac_AuctionPeriodTime c)" and "d \<equiv> uint (ac_DeliverPeriodTime c)"
  assumes "g + a + d \<le> uint nw"
  shows "fst (auction_status c ex nw) = SearchStatusOnDutchAuction \<longleftrightarrow> uint ex + g < uint nw \<and> uint nw < uint ex + g + a"
    and "fst (auction_status c ex nw) = SearchStatusAuctionRecycling \<longleftrightarrow>
      uint ex + g + a < uint nw \<and> uint nw < uint ex + g + a + d"
proof -
  have u: "uint (ucast (ac_GracePeriodTime c) :: 64 word) = g" "uint (ucast (ac_AuctionPeriodTime c) :: 64 word) = a"
      "uint (ucast (ac_DeliverPeriodTime c) :: 64 word) = d"
    by (simp_all add: g_def a_def d_def uint_up_ucast is_up)
  have pos: "0 \<le> g" "0 \<le> a" "0 \<le> d" by (simp_all add: g_def a_def d_def)
  have s1: "uint (nw - ucast (ac_GracePeriodTime c)) = uint nw - g"
    using assms(4) pos u by (subst uint_sub_if') auto
  have s2: "uint (nw - ucast (ac_GracePeriodTime c) - ucast (ac_AuctionPeriodTime c)) = uint nw - g - a"
    using assms(4) pos u s1 by (subst uint_sub_if') auto
  have s3: "uint (nw - ucast (ac_GracePeriodTime c) - ucast (ac_AuctionPeriodTime c) - ucast (ac_DeliverPeriodTime c)) = uint nw - g - a - d"
    using assms(4) pos u s2 by (subst uint_sub_if') auto
  show "fst (auction_status c ex nw) = SearchStatusOnDutchAuction \<longleftrightarrow> uint ex + g < uint nw \<and> uint nw < uint ex + g + a"
    "fst (auction_status c ex nw) = SearchStatusAuctionRecycling \<longleftrightarrow>
      uint ex + g + a < uint nw \<and> uint nw < uint ex + g + a + d"
    using pos by (auto simp: auction_status_def Let_def word_less_def s1 s2 s3)
qed

end
