(* ===== verification/Pages.thy ===== *)
theory Pages
  imports Auction
begin

text \<open>
  The pages that only read: accounts (\<open>account_detail.go\<close>, \<open>account_list.go\<close>, \<open>account_mine.go\<close>,
  \<open>account_records.go\<close>), transactions and rewards (\<open>transaction_list.go\<close>,
  \<open>transaction_status.go\<close>, \<open>withdraw_list.go\<close>, \<open>rewards_mine.go\<close>), reverse records
  (\<open>reverse_list.go\<close>, \<open>reverse_latest.go\<close>), orders (\<open>order_detail.go\<close>, \<open>das_order_detail.go\<close>,
  \<open>registering_list.go\<close>), balances (\<open>balance_info.go\<close>, \<open>address_deposit.go\<close>) and DID cells
  (\<open>did_cell_list.go\<close>, \<open>did_cell_upgradable_list.go\<close>, \<open>did_cell_recyclable_list.go\<close>,
  \<open>did_cell_daslock_list.go\<close>).
\<close>

section \<open>Codes of actions\<close>

type_synonym TxAction = int

fun FormatTxAction :: "DasAction \<Rightarrow> TxAction" where
  "FormatTxAction DasActionWithdrawFromWallet = 0"
| "FormatTxAction DasActionConsolidateIncome = 1"
| "FormatTxAction DasActionStartAccountSale = 2"
| "FormatTxAction DasActionEditAccountSale = 3"
| "FormatTxAction DasActionCancelAccountSale = 4"
| "FormatTxAction DasActionBuyAccount = 5"
| "FormatTxAction DasActionSaleAccount = 6"
| "FormatTxAction DasActionTransferBalance = 7"
| "FormatTxAction DasActionTransfer = 11"
| "FormatTxAction DasActionEditRecords = 12"
| "FormatTxAction DasActionTransferAccount = 13"
| "FormatTxAction DasActionEditManager = 14"
| "FormatTxAction DasActionRenewAccount = 15"
| "FormatTxAction DasActionDeclareReverseRecord = 8"
| "FormatTxAction DasActionRedeclareReverseRecord = 9"
| "FormatTxAction DasActionRetractReverseRecord = 10"
| "FormatTxAction DasActionMakeOffer = 16"
| "FormatTxAction DasActionEditOfferAdd = 17"
| "FormatTxAction DasActionEditOfferSub = 21"
| "FormatTxAction DasActionCancelOffer = 18"
| "FormatTxAction DasActionAcceptOffer = 19"
| "FormatTxAction DasActionOfferAccepted = 20"
| "FormatTxAction DasActionOrderRefund = 22"
| "FormatTxAction DasActionBalanceDeposit = 25"
| "FormatTxAction DasActionEnableSubAccount = 23"
| "FormatTxAction DasActionCreateSubAccount = 24"
| "FormatTxAction DasActionRecycleExpiredAccount = 26"
| "FormatTxAction DasActionForceRecoverAccountStatus = 27"
| "FormatTxAction DasActionCrossRefund = 28"
| "FormatTxAction DasActionCollectSubAccountProfit = 29"
| "FormatTxAction DasActionRenewSubAccount = 30"
| "FormatTxAction DasActionBidExpiredAccountAuction = 31"
| "FormatTxAction _ = 99"

text \<open>The empty string for codes it does not know.\<close>

definition FormatActionType :: "TxAction \<Rightarrow> DasAction" where
  "FormatActionType actionType =
     (if actionType = 0 then DasActionWithdrawFromWallet
      else if actionType = 1 then DasActionConsolidateIncome
      else if actionType = 2 then DasActionStartAccountSale
      else if actionType = 3 then DasActionEditAccountSale
      else if actionType = 4 then DasActionCancelAccountSale
      else if actionType = 5 then DasActionBuyAccount
      else if actionType = 6 then DasActionSaleAccount
      else if actionType = 7 then DasActionTransferBalance
      else if actionType = 11 then DasActionTransfer
      else if actionType = 12 then DasActionEditRecords
      else if actionType = 13 then DasActionTransferAccount
      else if actionType = 14 then DasActionEditManager
      else if actionType = 15 then DasActionRenewAccount
      else if actionType = 8 then DasActionDeclareReverseRecord
      else if actionType = 9 then DasActionRedeclareReverseRecord
      else if actionType = 10 then DasActionRetractReverseRecord
      else if actionType = 16 then DasActionMakeOffer
      else if actionType = 17 then DasActionEditOfferAdd
      else if actionType = 21 then DasActionEditOfferSub
      else if actionType = 18 then DasActionCancelOffer
      else if actionType = 19 then DasActionAcceptOffer
      else if actionType = 20 then DasActionOfferAccepted
      else if actionType = 22 then DasActionOrderRefund
      else if actionType = 26 then DasActionRecycleExpiredAccount
      else if actionType = 27 then DasActionForceRecoverAccountStatus
      else if actionType = 28 then DasActionCrossRefund
      else DasActionOther '''')"

section \<open>The library\<close>

text \<open>
  \<open>vl_HexToNormal alg chain hex\<close> is the address as the user writes it, \<open>vl_CustomScript\<close> the custom
  script arguments of the sub-account cell of an account, \<open>vl_ScriptAddress\<close> the address of a code
  hash and arguments, \<open>vl_UniPayInfo\<close> is \<open>unipay.GetOrderInfo\<close> and \<open>vl_DidTxHash\<close> the hash of the
  transaction in a cached text.
\<close>

record page_lib =
  vl_Auction :: auction_lib
  vl_Renew :: renew_lib
  vl_HexToNormal :: "int \<Rightarrow> int \<Rightarrow> string \<Rightarrow> gerr + string"
  vl_CoinType :: "int \<Rightarrow> string"
  vl_ChainTypeAnyLock :: int
  vl_CustomScript :: "string \<Rightarrow> gerr + string"
  vl_ScriptAddress :: "string \<Rightarrow> string \<Rightarrow> gerr + string"
  vl_OutpointIndex :: "string \<Rightarrow> nat"
  vl_CodeHash :: "string \<Rightarrow> string"
  vl_LockArgs :: "string \<Rightarrow> string"
  vl_CellsCapacity :: "string \<Rightarrow> gerr + 64 word"
  vl_UniPayInfo :: "string \<Rightarrow> gerr + (string \<times> string)"
  vl_DidTxHash :: "string \<Rightarrow> gerr + string"
  vl_AlgChainType :: "int \<Rightarrow> int"
  vl_AlgScript :: "int \<Rightarrow> int \<times> string \<Rightarrow> gerr + string"
  vl_LockAddress :: "string \<Rightarrow> gerr + string"

definition vl_Did :: "page_lib \<Rightarrow> did_lib" where
  "vl_Did V = ul_Did (vl_Auction V)"

definition addressM :: "http_lib \<Rightarrow> key_info \<Rightarrow> (int \<times> string) dao" where
  "addressM H key = orApi ApiCodeParamsInvalid (liftM (h_FormatChainTypeAddress H key))"

section \<open>Accounts\<close>

record account_data =
  ad_Account :: string
  ad_Status :: SearchStatus
  ad_ExpiredAt :: int
  ad_RegisteredAt :: int
  ad_EnableSubAccount :: "8 word"
  ad_RenewSubAccountPrice :: "64 word"
  ad_Nonce :: "64 word"

text \<open>Seconds become milliseconds, as signed 64 bits.\<close>

definition account_data_of :: "account_row \<Rightarrow> account_data" where
  "account_data_of v = \<lparr>ad_Account = a_Account v, ad_Status = FormatAccountStatus v,
     ad_ExpiredAt = sint (a_ExpiredAt v * 1000), ad_RegisteredAt = sint (a_RegisteredAt v * 1000),
     ad_EnableSubAccount = a_EnableSubAccount v, ad_RenewSubAccountPrice = a_RenewSubAccountPrice v,
     ad_Nonce = a_Nonce v\<rparr>"

definition doAccountList :: "http_lib \<Rightarrow> key_info \<Rightarrow> account_data list dao" where
  "doAccountList H key =
     bindM (addressM H key) (\<lambda>(chainType, address).
     bindM (orApi ApiCodeDbError (SearchAccountList chainType address)) (\<lambda>list.
       okM (map account_data_of list)))"

text \<open>Only a held lock refuses a search; other failures of the lock are ignored.\<close>

definition search_lock :: "int \<Rightarrow> string \<Rightarrow> string \<Rightarrow> unit dao" where
  "search_lock chainType address keyword =
     (if keyword = '''' then okM ()
      else catchM (LockWithRedis chainType address ''AccountMine'' 600)
        (\<lambda>e. if e = ErrDistributedLockPreemption then apiErr ApiCodeOperationFrequent else okM ()))"

definition doAccountMine ::
  "http_lib \<Rightarrow> key_info \<Rightarrow> Pagination \<Rightarrow> string \<Rightarrow> Category \<Rightarrow> (nat \<times> account_data list) dao" where
  "doAccountMine H key pg keyword0 category =
     (let keyword = ToLower keyword0 in
      bindM (addressM H key) (\<lambda>(chainType, address).
      bindM (search_lock chainType address keyword) (\<lambda>_.
      bindM (orApi ApiCodeDbError (SearchAccountListWithPage (h_MainNet H) chainType address keyword
        (GetLimit pg) (GetOffset pg) category)) (\<lambda>list.
      bindM (orApi ApiCodeDbError (GetAccountsCount (h_MainNet H) chainType address keyword category)) (\<lambda>count.
        okM (count, map account_data_of list))))))"

definition doAccountRecords :: "http_lib \<Rightarrow> string \<Rightarrow> records_row list dao" where
  "doAccountRecords H account0 =
     (let accountId = h_AccountId H (ToLower account0) in
      bindM (orApi ApiCodeDbError (GetAccountInfoByAccountId accountId)) (\<lambda>acc.
      if a_Id acc = 0 \<or> a_Status acc = AccountStatusOnCross then okM []
      else orApi ApiCodeDbError (SearchRecordsByAccount accountId)))"

record account_detail =
  at_Account :: string
  at_Owner :: string
  at_OwnerChainType :: int
  at_OwnerCoinType :: string
  at_Manager :: string
  at_ManagerChainType :: int
  at_ManagerCoinType :: string
  at_RegisteredAt :: int
  at_ExpiredAt :: int
  at_Status :: SearchStatus
  at_AccountPrice :: rat
  at_BaseAmount :: rat
  at_ConfirmProposalHash :: string
  at_EnableSubAccount :: "8 word"
  at_RenewSubAccountPrice :: "64 word"
  at_Nonce :: "64 word"
  at_CustomScript :: string
  at_PremiumPercentage :: rat
  at_PremiumBase :: rat
  at_ReRegisterTime :: "64 word"

definition no_detail :: "http_lib \<Rightarrow> string \<Rightarrow> account_detail" where
  "no_detail H account = \<lparr>at_Account = account, at_Owner = '''', at_OwnerChainType = 0, at_OwnerCoinType = '''',
     at_Manager = '''', at_ManagerChainType = 0, at_ManagerCoinType = '''', at_RegisteredAt = 0, at_ExpiredAt = 0,
     at_Status = SearchStatusRegisterAble, at_AccountPrice = 0, at_BaseAmount = 0, at_ConfirmProposalHash = '''',
     at_EnableSubAccount = 0, at_RenewSubAccountPrice = 0, at_Nonce = 0, at_CustomScript = '''',
     at_PremiumPercentage = h_StripePremiumPercentage H, at_PremiumBase = h_StripePremiumBase H, at_ReRegisterTime = 0\<rparr>"

text \<open>
  An account that is no sub-account: in its auction or the days after it, that is all the page
  says, otherwise it says the price of a renewal.
\<close>

definition detail_price ::
  "(rat \<Rightarrow> rat \<Rightarrow> nat \<Rightarrow> rat) \<Rightarrow> http_lib \<Rightarrow> page_lib \<Rightarrow> string \<Rightarrow> account_row \<Rightarrow> account_detail \<Rightarrow> (bool \<times> account_detail) dao" where
  "detail_price DivRound H V account acc resp =
     bindM (orApi ApiCodeError500 (liftM (h_TimeCell H))) (\<lambda>nowTime.
     bindM (orApi ApiCodeError500 (liftM (checkDutchAuction H (vl_Auction V) (a_ExpiredAt acc) (of_int nowTime))))
       (\<lambda>(status, reRegisterTime).
     if status \<noteq> SearchStatusRegisterAble
     then okM (True, resp\<lparr>at_Status := status, at_ReRegisterTime := reRegisterTime\<rparr>)
     else bindM (orApi ApiCodeError500 (liftM (cell_chars (vl_Renew V) acc))) (\<lambda>accLen.
     bindM (orApi ApiCodeError500 (liftM (getAccountPrice DivRound H accLen '''' account True)))
       (\<lambda>(baseAmount, accountPrice).
     okM (False, resp\<lparr>at_BaseAmount := baseAmount, at_AccountPrice := accountPrice\<rparr>)))))"

definition custom_script :: "page_lib \<Rightarrow> account_row \<Rightarrow> string dao" where
  "custom_script V acc =
     (if a_EnableSubAccount acc \<noteq> 1 then okM ''''
      else bindM (orApi ApiCodeError500 (liftM (vl_CustomScript V (a_AccountId acc)))) (\<lambda>args.
        okM (if args \<noteq> '''' \<and> args \<noteq> replicate 33 (CHR 0x00) then dl_Bytes2Hex (vl_Did V) args else '''')))"

text \<open>The owner of an upgraded account is the lock of its DID cell.\<close>

definition did_owner :: "page_lib \<Rightarrow> string \<Rightarrow> account_row \<Rightarrow> account_detail \<Rightarrow> account_detail dao" where
  "did_owner V accountId acc resp =
     (if a_Status acc \<noteq> AccountStatusOnUpgrade then okM resp
      else bindM (orApi ApiCodeDbError (GetDidAccountByAccountIdWithoutArgs accountId)) (\<lambda>d.
      bindM (orApi ApiCodeError500 (liftM (vl_ScriptAddress V (d_LockCodeHash d) (d_Args d)))) (\<lambda>addrOwner.
      okM (resp\<lparr>at_OwnerChainType := vl_ChainTypeAnyLock V, at_OwnerCoinType := dl_CoinTypeCKB (vl_Did V),
           at_Owner := addrOwner, at_ManagerChainType := 0, at_ManagerCoinType := '''', at_Manager := ''''\<rparr>))))"

definition detail_of :: "http_lib \<Rightarrow> page_lib \<Rightarrow> string \<Rightarrow> account_row \<Rightarrow> account_detail \<Rightarrow> account_detail dao" where
  "detail_of H V accountId acc resp =
     bindM (orApi ApiCodeError500 (liftM (vl_HexToNormal V (a_OwnerAlgorithmId acc) (a_OwnerChainType acc) (a_Owner acc))))
       (\<lambda>owner.
     bindM (orApi ApiCodeError500 (liftM (vl_HexToNormal V (a_ManagerAlgorithmId acc) (a_ManagerChainType acc) (a_Manager acc))))
       (\<lambda>manager.
     bindM (custom_script V acc) (\<lambda>script.
     did_owner V accountId acc (resp\<lparr>at_Status := FormatAccountStatus acc,
       at_ExpiredAt := sint (a_ExpiredAt acc * 1000), at_RegisteredAt := sint (a_RegisteredAt acc * 1000),
       at_OwnerChainType := a_OwnerChainType acc, at_OwnerCoinType := vl_CoinType V (a_OwnerChainType acc),
       at_Owner := owner, at_ManagerChainType := a_ManagerChainType acc,
       at_ManagerCoinType := vl_CoinType V (a_ManagerChainType acc), at_Manager := manager,
       at_ConfirmProposalHash := a_ConfirmProposalHash acc, at_EnableSubAccount := a_EnableSubAccount acc,
       at_RenewSubAccountPrice := a_RenewSubAccountPrice acc, at_Nonce := a_Nonce acc, at_CustomScript := script\<rparr>))))"

definition doAccountDetail ::
  "(rat \<Rightarrow> rat \<Rightarrow> nat \<Rightarrow> rat) \<Rightarrow> http_lib \<Rightarrow> page_lib \<Rightarrow> string \<Rightarrow> account_detail dao" where
  "doAccountDetail DivRound H V account0 =
     (let account = ToLower (if HasSuffix account0 (h_Suffix H) then account0 else account0 @ h_Suffix H);
          accountId = h_AccountId H account; resp = no_detail H account;
          accountName = h_Blake2b20 H (ToLower (TrimSuffix account (h_Suffix H))) in
      bindM (orApi ApiCodeDbError (GetAccountInfoByAccountId accountId)) (\<lambda>acc.
      bindM (if 0 < a_Id acc \<and> a_ParentAccountId acc = '''' then detail_price DivRound H V account acc resp
             else okM (False, resp)) (\<lambda>(done', resp').
      if done' then okM resp'
      else if 0 < a_Id acc then detail_of H V accountId acc resp'
      else if length (filter (\<lambda>c. c = CHR ''.'') account) = 1 \<and> h_ReservedAccounts H accountName
      then okM (resp'\<lparr>at_Status := SearchStatusReservedAccount\<rparr>)
      else if length (filter (\<lambda>c. c = CHR ''.'') account) = 1 \<and> h_UnAvailableAccounts H accountName
      then okM (resp'\<lparr>at_Status := SearchStatusUnAvailableAccount\<rparr>)
      else apiErr ApiCodeAccountNotExist)))"

section \<open>Transactions and rewards\<close>

record data_transaction =
  dt_Hash :: string
  dt_BlockNumber :: "64 word"
  dt_Action :: TxAction
  dt_Account :: string
  dt_Capacity :: "64 word"
  dt_Timestamp :: "64 word"

definition data_transaction_of :: "page_lib \<Rightarrow> transaction_row \<Rightarrow> data_transaction" where
  "data_transaction_of V v = \<lparr>dt_Hash = ul_OutpointHash (vl_Auction V) (r_Outpoint v), dt_BlockNumber = r_BlockNumber v,
     dt_Action = FormatTxAction (r_Action v), dt_Account = r_Account v, dt_Capacity = r_Capacity v,
     dt_Timestamp = r_BlockTimestamp v\<rparr>"

definition doTransactionList :: "http_lib \<Rightarrow> page_lib \<Rightarrow> key_info \<Rightarrow> Pagination \<Rightarrow> (nat \<times> data_transaction list) dao" where
  "doTransactionList H V key pg =
     bindM (addressM H key) (\<lambda>(chainType, address).
     bindM (orApi ApiCodeDbError (GetTransactionList chainType address (GetLimit pg) (GetOffset pg))) (\<lambda>list.
     bindM (orApi ApiCodeDbError (GetTransactionListTotal chainType address)) (\<lambda>count.
       okM (count, map (data_transaction_of V) list))))"

text \<open>Block number, hash, action and status of the last pending transaction of these actions.\<close>

definition doTransactionStatus ::
  "http_lib \<Rightarrow> page_lib \<Rightarrow> key_info \<Rightarrow> TxAction list \<Rightarrow> (64 word \<times> string \<times> TxAction \<times> int) dao" where
  "doTransactionStatus H V key actions =
     bindM (addressM H key) (\<lambda>(chainType, address).
     bindM (tryM (GetPendingStatus chainType address (map FormatActionType actions))) (\<lambda>res.
       case res of
         Inl e \<Rightarrow> apiErr (if e = RecordNotFound then ApiCodeTransactionNotExist else ApiCodeDbError)
       | Inr tx \<Rightarrow>
           if g_Id tx = 0 then apiErr ApiCodeTransactionNotExist
           else okM (g_BlockNumber tx, ul_OutpointHash (vl_Auction V) (g_Outpoint tx), FormatTxAction (g_Action tx), g_Status tx)))"

text \<open>Count, total and the page: hash, block number and amount.\<close>

definition doWithdrawList ::
  "http_lib \<Rightarrow> page_lib \<Rightarrow> key_info \<Rightarrow> Pagination \<Rightarrow> (nat \<times> nat \<times> (string \<times> 64 word \<times> nat) list) dao" where
  "doWithdrawList H V key pg =
     bindM (addressM H key) (\<lambda>(chainType, address).
     bindM (orApi ApiCodeDbError (GetTransactionListByAction chainType address DasActionWithdrawFromWallet
       (GetLimit pg) (GetOffset pg))) (\<lambda>list.
     bindM (orApi ApiCodeDbError (GetTransactionTotalCapacityByAction chainType address DasActionWithdrawFromWallet))
       (\<lambda>(count, total).
       okM (count, total, map (\<lambda>v. (ul_OutpointHash (vl_Auction V) (r_Outpoint v), r_BlockNumber v, unat (r_Capacity v))) list))))"

text \<open>\<open>tables.ServiceTypeRegister\<close>, \<open>RewardTypeInviter\<close> and \<open>RewardTypeChannel\<close>.\<close>

definition ServiceTypeRegister :: int where
  "ServiceTypeRegister = 1"

definition RewardTypeInviter :: int where
  "RewardTypeInviter = 0"

definition RewardTypeChannel :: int where
  "RewardTypeChannel = 1"

definition doRewardsMine ::
  "http_lib \<Rightarrow> key_info \<Rightarrow> Pagination \<Rightarrow> (nat \<times> nat \<times> (string \<times> 64 word \<times> nat) list) dao" where
  "doRewardsMine H key pg =
     bindM (addressM H key) (\<lambda>(chainType, address).
     bindM (orApi ApiCodeDbError (GetMyRewards chainType address ServiceTypeRegister [RewardTypeInviter, RewardTypeChannel]
       (GetLimit pg) (GetOffset pg))) (\<lambda>list.
     bindM (orApi ApiCodeDbError (GetMyRewardsCount chainType address ServiceTypeRegister [RewardTypeInviter, RewardTypeChannel]))
       (\<lambda>(count, total).
       okM (count, total, map (\<lambda>v. (re_InviteeAccount v, re_BlockTimestamp v, unat (re_Reward v))) list))))"

section \<open>Reverse records\<close>

definition normalM :: "page_lib \<Rightarrow> int \<Rightarrow> string \<Rightarrow> (int \<times> string) dao" where
  "normalM V chainType address =
     orApi ApiCodeParamsInvalid (liftM (el_NormalToHex (dl_Edit (vl_Did V)) chainType address))"

text \<open>Account, block number, hash and index.\<close>

fun reverse_data :: "page_lib \<Rightarrow> reverse_row list \<Rightarrow> (string \<times> 64 word \<times> string \<times> nat) list dao" where
  "reverse_data V [] = okM []"
| "reverse_data V (v # vs) =
     bindM (orApi ApiCodeDbError (GetAccountInfoByAccountId (rv_AccountId v))) (\<lambda>acc.
     bindM (reverse_data V vs) (\<lambda>rest.
       okM (if a_Id acc = 0 \<or> a_Status acc = AccountStatusOnCross then rest
            else (rv_Account v, rv_BlockNumber v, ul_OutpointHash (vl_Auction V) (rv_Outpoint v),
                  vl_OutpointIndex V (rv_Outpoint v)) # rest)))"

definition doReverseList :: "page_lib \<Rightarrow> int \<Rightarrow> string \<Rightarrow> (string \<times> 64 word \<times> string \<times> nat) list dao" where
  "doReverseList V chainType0 address0 =
     bindM (normalM V chainType0 address0) (\<lambda>(chainType, address).
     bindM (orApi ApiCodeDbError (SearchReverseList chainType address)) (\<lambda>list. reverse_data V list))"

text \<open>The account, and whether it still belongs to the address, by owner, manager or record.\<close>

definition doReverseLatest :: "http_lib \<Rightarrow> page_lib \<Rightarrow> int \<Rightarrow> string \<Rightarrow> (string \<times> bool) dao" where
  "doReverseLatest H V chainType0 address0 =
     bindM (normalM V chainType0 address0) (\<lambda>(chainType, address).
     bindM (tryM (SearchLatestReverse chainType address)) (\<lambda>res.
       case res of
         Inl e \<Rightarrow> if e = RecordNotFound then okM ('''', False) else apiErr ApiCodeDbError
       | Inr v \<Rightarrow>
         if rv_Id v = 0 then okM ('''', False)
         else bindM (orApi ApiCodeDbError (GetAccountInfoByAccountId (h_AccountId H (rv_Account v)))) (\<lambda>acc.
           if a_Id acc = 0 \<or> a_Status acc = AccountStatusOnCross then okM (rv_Account v, False)
           else if EqualFold address (a_Owner acc) \<or> EqualFold address (a_Manager acc) then okM (rv_Account v, True)
           else bindM (orApi ApiCodeDbError (SearchAccountReverseRecords (a_Account acc) address)) (\<lambda>r.
             okM (rv_Account v, 0 < rc_Id r)))))"

section \<open>Orders\<close>

record order_detail =
  oq_OrderId :: string
  oq_Account :: string
  oq_Action :: DasAction
  oq_Status :: TxStatus
  oq_Timestamp :: int
  oq_PayTokenId :: PayTokenId
  oq_PayAmount :: rat
  oq_PayType :: string
  oq_ReceiptAddress :: string
  oq_InviterAccount :: string
  oq_ChannelAccount :: string
  oq_RegisterYears :: int
  oq_CoinType :: string
  oq_CrossCoinType :: string
  oq_ContractAddress :: string
  oq_ClientSecret :: string

definition order_detail_of :: "order_row \<Rightarrow> order_detail" where
  "order_detail_of r = \<lparr>oq_OrderId = o_OrderId r, oq_Account = o_Account r, oq_Action = o_Action r,
     oq_Status = o_PayStatus r, oq_Timestamp = o_Timestamp r, oq_PayTokenId = o_PayTokenId r,
     oq_PayAmount = o_PayAmount r, oq_PayType = o_PayType r, oq_ReceiptAddress = '''', oq_InviterAccount = '''',
     oq_ChannelAccount = '''', oq_RegisterYears = 0, oq_CoinType = o_CoinType r,
     oq_CrossCoinType = o_CrossCoinType r, oq_ContractAddress = '''', oq_ClientSecret = ''''\<rparr>"

text \<open>Contract address and client secret of the tokens unipay keeps them for.\<close>

definition unipay_info :: "page_lib \<Rightarrow> order_row \<Rightarrow> (string \<times> string) dao" where
  "unipay_info V r =
     (if o_PayTokenId r \<in> {TokenIdStripeUSD, TokenIdTrc20USDT, TokenIdBep20USDT, TokenIdErc20USDT}
      then orApi ApiCodeError500 (liftM (vl_UniPayInfo V (o_OrderId r))) else okM ('''', ''''))"

definition detail_content :: "DasAction \<Rightarrow> order_row \<Rightarrow> order_detail \<Rightarrow> order_detail dao" where
  "detail_content action r resp =
     (if action \<noteq> DasActionApplyRegister then okM resp
      else case o_Content r of
        None \<Rightarrow> apiErr ApiCodeError500
      | Some c \<Rightarrow> okM (resp\<lparr>oq_InviterAccount := InviterAccount c, oq_RegisterYears := RegisterYears c,
                            oq_ChannelAccount := ChannelAccount c\<rparr>))"

definition doOrderDetail :: "http_lib \<Rightarrow> page_lib \<Rightarrow> key_info \<Rightarrow> string \<Rightarrow> DasAction \<Rightarrow> order_detail dao" where
  "doOrderDetail H V key account action =
     (if account = '''' then apiErr ApiCodeParamsInvalid
      else bindM (addressM H key) (\<lambda>(chainType, address).
      bindM (orApi ApiCodeDbError (GetLatestRegisterOrderBySelf chainType address (h_AccountId H (ToLower account)))) (\<lambda>r.
      if o_Id r = 0 then apiErr ApiCodeOrderNotExist
      else bindM (unipay_info V r) (\<lambda>(contractAddress, clientSecret).
      bindM (detail_content action r ((order_detail_of r)
        \<lparr>oq_ContractAddress := contractAddress, oq_ClientSecret := clientSecret\<rparr>)) (\<lambda>resp.
      if GetUnipayAddress H (o_PayTokenId r) = '''' then apiErr ApiCodeError500
      else okM (resp\<lparr>oq_ReceiptAddress := GetUnipayAddress H (o_PayTokenId r)\<rparr>))))))"

text \<open>Order id, status, action, account, account id and step of each order.\<close>

definition doDasOrderDetail ::
  "string list \<Rightarrow> (string \<times> OrderStatus \<times> DasAction \<times> string \<times> string \<times> RegisterStatus) list dao" where
  "doDasOrderDetail orderIds =
     bindM (orApi ApiCodeDbError (GetOrderListByOrderIds orderIds)) (\<lambda>list.
       okM (map (\<lambda>v. (o_OrderId v, o_OrderStatus v, o_Action v, o_Account v, o_AccountId v, o_RegisterStatus v)) list))"

record registering_data =
  rd_Account :: string
  rd_Status :: RegisterStatus
  rd_CrossCoinType :: string

text \<open>One order added to the list, with the index of each account id.\<close>

definition registering_add ::
  "order_row \<Rightarrow> registering_data list \<times> (string \<rightharpoonup> nat) \<Rightarrow> registering_data list \<times> (string \<rightharpoonup> nat)" where
  "registering_add v = (\<lambda>(list, accMap).
     case accMap (o_AccountId v) of
       Some item \<Rightarrow>
         (if rd_Status (list ! item) < o_RegisterStatus v
          then list[item := (list ! item)\<lparr>rd_Status := o_RegisterStatus v, rd_CrossCoinType := o_CrossCoinType v\<rparr>]
          else list, accMap)
     | None \<Rightarrow>
         (list @ [\<lparr>rd_Account = o_Account v, rd_Status = o_RegisterStatus v, rd_CrossCoinType = o_CrossCoinType v\<rparr>],
          accMap(o_AccountId v \<mapsto> length list)))"

definition registering_accounts :: "order_row list \<Rightarrow> registering_data list" where
  "registering_accounts list = fst (fold registering_add list ([], \<lambda>_. None))"

definition doRegisteringList :: "http_lib \<Rightarrow> key_info \<Rightarrow> registering_data list dao" where
  "doRegisteringList H key =
     bindM (addressM H key) (\<lambda>(chainType, address).
     if address = '''' then apiErr ApiCodeParamsInvalid
     else bindM (orApi ApiCodeDbError (GetRegisteringOrders chainType address)) (\<lambda>list.
       okM (registering_accounts list)))"

section \<open>Balances\<close>

text \<open>The amount of the transfer address, with that of the older Ethereum lock, and of the DAS lock.\<close>

definition balance_of :: "page_lib \<Rightarrow> bool \<Rightarrow> int \<Rightarrow> string \<Rightarrow> (64 word) dao" where
  "balance_of V is712 chainType address =
     bindM (orApi ApiCodeError500 (liftM (bl_HexToScript (ul_Bal (vl_Auction V)) is712 chainType address))) (\<lambda>(lock, _).
     case bl_Cells (ul_Bal (vl_Auction V)) lock 0 0 of
       Inl _ \<Rightarrow> apiErr ApiCodeError500
     | Inr (_, amount) \<Rightarrow> okM amount)"

definition transfer_amount :: "page_lib \<Rightarrow> string \<Rightarrow> (64 word) dao" where
  "transfer_amount V transferAddress =
     (if transferAddress = '''' then okM 0
      else bindM (orApi ApiCodeParamsInvalid (liftM (dl_Parse (vl_Did V) transferAddress))) (\<lambda>p.
        orApi ApiCodeError500 (liftM (vl_CellsCapacity V (pa_Script p)))))"

definition doBalanceInfo :: "http_lib \<Rightarrow> page_lib \<Rightarrow> key_info \<Rightarrow> string \<Rightarrow> (64 word \<times> 64 word) dao" where
  "doBalanceInfo H V key transferAddress =
     bindM (addressM H key) (\<lambda>(chainType, address).
     bindM (transfer_amount V transferAddress) (\<lambda>amount.
     bindM (if chainType = h_ChainTypeEth H then balance_of V False chainType address else okM 0) (\<lambda>older.
     bindM (balance_of V True chainType address) (\<lambda>dasLockAmount.
       okM (amount + older, dasLockAmount)))))"

definition doAddressDeposit :: "page_lib \<Rightarrow> int \<Rightarrow> string \<Rightarrow> string dao" where
  "doAddressDeposit V algorithmId address0 =
     bindM (orApi ApiCodeError500 (liftM (el_NormalToHex (dl_Edit (vl_Did V)) (vl_AlgChainType V algorithmId) address0)))
       (\<lambda>addressHex.
     bindM (orApi ApiCodeError500 (liftM (vl_AlgScript V algorithmId addressHex))) (\<lambda>lock.
       orApi ApiCodeError500 (liftM (vl_LockAddress V lock))))"

section \<open>DID cells\<close>

definition any_lock_args :: "page_lib \<Rightarrow> key_info \<Rightarrow> (did_addr \<times> string) dao" where
  "any_lock_args V key =
     bindM (orApi ApiCodeParamsInvalid (liftM (dl_Address (vl_Did V) key))) (\<lambda>addr.
     if da_Alg addr \<noteq> dl_AlgAnyLock (vl_Did V) then apiErr ApiCodeParamsInvalid
     else bindM (parsedM addr) (\<lambda>p. okM (addr, dl_Bytes2Hex (vl_Did V) (pa_Args p))))"

definition did_account_of :: "did_row \<Rightarrow> string \<times> 64 word" where
  "did_account_of d = (d_Account d, d_ExpiredAt d * 1000)"

definition doDidCellList :: "page_lib \<Rightarrow> key_info \<Rightarrow> Pagination \<Rightarrow> string \<Rightarrow> (nat \<times> (string \<times> 64 word) list) dao" where
  "doDidCellList V key pg keyword0 =
     (let keyword = ToLower keyword0 in
      bindM (any_lock_args V key) (\<lambda>(_, args).
      bindM (orApi ApiCodeDbError (GetDidAccountList args keyword (GetLimit pg) (GetOffset pg))) (\<lambda>list.
      bindM (orApi ApiCodeDbError (GetDidAccountListTotal args keyword)) (\<lambda>count.
        okM (count, map did_account_of list)))))"

definition das_lock :: "page_lib \<Rightarrow> key_info \<Rightarrow> string dao" where
  "das_lock V key =
     bindM (orApi ApiCodeParamsInvalid (liftM (dl_Address (vl_Did V) key))) (\<lambda>addr.
     if da_Alg addr = dl_AlgAnyLock (vl_Did V) then apiErr ApiCodeParamsInvalid
     else orApi ApiCodeParamsInvalid (liftM (dl_HexToScript (vl_Did V) addr)))"

definition doDidCellDasLockList :: "page_lib \<Rightarrow> key_info \<Rightarrow> Pagination \<Rightarrow> (nat \<times> (string \<times> 64 word) list) dao" where
  "doDidCellDasLockList V key pg =
     bindM (das_lock V key) (\<lambda>lock.
     let args = dl_Bytes2Hex (vl_Did V) (vl_LockArgs V lock); codeHash = vl_CodeHash V lock in
     bindM (orApi ApiCodeDbError (GetDasLockDidCellList args codeHash (GetLimit pg) (GetOffset pg))) (\<lambda>list.
     bindM (orApi ApiCodeDbError (GetDasLockDidCellListTotal args codeHash)) (\<lambda>count.
       okM (count, map did_account_of list))))"

datatype UpgradeStatus = UpgradeStatusDefault | UpgradeStatusConfirmPayment | UpgradeStatusIng

record upgradable_account =
  ug_AccountId :: string
  ug_Account :: string
  ug_ExpiredAt :: "64 word"
  ug_UpgradeStatus :: UpgradeStatus
  ug_UpgradeHash :: string

text \<open>The loop over the open upgrade orders: status and transaction of each account.\<close>

definition upgrade_status :: "order_row \<Rightarrow> (string \<rightharpoonup> UpgradeStatus) \<Rightarrow> (string \<rightharpoonup> UpgradeStatus)" where
  "upgrade_status v m =
     (case o_PayStatus v of
        TxStatusDefault \<Rightarrow> m(o_AccountId v \<mapsto> UpgradeStatusConfirmPayment)
      | TxStatusSending \<Rightarrow> m(o_AccountId v \<mapsto> UpgradeStatusIng)
      | TxStatusOk \<Rightarrow> m(o_AccountId v \<mapsto> UpgradeStatusIng))"

fun upgrade_marks ::
  "page_lib \<Rightarrow> order_row list \<Rightarrow> (string \<rightharpoonup> UpgradeStatus) \<times> (string \<rightharpoonup> string) \<Rightarrow>
   ((string \<rightharpoonup> UpgradeStatus) \<times> (string \<rightharpoonup> string)) dao" where
  "upgrade_marks V [] ms = okM ms"
| "upgrade_marks V (v # vs) ms =
     bindM (tryM (GetCache (o_OrderId v))) (\<lambda>res.
       upgrade_marks V vs (upgrade_status v (fst ms),
         case res of
           Inl _ \<Rightarrow> snd ms
         | Inr txStr \<Rightarrow> (case vl_DidTxHash V txStr of Inl _ \<Rightarrow> snd ms | Inr h \<Rightarrow> (snd ms)(o_AccountId v \<mapsto> h))))"

definition upgradable_of :: "(string \<rightharpoonup> UpgradeStatus) \<times> (string \<rightharpoonup> string) \<Rightarrow> account_row \<Rightarrow> upgradable_account" where
  "upgradable_of ms v = \<lparr>ug_AccountId = a_AccountId v, ug_Account = a_Account v, ug_ExpiredAt = a_ExpiredAt v * 1000,
     ug_UpgradeStatus = (case fst ms (a_AccountId v) of None \<Rightarrow> UpgradeStatusDefault | Some s \<Rightarrow> s),
     ug_UpgradeHash = (case snd ms (a_AccountId v) of None \<Rightarrow> '''' | Some h \<Rightarrow> h)\<rparr>"

definition doDidCellUpgradableList ::
  "page_lib \<Rightarrow> key_info \<Rightarrow> Pagination \<Rightarrow> string \<Rightarrow> (nat \<times> upgradable_account list) dao" where
  "doDidCellUpgradableList V key pg keyword0 =
     (let keyword = ToLower keyword0 in
      bindM (orApi ApiCodeParamsInvalid (liftM (dl_Address (vl_Did V) key))) (\<lambda>addr.
      if da_Alg addr = dl_AlgAnyLock (vl_Did V) then apiErr ApiCodeParamsInvalid
      else bindM (orApi ApiCodeDbError (GetAccountUpgradableList (da_ChainType addr) (da_AddressHex addr) keyword
        (GetLimit pg) (GetOffset pg))) (\<lambda>list.
      bindM (orApi ApiCodeDbError (GetAccountUpgradableListTotal (da_ChainType addr) (da_AddressHex addr) keyword)) (\<lambda>count.
      bindM (orApi ApiCodeDbError (GetUpgradeOrder (map a_AccountId list))) (\<lambda>upgrades.
      bindM (upgrade_marks V upgrades (\<lambda>_. None, \<lambda>_. None)) (\<lambda>ms.
        okM (count, map (upgradable_of ms) list)))))))"

datatype RecycleStatus = RecycleStatusDefault | RecycleStatusIng

record did_recyclable =
  dy_Account :: string
  dy_ExpiredAt :: "64 word"
  dy_RecycleStatus :: RecycleStatus
  dy_RecycleHash :: string

text \<open>The grace period of the configuration cell or, when it cannot be read, of the cached copy.\<close>

definition recycle_grace :: "http_lib \<Rightarrow> page_lib \<Rightarrow> gerr + 32 word" where
  "recycle_grace H V =
     (case ul_ConfigCell (vl_Auction V) of
        Inr builder \<Rightarrow> ab_Grace builder
      | Inl e \<Rightarrow>
          bindR (h_ConfigCache H) (\<lambda>strCache.
          if strCache = '''' then Inl e
          else bindR (ul_DecodeConfig (vl_Auction V) strCache) (\<lambda>c. Inr (ac_GracePeriodTime c))))"

definition recyclable_of :: "(string \<rightharpoonup> string) \<Rightarrow> did_row \<Rightarrow> did_recyclable" where
  "recyclable_of pendingMap d =
     (case pendingMap (d_Account d) of
        None \<Rightarrow> \<lparr>dy_Account = d_Account d, dy_ExpiredAt = d_ExpiredAt d * 1000, dy_RecycleStatus = RecycleStatusDefault,
                 dy_RecycleHash = ''''\<rparr>
      | Some h \<Rightarrow> \<lparr>dy_Account = d_Account d, dy_ExpiredAt = d_ExpiredAt d * 1000, dy_RecycleStatus = RecycleStatusIng,
                 dy_RecycleHash = h\<rparr>)"

definition doDidCellRecyclableList ::
  "http_lib \<Rightarrow> page_lib \<Rightarrow> key_info \<Rightarrow> Pagination \<Rightarrow> string \<Rightarrow> (nat \<times> did_recyclable list) dao" where
  "doDidCellRecyclableList H V key pg keyword0 =
     (let keyword = ToLower keyword0 in
      bindM (orApi ApiCodeParamsInvalid (liftM (dl_Address (vl_Did V) key))) (\<lambda>addr.
      if da_Alg addr \<noteq> dl_AlgAnyLock (vl_Did V) then apiErr ApiCodeParamsInvalid
      else bindM (orApi ApiCodeError500 (liftM (h_TimeCell H))) (\<lambda>timestamp.
      bindM (orApi ApiCodeError500 (liftM (recycle_grace H V))) (\<lambda>grace.
      let expiredAt = of_int timestamp - ucast grace in
      bindM (parsedM addr) (\<lambda>p.
      let args = dl_Bytes2Hex (vl_Did V) (pa_Args p) in
      bindM (orApi ApiCodeDbError (GetDidCellRecyclableList args keyword (GetLimit pg) (GetOffset pg) expiredAt)) (\<lambda>list.
      bindM (orApi ApiCodeDbError (GetDidCellRecyclableListTotal args keyword expiredAt)) (\<lambda>count.
      bindM (orApi ApiCodeDbError (GetRecyclingByAddr (da_ChainType addr) (da_AddressHex addr) (map d_Account list)))
        (\<lambda>pendingList.
      let pendingMap = map_of (rev (map (\<lambda>v. (g_Account v, ul_OutpointHash (vl_Auction V) (g_Outpoint v))) pendingList)) in
        okM (count, map (recyclable_of pendingMap) list)))))))))"

section \<open>What the pages keep\<close>

context db_reading
begin

lemma page_steps:
  "upholds R (addressM H key)" "upholds R (normalM V ct ad)" "upholds R (search_lock ct ad kw)"
  "upholds R (unipay_info V r)" "upholds R (detail_content act r resp)" "upholds R (balance_of V b ct ad)"
  "upholds R (transfer_amount V ta)" "upholds R (any_lock_args V key)" "upholds R (das_lock V key)"
  "upholds R (detail_price dr H V account acc d)" "upholds R (custom_script V acc)" "upholds R (did_owner V aid acc d)"
  unfolding addressM_def normalM_def search_lock_def LockWithRedis_def unipay_info_def detail_content_def
    balance_of_def transfer_amount_def any_lock_args_def das_lock_def detail_price_def custom_script_def did_owner_def
  by (intro edit_steps parsedM redis_commands)+

lemmas page_rules = edit_steps page_steps page_reads parsedM SearchLatestReverse GetPendingStatus

lemma detail_of: "upholds R (detail_of H V aid acc d)"
  unfolding detail_of_def by (intro page_rules)

lemma reverse_data: "upholds R (reverse_data V vs)"
  by (induction vs) (auto intro!: page_rules)

lemma upgrade_marks: "upholds R (upgrade_marks V vs ms)"
proof (induction vs arbitrary: ms)
  case (Cons v vs)
  have "upholds R (GetCache k)" for k
    unfolding GetCache_def get_checked_def by (intro rules if_nil redis_commands)
  then show ?case using Cons.IH by (auto intro!: page_rules)
qed (auto intro: rules)

lemma pages:
  "upholds R (doAccountList H key)" "upholds R (doAccountMine H key pg kw cat)" "upholds R (doAccountRecords H account)"
  "upholds R (doAccountDetail dr H V account)" "upholds R (doTransactionList H V key pg)"
  "upholds R (doTransactionStatus H V key acts)" "upholds R (doWithdrawList H V key pg)" "upholds R (doRewardsMine H key pg)"
  "upholds R (doReverseList V ct ad)" "upholds R (doReverseLatest H V ct ad)" "upholds R (doOrderDetail H V key account act)"
  "upholds R (doDasOrderDetail oids)" "upholds R (doRegisteringList H key)" "upholds R (doBalanceInfo H V key ta)"
  "upholds R (doAddressDeposit V alg ad)" "upholds R (doDidCellList V key pg kw)" "upholds R (doDidCellDasLockList V key pg)"
  "upholds R (doDidCellUpgradableList V key pg kw)" "upholds R (doDidCellRecyclableList H V key pg kw)"
  unfolding doAccountList_def doAccountMine_def doAccountRecords_def doAccountDetail_def doTransactionList_def
    doTransactionStatus_def doWithdrawList_def doRewardsMine_def doReverseList_def doReverseLatest_def doOrderDetail_def
    doDasOrderDetail_def doRegisteringList_def doBalanceInfo_def doAddressDeposit_def doDidCellList_def
    doDidCellDasLockList_def doDidCellUpgradableList_def doDidCellRecyclableList_def Let_def
  by (intro page_rules detail_of reverse_data upgrade_marks)+

end

end
