(* ===== verification/Recycle.thy ===== *)
theory Recycle
  imports Http TxTool
begin

text \<open>
  The jobs that give the capacity of abandoned cells back to who paid for it:
  \<open>recycle_apply.go\<close> and \<open>recycle_pre.go\<close> for apply-register and pre-account cells,
  \<open>recycle_early.go\<close> for the service's own pre-account cells, the two jobs of \<open>refund_apply.go\<close>
  that the timer has out of use, and the request of the handler \<open>refund_apply.go\<close>. They read cells
  from the indexer and send transactions; no table is touched.
\<close>

section \<open>Cells of the indexer\<close>

record live_cell =
  lc_BlockNumber :: "64 word"
  lc_OutPoint :: string
  lc_Output :: out_cell

text \<open>The witness of a pre-account cell: the refund lock, which may be nil, and the witness by index.\<close>

record pre_cell =
  pr_RefundLock :: "string option"
  pr_Witness :: "nat \<Rightarrow> string"

text \<open>
  \<open>cl_Cells lock type dataLen blocks\<close> is \<open>GetCells\<close> in ascending order, with its limit;
  \<open>cl_ToScript\<close> is \<open>ToScript(nil)\<close> of a contract; \<open>cl_Time n\<close> is the timestamp of a block;
  \<open>cl_PreTx\<close> and \<open>cl_PreCell\<close> are the transaction of an outpoint and the pre-account cell in it;
  \<open>cl_LockScript\<close> is \<open>MoleculeScript2CkbScript\<close>; \<open>cl_IsDas\<close> and \<open>cl_IsSighash\<close> compare the code hash of
  a lock with that of the DAS contract and of the default lock; \<open>cl_ScriptAlg\<close> is the algorithm of
  \<open>ScriptToHex\<close>.
\<close>

record recycle_lib =
  cl_Tx :: txlib
  cl_MainNet :: bool
  cl_RecyclePreEarly :: bool
  cl_PayServer :: "gerr + string"
  cl_ApplyMaxWaiting :: "gerr + (gerr + 32 word)"
  cl_Cells :: "string \<Rightarrow> string \<Rightarrow> (64 word \<times> 64 word) option \<Rightarrow> (64 word \<times> 64 word) option \<Rightarrow> nat \<Rightarrow> gerr + live_cell list"
  cl_ToScript :: "string \<Rightarrow> string"
  cl_SinceTime :: "64 word \<Rightarrow> 64 word"
  cl_MedianTime :: "gerr + 64 word"
  cl_Time :: "64 word \<Rightarrow> gerr + 64 word"
  cl_PreTx :: "string \<Rightarrow> gerr + string"
  cl_PreCell :: "string \<Rightarrow> gerr + pre_cell"
  cl_LockScript :: "string option \<Rightarrow> gerr + string"
  cl_IsDas :: "string \<Rightarrow> bool"
  cl_IsSighash :: "string \<Rightarrow> bool"
  cl_ScriptAlg :: "string \<Rightarrow> gerr + int"
  cl_AlgEth712 :: int
  cl_Args :: "string \<Rightarrow> string"
  cl_BalanceCells :: "string \<Rightarrow> 64 word \<Rightarrow> 64 word \<Rightarrow> gerr + ((string \<times> 64 word) list \<times> 64 word)"

section \<open>One refund\<close>

definition refund_fee :: "64 word" where
  "refund_fee = 10000"

text \<open>The cell is spent and its capacity, less the fee, goes to a lock.\<close>

definition refund_tx ::
  "live_cell \<Rightarrow> 64 word \<Rightarrow> string \<Rightarrow> string option \<Rightarrow> string list \<Rightarrow> string list \<Rightarrow> tx_params" where
  "refund_tx v since lock ty witnesses deps =
     no_params\<lparr>tp_Inputs := [(lc_OutPoint v, since)],
       tp_Outputs := [\<lparr>oc_Capacity = oc_Capacity (lc_Output v) - refund_fee, oc_Lock = lock, oc_Type = ty\<rparr>],
       tp_OutputsData := [''''], tp_Witnesses := witnesses, tp_CellDeps := deps\<rparr>"

text \<open>The transaction is noted under the outpoint it recycles.\<close>

definition send_refund :: "recycle_lib \<Rightarrow> string \<Rightarrow> tx_params \<Rightarrow> unit dao" where
  "send_refund K op tx =
     bindM (liftM (wrapR ''BuildTransaction'' (BuildTransaction (cl_Tx K) tx))) (\<lambda>b.
     thenM (wrapM ''SendTransaction'' (sendM (cl_Tx K) op b)) (okM ()))"

definition contractM :: "recycle_lib \<Rightarrow> ContractName \<Rightarrow> (string \<times> string) dao" where
  "contractM K c = liftM (wrapR ''GetDasContractInfo'' (Contract (cl_Tx K) c))"

definition max_waiting :: "recycle_lib \<Rightarrow> (32 word) dao" where
  "max_waiting K =
     bindM (liftM (wrapR ''ConfigCellDataBuilderByTypeArgs'' (cl_ApplyMaxWaiting K))) (\<lambda>builder.
       liftM (wrapR ''ApplyMaxWaitingBlockNumber'' builder))"

section \<open>recycle\_apply.go\<close>

definition recycle_apply_one :: "recycle_lib \<Rightarrow> string \<Rightarrow> 32 word \<Rightarrow> live_cell \<Rightarrow> unit dao" where
  "recycle_apply_one K applyDep maxWaiting v =
     bindM (liftM (wrapR ''GenActionDataWitness'' (ActionWitness (cl_Tx K) DasActionRefundApply))) (\<lambda>actionWitness.
     bindM (liftM (wrapR ''GetDasConfigCellInfo'' (ConfigCell (cl_Tx K) ConfigCellTypeArgsApply))) (\<lambda>configCell.
       send_refund K (lc_OutPoint v) (refund_tx v (SinceBlocks (cl_Tx K) (ucast maxWaiting))
         (oc_Lock (lc_Output v)) None [actionWitness] [applyDep, configCell])))"

text \<open>The cells come by ascending block, so the first that is too young ends the job.\<close>

fun recycle_apply_loop :: "recycle_lib \<Rightarrow> string \<Rightarrow> 32 word \<Rightarrow> 64 word \<Rightarrow> live_cell list \<Rightarrow> unit dao" where
  "recycle_apply_loop K applyDep maxWaiting tip [] = okM ()"
| "recycle_apply_loop K applyDep maxWaiting tip (v # vs) =
     (if tip < lc_BlockNumber v + ucast maxWaiting then okM ()
      else thenM (recycle_apply_one K applyDep maxWaiting v) (recycle_apply_loop K applyDep maxWaiting tip vs))"

definition doRecycleApply :: "recycle_lib \<Rightarrow> unit dao" where
  "doRecycleApply K =
     bindM (liftM (wrapR ''address.Parse'' (cl_PayServer K))) (\<lambda>server.
     bindM (contractM K DasContractNameApplyRegisterCellType) (\<lambda>(applyScript, applyDep).
     bindM (max_waiting K) (\<lambda>maxWaiting.
     bindM (liftM (wrapR ''GetCells'' (cl_Cells K server (cl_ToScript K applyScript) (Some (32, 33)) None 200))) (\<lambda>cells.
     if cells = [] then okM ()
     else bindM (liftM (wrapR ''GetTipBlockNumber'' (TipBlockNumber (cl_Tx K)))) (\<lambda>tip.
       recycle_apply_loop K applyDep maxWaiting tip cells)))))"

section \<open>recycle\_early.go: the cells that are due\<close>

record pre_recycle_params =
  pq_TipBlockNumber :: "64 word"
  pq_AsScript :: string
  pq_PreScript :: string
  pq_PreDep :: string
  pq_BalanceScript :: string
  pq_Server :: string

definition getPreCellRecycleParams :: "recycle_lib \<Rightarrow> pre_recycle_params dao" where
  "getPreCellRecycleParams K =
     bindM (liftM (wrapR ''GetTipBlockNumber'' (TipBlockNumber (cl_Tx K)))) (\<lambda>tip.
     bindM (contractM K DasContractNameAlwaysSuccess) (\<lambda>(asScript, _).
     bindM (contractM K DasContractNamePreAccountCellType) (\<lambda>(preScript, preDep).
     bindM (contractM K DasContractNameBalanceCellType) (\<lambda>(balanceScript, _).
     bindM (contractM K DasContractNameDispatchCellType) (\<lambda>_.
     bindM (liftM (wrapR ''address.Parse'' (cl_PayServer K))) (\<lambda>server.
       okM \<lparr>pq_TipBlockNumber = tip, pq_AsScript = asScript, pq_PreScript = preScript, pq_PreDep = preDep,
            pq_BalanceScript = balanceScript, pq_Server = server\<rparr>))))))"

type_synonym pre_found = "live_cell \<times> pre_cell \<times> string"

text \<open>
  The loop of \<open>getPreCellByMedianTime\<close>, up to the first cell that is younger than \<open>timestamp\<close>
  seconds. With the time of the early job only the service's own cells count.
\<close>

fun pre_cells :: "recycle_lib \<Rightarrow> string \<Rightarrow> 64 word \<Rightarrow> 64 word \<Rightarrow> 64 word \<Rightarrow> live_cell list \<Rightarrow> gerr + pre_found list" where
  "pre_cells K server early timestamp median [] = Inr []"
| "pre_cells K server early timestamp median (v # vs) =
     bindR (wrapR ''GetBlockByNumber'' (cl_Time K (lc_BlockNumber v))) (\<lambda>blockTime.
     if median < blockTime + timestamp * 1000 then Inr []
     else bindR (wrapR ''GetTransaction'' (cl_PreTx K (lc_OutPoint v))) (\<lambda>res.
     bindR (wrapR ''PreAccountCellDataBuilderFromTx'' (cl_PreCell K res)) (\<lambda>pre.
     bindR (cl_LockScript K (pr_RefundLock pre)) (\<lambda>lock.
     let rest = pre_cells K server early timestamp median vs in
     if \<not> cl_IsDas K lock \<and> \<not> cl_IsSighash K lock then rest
     else if early = timestamp \<and> cl_Args K server \<noteq> cl_Args K lock then rest
     else bindR rest (\<lambda>found. Inr ((v, pre, lock) # found))))))"

definition first_block :: "recycle_lib \<Rightarrow> 64 word \<Rightarrow> 64 word" where
  "first_block K blockRange = (if blockRange = 0 then if \<not> cl_MainNet K then 7268680 else 8424701 else blockRange)"

definition getPreCellByMedianTime ::
  "recycle_lib \<Rightarrow> pre_recycle_params \<Rightarrow> 64 word \<Rightarrow> 64 word \<Rightarrow> 64 word \<Rightarrow> gerr + pre_found list" where
  "getPreCellByMedianTime K p early blockRange timestamp =
     bindR (wrapR ''GetCells'' (cl_Cells K (cl_ToScript K (pq_AsScript p)) (cl_ToScript K (pq_PreScript p)) None
       (Some (first_block K blockRange, pq_TipBlockNumber p)) 100)) (\<lambda>cells.
     bindR (wrapR ''GetBlockchainInfo'' (cl_MedianTime K)) (\<lambda>median.
       pre_cells K (pq_Server p) early timestamp median cells))"

text \<open>The refund of a DAS lock of EIP 712 is a balance cell.\<close>

definition refund_type :: "recycle_lib \<Rightarrow> string \<Rightarrow> string \<Rightarrow> gerr + string option" where
  "refund_type K balanceScript lock =
     (if cl_IsDas K lock
      then bindR (wrapR ''ScriptToHex'' (cl_ScriptAlg K lock)) (\<lambda>alg.
        Inr (if alg = cl_AlgEth712 K then Some (cl_ToScript K balanceScript) else None))
      else Inr None)"

section \<open>recycle\_pre.go\<close>

definition recycleTimestamp :: "64 word" where
  "recycleTimestamp = 24 * 60 * 60"

definition doRecyclePreTx :: "recycle_lib \<Rightarrow> pre_recycle_params \<Rightarrow> 64 word \<Rightarrow> pre_found \<Rightarrow> unit dao" where
  "doRecyclePreTx K p timestamp = (\<lambda>(v, pre, lock).
     bindM (liftM (refund_type K (pq_BalanceScript p) lock)) (\<lambda>ty.
     bindM (liftM (wrapR ''GenActionDataWitness'' (ActionWitness (cl_Tx K) DasActionRefundPreRegister))) (\<lambda>actionWitness.
       send_refund K (lc_OutPoint v) (refund_tx v (cl_SinceTime K timestamp) lock ty
         [actionWitness, pr_Witness pre 0] [pq_PreDep p]))))"

text \<open>The block of the last cell that was recycled; failures are only logged.\<close>

fun recycle_pre_loop :: "(pre_found \<Rightarrow> unit dao) \<Rightarrow> 64 word \<Rightarrow> pre_found list \<Rightarrow> (64 word) dao" where
  "recycle_pre_loop send n [] = okM n"
| "recycle_pre_loop send n (v # vs) =
     bindM (tryM (send v)) (\<lambda>res.
       recycle_pre_loop send (case res of Inl _ \<Rightarrow> n | Inr _ \<Rightarrow> lc_BlockNumber (fst v)) vs)"

text \<open>The result is the new value of \<open>recyclePreBlockNumber\<close>, which an error leaves as it was.\<close>

definition doRecyclePre :: "recycle_lib \<Rightarrow> 64 word \<Rightarrow> 64 word \<Rightarrow> (64 word) dao" where
  "doRecyclePre K early recyclePreBlockNumber =
     bindM (wrapM ''getPreCellRecycleParams'' (getPreCellRecycleParams K)) (\<lambda>p.
     bindM (liftM (wrapR ''getPreCellByMedianTime''
       (getPreCellByMedianTime K p early recyclePreBlockNumber recycleTimestamp))) (\<lambda>found.
       recycle_pre_loop (doRecyclePreTx K p recycleTimestamp) recyclePreBlockNumber found))"

section \<open>recycle\_early.go: one transaction for all cells\<close>

definition early_seconds :: "recycle_lib \<Rightarrow> 64 word \<Rightarrow> 64 word" where
  "early_seconds K early = (if cl_MainNet K then early else 2 * 60)"

text \<open>Inputs, outputs, data and witnesses of the cells, numbered from \<open>i\<close>.\<close>

fun early_cells ::
  "recycle_lib \<Rightarrow> pre_recycle_params \<Rightarrow> 64 word \<Rightarrow> nat \<Rightarrow> pre_found list \<Rightarrow> gerr + tx_params" where
  "early_cells K p early i [] = Inr no_params"
| "early_cells K p early i ((v, pre, lock) # vs) =
     bindR (refund_type K (pq_BalanceScript p) lock) (\<lambda>ty.
     bindR (early_cells K p early (Suc i) vs) (\<lambda>tx.
       Inr (tx\<lparr>tp_Inputs := (lc_OutPoint v, cl_SinceTime K early) # tp_Inputs tx,
               tp_Outputs := \<lparr>oc_Capacity = oc_Capacity (lc_Output v), oc_Lock = lock, oc_Type = ty\<rparr> # tp_Outputs tx,
               tp_OutputsData := '''' # tp_OutputsData tx,
               tp_Witnesses := pr_Witness pre i # tp_Witnesses tx\<rparr>)))"

text \<open>The service pays the fee from cells of its own.\<close>

definition early_tx ::
  "recycle_lib \<Rightarrow> pre_recycle_params \<Rightarrow> string \<Rightarrow> tx_params \<Rightarrow> gerr + tx_params" where
  "early_tx K p actionWitness tx =
     bindR (wrapR ''GetBalanceCells'' (cl_BalanceCells K (pq_Server p) (MinCellOccupiedCkb (cl_Tx K) + refund_fee)
       (MinCellOccupiedCkb (cl_Tx K)))) (\<lambda>(cells, total).
     Inr (tx\<lparr>tp_Inputs := tp_Inputs tx @ map (\<lambda>c. (fst c, 0)) cells,
             tp_Outputs := tp_Outputs tx @ [\<lparr>oc_Capacity = total - refund_fee, oc_Lock = pq_Server p, oc_Type = None\<rparr>],
             tp_OutputsData := tp_OutputsData tx @ [''''],
             tp_Witnesses := actionWitness # tp_Witnesses tx, tp_CellDeps := [pq_PreDep p]\<rparr>))"

text \<open>The result is the new value of \<open>recyclePreBlockNumberEarly\<close>; \<open>early\<close> is after the first lines.\<close>

definition doRecyclePreEarly :: "recycle_lib \<Rightarrow> 64 word \<Rightarrow> 64 word \<Rightarrow> (64 word) dao" where
  "doRecyclePreEarly K early recyclePreBlockNumberEarly =
     (if \<not> cl_RecyclePreEarly K then okM recyclePreBlockNumberEarly
      else bindM (wrapM ''getPreCellRecycleParams'' (getPreCellRecycleParams K)) (\<lambda>p.
      bindM (liftM (wrapR ''getPreCellByMedianTime''
        (getPreCellByMedianTime K p early recyclePreBlockNumberEarly early))) (\<lambda>found.
      bindM (liftM (wrapR ''GenActionDataWitness'' (ActionWitness (cl_Tx K) DasActionRefundPreRegister))) (\<lambda>actionWitness.
      bindM (liftM (early_cells K p early 0 found)) (\<lambda>tx.
      if found = [] then okM recyclePreBlockNumberEarly
      else bindM (liftM (early_tx K p actionWitness tx)) (\<lambda>txParams.
        thenM (send_refund K (lc_OutPoint (fst (hd found))) txParams)
          (okM (lc_BlockNumber (fst (last found)))))))))) "

text \<open>The variables of the package and the jobs on them.\<close>

record recycle_state =
  rs_PreBlockNumber :: "64 word"
  rs_EarlyBlockNumber :: "64 word"
  rs_EarlySeconds :: "64 word"
  rs_RefundPreBlockNumber :: "64 word"

definition first_recycle_state :: recycle_state where
  "first_recycle_state = \<lparr>rs_PreBlockNumber = 0, rs_EarlyBlockNumber = 0, rs_EarlySeconds = 60 * 60,
     rs_RefundPreBlockNumber = 0\<rparr>"

definition run_recycle_pre :: "recycle_lib \<Rightarrow> recycle_state \<Rightarrow> recycle_state dao" where
  "run_recycle_pre K s =
     bindM (tryM (doRecyclePre K (rs_EarlySeconds s) (rs_PreBlockNumber s))) (\<lambda>res.
       okM (case res of Inl _ \<Rightarrow> s | Inr n \<Rightarrow> s\<lparr>rs_PreBlockNumber := n\<rparr>))"

definition run_recycle_early :: "recycle_lib \<Rightarrow> recycle_state \<Rightarrow> recycle_state dao" where
  "run_recycle_early K s0 =
     (let s = s0\<lparr>rs_EarlySeconds := early_seconds K (rs_EarlySeconds s0)\<rparr> in
      bindM (tryM (doRecyclePreEarly K (rs_EarlySeconds s) (rs_EarlyBlockNumber s))) (\<lambda>res.
        okM (case res of Inl _ \<Rightarrow> s | Inr n \<Rightarrow> s\<lparr>rs_EarlyBlockNumber := n\<rparr>)))"

section \<open>refund\_apply.go of the timer\<close>

definition refund_apply_one :: "recycle_lib \<Rightarrow> string \<Rightarrow> string \<Rightarrow> live_cell \<Rightarrow> unit dao" where
  "refund_apply_one K applyDep configCell v =
     (let L = cl_Tx K in
      bindM (liftM (wrapR ''GenActionDataWitness'' (ActionWitness L DasActionRefundApply))) (\<lambda>actionWitness.
      bindM (liftM (wrapR ''GetTimeCell'' (GetTimeCell L))) (\<lambda>(timeCell, _).
      bindM (liftM (wrapR ''GetHeightCell'' (GetHeightCell L))) (\<lambda>heightCell.
        send_refund K (lc_OutPoint v) (refund_tx v 0 (oc_Lock (lc_Output v)) None [actionWitness]
          [applyDep, timeCell, heightCell, configCell])))))"

fun refund_apply_loop :: "recycle_lib \<Rightarrow> string \<Rightarrow> string \<Rightarrow> 32 word \<Rightarrow> 64 word \<Rightarrow> live_cell list \<Rightarrow> unit dao" where
  "refund_apply_loop K applyDep configCell maxWaiting tip [] = okM ()"
| "refund_apply_loop K applyDep configCell maxWaiting tip (v # vs) =
     (if tip < lc_BlockNumber v + ucast maxWaiting then okM ()
      else thenM (if cl_IsSighash K (oc_Lock (lc_Output v)) then refund_apply_one K applyDep configCell v else okM ())
        (refund_apply_loop K applyDep configCell maxWaiting tip vs))"

definition doRefundApply :: "recycle_lib \<Rightarrow> unit dao" where
  "doRefundApply K =
     bindM (liftM (wrapR ''address.Parse'' (cl_PayServer K))) (\<lambda>server.
     bindM (contractM K DasContractNameApplyRegisterCellType) (\<lambda>(applyScript, applyDep).
     bindM (max_waiting K) (\<lambda>maxWaiting0.
     let maxWaiting = (if maxWaiting0 < 8640 then 8640 else maxWaiting0) in
     bindM (liftM (wrapR ''GetTipBlockNumber'' (TipBlockNumber (cl_Tx K)))) (\<lambda>tip.
     bindM (liftM (wrapR ''GetCells'' (cl_Cells K server (cl_ToScript K applyScript) (Some (48, 49)) None 200))) (\<lambda>cells.
     bindM (liftM (wrapR ''GetDasConfigCellInfo'' (ConfigCell (cl_Tx K) ConfigCellTypeArgsApply))) (\<lambda>configCell.
       refund_apply_loop K applyDep configCell maxWaiting tip cells))))))"

text \<open>
  One cell of \<open>doRefundPre\<close>: the result says whether the loop goes on; a refusal with error 83
  ends it, other refusals are logged, and other errors end the job.
\<close>

definition refund_pre_one :: "recycle_lib \<Rightarrow> string \<Rightarrow> string \<Rightarrow> live_cell \<Rightarrow> bool dao" where
  "refund_pre_one K preDep balanceScript v =
     (let L = cl_Tx K in
      bindM (liftM (wrapR ''GetTransaction'' (cl_PreTx K (lc_OutPoint v)))) (\<lambda>res.
      case cl_PreCell K res of Inl _ \<Rightarrow> okM True | Inr pre \<Rightarrow>
      if pr_RefundLock pre = None then okM True
      else bindM (liftM (cl_LockScript K (pr_RefundLock pre))) (\<lambda>lock.
      if \<not> cl_IsDas K lock \<and> \<not> cl_IsSighash K lock then okM True
      else bindM (liftM (refund_type K balanceScript lock)) (\<lambda>ty.
      bindM (liftM (wrapR ''GenActionDataWitness'' (ActionWitness L DasActionRefundPreRegister))) (\<lambda>actionWitness.
      bindM (liftM (wrapR ''GetTimeCell'' (GetTimeCell L))) (\<lambda>(timeCell, _).
      bindM (liftM (wrapR ''GetHeightCell'' (GetHeightCell L))) (\<lambda>heightCell.
      bindM (liftM (wrapR ''BuildTransaction'' (BuildTransaction L (refund_tx v 0 lock ty
        [actionWitness, pr_Witness pre 0] [preDep, timeCell, heightCell])))) (\<lambda>tx.
      bindM (tryM (sendM L (lc_OutPoint v) tx)) (\<lambda>sent.
        okM (case sent of Inl e \<Rightarrow> \<not> contains e ''error code 83'' | Inr _ \<Rightarrow> True))))))))))"

text \<open>The error, if any, and the new \<open>preBlockNumber\<close>, which moves on with every cell.\<close>

fun refund_pre_loop :: "(live_cell \<Rightarrow> bool dao) \<Rightarrow> 64 word \<Rightarrow> live_cell list \<Rightarrow> ((gerr + unit) \<times> 64 word) dao" where
  "refund_pre_loop one n [] = okM (Inr (), n + 1)"
| "refund_pre_loop one n (v # vs) =
     bindM (tryM (one v)) (\<lambda>res.
       case res of
         Inl e \<Rightarrow> okM (Inl e, lc_BlockNumber v)
       | Inr False \<Rightarrow> okM (Inr (), lc_BlockNumber v - 1 + 1)
       | Inr True \<Rightarrow> refund_pre_loop one (lc_BlockNumber v) vs)"

definition doRefundPre :: "recycle_lib \<Rightarrow> 64 word \<Rightarrow> ((gerr + unit) \<times> 64 word) dao" where
  "doRefundPre K preBlockNumber =
     bindM (tryM (
       bindM (contractM K DasContractNameDispatchCellType) (\<lambda>_.
       bindM (contractM K DasContractNameBalanceCellType) (\<lambda>(balanceScript, _).
       bindM (contractM K DasContractNameAlwaysSuccess) (\<lambda>(asScript, _).
       bindM (contractM K DasContractNamePreAccountCellType) (\<lambda>(preScript, preDep).
       bindM (liftM (wrapR ''GetTipBlockNumber'' (TipBlockNumber (cl_Tx K)))) (\<lambda>tip.
       bindM (liftM (wrapR ''GetCells'' (cl_Cells K (cl_ToScript K asScript) (cl_ToScript K preScript) None
         (Some (preBlockNumber, tip - 8640)) 100))) (\<lambda>cells.
         okM (balanceScript, preDep, cells))))))))) (\<lambda>res.
       case res of
         Inl e \<Rightarrow> okM (Inl e, preBlockNumber)
       | Inr (balanceScript, preDep, cells) \<Rightarrow>
           if cells = [] then okM (Inr (), 0)
           else refund_pre_loop (refund_pre_one K preDep balanceScript) preBlockNumber cells)"

section \<open>refund\_apply.go of the handlers\<close>

record refund_req =
  rq_IsRefund :: bool
  rq_IsAll :: bool
  rq_BlockNumber :: "64 word"

definition buildRefundApplyTx :: "recycle_lib \<Rightarrow> live_cell \<Rightarrow> gerr + tx_params" where
  "buildRefundApplyTx K v =
     (let L = cl_Tx K in
      bindR (wrapR ''GenActionDataWitness'' (ActionWitness L DasActionRefundApply)) (\<lambda>actionWitness.
      bindR (wrapR ''GetDasContractInfo'' (Contract L DasContractNameApplyRegisterCellType)) (\<lambda>(_, applyDep).
      bindR (wrapR ''GetTimeCell'' (GetTimeCell L)) (\<lambda>(timeCell, _).
      bindR (wrapR ''GetHeightCell'' (GetHeightCell L)) (\<lambda>heightCell.
      bindR (wrapR ''GetDasConfigCellInfo'' (ConfigCell L ConfigCellTypeArgsApply)) (\<lambda>configCell.
        Inr (refund_tx v 0 (oc_Lock (lc_Output v)) None [actionWitness] [applyDep, timeCell, heightCell, configCell])))))))"

text \<open>The first cell only, or all of them.\<close>

fun refund_cells :: "recycle_lib \<Rightarrow> bool \<Rightarrow> live_cell list \<Rightarrow> unit dao" where
  "refund_cells K isAll [] = okM ()"
| "refund_cells K isAll (v # vs) =
     bindM (orApi ApiCodeError500 (liftM (buildRefundApplyTx K v))) (\<lambda>tx.
     thenM (orApi ApiCodeError500 (send_refund K (lc_OutPoint v) tx))
       (if isAll then refund_cells K isAll vs else okM ()))"

text \<open>The cells of at least a day, at three seconds a block.\<close>

definition refund_list :: "64 word \<Rightarrow> live_cell list \<Rightarrow> live_cell list" where
  "refund_list num cells = filter (\<lambda>v. 24 * 60 * 60 div 3 < num - lc_BlockNumber v) cells"

definition doRefundApplyRequest :: "recycle_lib \<Rightarrow> refund_req \<Rightarrow> unit dao" where
  "doRefundApplyRequest K req =
     bindM (orApi ApiCodeError500 (liftM (cl_PayServer K))) (\<lambda>server.
     bindM (orApi ApiCodeError500 (contractM K DasContractNameApplyRegisterCellType)) (\<lambda>(applyScript, _).
     bindM (orApi ApiCodeError500 (liftM (TipBlockNumber (cl_Tx K)))) (\<lambda>num.
     bindM (orApi ApiCodeError500 (liftM (cl_Cells K server (cl_ToScript K applyScript) None
       (Some (rq_BlockNumber req, num)) 100))) (\<lambda>cells.
       if rq_IsRefund req then refund_cells K (rq_IsAll req) (refund_list num cells) else okM ()))))"

section \<open>What the jobs keep\<close>

context db_reading
begin

lemma send_refund: "upholds R (send_refund K op tx)"
  unfolding send_refund_def sendM_def by (intro rules)

lemma recycle_steps:
  "upholds R (contractM K c)" "upholds R (max_waiting K)" "upholds R (getPreCellRecycleParams K)"
  unfolding contractM_def max_waiting_def getPreCellRecycleParams_def contractM_def by (intro rules)+

lemmas recycle_rules = rules recycle_steps send_refund

lemma recycle_apply_loop: "upholds R (recycle_apply_loop K dep m tip vs)"
  by (induction vs) (auto simp: recycle_apply_one_def intro!: recycle_rules)

lemma refund_apply_loop: "upholds R (refund_apply_loop K dep cc m tip vs)"
  by (induction vs) (auto simp: refund_apply_one_def Let_def intro!: recycle_rules)

lemma recycle_pre_loop: "(\<And>v. upholds R (f v)) \<Longrightarrow> upholds R (recycle_pre_loop f n vs)"
  by (induction vs arbitrary: n) (auto intro!: recycle_rules)

lemma refund_pre_loop: "(\<And>v. upholds R (f v)) \<Longrightarrow> upholds R (refund_pre_loop f n vs)"
  by (induction vs arbitrary: n) (auto intro!: recycle_rules split: sum.split bool.split)

lemma refund_cells: "upholds R (refund_cells K isAll vs)"
  by (induction vs) (auto simp: orApi_def intro!: recycle_rules)

lemma doRecyclePreTx: "upholds R (doRecyclePreTx K p ts v)"
  unfolding doRecyclePreTx_def by (cases v) (auto intro!: recycle_rules)

lemma refund_pre_one: "upholds R (refund_pre_one K dep bal v)"
  unfolding refund_pre_one_def sendM_def Let_def by (intro rules)

lemma recycles:
  "upholds R (doRecycleApply K)" "upholds R (doRecyclePre K e n)" "upholds R (doRecyclePreEarly K e n)"
  "upholds R (doRefundApply K)" "upholds R (doRefundPre K n)" "upholds R (doRefundApplyRequest K rreq)"
  unfolding doRecycleApply_def doRecyclePre_def doRecyclePreEarly_def doRefundApply_def doRefundPre_def
    doRefundApplyRequest_def Let_def
  by (intro recycle_rules recycle_apply_loop refund_apply_loop recycle_pre_loop refund_pre_loop refund_cells
      doRecyclePreTx refund_pre_one)+

lemma recycle_jobs: "upholds R (run_recycle_pre K s)" "upholds R (run_recycle_early K s)"
  unfolding run_recycle_pre_def run_recycle_early_def Let_def by (intro rules recycles)+

end

end
