(* ===== verification/Recommend.thy ===== *)
theory Recommend
  imports RegisterSafety
begin

text \<open>
  \<open>src/http_server/handle/account_recommend.go\<close> and \<open>src/elastic/recommend_acc.go\<close>: accounts like
  the one that was asked for and still free. The hits of the search index are a parameter; each hit is
  a document that may or may not be decoded.
\<close>

section \<open>Strings\<close>

text \<open>\<open>strings.Split\<close> at a character, \<open>strings.Join\<close>, and \<open>strings.ReplaceAll\<close> with nothing.\<close>

fun split_at :: "char \<Rightarrow> string \<Rightarrow> string list" where
  "split_at c [] = [[]]"
| "split_at c (x # xs) = (if x = c then [] # split_at c xs else (x # hd (split_at c xs)) # tl (split_at c xs))"

fun join_with :: "string \<Rightarrow> string list \<Rightarrow> string" where
  "join_with sep [] = []"
| "join_with sep [t] = t"
| "join_with sep (t # ts) = t @ sep @ join_with sep ts"

function remove_all :: "string \<Rightarrow> string \<Rightarrow> string" where
  "remove_all p s = (if s = [] then [] else if p \<noteq> [] \<and> take (length p) s = p then remove_all p (drop (length p) s)
     else hd s # remove_all p (tl s))"
  by pat_completeness auto
termination by (relation "measure (\<lambda>(p, s). length s)") auto

declare remove_all.simps [simp del]

lemma split_at_ne [simp]: "split_at c s \<noteq> []"
  by (induction s) auto

lemma join_with_Cons: "ts \<noteq> [] \<Longrightarrow> join_with sep (t # ts) = t @ sep @ join_with sep ts"
  by (cases ts) auto

lemma join_with_grow: "join_with sep ((x # hd ts) # tl ts) = x # join_with sep (hd ts # tl ts)"
  by (cases "tl ts") (auto simp: join_with_Cons)

lemma join_split: "join_with [c] (split_at c s) = s"
proof (induction s)
  case (Cons x s)
  then show ?case by (cases "x = c") (simp_all add: join_with_Cons join_with_grow)
qed simp

section \<open>recommend\_acc.go\<close>

record es_lib =
  es_TermHits :: "string \<Rightarrow> gerr + (gerr + string) list"
  es_FuzzyHits :: "string \<Rightarrow> nat \<Rightarrow> nat \<Rightarrow> gerr + (gerr + string) list"
  es_CharSets :: "string \<Rightarrow> gerr + account_char_set list"

definition TermQueryAcc :: "es_lib \<Rightarrow> string \<Rightarrow> gerr + string" where
  "TermQueryAcc E word =
     bindR (wrapR ''Error performing the search request'' (es_TermHits E word)) (\<lambda>hits.
       case hits of [] \<Rightarrow> Inr '''' | hit # _ \<Rightarrow> hit)"

definition FuzzyQueryAcc :: "es_lib \<Rightarrow> string \<Rightarrow> nat \<Rightarrow> nat \<Rightarrow> gerr + string list" where
  "FuzzyQueryAcc E acc acc_length acc_type =
     bindR (wrapR ''Error performing the search request'' (es_FuzzyHits E acc acc_length acc_type)) (\<lambda>hits.
       Inr (concat (map (\<lambda>v. case v of Inl _ \<Rightarrow> [] | Inr a \<Rightarrow> [a]) hits)))"

section \<open>account\_recommend.go\<close>

fun lower_unique :: "string list \<Rightarrow> string list \<Rightarrow> string list" where
  "lower_unique seen [] = []"
| "lower_unique seen (str # data) =
     (let lowerStr = ToLower str in
      if lowerStr \<in> set seen then lower_unique seen data else lowerStr # lower_unique (lowerStr # seen) data)"

definition lowerAndUnique :: "string list \<Rightarrow> string list" where
  "lowerAndUnique data = lower_unique [] data"

text \<open>The first place where both parts are words of the index.\<close>

fun two_words :: "es_lib \<Rightarrow> string \<Rightarrow> nat list \<Rightarrow> gerr + string list" where
  "two_words E acc [] = Inr []"
| "two_words E acc (i # is) =
     bindR (wrapR ''TermQuery'' (TermQueryAcc E (take i acc))) (\<lambda>prefixAcc.
       if prefixAcc = '''' then two_words E acc is
       else bindR (wrapR ''TermQuery'' (TermQueryAcc E (drop i acc))) (\<lambda>suffixAcc.
         if suffixAcc = '''' then two_words E acc is else Inr [take i acc, drop i acc]))"

text \<open>\<open>None\<close> stands for a service that runs without the search index.\<close>

definition separateToken :: "es_lib option \<Rightarrow> string \<Rightarrow> gerr + (string list \<times> string)" where
  "separateToken es acc =
     (case es of None \<Rightarrow> Inl (Errf ''elasticsearch client is not initialized'') | Some E \<Rightarrow>
      bindR (wrapR ''TermQuery'' (TermQueryAcc E acc)) (\<lambda>res.
        if res \<noteq> '''' then Inr ([acc], '''')
        else if CHR ''-'' \<in> set acc then Inr (split_at CHR ''-'' acc, ''-'')
        else bindR (two_words E acc [1..<length acc]) (\<lambda>words. Inr (words, ''''))))"

definition token_words :: "es_lib \<Rightarrow> (string \<Rightarrow> nat) \<Rightarrow> string list \<Rightarrow> gerr + string list list" where
  "token_words E len words =
     mapR (\<lambda>v. bindR (wrapR ''FuzzyQueryAcc'' (FuzzyQueryAcc E v (len v) 0)) (\<lambda>ws. Inr (lowerAndUnique ws))) words"

definition tokenRecommend :: "es_lib \<Rightarrow> string list \<Rightarrow> gerr + string list list" where
  "tokenRecommend E words =
     bindR (token_words E length words) (\<lambda>recommendTokens.
       if recommendTokens = [] then token_words E (\<lambda>_. 0) words else Inr recommendTokens)"

definition recommend_search :: "http_lib \<Rightarrow> string \<Rightarrow> account_char_set list \<Rightarrow> search_req" where
  "recommend_search H acc charSet =
     \<lparr>s_KeyInfo = \<lparr>ki_Type = '''', ki_CoinType = '''', ki_Key = ''''\<rparr>, s_ChainType = 0, s_Address = '''',
      s_Account = acc @ h_Suffix H, s_AccountCharStr = charSet\<rparr>"

text \<open>An account that cannot be checked is not available.\<close>

definition checkRecommendAvailable :: "http_lib \<Rightarrow> es_lib \<Rightarrow> string \<Rightarrow> string \<Rightarrow> bool dao" where
  "checkRecommendAvailable H E acc recommendAcc =
     bindM (wrapM ''GetAccountCharSetList'' (liftM (es_CharSets E (recommendAcc @ h_Suffix H)))) (\<lambda>charSet.
       if CHR ''.'' \<in> set recommendAcc then okM False
       else if recommendAcc = acc then okM False
       else catchM (bindM (checkAccountBase H (recommend_search H recommendAcc charSet))
                      (\<lambda>b. okM (bk_Status b = SearchStatusRegisterAble)))
              (\<lambda>_. okM False))"

text \<open>One of the first three words is replaced by a word like it.\<close>

definition new_words :: "string list \<Rightarrow> string \<Rightarrow> string list list \<Rightarrow> string list" where
  "new_words words separateType recommendTokens =
     concat (map (\<lambda>i. map (\<lambda>v. ToLower (join_with separateType (words[i := v]))) (recommendTokens ! i))
       [0..<min 3 (length words)])"

fun available_words :: "http_lib \<Rightarrow> es_lib \<Rightarrow> string \<Rightarrow> string list \<Rightarrow> string list dao" where
  "available_words H E acc [] = okM []"
| "available_words H E acc (newWord # new) =
     bindM (catchM (checkRecommendAvailable H E acc newWord) (\<lambda>_. okM False)) (\<lambda>available.
     bindM (available_words H E acc new) (\<lambda>recommendAcc.
       okM (if available then (newWord @ h_Suffix H) # recommendAcc else recommendAcc)))"

definition doAccountRecommend :: "http_lib \<Rightarrow> es_lib option \<Rightarrow> string \<Rightarrow> string list dao" where
  "doAccountRecommend H es account =
     (if length (filter (\<lambda>c. c = CHR ''.'') account) \<noteq> 1 \<or> \<not> HasSuffix account (h_Suffix H)
      then apiErr ApiCodeParamsInvalid
      else let acc = ToLower (remove_all (h_Suffix H) account) in
      bindM (orApi ApiCodeError500 (liftM (wrapR ''separateToken'' (separateToken es acc)))) (\<lambda>(words, separateType).
      case es of None \<Rightarrow> errM GoPanic | Some E \<Rightarrow>
      bindM (orApi ApiCodeError500 (liftM (wrapR ''tokenRecommend'' (tokenRecommend E words)))) (\<lambda>recommendTokens.
      bindM (available_words H E acc (new_words words separateType recommendTokens)) (\<lambda>recommendAcc.
        if recommendAcc = [] then apiErr ApiCodeRecommendAccEmpty else okM recommendAcc))))"

context db_reading
begin

lemma available_words: "upholds R (available_words H E acc ws)"
proof (induction ws)
  case (Cons word ws)
  have "upholds R (checkRecommendAvailable H E acc word)"
    unfolding checkRecommendAvailable_def by (intro search_rules)
  with Cons.IH show ?case by (auto intro!: search_rules)
qed (simp add: okM)

lemma doAccountRecommend: "upholds R (doAccountRecommend H es account)"
  unfolding doAccountRecommend_def by (intro search_rules available_words)

end

section \<open>What is recommended\<close>

lemma two_words_join: "two_words E acc is = Inr ts \<Longrightarrow> ts \<noteq> [] \<Longrightarrow> join_with '''' ts = acc"
  by (induction E acc "is" rule: two_words.induct) (auto simp: bindR_eq_Inr split: if_splits)

text \<open>The words make up the name.\<close>

lemma separateToken_join:
  assumes "separateToken es acc = Inr (words, sep)" and "words \<noteq> []"
  shows "join_with sep words = acc"
  using assms unfolding separateToken_def
  by (auto simp: bindR_eq_Inr join_split two_words_join split: if_splits option.splits)

lemma mapR_length: "mapR f xs = Inr ys \<Longrightarrow> length ys = length xs"
  by (induction xs arbitrary: ys) (auto simp: bindR_eq_Inr)

text \<open>There is a list of words for each word, so that the loop stays in bounds.\<close>

lemma tokenRecommend_length: "tokenRecommend E toks = Inr ws \<Longrightarrow> length ws = length toks"
  unfolding tokenRecommend_def token_words_def by (auto simp: bindR_eq_Inr dest: mapR_length split: if_splits)

lemma available_ok:
  assumes "checkRecommendAvailable H E acc word w = (Inr True, w')"
  shows "\<exists>charSet b w1. es_CharSets E (word @ h_Suffix H) = Inr charSet \<and> CHR ''.'' \<notin> set word \<and> word \<noteq> acc
    \<and> checkAccountBase H (recommend_search H word charSet) w = (Inr b, w1) \<and> bk_Status b = SearchStatusRegisterAble"
  using assms unfolding checkRecommendAvailable_def
  by (auto simp: ok_iffs catchM_def errM_def okM_def bindM_def split: if_splits prod.splits sum.splits)


text \<open>An account someone may register: free, or no one's and open.\<close>

definition free_in :: "http_lib \<Rightarrow> db \<Rightarrow> search_req \<Rightarrow> bool" where
  "free_in H t req \<longleftrightarrow>
     (let acc = account_of H t (s_Account req) in
      if 0 < a_Id acc then FormatAccountStatus acc = SearchStatusRegisterAble
      else \<exists>b. check_free_name H req = Inr b \<and> bk_Status b = SearchStatusRegisterAble)"

lemma checkAccountBase_free:
  assumes "checkAccountBase H req w = (Inr b, w1)" "bk_Status b = SearchStatusRegisterAble"
  shows "free_in H (tabs w) req"
  using assms unfolding checkAccountBase_def GetAccountInfoByAccountId_def account_of_def free_in_def
  by (auto simp: ok_iffs dest!: queryM_okD split: if_splits)

definition recommendable :: "http_lib \<Rightarrow> es_lib \<Rightarrow> db \<Rightarrow> string \<Rightarrow> string \<Rightarrow> bool" where
  "recommendable H E t acc word \<longleftrightarrow> CHR ''.'' \<notin> set word \<and> word \<noteq> acc
     \<and> (\<exists>charSet. es_CharSets E (word @ h_Suffix H) = Inr charSet \<and> free_in H t (recommend_search H word charSet))"

lemma available_words_ok:
  assumes "available_words H E acc ws w = (Inr list, w')"
  shows "set list \<subseteq> (\<lambda>v. v @ h_Suffix H) ` {v \<in> set ws. recommendable H E (tabs w) acc v}"
  using assms
proof (induction ws arbitrary: w list)
  case (Cons word ws)
  let ?c = "catchM (checkRecommendAvailable H E acc word) (\<lambda>_. okM False)"
  from Cons.prems obtain ok w1 l where c: "?c w = (Inr ok, w1)"
    and l: "available_words H E acc ws w1 = (Inr l, w')" "list = (if ok then (word @ h_Suffix H) # l else l)"
    by (auto simp: ok_iffs)
  have "upholds (=) (checkRecommendAvailable H E acc word)"
    unfolding checkRecommendAvailable_def by (intro readonly.search_rules)
  then have "upholds (=) ?c" by (intro readonly.search_rules)
  with c have t: "tabs w1 = tabs w" by (rule tabs_readonly [rotated])
  have "recommendable H E (tabs w) acc word" if ok
  proof -
    from c that have "checkRecommendAvailable H E acc word w = (Inr True, w1)"
      by (auto simp: catchM_def okM_def split: prod.splits sum.splits if_splits)
    from available_ok [OF this] show ?thesis
      unfolding recommendable_def using checkAccountBase_free by fastforce
  qed
  with Cons.IH [OF l(1)] l(2) t show ?case by auto
qed (simp add: okM_def)


text \<open>An index that knows the words my, name, by and game.\<close>

definition ex_es :: es_lib where
  "ex_es = \<lparr>es_TermHits = (\<lambda>word. Inr (if word \<in> {''my'', ''name'', ''by'', ''game''} then [Inr word] else [])),
     es_FuzzyHits = (\<lambda>acc len k. Inr (if acc = ''my'' then [Inr ''by'', Inl Fault, Inr ''My''] else [Inr ''game''])),
     es_CharSets = (\<lambda>_. Inr ex_chars)\<rparr>"

lemma ex_recommend:
  "doAccountRecommend ex_http (Some ex_es) ''myname.bit'' ex_world = (Inr [''byname.bit'', ''mygame.bit''], ex_world)"
proof -
  have base: "checkAccountBase ex_http (recommend_search ex_http word ex_chars) ex_world = (Inr open_account, ex_world)" for word
    by (simp add: checkAccountBase_def GetAccountInfoByAccountId_def go_simps first_or_def zero_account_def
        check_free_name_def recommend_search_def ex_length)
      (simp add: ex_http_def Let_def)
  have avail: "checkRecommendAvailable ex_http ex_es ''myname'' word ex_world = (Inr (word \<noteq> ''myname''), ex_world)"
    if "CHR ''.'' \<notin> set word" for word
  proof -
    have "es_CharSets ex_es v = Inr ex_chars" for v by (simp add: ex_es_def)
    then show ?thesis using that by (auto simp: checkRecommendAvailable_def go_simps base open_account_def)
  qed
  have suf: "h_Suffix ex_http = ''.bit''" by (simp add: ex_http_def)
  have acc: "ToLower (remove_all ''.bit'' ''myname.bit'') = ''myname''" by code_simp
  have toks: "separateToken (Some ex_es) ''myname'' = Inr ([''my'', ''name''], '''')"
    by (simp add: separateToken_def TermQueryAcc_def ex_es_def upt_rec)
  have low: "lowerAndUnique [''by'', ''My''] = [''by'', ''my'']" "lowerAndUnique [''game''] = [''game'']" by code_simp+
  have recs: "tokenRecommend ex_es [''my'', ''name''] = Inr [[''by'', ''my''], [''game'']]"
    by (simp add: tokenRecommend_def token_words_def FuzzyQueryAcc_def ex_es_def low)
  have new: "new_words [''my'', ''name''] '''' [[''by'', ''my''], [''game'']] = [''byname'', ''myname'', ''mygame'']"
    by code_simp
  have av: "available_words ex_http ex_es ''myname'' [''byname'', ''myname'', ''mygame''] ex_world
      = (Inr [''byname.bit'', ''mygame.bit''], ex_world)"
    by (simp add: bindM_def catchM_def okM_def avail suf)
  show ?thesis
    unfolding doAccountRecommend_def
    by (simp add: suf HasSuffix_def suffix_def Let_def acc toks recs new av go_simps del: available_words.simps)
qed


end
