(* ===== verification/ConfigInfo.thy ===== *)
theory ConfigInfo
  imports OrderRegister
begin

text \<open>
  \<open>src/http_server/handle/config_info.go\<close>: the settings a client asks for, from the configuration
  cells or else from their cached copy. The errors of the single getters are not looked at, so a
  builder is the record of the values they return. The quotient of a 32-bit integer by ten thousand
  has few enough digits for \<open>decimal.NewFromFloat\<close> to give it exactly.
\<close>

record chain_config =
  RecordPreparedFeeCapacity :: "64 word"
  RecordBasicCapacity :: "64 word"
  SaleCellBasicCapacity :: "64 word"
  SaleCellPreparedFeeCapacity :: "64 word"
  SaleMinPrice :: "64 word"
  PriceInvitedDiscount :: "32 word"
  ProfitRateInviter :: "32 word"
  IncomeMinTransferCapacity :: "64 word"
  TransferAccountThrottle :: "32 word"
  EditManagerThrottle :: "32 word"
  EditRecordsThrottle :: "32 word"
  MaxLength :: "32 word"
  RecordMinTtl :: "32 word"
  ExpirationGracePeriod :: "32 word"

record info_lib =
  fl_ConfigCells :: "gerr + chain_config"
  fl_DecodeBase :: "string \<Rightarrow> gerr + chain_config"
  fl_MinCkbCapacity :: "64 word"

record config_info =
  ci_ReverseRecordCapacity :: "64 word"
  ci_MinChangeCapacity :: "64 word"
  ci_SaleCellCapacity :: "64 word"
  ci_MinSellPrice :: "64 word"
  ci_AccountExpirationGracePeriod :: "32 word"
  ci_MinTtl :: "32 word"
  ci_ProfitRateOfInviter :: rat
  ci_InviterDiscount :: rat
  ci_MinAccountLen :: "32 word"
  ci_MaxAccountLen :: "32 word"
  ci_EditRecordsThrottle :: "32 word"
  ci_EditManagerThrottle :: "32 word"
  ci_TransferThrottle :: "32 word"
  ci_IncomeCellMinTransferValue :: "64 word"
  ci_Premium :: rat
  ci_TimestampOnChain :: int
  ci_PremiumPercentage :: rat
  ci_PremiumBase :: rat

definition config_values :: "http_lib \<Rightarrow> info_lib \<Rightarrow> gerr + chain_config" where
  "config_values H F =
     (case fl_ConfigCells F of
        Inr builder \<Rightarrow> Inr builder
      | Inl err \<Rightarrow>
          let failed = Inl (In ''ConfigCellDataBuilderByTypeArgsList'' err) in
          (case h_ConfigCache H of
             Inl _ \<Rightarrow> failed
           | Inr strCache \<Rightarrow>
               if strCache = '''' then failed
               else (case fl_DecodeBase F strCache of Inl _ \<Rightarrow> failed | Inr cacheBuilder \<Rightarrow> Inr cacheBuilder)))"

definition percent :: "http_lib \<Rightarrow> 32 word \<Rightarrow> rat" where
  "percent H x = of_nat (unat x) / h_PercentRateBase H"

definition config_answer :: "http_lib \<Rightarrow> info_lib \<Rightarrow> chain_config \<Rightarrow> int \<Rightarrow> config_info" where
  "config_answer H F c timestamp =
     \<lparr>ci_ReverseRecordCapacity = RecordPreparedFeeCapacity c + RecordBasicCapacity c,
      ci_MinChangeCapacity = fl_MinCkbCapacity F,
      ci_SaleCellCapacity = SaleCellBasicCapacity c + SaleCellPreparedFeeCapacity c,
      ci_MinSellPrice = SaleMinPrice c,
      ci_AccountExpirationGracePeriod = ExpirationGracePeriod c,
      ci_MinTtl = RecordMinTtl c,
      ci_ProfitRateOfInviter = percent H (ProfitRateInviter c),
      ci_InviterDiscount = percent H (PriceInvitedDiscount c),
      ci_MinAccountLen = ucast (h_AccountMinLength H),
      ci_MaxAccountLen = MaxLength c,
      ci_EditRecordsThrottle = EditRecordsThrottle c,
      ci_EditManagerThrottle = EditManagerThrottle c,
      ci_TransferThrottle = TransferAccountThrottle c,
      ci_IncomeCellMinTransferValue = IncomeMinTransferCapacity c,
      ci_Premium = h_Premium H,
      ci_TimestampOnChain = timestamp,
      ci_PremiumPercentage = h_StripePremiumPercentage H,
      ci_PremiumBase = h_StripePremiumBase H\<rparr>"

definition doConfigInfo :: "http_lib \<Rightarrow> info_lib \<Rightarrow> config_info dao" where
  "doConfigInfo H F =
     bindM (checkSystemUpgrade H) (\<lambda>_.
     bindM (orApi ApiCodeError500 (liftM (config_values H F))) (\<lambda>c.
     bindM (orApi ApiCodeError500 (liftM (wrapR ''GetTimeCell'' (h_TimeCell H)))) (\<lambda>timestamp.
       okM (config_answer H F c timestamp))))"

context db_reading
begin

lemma doConfigInfo: "upholds R (doConfigInfo H F)"
  unfolding doConfigInfo_def by (intro search_rules)

end

text \<open>A client sees no difference between the cells and a copy of them that is up to date.\<close>

lemma config_from_copy:
  assumes "fl_DecodeBase F s = Inr c" and "s \<noteq> ''''"
  shows "doConfigInfo (H\<lparr>h_ConfigCache := Inr s\<rparr>) (F\<lparr>fl_ConfigCells := Inl e\<rparr>) w
    = doConfigInfo (H\<lparr>h_ConfigCache := Inr s\<rparr>) (F\<lparr>fl_ConfigCells := Inr c\<rparr>) w"
proof -
  have "config_values (H\<lparr>h_ConfigCache := Inr s\<rparr>) (F\<lparr>fl_ConfigCells := f\<rparr>) = Inr c" if "f = Inl e \<or> f = Inr c" for f
    using assms that by (auto simp: config_values_def Let_def)
  then show ?thesis by (simp add: doConfigInfo_def config_answer_def)
qed

end
