(* ===== verification/System.thy ===== *)
theory System
  imports Jobs Reparse BlockChain OrderRenew Pages Recycle Recommend ConfigInfo
begin

text \<open>
  The service as a whole: one transition per request, job or round of the parser, in any order, with
  any answers of the node, of das-lib and of unipay, and any failing database call. Every transition
  keeps every \<open>block_contract\<close>, so that what the contracts say of one operation holds of every run.
  A transition is one whole operation: the statements of two operations do not interleave. Between
  two operations the clock, Redis and the tables other services write may change at will.
\<close>

section \<open>Transitions\<close>

text \<open>The tables of prices, and of accounts, DID cells, records and transactions of the chain, belong to
  other services.\<close>

definition foreign ::
  "db \<Rightarrow> token_row list \<Rightarrow> account_row list \<Rightarrow> did_row list \<Rightarrow> transaction_row list \<Rightarrow> records_row list \<Rightarrow>
   reverse_row list \<Rightarrow> rebate_row list \<Rightarrow> db" where
  "foreign t ks as ds xs rs vs bs =
     t\<lparr>tokens := ks, accounts := as, did_cells := ds, transactions := xs, records := rs, reverses := vs, rebates := bs\<rparr>"

inductive serves :: "db world \<Rightarrow> db world \<Rightarrow> bool" where
  outside: "serves w (w\<lparr>tabs := foreign (tabs w) ks as ds xs rs vs bs, faults := fs, trace := es, redis := rd, now := n\<rparr>)"
| registers: "serves w (snd (doOrderRegister dr H m rreq w))"
| searches: "serves w (snd (doAccountSearch dr H sreq w))"
| renews_order: "serves w (snd (doOrderRenew dr H G m rnreq w))"
| changes_order: "serves w (snd (doOrderChange dr H m chreq w))"
| registers_internally: "serves w (snd (doAccountRegister dr H charList m inreq w))"
| renews_internally: "serves w (snd (doAccountRenew dr H G m rnreq w))"
| reports_hash: "serves w (snd (doOrderPayHash H hreq w))"
| checks_coupon: "serves w (snd (doCheckCoupon H code w))"
| makes_coupons: "serves w (snd (doCreateCoupon H parse draw wr creq w))"
| edits_records: "serves w (snd (doEditRecords H E erreq w))"
| edits_manager: "serves w (snd (doEditManager H E eoreq w))"
| edits_owner: "serves w (snd (doEditOwner H E eoreq w))"
| edits_script: "serves w (snd (doEditScript H E ecreq w))"
| pays_by_balance: "serves w (snd (doBalancePay H B bpreq w))"
| withdraws: "serves w (snd (doBalanceWithdraw H B bwreq w))"
| transfers: "serves w (snd (doBalanceTransfer H B btreq w))"
| deposits: "serves w (snd (doBalanceDeposit H B bdreq w))"
| sends: "serves w (snd (doTransactionSend H S sreq' w))"
| moves_did_cell: "serves w (snd (doDidCellEditOwner dr H D m doreq w))"
| moves_das_lock: "serves w (snd (doDidCellDasLockEditOwner H D dkreq w))"
| renews_did_cell: "serves w (snd (doDidCellRenew dr H G D m dnreq w))"
| edits_did_records: "serves w (snd (doDidCellEditRecord H D dcreq w))"
| recycles_did_cell: "serves w (snd (doDidCellRecycle H G D dqreq w))"
| prices_upgrade: "serves w (snd (doDidCellUpgradePrice dr H D dqreq w))"
| bids: "serves w (snd (doAccountAuctionBid dr H U bireq w))"
| shows_auction: "serves w (snd (doGetAccountAuctionInfo dr H U bireq w))"
| shows_auction_price: "serves w (snd (doGetAccountAuctionPrice dr H U account w))"
| lists_bids: "serves w (snd (doGetPendingAuctionOrder U key w))"
| shows_bid: "serves w (snd (doGetAuctionOrderStatus U key hash w))"
| recommends: "serves w (snd (doAccountRecommend H es account w))"
| shows_config: "serves w (snd (doConfigInfo H F w))"
| shows_account: "serves w (snd (doAccountDetail dr H V account w))"
| lists_accounts: "serves w (snd (doAccountList H key w))"
| lists_my_accounts: "serves w (snd (doAccountMine H key pg kw cat w))"
| lists_records: "serves w (snd (doAccountRecords H account w))"
| lists_transactions: "serves w (snd (doTransactionList H V key pg w))"
| shows_transaction: "serves w (snd (doTransactionStatus H V key acts w))"
| lists_withdrawals: "serves w (snd (doWithdrawList H V key pg w))"
| lists_rewards: "serves w (snd (doRewardsMine H key pg w))"
| lists_reverses: "serves w (snd (doReverseList V ct ad w))"
| shows_reverse: "serves w (snd (doReverseLatest H V ct ad w))"
| shows_order: "serves w (snd (doOrderDetail H V key account act w))"
| shows_orders: "serves w (snd (doDasOrderDetail oids w))"
| lists_registering: "serves w (snd (doRegisteringList H key w))"
| shows_balance: "serves w (snd (doBalanceInfo H V key ta w))"
| shows_deposit: "serves w (snd (doAddressDeposit V alg ad w))"
| lists_did_cells: "serves w (snd (doDidCellList V key pg kw w))"
| lists_das_locks: "serves w (snd (doDidCellDasLockList V key pg w))"
| lists_upgradable: "serves w (snd (doDidCellUpgradableList V key pg kw w))"
| lists_recyclable: "serves w (snd (doDidCellRecyclableList H V key pg kw w))"
| refunds_applies: "serves w (snd (doRefundApplyRequest K rreq' w))"
| recycles_applies: "serves w (snd (doRecycleApply K w))"
| recycles_pres: "serves w (snd (run_recycle_pre K rs w))"
| recycles_early: "serves w (snd (run_recycle_early K rs w))"
| notifies: "serves w (snd (doUniPayNotice ct bid evs w))"
| confirms: "serves w (snd (doConfirmStatus ct api w))"
| refunds: "serves w (snd (doRefund sw rapi w))"
| hedges: "serves w (snd (doOrderHedge dr m url post w))"
| applies: "serves w (snd (doOrderApplyTx rt Ls w))"
| pre_registers: "serves w (snd (doOrderPreRegisterTx rt Ls w))"
| renews: "serves w (snd (doOrderRenewTx rt Ls w))"
| moves_did: "serves w (snd (doDidCellTx Ls w))"
| checks_pending: "serves w (snd (checkRejected b nd w))"
| checks_txs: "serves w (snd (doTxRejected nd w))"
| expires: "serves w (snd (checkExpired w))"
| marks_refunds: "serves w (snd (doCheckClosedAndUnRefund w))"
| settles_coupons: "serves w (snd (DoResetCoupon w))"
| parses: "serves w (snd (run_round L conc conf bnd cur w))"

abbreviation runs :: "db world \<Rightarrow> db world \<Rightarrow> bool" where
  "runs \<equiv> serves\<^sup>*\<^sup>*"

locale service_contract = block_contract +
  assumes foreign: "R t (foreign t ks as ds xs rs vs bs)"
begin

lemma serves_kept:
  assumes "serves w w'"
  shows "R (tabs w) (tabs w')"
  using assms
proof (induction rule: serves.induct)
  case (outside w fs es rd n)
  then show ?case by (simp add: foreign)
qed (rule upholdsD, intro request_rules order_rules edits balances doTransactionSend doAccountRecommend doConfigInfo did_cell_rules auctions pages recycles recycle_jobs unipay_rules txtool_rules timer_rules run_round)+

lemma runs_kept: "runs w w' \<Longrightarrow> R (tabs w) (tabs w')"
  by (induction rule: rtranclp_induct) (auto simp: refl dest: serves_kept intro: trans)

end

interpretation service_wf: service_contract wf_kept
  by unfold_locales (simp add: wf_kept_def db_wf_def foreign_def)

interpretation service_ev: service_contract db_evolves
  by unfold_locales (simp add: db_evolves_def evolves_refl foreign_def)

lemma runs_wf: "runs w w' \<Longrightarrow> db_wf (tabs w) \<Longrightarrow> db_wf (tabs w')"
  using service_wf.runs_kept by (simp add: wf_kept_def)

lemma runs_evolve: "runs w w' \<Longrightarrow> db_evolves (tabs w) (tabs w')"
  by (rule service_ev.runs_kept)

section \<open>Reachable databases\<close>

text \<open>A service starts with empty tables of its own, but for gift cards made before.\<close>

definition fresh_db :: "db \<Rightarrow> bool" where
  "fresh_db t \<longleftrightarrow> orders t = [] \<and> pays t = [] \<and> txs t = [] \<and> pendings t = [] \<and> blocks t = []
     \<and> keyed c_Code c_Id (coupons t) (next_id t) \<and> 0 < next_id t"

inductive reachable :: "db world \<Rightarrow> bool" where
  start: "fresh_db (tabs w) \<Longrightarrow> reachable w"
| serve: "reachable w \<Longrightarrow> serves w w' \<Longrightarrow> reachable w'"

lemma reachable_wf: "reachable w \<Longrightarrow> db_wf (tabs w)"
proof (induction rule: reachable.induct)
  case (start w)
  then show ?case by (simp add: fresh_db_def db_wf_def)
next
  case (serve w w')
  then show ?case using runs_wf [of w w'] by blast
qed


lemma keyed_filter_one:
  assumes "keyed key ident rows n" and "r \<in> set rows"
  shows "filter (\<lambda>s. key s = key r) rows = [r]"
  using assms by (induction rows) (auto simp: keyed_def filter_empty_conv image_iff)

section \<open>What becomes of an order\<close>

text \<open>C2. Over any run of the service an order stays, with its token, amount and content, there is no
  other order of its id, a closed order is never opened again, a paid one never unpaid, and its
  hedge, once started, is not started afresh.\<close>

theorem orders_settle_for_good:
  assumes "reachable w" and "runs w w'" and "r \<in> set (orders (tabs w))"
  shows "\<exists>s. filter (\<lambda>s. o_OrderId s = o_OrderId r) (orders (tabs w')) = [s]
     \<and> o_PayTokenId s = o_PayTokenId r \<and> o_PayAmount s = o_PayAmount r \<and> o_Content s = o_Content r
     \<and> (o_OrderStatus r = OrderStatusClosed \<longrightarrow> o_OrderStatus s = OrderStatusClosed)
     \<and> (o_PayStatus r \<noteq> TxStatusDefault \<longrightarrow> o_PayStatus s \<noteq> TxStatusDefault)
     \<and> (o_HedgeStatus r \<noteq> TxStatusDefault \<longrightarrow> o_HedgeStatus s \<noteq> TxStatusDefault)"
proof -
  have wf: "db_wf (tabs w')" using assms(1,2) by (rule runs_wf [OF _ reachable_wf, rotated])
  have key: "keyed o_OrderId o_Id (orders (tabs w')) (next_id (tabs w'))" using wf by (simp add: db_wf_def)
  have "evolves order_ev (orders (tabs w)) (orders (tabs w'))"
    using runs_evolve [OF assms(2)] by (simp add: db_evolves_def)
  from evolves_member [OF this assms(3)] obtain s where s: "s \<in> set (orders (tabs w'))" "order_ev r s" by blast
  have "filter (\<lambda>s. o_OrderId s = o_OrderId r) (orders (tabs w')) = [s]"
    using keyed_filter_one [OF key s(1)] s(2) by (simp add: order_ev_def)
  with s(2) show ?thesis by (auto simp: order_ev_def)
qed

section \<open>Refinement of a ledger\<close>

text \<open>The abstract service: a ledger of orders, each opened once, then paid and closed, in that order.\<close>

datatype phase = Unpaid | Paid | Closed

type_synonym ledger = "string \<Rightarrow> phase option"

inductive ledger_step :: "ledger \<Rightarrow> ledger \<Rightarrow> bool" where
  opens: "L oid = None \<Longrightarrow> ledger_step L (L(oid \<mapsto> Unpaid))"
| pays: "L oid = Some Unpaid \<Longrightarrow> ledger_step L (L(oid \<mapsto> Paid))"
| closes: "L oid = Some p \<Longrightarrow> p \<noteq> Closed \<Longrightarrow> ledger_step L (L(oid \<mapsto> Closed))"

inductive_simps ledger_step_iff: "ledger_step L L'"

definition phase_of :: "order_row \<Rightarrow> phase" where
  "phase_of r = (if o_OrderStatus r = OrderStatusClosed then Closed
     else if o_PayStatus r = TxStatusDefault then Unpaid else Paid)"

definition ledger_of :: "db \<Rightarrow> ledger" where
  "ledger_of t = map_of (map (\<lambda>r. (o_OrderId r, phase_of r)) (orders t))"

fun later_phase :: "phase option \<Rightarrow> phase option \<Rightarrow> bool" where
  "later_phase None q \<longleftrightarrow> True"
| "later_phase (Some p) None \<longleftrightarrow> False"
| "later_phase (Some Unpaid) (Some q) \<longleftrightarrow> True"
| "later_phase (Some Paid) (Some q) \<longleftrightarrow> q \<noteq> Unpaid"
| "later_phase (Some Closed) (Some q) \<longleftrightarrow> q = Closed"

text \<open>One order at a time gets to its later phase.\<close>

lemma ledger_catches_up:
  assumes "later_phase (L oid) q"
  shows "ledger_step\<^sup>*\<^sup>* L (L(oid := q))"
proof -
  have o: "ledger_step\<^sup>*\<^sup>* K (K(oid \<mapsto> q))" if "K oid = Some p" "later_phase (Some p) (Some q)" for K p q
  proof (cases "p = q")
    case True
    with that show ?thesis by (simp add: fun_upd_idem)
  next
    case False
    with that have "ledger_step K (K(oid \<mapsto> q))"
      by (cases p; cases q) (auto intro: ledger_step.intros)
    then show ?thesis by blast
  qed
  show ?thesis
  proof (cases "L oid")
    case None
    have "ledger_step L (L(oid \<mapsto> Unpaid))" using None by (rule ledger_step.opens)
    moreover have "ledger_step\<^sup>*\<^sup>* (L(oid \<mapsto> Unpaid)) (L(oid \<mapsto> x))" for x
      using o [of "L(oid \<mapsto> Unpaid)" Unpaid x] by simp
    ultimately show ?thesis using None
      by (cases q) (auto simp: fun_upd_idem intro: converse_rtranclp_into_rtranclp)
  next
    case (Some p)
    with assms o [of L p] show ?thesis by (cases q) auto
  qed
qed

lemma ledger_catches_up_all:
  assumes "finite A" and "\<forall>oid. later_phase (L oid) (L' oid)"
    and "\<forall>oid. oid \<notin> A \<longrightarrow> L' oid = L oid"
  shows "ledger_step\<^sup>*\<^sup>* L L'"
  using assms
proof (induction A arbitrary: L' rule: finite_induct)
  case empty
  then have "L' = L" by auto
  then show ?case by simp
next
  case (insert a A)
  define K where "K = L'(a := L a)"
  have "ledger_step\<^sup>*\<^sup>* L K"
  proof (rule insert.IH)
    show "\<forall>oid. later_phase (L oid) (K oid)"
    proof
      fix oid
      have "later_phase p p" for p by (cases p; simp; case_tac a; simp)
      with insert.prems(1) show "later_phase (L oid) (K oid)" by (simp add: K_def)
    qed
    show "\<forall>oid. oid \<notin> A \<longrightarrow> K oid = L oid" using insert.prems(2) by (auto simp: K_def)
  qed
  moreover have "ledger_step\<^sup>*\<^sup>* K (K(a := L' a))"
    using insert.prems(1) by (intro ledger_catches_up) (simp add: K_def)
  moreover have "K(a := L' a) = L'" by (simp add: K_def)
  ultimately show ?case by simp
qed

lemma ledger_lookup:
  assumes "keyed o_OrderId o_Id (orders t) n"
  shows "ledger_of t oid = Some p \<longleftrightarrow> (\<exists>r \<in> set (orders t). o_OrderId r = oid \<and> phase_of r = p)"
proof -
  have "distinct (map fst (map (\<lambda>r. (o_OrderId r, phase_of r)) (orders t)))"
    using assms by (simp add: keyed_def comp_def)
  then show ?thesis unfolding ledger_of_def by (auto simp: map_of_eq_Some_iff)
qed

lemma phase_evolves: "order_ev r s \<Longrightarrow> later_phase (Some (phase_of r)) (Some (phase_of s))"
  by (auto simp: order_ev_def phase_of_def)

lemma ledger_later:
  assumes ev: "db_evolves t t'" and wf: "db_wf t" "db_wf t'"
  shows "later_phase (ledger_of t oid) (ledger_of t' oid)"
proof (cases "ledger_of t oid")
  case (Some p)
  then obtain r where r: "r \<in> set (orders t)" "o_OrderId r = oid" "phase_of r = p"
    using wf by (auto simp: ledger_lookup db_wf_def)
  from ev have "evolves order_ev (orders t) (orders t')" by (simp add: db_evolves_def)
  from evolves_member [OF this r(1)] obtain s where s: "s \<in> set (orders t')" "order_ev r s" by blast
  then have "ledger_of t' oid = Some (phase_of s)"
    using wf r(2) by (auto simp: ledger_lookup db_wf_def order_ev_def)
  with phase_evolves [OF s(2)] r(3) Some show ?thesis by simp
qed simp

lemma ledger_finite: "finite (dom (ledger_of t))"
  by (simp add: ledger_of_def finite_dom_map_of)


section \<open>A run\<close>

text \<open>A registration is asked for, then the expiry job runs eight days later.\<close>

lemma ex_shop_reachable: "reachable ex_world"
  by (rule reachable.start) (simp add: fresh_db_def ex_shop_def empty_db_def keyed_def ex_coupon_def)

lemma ex_registered:
  "\<exists>w r. serves ex_world w \<and> orders (tabs w) = [r] \<and> fresh_order ex_http (ex_req ''0xaa'' '''') r"
proof -
  let ?dr = "\<lambda>a b p. a / b" and ?r = "ex_req ''0xaa'' ''''" and ?m = "[TokenIdEth \<mapsto> ex_token]"
  obtain resp w where run: "doOrderRegister ?dr ex_http ?m ?r ex_world = (Inr resp, w)"
    using ex_paid_run by blast
  moreover have "rr_GiftCard ?r = ''''" by (simp add: ex_req_def)
  ultimately have "doRegisterOrder ?dr ex_http ?m ?r ex_world = (Inr resp, w)"
    by (simp add: doOrderRegister_def go_simps ex_register_checks)
  from doRegisterOrder_ok [OF this] obtain r where "orders (tabs w) = [r]" "fresh_order ex_http ?r r"
    by auto
  moreover have "serves ex_world w" using serves.registers [of ex_world ?dr ex_http ?m ?r] run by simp
  ultimately show ?thesis by blast
qed

lemma ex_expired:
  assumes "orders (tabs w) = [r]" and "expirable r"
  shows "\<exists>w' s. runs w w' \<and> orders (tabs w') = [s] \<and> o_OrderStatus s = OrderStatusClosed"
proof -
  define w1 where "w1 = w\<lparr>tabs := foreign (tabs w) (tokens (tabs w)) (accounts (tabs w)) (did_cells (tabs w)) (transactions (tabs w))
       (records (tabs w)) (reverses (tabs w)) (rebates (tabs w)),
     faults := [], trace := [], redis := None, now := o_Timestamp r + 8 * 24 * 3600 * 1000\<rparr>"
  have "serves w w1" unfolding w1_def by (rule serves.outside)
  moreover have "serves w1 (snd (checkExpired w1))" by (rule serves.expires)
  moreover have h: "healthy w1" "orders (tabs w1) = [r]" "now w1 = o_Timestamp r + 8 * 24 * 3600 * 1000"
    by (simp_all add: w1_def foreign_def assms(1) healthy_def)
  have "expirable (r\<lparr>o_OrderStatus := OrderStatusClosed\<rparr>) = False" by (simp add: expirable_def)
  then have "\<exists>s. orders (tabs (snd (checkExpired w1))) = [s] \<and> o_OrderStatus s = OrderStatusClosed"
    using assms(2) by (cases "o_OrderId r \<in> p_OrderId ` set (pays (tabs w1))")
      (simp_all add: checkExpired_def GetNeedExpiredOrders_def GetNeedExpiredOrders2_def go_simps h expire_all_healthy)
  moreover have "runs w (snd (checkExpired w1))"
    using calculation(1,2) by (rule converse_rtranclp_into_rtranclp [OF _ r_into_rtranclp])
  ultimately show ?thesis by blast
qed

text \<open>An unpaid order, closed later.\<close>

lemma ex_life:
  "\<exists>w w' r s. reachable w \<and> runs w w' \<and> orders (tabs w) = [r] \<and> phase_of r = Unpaid
     \<and> orders (tabs w') = [s] \<and> phase_of s = Closed"
proof -
  obtain w r where w: "serves ex_world w" "orders (tabs w) = [r]" "fresh_order ex_http (ex_req ''0xaa'' '''') r"
    using ex_registered by blast
  then have "expirable r" "phase_of r = Unpaid"
    by (simp_all add: expirable_def fresh_order_def sql_in_def phase_of_def)
  moreover have "reachable w" using ex_shop_reachable w(1) by (rule reachable.serve)
  ultimately show ?thesis using ex_expired [OF w(2)] w(2) by (fastforce simp: phase_of_def)
qed


theorem orders_settle_for_good_witness:
  "\<exists>w w' r s. runs w w' \<and> orders (tabs w) = [r] \<and> orders (tabs w') = [s]
     \<and> o_OrderStatus r = OrderStatusDefault \<and> o_OrderStatus s = OrderStatusClosed
     \<and> o_PayAmount s = o_PayAmount r"
proof -
  obtain w w' r s where w: "reachable w" "runs w w'" "orders (tabs w) = [r]" "phase_of r = Unpaid"
    "orders (tabs w') = [s]" "phase_of s = Closed"
    using ex_life by blast
  then have "o_OrderStatus r = OrderStatusDefault" "o_OrderStatus s = OrderStatusClosed"
    by (cases "o_OrderStatus r"; cases "o_OrderStatus s"; simp add: phase_of_def split: if_splits)+
  with orders_settle_for_good [OF w(1,2), of r] w show ?thesis
    by (auto split: if_splits)
qed


end
