(* ===== verification/ParserLive.thy ===== *)
theory ParserLive
  imports BlockChain
begin

text \<open>
  The parser does not only keep the stored blocks linked: with a node that stays on one chain and
  whose blocks are handled without error, it recovers from any fork it has stored and reaches the
  confirmed tip.
\<close>

text \<open>A node on one chain of blocks that can all be handled.\<close>

definition steady :: "lib \<Rightarrow> chain \<Rightarrow> 64 word \<Rightarrow> (64 word \<Rightarrow> chain_block) \<Rightarrow> bool" where
  "steady L nd tip blk \<longleftrightarrow>
     (\<forall>i. GetTipBlockNumber nd i = Inr tip) \<and> (\<forall>n. GetBlockByNumber nd n = Inr (blk n))
     \<and> (\<forall>n. n < tip \<longrightarrow> h_ParentHash (blk (n + 1)) = h_Hash (blk n))
     \<and> (\<forall>n w. healthy w \<longrightarrow> (\<exists>w'. parsingBlockData L nd (blk n) w = (Inr (), w') \<and> healthy w'))"

lemma run_rounds_replicate:
  "run_rounds L conc conf (replicate (Suc k) nd) cur w =
     bindM (run_round L conc conf nd cur) (run_rounds L conc conf (replicate k nd)) w"
  unfolding run_rounds_def [abs_def] by simp

lemma run_rounds_append:
  assumes "run_rounds L conc conf nds cur w = (Inr c, w1)" and "run_rounds L conc conf nds' c w1 = (r, w2)"
  shows "run_rounds L conc conf (nds @ nds') cur w = (r, w2)"
  using assms
proof (induction nds arbitrary: cur w)
  case Nil
  then show ?case by (simp add: run_rounds_def okM_def)
next
  case (Cons nd nds)
  obtain x w' where r: "run_round L conc conf nd cur w = (x, w')" by fastforce
  with Cons.prems(1) obtain c' where x: "x = Inr c'" by (cases x) (auto simp: run_rounds_def bindM_def)
  with r Cons.prems Cons.IH [of c' w'] show ?case by (simp add: run_rounds_def bindM_def)
qed

lemma checkFork_healthy:
  "healthy w \<Longrightarrow> checkFork cur ph w = (Inr (forks (tabs w) cur ph), w)"
  by (auto simp: checkFork_def FindBlockInfoByBlockNumber_def go_simps forks_def block_at_def Let_def split: if_splits)

lemma steady_round:
  assumes st: "steady L nd tip blk" and "healthy w" and "cur < tip - conf"
  shows "forks (tabs w) cur (h_ParentHash (blk cur)) \<Longrightarrow> run_round L 1 conf nd cur w = (Inr (cur - 1), w)"
    and "\<not> forks (tabs w) cur (h_ParentHash (blk cur)) \<Longrightarrow>
      \<exists>w1 w2. tabs w1 = tabs w \<and> parsingBlockData L nd (blk cur) w1 = (Inr (), w2) \<and> healthy w2
        \<and> run_round L 1 conf nd cur w = (Inr (cur + 1), w2\<lparr>tabs := delete_blocks ParserTypeDAS (cur + 1 - 20)
            (upsert_block ParserTypeDAS cur (h_Hash (blk cur)) (h_ParentHash (blk cur)) (tabs w2))\<rparr>)"
proof -
  have tip: "getTipBlockNumberWithRetry nd 3 = Inr tip"
    using st by (simp add: steady_def getTipBlockNumberWithRetry_def eval_nat_numeral)
  have round: "run_round L 1 conf nd cur w = bindM (parserSubMode L nd cur) (\<lambda>r. okM (snd r)) w"
    using assms(3) tip by (simp add: run_round_def go_simps)
  have blk: "GetBlockByNumber nd cur = Inr (blk cur)" using st by (simp add: steady_def)
  note cf = checkFork_healthy [OF assms(2), of cur "h_ParentHash (blk cur)"]
  show "run_round L 1 conf nd cur w = (Inr (cur - 1), w)" if "forks (tabs w) cur (h_ParentHash (blk cur))"
    unfolding round using that by (simp add: parserSubMode_def stepM_def go_simps blk cf)
  show "\<exists>w1 w2. tabs w1 = tabs w \<and> parsingBlockData L nd (blk cur) w1 = (Inr (), w2) \<and> healthy w2
        \<and> run_round L 1 conf nd cur w = (Inr (cur + 1), w2\<lparr>tabs := delete_blocks ParserTypeDAS (cur + 1 - 20)
            (upsert_block ParserTypeDAS cur (h_Hash (blk cur)) (h_ParentHash (blk cur)) (tabs w2))\<rparr>)"
    if "\<not> forks (tabs w) cur (h_ParentHash (blk cur))"
  proof -
    from st assms(2) obtain w2 where p: "parsingBlockData L nd (blk cur) w = (Inr (), w2)" and h: "healthy w2"
      unfolding steady_def by blast
    have "run_round L 1 conf nd cur w = (Inr (cur + 1), w2\<lparr>tabs := delete_blocks ParserTypeDAS (cur + 1 - 20)
            (upsert_block ParserTypeDAS cur (h_Hash (blk cur)) (h_ParentHash (blk cur)) (tabs w2))\<rparr>)"
      unfolding round using that h
      by (simp add: parserSubMode_def stepM_def go_simps blk cf p CreateBlockInfo_def DeleteBlockInfo_def)
    with p h show ?thesis by blast
  qed
qed

text \<open>Stepping back: the rounds write nothing until the stored parent agrees with the node.\<close>

lemma steps_back:
  assumes st: "steady L nd tip blk" and h: "healthy w" and "cur \<le> tip - conf"
    and base: "block_at (tabs w) base = None" "base < cur"
  shows "\<exists>k c. run_rounds L 1 conf (replicate k nd) cur w = (Inr c, w) \<and> base < c \<and> c \<le> cur
     \<and> (c < tip - conf \<longrightarrow> \<not> forks (tabs w) c (h_ParentHash (blk c)))"
  using assms(3) base(2)
proof (induction "unat cur" arbitrary: cur rule: less_induct)
  case less
  show ?case
  proof (cases "cur < tip - conf \<and> forks (tabs w) cur (h_ParentHash (blk cur))")
    case False
    then show ?thesis using less.prems
      by (intro exI [of _ 0] exI [of _ cur]) (auto simp: run_rounds_def okM_def)
  next
    case True
    then have round: "run_round L 1 conf nd cur w = (Inr (cur - 1), w)"
      using steady_round(1) [OF st h] by blast
    have pos: "0 < cur" using less.prems(2) by (metis word_gt_0 word_not_simps(1))
    have lt: "cur - 1 < cur" by (rule word_pred_less [OF pos])
    have "base \<noteq> cur - 1" using True base(1) by (auto simp: forks_def)
    moreover have "unat (cur - 1) = unat cur - 1" using pos by (simp add: unat_minus_one)
    ultimately have "base < cur - 1" using less.prems(2) by (simp add: word_less_nat_alt word_unat_eq_iff)
    moreover have "unat (cur - 1) < unat cur" using lt by (simp add: word_less_nat_alt)
    moreover have "cur - 1 \<le> tip - conf" using lt less.prems(1) by simp
    ultimately obtain k c where k: "run_rounds L 1 conf (replicate k nd) (cur - 1) w = (Inr c, w)"
      "base < c" "c \<le> cur - 1" "c < tip - conf \<longrightarrow> \<not> forks (tabs w) c (h_ParentHash (blk c))"
      using less.hyps by blast
    have "run_rounds L 1 conf (replicate (Suc k) nd) cur w = (Inr c, w)"
      unfolding run_rounds_replicate using round k(1) by (simp add: bindM_def)
    with k lt show ?thesis by (intro exI [of _ "Suc k"] exI [of _ c]) auto
  qed
qed

text \<open>Going on: a round stores the node's block, so that the next one sees no fork.\<close>

lemma stored_after:
  assumes "db_wf t"
  shows "block_at (delete_blocks ParserTypeDAS (cur + 1 - 20) (upsert_block ParserTypeDAS cur h p t)) cur
    = (if cur < cur + 1 - 20 then None else Some (h, p))"
  using assms by (simp add: parsed.look_prune parsed.ok_put parsed.look_put)

lemma steps_forward:
  assumes st: "steady L nd tip blk" and "conf \<le> tip"
  shows "healthy w \<Longrightarrow> db_wf (tabs w) \<Longrightarrow> c < tip - conf \<Longrightarrow> \<not> forks (tabs w) c (h_ParentHash (blk c)) \<Longrightarrow>
    \<exists>k w'. run_rounds L 1 conf (replicate k nd) c w = (Inr (tip - conf), w') \<and> healthy w'
      \<and> (let n = tip - conf - 1 in block_at (tabs w') n
           = (if n < n + 1 - 20 then None else Some (h_Hash (blk n), h_ParentHash (blk n))))"
proof (induction "unat (tip - conf) - unat c" arbitrary: c w rule: less_induct)
  case less
  obtain w1 w2 w3 where p: "tabs w1 = tabs w" "parsingBlockData L nd (blk c) w1 = (Inr (), w2)" "healthy w2"
    and round: "run_round L 1 conf nd c w = (Inr (c + 1), w3)"
    and w3: "w3 = w2\<lparr>tabs := delete_blocks ParserTypeDAS (c + 1 - 20)
            (upsert_block ParserTypeDAS c (h_Hash (blk c)) (h_ParentHash (blk c)) (tabs w2))\<rparr>"
    using steady_round(2) [OF st less.prems(1,3,4)] by blast
  have wf2: "db_wf (tabs w2)"
    using upholdsD [OF wellformed.parsingBlockData, of w1 L nd "blk c"] p(1,2) less.prems(2) by (simp add: wf_kept_def)
  have wf3: "db_wf (tabs w3)"
    using wf_upsert_block [of "tabs w2"] wf_delete_blocks wf2 unfolding w3 by (simp add: wf_kept_def)
  have h3: "healthy w3" using p(3) unfolding w3 by simp
  have at: "block_at (tabs w3) c = (if c < c + 1 - 20 then None else Some (h_Hash (blk c), h_ParentHash (blk c)))"
    unfolding w3 using stored_after [OF wf2] by simp
  have next_: "unat (c + 1) = unat c + 1"
    using less.prems(3) by unat_arith
  have "tip - conf \<le> tip" using assms(2) by (rule word_sub_le)
  with less.prems(3) have "c < tip" by simp
  with st have "h_ParentHash (blk (c + 1)) = h_Hash (blk c)" unfolding steady_def by blast
  with at have nf: "\<not> forks (tabs w3) (c + 1) (h_ParentHash (blk (c + 1)))" by (simp add: forks_def)
  show ?case
  proof (cases "c + 1 < tip - conf")
    case True
    moreover have "unat (tip - conf) - unat (c + 1) < unat (tip - conf) - unat c"
      using next_ less.prems(3) by (simp add: word_less_nat_alt)
    ultimately obtain k w' where "run_rounds L 1 conf (replicate k nd) (c + 1) w3 = (Inr (tip - conf), w')" "healthy w'"
      "let n = tip - conf - 1 in block_at (tabs w') n
           = (if n < n + 1 - 20 then None else Some (h_Hash (blk n), h_ParentHash (blk n)))"
      using less.hyps [of "c + 1" w3] h3 wf3 nf by blast
    with round show ?thesis
      by (intro exI [of _ "Suc k"] exI [of _ w']) (simp add: run_rounds_replicate bindM_def del: replicate_Suc)
  next
    case False
    have e: "c + 1 = tip - conf"
      using False less.prems(3) next_ by (simp add: word_less_nat_alt word_unat_eq_iff)
    then have "tip - conf - 1 = c" by (metis add_diff_cancel_right')
    moreover have "tip - conf - 20 = c - 19" unfolding e [symmetric] by simp
    ultimately show ?thesis using at round h3 e
      by (intro exI [of _ "Suc 0"] exI [of _ w3]) (simp add: run_rounds_def bindM_def okM_def Let_def)
  qed
qed



end
