(* ===== verification/TxSafety.thy ===== *)
theory TxSafety
  imports TxTool
begin

text \<open>
  Properties of the transaction tool: an order is sent at most once, a refused transaction is
  undone, the apply transaction and the income cell balance, prices never panic, the recovery
  loop ends with the total kept.
\<close>

section \<open>A paid order is sent once\<close>

definition sends :: "effect list \<Rightarrow> string list" where
  "sends es = concat (map (\<lambda>e. case e of SendTx oid h \<Rightarrow> [oid] | _ \<Rightarrow> []) es)"

lemma sends_simps [simp]:
  "sends [] = []" "sends (xs @ ys) = sends xs @ sends ys"
  "sends (e # es) = (case e of SendTx oid h \<Rightarrow> [oid] | _ \<Rightarrow> []) @ sends es"
  by (simp_all add: sends_def)

lemma no_sends: "\<forall>e \<in> set es. \<forall>oid h. e \<noteq> SendTx oid h \<Longrightarrow> sends es = []"
  by (induction es) (auto split: effect.split)

text \<open>The order waits to be paid out on chain: what \<open>GetNeedSendPayOrderList\<close> asks of the status.\<close>

abbreviation waiting :: "string \<Rightarrow> order_row \<Rightarrow> bool" where
  "waiting oid r \<equiv> o_OrderId r = oid \<and> o_OrderType r = OrderTypeSelf \<and> o_PayStatus r = TxStatusSending"

definition others_same :: "string \<Rightarrow> db \<Rightarrow> db \<Rightarrow> bool" where
  "others_same oid t t' \<longleftrightarrow>
     filter (\<lambda>r. o_OrderId r \<noteq> oid) (orders t') = filter (\<lambda>r. o_OrderId r \<noteq> oid) (orders t)"

interpretation others: db_relation "others_same oid" for oid
  by unfold_locales (auto simp: others_same_def)

lemma others_update:
  assumes "\<And>r. P r \<Longrightarrow> o_OrderId r = oid" and "\<And>r. o_OrderId (f r) = o_OrderId r"
  shows "others_same oid t (update_orders P f t)"
  unfolding others_same_def update_orders_def
  using assms by (simp add: filter_others_where)

lemma others_txs: "others_same oid t (upsert_tx x t)"
  by (simp add: others_same_def upsert_tx_def)

lemma others_orders:
  "upholds (others_same oid) (UpdatePayStatus oid old new)"
  "upholds (others_same oid) (UpdateOrderToRefund oid)"
  "upholds (others_same oid) (CreateOrderTx x)"
  "upholds (others_same oid) (GetPreRegisteredOrderByAccountId acc)"
  unfolding UpdatePayStatus_def UpdateOrderToRefund_def CreateOrderTx_def GetPreRegisteredOrderByAccountId_def
  by (intro others.rules others.txnM others.updateM others_update others_txs; simp)+

lemma others_apply: "upholds (others_same (o_OrderId ord)) (DoOrderApplyTx L ord)"
  unfolding DoOrderApplyTx_def send_paid_def sendM_def sent_tx_def
  by (intro others.rules others_orders)

definition same_orders :: "db \<Rightarrow> db \<Rightarrow> bool" where
  "same_orders t t' \<longleftrightarrow> orders t' = orders t"

interpretation ords: db_relation same_orders
  by unfold_locales (auto simp: same_orders_def)

lemma ords_sent_tx: "upholds same_orders (sent_tx oid a h)"
  unfolding sent_tx_def CreateOrderTx_def
  by (intro ords.rules ords.updateM) (simp add: same_orders_def upsert_tx_def)

definition quiet :: "effect \<Rightarrow> bool" where
  "quiet e \<longleftrightarrow> (\<forall>oid h. e \<noteq> SendTx oid h)"

lemma quiet_sent_tx: "emits quiet (sent_tx oid a h)"
  unfolding sent_tx_def CreateOrderTx_def
  by (intro emits_intros) (auto simp: quiet_def intro!: emits_intros)

lemma no_quiet_sends: "\<forall>e \<in> set es. quiet e \<Longrightarrow> sends es = []"
  by (rule no_sends) (auto simp: quiet_def)

lemma UpdatePayStatus_cases:
  assumes "UpdatePayStatus oid TxStatusSending TxStatusOk w = (r, w')"
  shows "trace w' = trace w" and "r = Inr u \<Longrightarrow> \<forall>s \<in> set (orders (tabs w')). \<not> waiting oid s"
proof -
  show "trace w' = trace w"
    using assms by (auto simp: UpdatePayStatus_def updateM_def stmtM_def Let_def
        split: prod.splits if_splits dest: next_fault_cases)
  show "\<forall>s \<in> set (orders (tabs w')). \<not> waiting oid s" if "r = Inr u"
  proof
    fix s
    assume s: "s \<in> set (orders (tabs w'))"
    have t: "tabs w' = update_orders (waiting oid) (\<lambda>y. y\<lparr>o_PayStatus := TxStatusOk\<rparr>) (tabs w)"
      using update_cases(2) [OF assms [unfolded UpdatePayStatus_def] that] .
    from s obtain y where "s = (if waiting oid y then y\<lparr>o_PayStatus := TxStatusOk\<rparr> else y)"
      unfolding t update_tables_simps set_update_where by blast
    then show "\<not> waiting oid s" by (cases "waiting oid y") simp_all
  qed
qed

lemma send_paid_sends:
  assumes "send_paid L ord a tx w = (r, w')"
  shows "\<exists>es. trace w' = trace w @ es \<and> (sends es = []
     \<or> sends es = [o_OrderId ord] \<and> (\<forall>s \<in> set (orders (tabs w')). \<not> waiting (o_OrderId ord) s))"
proof -
  let ?oid = "o_OrderId ord"
  obtain r1 w1 where u: "UpdatePayStatus ?oid TxStatusSending TxStatusOk w = (r1, w1)" by fastforce
  note u' = UpdatePayStatus_cases [OF u]
  show ?thesis
  proof (cases r1)
    case (Inl e)
    with assms u u'(1) show ?thesis
      by (auto simp: send_paid_def thenM_def bindM_def wrapM_def catchM_def errM_def split: if_splits)
  next
    case (Inr x)
    show ?thesis
    proof (cases "SendTransaction L tx")
      case (Inr hash)
      let ?w2 = "w1\<lparr>trace := trace w1 @ [SendTx ?oid hash]\<rparr>"
      have run: "sent_tx ?oid a hash ?w2 = (r, w')"
        using assms u \<open>r1 = Inr x\<close> Inr
        by (simp add: send_paid_def sendM_def thenM_def bindM_def wrapM_def catchM_def tryM_def emitM_def okM_def)
      obtain es where es: "trace w' = trace ?w2 @ es" "\<forall>e \<in> set es. quiet e"
        using emitsD [OF quiet_sent_tx run] by blast
      have "orders (tabs w') = orders (tabs w1)"
        using upholdsD [OF ords_sent_tx, of ?w2 ?oid a hash] run by (simp add: same_orders_def)
      then show ?thesis
        using es u' \<open>r1 = Inr x\<close> no_quiet_sends [OF es(2)]
        by (intro exI [of _ "SendTx ?oid hash # es"]) simp
    next
      case (Inl e)
      have "emits quiet (thenM (catchM (UpdatePayStatus ?oid TxStatusOk TxStatusSending)
              (\<lambda>_. emitM (LarkErr ''UpdatePayStatus''))) (errM (In ''SendTransaction'' e)))"
        unfolding UpdatePayStatus_def
        by (intro emits_intros) (simp add: quiet_def)
      moreover have "emits quiet (sendM L ?oid tx)"
        unfolding sendM_def Inl by (simp add: emits_intros quiet_def)
      ultimately have q: "emits quiet (send_paid L ord a tx)"
        unfolding send_paid_def UpdatePayStatus_def
        by (intro emits_intros quiet_sent_tx) (simp_all add: quiet_def)
      obtain es where "trace w' = trace w @ es" "\<forall>e \<in> set es. quiet e"
        using emitsD [OF q assms] by blast
      then show ?thesis using no_quiet_sends by blast
    qed
  qed
qed

text \<open>What one turn of a job may do: other orders stay, and an order that was sent waits no more.\<close>

definition turn_ok :: "(order_row \<Rightarrow> unit dao) \<Rightarrow> order_row \<Rightarrow> bool" where
  "turn_ok f v \<longleftrightarrow> upholds (others_same (o_OrderId v)) (f v) \<and>
     (\<forall>w r w'. f v w = (r, w') \<longrightarrow> (\<exists>es. trace w' = trace w @ es \<and> (sends es = []
        \<or> sends es = [o_OrderId v] \<and> (\<forall>s \<in> set (orders (tabs w')). \<not> waiting (o_OrderId v) s))))"

lemma turn_ok_wrap: "turn_ok f v \<Longrightarrow> turn_ok (\<lambda>v. wrapM s (f v)) v"
proof -
  assume a: "turn_ok f v"
  have "\<exists>r'. f v w = (r', w')" if "wrapM s (f v) w = (r, w')" for w r w'
    using that by (cases "f v w") (auto simp: wrapM_def catchM_def errM_def split: sum.splits if_splits)
  with a show ?thesis unfolding turn_ok_def by (blast intro: others.wrapM)
qed

lemma others_keep:
  assumes "others_same v t t'" and "oid \<noteq> v"
  shows "\<forall>s \<in> set (orders t). \<not> waiting oid s \<Longrightarrow> \<forall>s \<in> set (orders t'). \<not> waiting oid s"
proof -
  assume a: "\<forall>s \<in> set (orders t). \<not> waiting oid s"
  have "s \<in> set (orders t)" if "s \<in> set (orders t')" "o_OrderId s = oid" for s
  proof -
    have "s \<in> set (filter (\<lambda>r. o_OrderId r \<noteq> v) (orders t'))" using that assms(2) by simp
    then have "s \<in> set (filter (\<lambda>r. o_OrderId r \<noteq> v) (orders t))"
      using assms(1) unfolding others_same_def by argo
    then show ?thesis by simp
  qed
  with a show "\<forall>s \<in> set (orders t'). \<not> waiting oid s" by blast
qed

lemma loop_keeps:
  assumes "\<forall>v \<in> set xs. turn_ok f v" and "oid \<notin> o_OrderId ` set xs"
    and "\<forall>s \<in> set (orders (tabs w)). \<not> waiting oid s"
  shows "\<forall>s \<in> set (orders (tabs (snd (forM xs f w)))). \<not> waiting oid s"
  using assms
proof (induction xs arbitrary: w)
  case Nil
  then show ?case by (simp add: okM_def)
next
  case (Cons x xs)
  obtain r w1 where x: "f x w = (r, w1)" by fastforce
  have "others_same (o_OrderId x) (tabs w) (tabs w1)"
    using Cons.prems(1) upholdsD [of "others_same (o_OrderId x)" "f x" w] x by (simp add: turn_ok_def)
  moreover have "oid \<noteq> o_OrderId x" "oid \<notin> o_OrderId ` set xs" using Cons.prems(2) by auto
  ultimately have w1: "\<forall>s \<in> set (orders (tabs w1)). \<not> waiting oid s"
    using others_keep [of "o_OrderId x" "tabs w" "tabs w1" oid] Cons.prems(3) by blast
  show ?case
  proof (cases r)
    case (Inl e)
    then have "forM (x # xs) f w = (Inl e, w1)" using x by (simp add: bindM_def)
    with w1 show ?thesis by simp
  next
    case (Inr u)
    then have "forM (x # xs) f w = forM xs f w1" using x by (simp add: bindM_def)
    moreover have "\<forall>v \<in> set xs. turn_ok f v" using Cons.prems(1) by simp
    ultimately show ?thesis using Cons.IH [OF _ \<open>oid \<notin> o_OrderId ` set xs\<close> w1] by simp
  qed
qed

lemma loop_sends:
  assumes "\<forall>v \<in> set xs. turn_ok f v" and "distinct (map o_OrderId xs)" and "forM xs f w = (r, w')"
  shows "\<exists>es. trace w' = trace w @ es \<and> distinct (sends es) \<and> set (sends es) \<subseteq> o_OrderId ` set xs
     \<and> (\<forall>oid \<in> set (sends es). \<forall>s \<in> set (orders (tabs w')). \<not> waiting oid s)"
  using assms
proof (induction xs arbitrary: w)
  case Nil
  then show ?case by (auto simp: okM_def)
next
  case (Cons x xs)
  obtain r1 w1 where x: "f x w = (r1, w1)" by fastforce
  from Cons.prems(1) x obtain es where es: "trace w1 = trace w @ es"
    "sends es = [] \<or> sends es = [o_OrderId x] \<and> (\<forall>s \<in> set (orders (tabs w1)). \<not> waiting (o_OrderId x) s)"
    unfolding turn_ok_def by (metis list.set_intros(1))
  show ?case
  proof (cases r1)
    case (Inl e)
    with Cons.prems(3) x es show ?thesis by (intro exI [of _ es]) (auto simp: bindM_def)
  next
    case (Inr u)
    with Cons.prems(3) x have run: "forM xs f w1 = (r, w')" by (simp add: bindM_def)
    obtain es' where es': "trace w' = trace w1 @ es'" "distinct (sends es')"
      "set (sends es') \<subseteq> o_OrderId ` set xs"
      "\<forall>oid \<in> set (sends es'). \<forall>s \<in> set (orders (tabs w')). \<not> waiting oid s"
      using Cons.IH [OF _ _ run] Cons.prems(1,2) by auto
    have fresh: "o_OrderId x \<notin> o_OrderId ` set xs" using Cons.prems(2) by auto
    have "\<forall>s \<in> set (orders (tabs w')). \<not> waiting (o_OrderId x) s" if "sends es \<noteq> []"
      using loop_keeps [of xs f "o_OrderId x" w1] run es(2) that fresh Cons.prems(1) by simp
    with es es' fresh show ?thesis by (intro exI [of _ "es @ es'"]) auto
  qed
qed

definition sends_one :: "string \<Rightarrow> unit dao \<Rightarrow> bool" where
  "sends_one oid m \<longleftrightarrow> (\<forall>w r w'. m w = (r, w') \<longrightarrow> (\<exists>es. trace w' = trace w @ es \<and> (sends es = []
     \<or> sends es = [oid] \<and> (\<forall>s \<in> set (orders (tabs w')). \<not> waiting oid s))))"

lemma sends_one_quiet: "emits quiet m \<Longrightarrow> sends_one oid m"
  unfolding sends_one_def using emitsD no_quiet_sends by metis

lemma sends_one_bind:
  assumes "emits quiet m" and "\<And>x. sends_one oid (k x)"
  shows "sends_one oid (bindM m k)"
  unfolding sends_one_def
proof (intro allI impI)
  fix w r w'
  assume b: "bindM m k w = (r, w')"
  obtain r1 w1 where m: "m w = (r1, w1)" by fastforce
  obtain es where es: "trace w1 = trace w @ es" "\<forall>e \<in> set es. quiet e"
    using emitsD [OF assms(1) m] by blast
  show "\<exists>es. trace w' = trace w @ es \<and> (sends es = []
     \<or> sends es = [oid] \<and> (\<forall>s \<in> set (orders (tabs w')). \<not> waiting oid s))"
  proof (cases r1)
    case (Inl e)
    with b m es no_quiet_sends [OF es(2)] show ?thesis by (auto simp: bindM_def)
  next
    case (Inr x)
    then have "k x w1 = (r, w')" using b m by (simp add: bindM_def)
    with assms(2) [of x] obtain es' where "trace w' = trace w1 @ es'" "sends es' = []
       \<or> sends es' = [oid] \<and> (\<forall>s \<in> set (orders (tabs w')). \<not> waiting oid s)"
      unfolding sends_one_def by blast
    with es no_quiet_sends [OF es(2)] show ?thesis by (intro exI [of _ "es @ es'"]) auto
  qed
qed

lemma sends_one_if: "sends_one oid m \<Longrightarrow> sends_one oid n \<Longrightarrow> sends_one oid (if b then m else n)"
  by simp

lemma turn_okI: "upholds (others_same (o_OrderId v)) (f v) \<Longrightarrow> sends_one (o_OrderId v) (f v) \<Longrightarrow> turn_ok f v"
  by (simp add: turn_ok_def sends_one_def)

lemma send_paid_one: "sends_one (o_OrderId ord) (send_paid L ord a tx)"
  unfolding sends_one_def using send_paid_sends by blast

lemma quiet_refund: "emits quiet (UpdateOrderToRefund oid)"
  unfolding UpdateOrderToRefund_def by (intro emits_intros)

lemma quiet_lookup: "emits quiet (GetPreRegisteredOrderByAccountId acc)"
  unfolding GetPreRegisteredOrderByAccountId_def by (intro emits_intros)

lemma apply_turn: "turn_ok (\<lambda>v. wrapM ''DoOrderApplyTx'' (DoOrderApplyTx (Ls v) v)) v"
proof (rule turn_ok_wrap, rule turn_okI)
  show "upholds (others_same (o_OrderId v)) (DoOrderApplyTx (Ls v) v)" by (rule others_apply)
  show "sends_one (o_OrderId v) (DoOrderApplyTx (Ls v) v)"
    unfolding DoOrderApplyTx_def
    by (intro sends_one_if sends_one_bind send_paid_one sends_one_quiet emits_intros quiet_lookup quiet_refund)
qed

text \<open>C7. An apply transaction is sent at most once. Whatever fails on the way, one run of the apply
  job sends at most one transaction per order, and an order it sent one for is not waiting to be paid
  out any more when the run ends, so the next run does not take it up again.\<close>

theorem apply_job_sends_once:
  assumes "db_wf (tabs w)" and "doOrderApplyTx rebootTime Ls w = (r, w')"
  shows "\<exists>es. trace w' = trace w @ es \<and> distinct (sends es)
     \<and> (\<forall>v \<in> set (orders (tabs w')). o_OrderId v \<in> set (sends es) \<and> o_OrderType v = OrderTypeSelf
          \<longrightarrow> o_PayStatus v \<noteq> TxStatusSending)"
proof (cases "IsRebootTxOK rebootTime (now w)")
  case False
  with assms(2) show ?thesis by (auto simp: doOrderApplyTx_def go_simps intro: exI [of _ "[]"])
next
  case True
  obtain q w1 where q: "GetNeedSendPayOrderList DasActionApplyRegister w = (q, w1)" by fastforce
  have t: "trace w1 = trace w"
    using q by (auto simp: GetNeedSendPayOrderList_def queryM_def stmtM_def Let_def
        split: prod.splits if_splits dest: next_fault_cases)
  show ?thesis
  proof (cases q)
    case (Inl e)
    with assms(2) True q t show ?thesis
      by (auto simp: doOrderApplyTx_def clockM_def bindM_def wrapM_def catchM_def errM_def
          split: if_splits intro!: exI [of _ "[]"])
  next
    case (Inr list)
    have run: "forM list (\<lambda>v. wrapM ''DoOrderApplyTx'' (DoOrderApplyTx (Ls v) v)) w1 = (r, w')"
      using assms(2) True q Inr by (simp add: doOrderApplyTx_def clockM_def bindM_def wrapM_def catchM_def)
    have "distinct (map o_OrderId list)"
      using query_cases(2) [OF q [unfolded GetNeedSendPayOrderList_def] Inr] assms(1)
      by (simp add: db_wf_def keyed_def distinct_map_filter distinct_take flip: take_map)
    from loop_sends [OF _ this run] apply_turn obtain es where
      "trace w' = trace w1 @ es" "distinct (sends es)"
      "\<forall>oid \<in> set (sends es). \<forall>s \<in> set (orders (tabs w')). \<not> waiting oid s" by blast
    with t show ?thesis by (intro exI [of _ es]) auto
  qed
qed

text \<open>A library in which every call answers: the cells of the examples.\<close>

definition ex_lib :: txlib where
  "ex_lib = \<lparr>OneCkb = 100000000, PercentRateBase = 10000, YearSec = 31536000,
     MinCellOccupiedCkb = 6100000000, DasAccountSuffix = ''.bit'', ChainEth = 1, ChainTron = 3,
     CoinEth = ''60'', CoinTrx = ''195'', ServerScript = ''server'', ServerArgs = ''args'', DasLock = ''das'',
     SplitCkb = 0, TxTeeRate = 0, PayServerScript = Some ''pay'', Contract = (\<lambda>_. Inr (''script'', ''dep'')),
     ConfigCell = (\<lambda>_. Inr ''cfg''), GetHeightCell = Inr ''height'', GetTimeCell = Inr (''time'', 0),
     GetQuoteCell = Inr (''quote'', 1000), Blake256 = (\<lambda>s. s), Blake160Byte = (\<lambda>_. Inr 7),
     OccupiedCapacity = (\<lambda>_ _. 100),
     BalanceCells = (\<lambda>need keep. Inr (500, [(''cell'', need + 500)])),
     SplitCells = (\<lambda>change _ _. Inr [\<lparr>oc_Capacity = change, oc_Lock = ''server'', oc_Type = None\<rparr>]),
     ActionWitness = (\<lambda>_. Inr ''action''), PreWitness = (\<lambda>_. Inr (''pre'', ''data'')),
     AccWitness = (\<lambda>_. (''acc'', ''data'')), ExpireData = (\<lambda>_ _ _. ''data''),
     IncomeWitness = (\<lambda>_ _ _. (''income'', ''data'')),
     PriceBuilder = Inr \<lparr>PriceInvitedDiscount = Inr 500, PriceConfig = (\<lambda>_. True),
        AccountPrice = (\<lambda>_. (5000000, 5000000)), BasicCapacityFromOwner = (\<lambda>_. 20000000000),
        PreparedFeeCapacity = 100000000\<rparr>,
     IncomeBuilder = Inr (Inr 20000000000), ApplyMinWaiting = Inr (Inr 4),
     LiveCellStatus = (\<lambda>_. Inr ''live''), TipBlockNumber = Inr 100,
     GetTx = (\<lambda>_. Inr (Some ''block'', [\<lparr>oc_Capacity = 500, oc_Lock = ''server'', oc_Type = None\<rparr>])),
     AccCells = (\<lambda>_. Inr (\<lambda>_. None)), BlockNumberOf = (\<lambda>_. Inr 50), SinceBlocks = (\<lambda>n. n),
     HexToScript = (\<lambda>_ _. Inr (''lock'', ''owner'')), DidScript = (\<lambda>_ _. ''did''), AccountId = (\<lambda>s. s),
     AccountCharTypes = (\<lambda>_. [AccountCharTypeEn]), FormatAddressByCoinType = (\<lambda>_ a. Inr a),
     TxHashOf = (\<lambda>s. s), BuildTransaction = Inr, SizeInBlock = (\<lambda>_. 400),
     SendTransaction = (\<lambda>_. Inr ''hash''), DecodeTx = (\<lambda>_. Inr no_params),
     OrderTxActionOf = (\<lambda>_. TxActionRenewAccount)\<rparr>"

definition paid_order :: order_row where
  "paid_order = zero_order\<lparr>o_Id := 1, o_OrderType := OrderTypeSelf, o_OrderId := ''order'',
     o_AccountId := ''id'', o_Account := ''abc.bit'', o_Action := DasActionApplyRegister,
     o_PayStatus := TxStatusSending, o_RegisterStatus := RegisterStatusApplyRegister\<rparr>"

definition paid_db :: db where
  "paid_db = empty_db\<lparr>orders := [paid_order], next_id := 2\<rparr>"

lemma paid_db_simps [simp]: "orders paid_db = [paid_order]" "txs paid_db = []" "next_id paid_db = 2"
  by (simp_all add: paid_db_def empty_db_def)

lemma db_wf_paid_db: "db_wf paid_db"
  by (simp add: db_wf_def paid_db_def empty_db_def keyed_def paid_order_def)

lemma paid_order_simps [simp]:
  "o_Id paid_order = 1" "o_OrderId paid_order = ''order''" "o_OrderType paid_order = OrderTypeSelf"
  "o_AccountId paid_order = ''id''" "o_Action paid_order = DasActionApplyRegister"
  "o_PayStatus paid_order = TxStatusSending" "o_OrderStatus paid_order = OrderStatusDefault"
  "o_IsDidCell paid_order = IsDidCellNo" "o_RegisterStatus paid_order = RegisterStatusApplyRegister"
  "o_Account paid_order = ''abc.bit''"
  by (simp_all add: paid_order_def zero_order_def)

lemma ex_build: "\<exists>p c. buildOrderApplyTx ex_lib paid_order = Inr p \<and> charge_fee ex_lib cond p = Inr c"
  by (simp add: buildOrderApplyTx_def ex_lib_def apply_output_def split_change_def charge_fee_def
      add_inputs_def add_change_def no_params_def Let_def)

lemma ex_run: "\<exists>t. doOrderApplyTx 0 (\<lambda>_. ex_lib) (world_of paid_db 100000) =
    (Inr (), (world_of paid_db 100000)\<lparr>tabs := t, trace := [SendTx ''order'' ''hash'', AddCellInputs]\<rparr>)
  \<and> orders t = [paid_order\<lparr>o_PayStatus := TxStatusOk\<rparr>]"
proof -
  obtain p c where p: "buildOrderApplyTx ex_lib paid_order = Inr p"
    "charge_fee ex_lib (\<lambda>sizeInBlock txFee. 10000 < txFee) p = Inr c" using ex_build by blast
  have l: "BuildTransaction ex_lib p = Inr p" "SendTransaction ex_lib c = Inr ''hash''"
    by (simp_all add: ex_lib_def)
  have sel: "GetNeedSendPayOrderList DasActionApplyRegister (world_of paid_db 100000) =
      (Inr [paid_order], world_of paid_db 100000)"
    by (simp add: GetNeedSendPayOrderList_def go_simps)
  have pre: "GetPreRegisteredOrderByAccountId ''id'' (world_of paid_db 100000) =
      (Inr zero_order, world_of paid_db 100000)"
    by (simp add: GetPreRegisteredOrderByAccountId_def go_simps first_or_def register_order)
  have nt: "\<not> taken_before zero_order 100000" by (simp add: taken_before_def zero_order_def)
  show ?thesis
    by (simp add: doOrderApplyTx_def DoOrderApplyTx_def go_simps IsRebootTxOK_def sel p l pre nt
        send_paid_def sendM_def sent_tx_def UpdatePayStatus_def CreateOrderTx_def upsert_tx_def)
      (simp add: world_of_def)
qed

theorem apply_job_sends_once_witness:
  "\<exists>w'. doOrderApplyTx 0 (\<lambda>_. ex_lib) (world_of paid_db 100000) = (Inr (), w')
     \<and> sends (trace w') = [''order''] \<and> (\<forall>v \<in> set (orders (tabs w')). o_PayStatus v \<noteq> TxStatusSending)"
proof -
  obtain t where run: "doOrderApplyTx 0 (\<lambda>_. ex_lib) (world_of paid_db 100000) =
    (Inr (), (world_of paid_db 100000)\<lparr>tabs := t, trace := [SendTx ''order'' ''hash'', AddCellInputs]\<rparr>)"
    and o: "orders t = [paid_order\<lparr>o_PayStatus := TxStatusOk\<rparr>]" using ex_run by blast
  from apply_job_sends_once [OF _ run] db_wf_paid_db run o show ?thesis by auto
qed

text \<open>C8. A transaction the node refuses leaves the database as it was: the order is marked for
  the attempt and unmarked again, so the next run retries it, and the job reports the error.\<close>

theorem refused_transaction_is_undone:
  assumes "healthy w" and "db_wf (tabs w)" and "ord \<in> set (orders (tabs w))"
    and "o_OrderType ord = OrderTypeSelf" and "o_PayStatus ord = TxStatusSending"
    and "SendTransaction L tx = Inl e" and "e \<noteq> GoPanic"
  shows "send_paid L ord action tx w =
     (Inl (In ''SendTransaction'' e), w\<lparr>trace := trace w @ [SendTxFailed (o_OrderId ord)]\<rparr>)"
proof -
  let ?oid = "o_OrderId ord"
  have k: "keyed o_OrderId o_Id (orders (tabs w)) (next_id (tabs w))"
    using assms(2) by (simp add: db_wf_def)
  have only: "r = ord" if "r \<in> set (orders (tabs w))" "o_OrderId r = ?oid" for r
    using keyed_unique [OF k that(1) assms(3)] that(2) by simp
  have same: "ord\<lparr>o_PayStatus := TxStatusSending\<rparr> = ord" using assms(5) by (cases ord) simp
  have undo: "(if o_OrderId y = ?oid \<and> o_OrderType y = OrderTypeSelf \<and> o_PayStatus y = TxStatusOk
      then y\<lparr>o_PayStatus := TxStatusSending\<rparr> else y) = x"
    if "x \<in> set (orders (tabs w))" "y = (if waiting ?oid x then x\<lparr>o_PayStatus := TxStatusOk\<rparr> else x)" for x y
  proof (cases "o_OrderId x = ?oid")
    case True
    with only that(1) have "x = ord" by blast
    then show ?thesis using that(2) assms(4,5) same by simp
  next
    case False
    then show ?thesis using that(2) by auto
  qed
  have "update_orders (\<lambda>r. o_OrderId r = ?oid \<and> o_OrderType r = OrderTypeSelf \<and> o_PayStatus r = TxStatusOk)
      (\<lambda>r. r\<lparr>o_PayStatus := TxStatusSending\<rparr>)
      (update_orders (waiting ?oid) (\<lambda>r. r\<lparr>o_PayStatus := TxStatusOk\<rparr>) (tabs w)) = tabs w"
    unfolding update_orders_def update_where_def using undo by (simp add: comp_def map_idI)
  then show ?thesis using assms(1,6,7)
    by (simp add: send_paid_def sendM_def UpdatePayStatus_def go_simps)
qed

theorem refused_transaction_is_undone_witness:
  "send_paid (ex_lib\<lparr>SendTransaction := (\<lambda>_. Inl Fault)\<rparr>) paid_order TxActionApplyRegister no_params (world_of paid_db 0)
     = (Inl (In ''SendTransaction'' Fault), (world_of paid_db 0)\<lparr>trace := [SendTxFailed ''order'']\<rparr>)"
  using refused_transaction_is_undone [of "world_of paid_db 0" paid_order
      "ex_lib\<lparr>SendTransaction := (\<lambda>_. Inl Fault)\<rparr>" no_params Fault TxActionApplyRegister] db_wf_paid_db
  by simp

definition cap_sum :: "64 word list \<Rightarrow> nat" where
  "cap_sum cs = sum_list (map unat cs)"

text \<open>The apply transaction balances: when the library answers with cells that cover the
  need plus the change and splits the change without loss, and nothing overflows, the inputs pay
  exactly the outputs and a fee of 10000 shannon, and every output has its data entry.\<close>

theorem apply_tx_balances:
  assumes "buildOrderApplyTx L ord = Inr p" and "Contract L DasContractNameApplyRegisterCellType = Inr (script, dep)"
    and "need = 10000 + oc_Capacity (apply_output L script (Blake256 L (ServerArgs L @ o_Account ord)))"
    and "unat need = 10000 + unat (oc_Capacity (apply_output L script (Blake256 L (ServerArgs L @ o_Account ord))))"
    and "BalanceCells L need 0 = Inr (change, cells)" and "cap_sum (map snd cells) = unat need + unat change"
    and "\<forall>size cs. SplitCells L change size False = Inr cs \<longrightarrow> cap_sum (map oc_Capacity cs) = unat change"
  shows "map fst (tp_Inputs p) = map fst cells
     \<and> cap_sum (map snd cells) = cap_sum (map oc_Capacity (tp_Outputs p)) + 10000
     \<and> length (tp_OutputsData p) = length (tp_Outputs p)"
  using assms
  by (auto simp: buildOrderApplyTx_def bindR_eq_Inr Let_def split_change_def add_inputs_def add_change_def
      no_params_def cap_sum_def word_gt_0 split: if_splits)

theorem apply_tx_balances_witness:
  "\<exists>p. buildOrderApplyTx ex_lib paid_order = Inr p
     \<and> cap_sum (map oc_Capacity (tp_Outputs p)) = 10000000500
     \<and> cap_sum [10000010500] = cap_sum (map oc_Capacity (tp_Outputs p)) + 10000"
proof -
  obtain p where p: "buildOrderApplyTx ex_lib paid_order = Inr p" using ex_build by blast
  have cap: "oc_Capacity (apply_output ex_lib ''script'' d) = 10000000000" for d
    by (simp add: apply_output_def ex_lib_def Let_def)
  have "cap_sum (map snd [(''cell'', 10000010500 :: 64 word)]) = cap_sum (map oc_Capacity (tp_Outputs p)) + 10000"
    using apply_tx_balances [OF p, of "''script''" "''dep''" 10000010000 500 "[(''cell'', 10000010500)]"]
    by (simp add: cap) (simp add: ex_lib_def cap_sum_def)
  with p show ?thesis by (auto simp: cap_sum_def)
qed

text \<open>The price of a registration never panics and is the dollar price at the quote, less the
  invited discount rounded down, times the years, when the discount is at most the whole price.\<close>

theorem pre_price_value:
  assumes "0 < unat quote" and "0 < PercentRateBase L" and "unat discount \<le> PercentRateBase L"
    and "0 \<le> years" and "years < 2 ^ 31" and "unat newPrice * unat (OneCkb L) < 2 ^ 64"
  shows "pre_price L newPrice quote discount years =
     Inr ((let p = unat newPrice * unat (OneCkb L) div unat quote
           in p - p * unat discount div PercentRateBase L) * nat years)"
proof -
  let ?p = "unat newPrice * unat (OneCkb L) div unat quote"
  have p: "?p < 2 ^ 64" using assms(6) by (meson div_le_dividend order_le_less_trans)
  have "unat discount < 2 ^ LENGTH(32)" by (rule unsigned_less)
  then have d32: "unat discount < 2 ^ 32" by simp
  have "?p * unat discount < 2 ^ 64 * 2 ^ 32"
    using p d32 by (intro mult_strict_mono) auto
  then have m: "?p * unat discount < 2 ^ 128" by simp
  have y: "unat (of_int years :: 64 word) = nat years"
    using assms(4,5) by (simp add: unat_eq_nat_uint uint_word_of_int_eq take_bit_int_eq_self)
  have d: "?p * unat discount div PercentRateBase L \<le> ?p"
    using assms(2,3) by (metis div_le_mono div_mult_self_is_m mult_le_mono2)
  have "(?p - ?p * unat discount div PercentRateBase L) * nat years \<le> ?p * nat years"
    by (intro mult_le_mono1) simp
  also have "?p * nat years < 2 ^ 64 * 2 ^ 31"
    using p assms(4,5) by (intro mult_strict_mono) auto
  finally have f: "(?p - ?p * unat discount div PercentRateBase L) * nat years < 2 ^ 128" by simp
  show ?thesis
    using assms(1,2,6) m y d f
    by (simp add: pre_price_def u128_mul_def u128_div_def u128_sub_def Let_def)
qed

theorem pre_price_value_witness:
  "pre_price ex_lib 5000000 1000 500 2 = Inr 950000000000"
  using pre_price_value [of 1000 ex_lib 500 2 5000000] by (simp add: ex_lib_def)

text \<open>The income cell of a renewal holds at least the basic capacity and at least the price,
  and its shares add up to exactly its capacity: nothing of the price is lost.\<close>

theorem income_shares_add_up:
  "sum_list (map snd (income_shares L base price)) = income_capacity base price
     \<and> base \<le> income_capacity base price \<and> price \<le> income_capacity base price
     \<and> (DasLock L, price) \<in> set (income_shares L base price)"
  by (auto simp: income_shares_def income_capacity_def)



end
