(* ===== verification/OrderSafety.thy ===== *)
theory OrderSafety
  imports OrderRenew RegisterSafety
begin

text \<open>
  What a renewal, a changed order and the orders without payment leave behind, and under which
  conditions they are made.
\<close>

section \<open>Renewals\<close>

lemma checkRenewOrder_ok:
  assumes "checkRenewOrder H G req w = (Inr acc, w')"
  shows "1 \<le> n_RenewYears req \<and> n_RenewYears req \<le> h_MaxRegisterYears H \<and> acc = account_of H (tabs w) (n_Account req)
    \<and> a_Id acc \<noteq> 0 \<and> a_ParentAccountId acc = '''' \<and> a_Status acc \<noteq> AccountStatusOnCross
    \<and> (\<exists>g. nl_GracePeriod G = Inr g \<and>
        now w div 1000 < sint (a_ExpiredAt acc + ucast (case g of Inl _ \<Rightarrow> 0 | Inr grace \<Rightarrow> grace)))"
  using assms unfolding checkRenewOrder_def GetAccountInfoByAccountId_def account_of_def
  by (auto simp: ok_iffs Let_def dest!: queryM_okD split: if_splits)

text \<open>C29. A renewal order is only made for an account that exists, is no sub-account, is not on another
  chain and is within its grace period, for 1 to \<open>MaxRegisterYears\<close> years; the one order added is
  open and unpaid, renews that account for these years, and costs the amount answered.\<close>

theorem renew_only_live_accounts:
  assumes run: "doOrderRenew DivRound H G mapToken req w = (Inr resp, w')"
  shows "let account = ToLower (n_Account req); acc = account_of H (tabs w) account in
     a_Id acc \<noteq> 0 \<and> a_ParentAccountId acc = '''' \<and> a_Status acc \<noteq> AccountStatusOnCross
     \<and> (\<exists>g. nl_GracePeriod G = Inr g \<and>
          now w div 1000 < sint (a_ExpiredAt acc + ucast (case g of Inl _ \<Rightarrow> 0 | Inr grace \<Rightarrow> grace)))
     \<and> 1 \<le> n_RenewYears req \<and> n_RenewYears req \<le> h_MaxRegisterYears H
     \<and> (\<exists>r. orders (tabs w') = orders (tabs w) @ [r] \<and> o_Action r = DasActionRenewAccount
          \<and> o_AccountId r = h_AccountId H account \<and> RenewYears (GetContent r) = n_RenewYears req
          \<and> o_OrderStatus r = OrderStatusDefault \<and> o_PayStatus r = TxStatusDefault
          \<and> o_OrderId r = or_OrderId resp \<and> o_PayAmount r = or_Amount resp)"
proof -
  from run obtain chainType address u w1 acc w2 where
    up: "checkSystemUpgrade H w = (Inr u, w1)"
    and chk: "checkRenewOrder H G (req\<lparr>n_Account := ToLower (n_Account req), n_ChainType := chainType, n_Address := address\<rparr>) w1 = (Inr acc, w2)"
    and ren: "doRenewOrder DivRound H G mapToken acc
       (req\<lparr>n_Account := ToLower (n_Account req), n_ChainType := chainType, n_Address := address\<rparr>) w2 = (Inr resp, w')"
    unfolding doOrderRenew_def Let_def by (auto simp: ok_iffs split: if_splits prod.splits)
  define rq where "rq = req\<lparr>n_Account := ToLower (n_Account req), n_ChainType := chainType, n_Address := address\<rparr>"
  from ren obtain usd ckb amount v w3 where
    bal: "check_das_balance H (renew_row H rq (renew_content (n_RenewYears rq) usd ckb)) amount w2 = (Inr v, w3)"
    and cr: "create_paid_order H (renew_row H rq (renew_content (n_RenewYears rq) usd ckb)) amount w3 = (Inr resp, w')"
    unfolding doRenewOrder_def Let_def rq_def by (auto simp: ok_iffs split: if_splits prod.splits)
  have t: "tabs w1 = tabs w" "tabs w2 = tabs w" "tabs w3 = tabs w"
    using tabs_readonly [OF readonly.checkSystemUpgrade up] tabs_readonly [OF readonly.checkRenewOrder chk]
      tabs_readonly [OF readonly.das_balance_reads bal] by simp_all
  have "now w1 = now w" using up unfolding checkSystemUpgrade_def
    by (auto simp: ok_iffs Let_def split: if_splits sum.splits)
  with checkRenewOrder_ok [OF chk] create_paid_order_ok [OF cr] t show ?thesis
    by (auto simp: Let_def rq_def renew_row_def renew_content_def zero_order_def placed_def GetContent_def)
qed

section \<open>Changed orders\<close>

lemma first_by_member: "xs \<noteq> [] \<Longrightarrow> first_by lt z xs \<in> set xs"
proof -
  have "fold (\<lambda>y b. if lt y b then y else b) ys x \<in> insert x (set ys)" for x and ys :: "'a list"
    by (induction ys arbitrary: x) (auto split: if_splits)
  moreover assume "xs \<noteq> []"
  ultimately show ?thesis by (cases xs) (auto simp: first_by_def)
qed

lemma latest_order_member:
  assumes "o_Id (latest_order P t) \<noteq> 0"
  shows "latest_order P t \<in> set (orders t) \<and> P (latest_order P t)"
proof -
  from assms have "filter P (orders t) \<noteq> []"
    by (auto simp: latest_order_def first_by_def zero_order_def)
  from first_by_member [OF this, of order_before zero_order] show ?thesis by (simp add: latest_order_def)
qed

text \<open>C30. Changing an order does not replace it: a success means there was an open order of this address
  for the account, still waiting for its payment, and leaves it as it was beside the new one, open and
  unpaid too, for the same characters; either of the two may then be paid.\<close>

theorem change_adds_second_order:
  assumes run: "doOrderChange DivRound H mapToken req w = (Inr resp, w')"
  shows "\<exists>old r chainType address. h_FormatChainTypeAddress H (cr_KeyInfo req) = Inr (chainType, address)
     \<and> old \<in> set (orders (tabs w)) \<and> o_OrderStatus old = OrderStatusDefault
     \<and> o_RegisterStatus old = RegisterStatusConfirmPayment
     \<and> o_AccountId old = h_AccountId H (ToLower (cr_Account req)) \<and> o_ChainType old = chainType \<and> o_Address old = address
     \<and> orders (tabs w') = orders (tabs w) @ [r] \<and> o_OrderId r \<noteq> o_OrderId old
     \<and> o_AccountId r = o_AccountId old \<and> o_ChainType r = chainType \<and> o_Address r = address
     \<and> o_OrderStatus r = OrderStatusDefault \<and> o_PayStatus r = TxStatusDefault
     \<and> o_RegisterStatus r = RegisterStatusConfirmPayment
     \<and> AccountCharStr (GetContent r) = AccountCharStr (GetContent old)
     \<and> RegisterYears (GetContent r) = ob_RegisterYears (cr_Base req)"
proof -
  from run obtain chainType address u w1 base w2 old w3 where
    f: "h_FormatChainTypeAddress H (cr_KeyInfo req) = Inr (chainType, address)"
    and up: "checkSystemUpgrade H w = (Inr u, w1)"
    and oi: "checkOrderInfo H (cr_CoinType req) (cr_CrossCoinType req) (cr_Base req) w1 = (Inr base, w2)"
    and chk: "oldOrderCheck H (req\<lparr>cr_Account := ToLower (cr_Account req), cr_ChainType := chainType,
       cr_Address := address, cr_Base := base\<rparr>) w2 = (Inr old, w3)"
    and new: "doNewOrder DivRound H mapToken (req\<lparr>cr_Account := ToLower (cr_Account req), cr_ChainType := chainType,
       cr_Address := address, cr_Base := base\<rparr>) old w3 = (Inr resp, w')"
    unfolding doOrderChange_def Let_def by (auto simp: ok_iffs split: if_splits prod.splits)
  define rq where "rq = req\<lparr>cr_Account := ToLower (cr_Account req), cr_ChainType := chainType,
       cr_Address := address, cr_Base := base\<rparr>"
  have t: "tabs w1 = tabs w" "tabs w2 = tabs w" "tabs w3 = tabs w"
    using tabs_readonly [OF readonly.checkSystemUpgrade up] tabs_readonly [OF readonly.checkOrderInfo oi]
      tabs_readonly [OF readonly.oldOrderCheck chk] by simp_all
  define o1 where "o1 = latest_order (\<lambda>r. o_ChainType r = chainType \<and> o_Address r = address
        \<and> o_AccountId r = h_AccountId H (ToLower (cr_Account req)) \<and> o_Action r = DasActionApplyRegister
        \<and> o_OrderType r = OrderTypeSelf \<and> o_OrderStatus r = OrderStatusDefault) (tabs w)"
  have o: "o_Id o1 \<noteq> 0" "o_RegisterStatus o1 = RegisterStatusConfirmPayment" "o_Content o1 = Some old"
    using chk t unfolding oldOrderCheck_def GetLatestRegisterOrderBySelf_def o1_def
    by (auto simp: ok_iffs dest!: queryM_okD split: if_splits option.splits)
  have m: "o1 \<in> set (orders (tabs w))" "o_ChainType o1 = chainType \<and> o_Address o1 = address
      \<and> o_AccountId o1 = h_AccountId H (ToLower (cr_Account req)) \<and> o_OrderStatus o1 = OrderStatusDefault"
    using latest_order_member [OF o(1) [unfolded o1_def]] unfolding o1_def by blast+
  from new obtain usd ckb amount where
    cr: "create_paid_order H (change_row H rq (change_content old (change_channel H rq) usd ckb)) amount w3 = (Inr resp, w')"
    unfolding doNewOrder_def Let_def rq_def by (auto simp: ok_iffs split: if_splits prod.splits)
  from create_paid_order_ok [OF cr] obtain r where
    r: "placed (change_row H rq (change_content old (change_channel H rq) usd ckb)) r" "o_OrderId r = or_OrderId resp"
      "or_OrderId resp \<notin> o_OrderId ` set (orders (tabs w3))" "orders (tabs w') = orders (tabs w3) @ [r]"
    by blast
  from checkOrderInfo_years [OF oi] have "ob_RegisterYears base = ob_RegisterYears (cr_Base req)" by blast
  with r t m o f show ?thesis
    by (intro exI [of _ o1] exI [of _ r] exI [of _ chainType] exI [of _ address])
      (auto simp: placed_def change_row_def change_content_def change_channel_def rq_def GetContent_def zero_order_def)
qed

section \<open>Orders without a payment\<close>

lemma create_internal_order_ok:
  assumes "create_internal_order ord w = (Inr oid, w')"
  shows "oid = o_OrderId ord \<and> oid \<notin> o_OrderId ` set (orders (tabs w))
    \<and> orders (tabs w') = orders (tabs w) @ [ord\<lparr>o_Id := next_id (tabs w)\<rparr>] \<and> pays (tabs w') = pays (tabs w)"
  using assms unfolding create_internal_order_def CreateOrder_def
  by (auto simp: ok_iffs insert_order_ok dest!: stmtM_okD)

text \<open>An internal registration is made for a free account only, and its order counts as paid from the
  start though no payment is recorded for it; still waiting in its register status, it is one of the
  orders the expiry job closes after a day.\<close>

theorem internal_orders_need_no_payment:
  assumes run: "doAccountRegister DivRound H charList mapToken req w = (Inr oid, w')"
  shows "let account = s_Account (ir_Search req) in
     (a_Id (account_of H (tabs w) account) = 0
       \<or> FormatAccountStatus (account_of H (tabs w) account) = SearchStatusRegisterAble)
     \<and> (o_Id (open_order H (tabs w) account) = 0
       \<or> o_RegisterStatus (open_order H (tabs w) account) < RegisterStatusPreRegister)
     \<and> pays (tabs w') = pays (tabs w)
     \<and> (\<exists>r. orders (tabs w') = orders (tabs w) @ [r] \<and> o_OrderId r = oid \<and> o_Account r = account
          \<and> o_PayStatus r = TxStatusSending \<and> o_PayTokenId r \<in> {TokenIdCkbInternal, TokenIdPadgeInternal}
          \<and> 0 < o_PayAmount r \<and> expirable r)"
proof -
  from run obtain chars w0 chainType address u w1 base w2 v w3 where
    ch: "internal_chars charList (ir_Search req) w = (Inr chars, w0)"
    and up: "checkSystemUpgrade H w0 = (Inr u, w1)"
    and oi: "checkOrderInfo H '''' '''' (ir_Base req) w1 = (Inr base, w2)"
    and free: "check_free H ((ir_Search req)\<lparr>s_AccountCharStr := chars, s_ChainType := chainType, s_Address := address\<rparr>) w2 = (Inr v, w3)"
    and reg: "doInternalRegisterOrder DivRound H mapToken (req\<lparr>ir_Search := (ir_Search req)\<lparr>s_AccountCharStr := chars,
       s_ChainType := chainType, s_Address := address\<rparr>, ir_Base := base\<rparr>) w3 = (Inr oid, w')"
    unfolding doAccountRegister_def Let_def by (auto simp: ok_iffs split: if_splits prod.splits)
  have "tabs w0 = tabs w" using ch unfolding internal_chars_def by (auto simp: ok_iffs split: if_splits)
  then have t: "tabs w2 = tabs w" "tabs w3 = tabs w"
    using tabs_readonly [OF readonly.checkSystemUpgrade up] tabs_readonly [OF readonly.checkOrderInfo oi]
      tabs_readonly [OF readonly.check_free free] by simp_all
  from reg obtain usd ckb amount nw w4 where am: "0 < amount" and
    cr: "create_internal_order (internal_row H (req\<lparr>ir_Search := (ir_Search req)\<lparr>s_AccountCharStr := chars,
       s_ChainType := chainType, s_Address := address\<rparr>, ir_Base := base\<rparr>) nw usd ckb amount) w4 = (Inr oid, w')"
    and t4: "tabs w4 = tabs w3"
    unfolding doInternalRegisterOrder_def by (auto simp: ok_iffs linorder_not_le split: if_splits prod.splits)
  from check_free_cases(2,3) [OF free] create_internal_order_ok [OF cr] t t4 am show ?thesis
    by (auto simp: Let_def internal_row_def internal_token_def zero_order_def expirable_def sql_in_def)
qed

section \<open>Examples\<close>

text \<open>A shop that has the account, and one whose user has an order already.\<close>

definition ex_account :: account_row where
  "ex_account = zero_account\<lparr>a_Id := 1, a_AccountId := ''alice.bit'', a_Account := ''alice.bit'', a_Outpoint := ''op'',
     a_ExpiredAt := 1700000000\<rparr>"

definition ex_cells :: renew_lib where
  "ex_cells = \<lparr>nl_GracePeriod = Inr (Inr 7776000), nl_CellChars = (\<lambda>_. Inr [''alice.bit'' \<mapsto> 5])\<rparr>"

definition renew_world :: "db world" where
  "renew_world = world_of (ex_shop\<lparr>accounts := [ex_account]\<rparr>) 1700000000000"

definition ex_renew :: renew_req where
  "ex_renew = \<lparr>n_KeyInfo = \<lparr>ki_Type = '''', ki_CoinType = ''60'', ki_Key = ''0xaa''\<rparr>, n_ChainType = 0,
     n_Address = '''', n_Account = ''alice.bit'', n_PayTokenId = TokenIdEth, n_PayType = '''', n_RenewYears = 1\<rparr>"

lemma ex_system: "healthy w \<Longrightarrow> checkSystemUpgrade ex_http w = (Inr (), w)"
  by (simp add: checkSystemUpgrade_def ex_http_def go_simps)

lemma ex_latest: "IsLatestBlockNumber (h_ParserUrl ex_http) p"
  by (simp add: IsLatestBlockNumber_def ex_http_def)

lemma ex_values:
  "h_FormatChainTypeAddress ex_http k = Inr (1, ki_Key k)" "h_AccountId ex_http a = a" "h_MaxRegisterYears ex_http = 20"
  "h_HexToArgs ex_http c ad = Inr ''0x03''" "h_UniPayUrl ex_http = ''''" "h_PayAddressMap ex_http x = ''addr''"
  "h_Suffix ex_http = ''.bit''" "h_InviterWhitelist ex_http i = False" "h_md5 ex_http a = a"
  "h_ActionString ex_http ac = ''''"
  by (simp_all add: ex_http_def)

lemma ex_token_amount:
  "getOrderAmount (\<lambda>a b p. a / b) ex_http [TokenIdEth \<mapsto> ex_token] 5 args ''alice.bit'' '''' 1 True TokenIdEth
     = Inr (5, 100000000000, 2500000000000000)"
  "getOrderAmount (\<lambda>a b p. a / b) ex_http [TokenIdEth \<mapsto> ex_token] 5 args ''alice.bit'' '''' 1 False TokenIdEth
     = Inr (152 / 25, 121600000000, 3040000000000000)"
proof -
  have p: "getAccountPrice (\<lambda>a b p. a / b) ex_http 5 args ''alice.bit'' b = Inr (27 / 25, 5)" for b
    by (simp add: getAccountPrice_def price_from_cell_def ex_http_def divR_def Let_def)
  have "GetTokenInfo [TokenIdEth \<mapsto> ex_token] TokenIdEth = ex_token"
    by (simp add: GetTokenInfo_def)
  moreover have "h_QuoteCell ex_http = Inr 5000" "h_UsdRateBase ex_http = 1000000" "h_OneCkb ex_http = 100000000"
    "h_Premium ex_http = 0" "h_Discount ex_http = 0"
    by (simp_all add: ex_http_def)
  ultimately show "getOrderAmount (\<lambda>a b p. a / b) ex_http [TokenIdEth \<mapsto> ex_token] 5 args ''alice.bit'' '''' 1 True TokenIdEth
     = Inr (5, 100000000000, 2500000000000000)"
    "getOrderAmount (\<lambda>a b p. a / b) ex_http [TokenIdEth \<mapsto> ex_token] 5 args ''alice.bit'' '''' 1 False TokenIdEth
     = Inr (152 / 25, 121600000000, 3040000000000000)"
    by (simp_all add: getOrderAmount_def p divR_def invited_price_def total_usd_def gross_usd_def Let_def
        ex_token_def RoundAmount_def round_up_def ceil_rat_def)
qed

lemma create_own_order_run:
  assumes "healthy w" and "orders (tabs w) = []" and "o_PayTokenId row = TokenIdEth"
  shows "\<exists>resp w'. create_paid_order ex_http row amount w = (Inr resp, w')"
  using assms by (simp add: create_paid_order_def go_simps ex_values own_order_rows_def Let_def
      CreateOrderWithPayment_def insert_order_def zero_pay_def)

lemma ex_renew_run:
  "\<exists>resp w'. doOrderRenew (\<lambda>a b p. a / b) ex_http ex_cells [TokenIdEth \<mapsto> ex_token] ex_renew renew_world = (Inr resp, w')"
proof -
  have w: "healthy renew_world" "orders (tabs renew_world) = []" "now renew_world = 1700000000000"
    "accounts (tabs renew_world) = [ex_account]"
    by (simp_all add: renew_world_def ex_shop_def empty_db_def)
  have chk: "checkRenewOrder ex_http ex_cells rq renew_world = (Inr ex_account, renew_world)"
    if "n_Account rq = ''alice.bit''" "n_RenewYears rq = 1" for rq
    using that by (simp add: checkRenewOrder_def GetAccountInfoByAccountId_def go_simps w ex_values first_or_def
        ex_account_def zero_account_def ex_cells_def Let_def)
  have cells: "cell_chars ex_cells ex_account = Inr 5"
    by (simp add: cell_chars_def ex_cells_def ex_account_def zero_account_def)
  have l: "ToLower ''alice.bit'' = ''alice.bit''" "HasSuffix ''alice.bit'' ''.bit''"
    by (simp_all add: ToLower_def lower_def Let_def HasSuffix_def suffix_def)
  let ?row = "renew_row ex_http (ex_renew\<lparr>n_ChainType := 1, n_Address := ''0xaa''\<rparr>) (renew_content 1 5 100000000000)"
  have tok: "o_PayTokenId ?row = TokenIdEth" by (simp add: renew_row_def ex_renew_def)
  then obtain resp w' where run: "create_paid_order ex_http ?row 2500000000000000 renew_world = (Inr resp, w')"
    using create_own_order_run [OF w(1,2)] by blast
  have r: "n_KeyInfo ex_renew = \<lparr>ki_Type = '''', ki_CoinType = ''60'', ki_Key = ''0xaa''\<rparr>" "n_Account ex_renew = ''alice.bit''"
    "n_PayTokenId ex_renew = TokenIdEth" "n_RenewYears ex_renew = 1" "ex_renew\<lparr>n_Account := ''alice.bit''\<rparr> = ex_renew"
    by (simp_all add: ex_renew_def)
  from r have "ex_renew\<lparr>n_Account := ''alice.bit'', n_ChainType := 1, n_Address := ''0xaa''\<rparr>
      = ex_renew\<lparr>n_ChainType := 1, n_Address := ''0xaa''\<rparr>" by simp
  then show ?thesis using run tok
    by (simp add: doOrderRenew_def doRenewOrder_def Let_def go_simps ex_values l w ex_system ex_latest chk r
        cells ex_token_amount owner_args_def IsTokenIdCkbInternal_def check_das_balance_def)
qed

theorem renew_only_live_accounts_witness:
  "\<exists>resp w' r. doOrderRenew (\<lambda>a b p. a / b) ex_http ex_cells [TokenIdEth \<mapsto> ex_token] ex_renew renew_world = (Inr resp, w')
     \<and> orders (tabs w') = [r] \<and> o_Action r = DasActionRenewAccount \<and> o_AccountId r = ''alice.bit''"
proof -
  obtain resp w' where r: "doOrderRenew (\<lambda>a b p. a / b) ex_http ex_cells [TokenIdEth \<mapsto> ex_token] ex_renew renew_world = (Inr resp, w')"
    using ex_renew_run by blast
  have "n_Account ex_renew = ''alice.bit''" "orders (tabs renew_world) = []" "ToLower ''alice.bit'' = ''alice.bit''"
    by (simp_all add: ex_renew_def renew_world_def ex_shop_def empty_db_def ToLower_def lower_def Let_def)
  with renew_only_live_accounts [OF r] r show ?thesis by (auto simp: Let_def ex_values)
qed

text \<open>An unpaid order of the user, to be changed to one more year.\<close>

definition open_row :: order_row where
  "open_row = zero_order\<lparr>o_Id := 5, o_OrderType := OrderTypeSelf, o_OrderId := ''first'', o_AccountId := ''alice.bit'',
     o_Account := ''alice.bit'', o_Action := DasActionApplyRegister, o_ChainType := 1, o_Address := ''0xaa'',
     o_RegisterStatus := RegisterStatusConfirmPayment,
     o_Content := Some (order_content_of (ex_req ''0xaa'' '''') 1 1)\<rparr>"

definition change_world :: "db world" where
  "change_world = world_of (ex_shop\<lparr>orders := [open_row], next_id := 6\<rparr>) 1700000000000"

definition ex_change :: change_req where
  "ex_change = \<lparr>cr_KeyInfo = \<lparr>ki_Type = '''', ki_CoinType = ''60'', ki_Key = ''0xaa''\<rparr>, cr_ChainType = 0, cr_Address = '''',
     cr_Account = ''alice.bit'', cr_PayTokenId = TokenIdEth, cr_PayType = '''', cr_CoinType = '''', cr_CrossCoinType = '''',
     cr_Base = \<lparr>ob_RegisterYears = 1, ob_InviterAccount = '''', ob_ChannelAccount = ''''\<rparr>\<rparr>"

lemma ex_change_run:
  "\<exists>resp w'. doOrderChange (\<lambda>a b p. a / b) ex_http [TokenIdEth \<mapsto> ex_token] ex_change change_world = (Inr resp, w')"
proof -
  have w: "healthy change_world" "orders (tabs change_world) = [open_row]" "now change_world = 1700000000000"
    by (simp_all add: change_world_def ex_shop_def empty_db_def)
  let ?content = "order_content_of (ex_req ''0xaa'' '''') 1 1"
  let ?rq = "ex_change\<lparr>cr_ChainType := 1, cr_Address := ''0xaa''\<rparr>"
  have r: "cr_KeyInfo ex_change = \<lparr>ki_Type = '''', ki_CoinType = ''60'', ki_Key = ''0xaa''\<rparr>" "cr_Account ex_change = ''alice.bit''"
    "cr_PayTokenId ex_change = TokenIdEth" "cr_CoinType ex_change = ''''" "cr_CrossCoinType ex_change = ''''"
    "cr_Base ex_change = \<lparr>ob_RegisterYears = 1, ob_InviterAccount = '''', ob_ChannelAccount = ''''\<rparr>"
    by (simp_all add: ex_change_def)
  have oi: "checkOrderInfo ex_http '''' '''' (cr_Base ex_change) change_world = (Inr (cr_Base ex_change), change_world)"
    by (simp add: checkOrderInfo_def check_inviter_def check_channel_def r go_simps ex_values)
  have old: "oldOrderCheck ex_http ?rq change_world = (Inr ?content, change_world)"
    by (simp add: oldOrderCheck_def GetLatestRegisterOrderBySelf_def latest_order_def first_by_def go_simps w
        ex_change_def ex_values) (simp add: open_row_def zero_order_def okM_def)
  let ?row = "change_row ex_http ?rq (change_content ?content (change_channel ex_http ?rq) (152 / 25) 121600000000)"
  have chars: "account_length (AccountCharStr ?content) = 5"
    by (simp add: order_content_of_def ex_req_def ex_length)
  have "\<exists>resp w'. create_paid_order ex_http ?row 3040000000000000 change_world = (Inr resp, w')"
    by (simp add: create_paid_order_def go_simps ex_values own_order_rows_def Let_def w
      CreateOrderWithPayment_def insert_order_def zero_pay_def change_row_def ex_change_def order_id_def CreateOrderId_def
      open_row_def zero_order_def)
  moreover have "ToLower ''alice.bit'' = ''alice.bit''" by (simp add: ToLower_def lower_def Let_def)
  moreover have e: "ex_change\<lparr>cr_Account := ''alice.bit'', cr_ChainType := 1, cr_Address := ''0xaa'', cr_Base := \<lparr>ob_RegisterYears = 1, ob_InviterAccount = '''', ob_ChannelAccount = ''''\<rparr>\<rparr> = ?rq"
    by (simp add: ex_change_def)
  ultimately show ?thesis using oi old chars
    by (simp add: doOrderChange_def doNewOrder_def Let_def go_simps ex_values w ex_system ex_latest r ex_token_amount e
        IsTokenIdCkbInternal_def)
qed

theorem change_adds_second_order_witness:
  "\<exists>resp w' r. doOrderChange (\<lambda>a b p. a / b) ex_http [TokenIdEth \<mapsto> ex_token] ex_change change_world = (Inr resp, w')
     \<and> orders (tabs w') = [open_row, r] \<and> o_OrderId r \<noteq> ''first'' \<and> o_PayStatus r = TxStatusDefault"
proof -
  obtain resp w' where r: "doOrderChange (\<lambda>a b p. a / b) ex_http [TokenIdEth \<mapsto> ex_token] ex_change change_world = (Inr resp, w')"
    using ex_change_run by blast
  have "orders (tabs change_world) = [open_row]" "o_OrderId open_row = ''first''"
    by (simp_all add: change_world_def open_row_def)
  with change_adds_second_order [OF r] r show ?thesis by auto
qed

definition ex_internal :: internal_req where
  "ex_internal = \<lparr>ir_Search = (rr_Search (ex_req ''0xaa'' ''''))\<lparr>s_AccountCharStr := []\<rparr>,
     ir_Base = \<lparr>ob_RegisterYears = 1, ob_InviterAccount = '''', ob_ChannelAccount = ''''\<rparr>, ir_CoinType = '''', ir_FromPadge = False\<rparr>"

definition ckb_token :: token_row where
  "ckb_token = \<lparr>k_Id = 2, k_TokenId = TokenIdCkb, k_Decimals = 8, k_Price = 1\<rparr>"

lemma ex_internal_run:
  "\<exists>oid w'. doAccountRegister (\<lambda>a b p. a / b) ex_http (\<lambda>_. Inr ex_chars) [TokenIdCkb \<mapsto> ckb_token] ex_internal ex_world
     = (Inr oid, w')"
proof -
  let ?sreq = "rr_Search (ex_req ''0xaa'' '''')" and ?base = "\<lparr>ob_RegisterYears = 1, ob_InviterAccount = '''', ob_ChannelAccount = ''''\<rparr>"
  have chars: "internal_chars (\<lambda>_. Inr ex_chars) (ir_Search ex_internal) ex_world = (Inr ex_chars, ex_world)"
    by (simp add: internal_chars_def ex_internal_def go_simps)
  have oi: "checkOrderInfo ex_http '''' '''' ?base ex_world = (Inr ?base, ex_world)"
    by (simp add: checkOrderInfo_def check_inviter_def check_channel_def go_simps ex_values)
  have r: "s_Account (ir_Search ex_internal) = ''alice.bit''" "ir_Base ex_internal = ?base"
    "ki_Key (s_KeyInfo (ir_Search ex_internal)) = ''0xaa''" "checkChainType ex_http 1"
    by (simp_all add: ex_internal_def ex_req_def checkChainType_def ex_http_def)
  have s: "(ir_Search ex_internal)\<lparr>s_AccountCharStr := ex_chars, s_ChainType := 1, s_Address := ''0xaa''\<rparr> = ?sreq"
    by (simp add: ex_internal_def ex_req_def)
  have p: "getAccountPrice (\<lambda>a b p. a / b) ex_http 5 args ''alice.bit'' False = Inr (27 / 25, 5)" for args
    by (simp add: getAccountPrice_def price_from_cell_def ex_http_def divR_def Let_def)
  have "GetTokenInfo [TokenIdCkb \<mapsto> ckb_token] TokenIdCkbInternal = ckb_token"
    by (simp add: GetTokenInfo_def)
  moreover have "h_QuoteCell ex_http = Inr 5000" "h_UsdRateBase ex_http = 1000000" "h_OneCkb ex_http = 100000000"
    "h_Premium ex_http = 0" "h_Discount ex_http = 0"
    by (simp_all add: ex_http_def)
  ultimately have am: "\<exists>amount. 0 < amount \<and> getOrderAmount (\<lambda>a b p. a / b) ex_http [TokenIdCkb \<mapsto> ckb_token] 5 ''0x03''
      ''alice.bit'' '''' 1 False TokenIdCkbInternal = Inr (152 / 25, 121600000000, amount)"
    by (simp add: getOrderAmount_def p divR_def invited_price_def total_usd_def gross_usd_def Let_def ckb_token_def
        RoundAmount_def round_up_def ceil_rat_def)
  then obtain amount where am: "0 < amount" "getOrderAmount (\<lambda>a b p. a / b) ex_http [TokenIdCkb \<mapsto> ckb_token] 5 ''0x03''
      ''alice.bit'' '''' 1 False TokenIdCkbInternal = Inr (152 / 25, 121600000000, amount)" by blast
  have "s_Account ?sreq = ''alice.bit''" "s_AccountCharStr ?sreq = ex_chars" "s_ChainType ?sreq = 1" "s_Address ?sreq = ''0xaa''"
    by (simp_all add: ex_req_def)
  moreover have "\<exists>oid w'. create_internal_order ord ex_world = (Inr oid, w')" for ord
    by (simp add: create_internal_order_def CreateOrder_def insert_order_def go_simps)
  ultimately have "\<exists>oid w'. doInternalRegisterOrder (\<lambda>a b p. a / b) ex_http [TokenIdCkb \<mapsto> ckb_token]
      (ex_internal\<lparr>ir_Search := ?sreq, ir_Base := ?base\<rparr>) ex_world = (Inr oid, w')"
    using am by (simp add: doInternalRegisterOrder_def go_simps ex_values ex_length internal_token_def ex_internal_def)
  then show ?thesis
    by (simp add: doAccountRegister_def go_simps r chars ex_values ex_system ex_latest oi s ex_check_free Let_def)
qed

theorem internal_orders_need_no_payment_witness:
  "\<exists>oid w' r. doAccountRegister (\<lambda>a b p. a / b) ex_http (\<lambda>_. Inr ex_chars) [TokenIdCkb \<mapsto> ckb_token] ex_internal ex_world
      = (Inr oid, w')
     \<and> orders (tabs w') = [r] \<and> o_PayStatus r = TxStatusSending \<and> pays (tabs w') = []"
proof -
  obtain oid w' where r: "doAccountRegister (\<lambda>a b p. a / b) ex_http (\<lambda>_. Inr ex_chars) [TokenIdCkb \<mapsto> ckb_token] ex_internal ex_world
      = (Inr oid, w')"
    using ex_internal_run by blast
  have "pays ex_shop = []" by (simp add: ex_shop_def empty_db_def)
  with internal_orders_need_no_payment [OF r] r show ?thesis by (auto simp: Let_def)
qed

end
