(* ===== verification/SignExamples.thy ===== *)
theory SignExamples
  imports Balance RegisterSafety TxSafety OrderSafety
begin

text \<open>
  Instances of the signing, editing and balance libraries, and runs of the handlers on them, on
  which the examples of \<open>SignSafety\<close> rest.
\<close>

section \<open>A transaction that is built and cached\<close>

definition ex_params :: tx_params where
  "ex_params = no_params\<lparr>tp_Inputs := [(''cell'', 0)], tp_Outputs := [pay_out 1000000 ''lock'' None],
     tp_OutputsData := [''data'']\<rparr>"

definition ex_unsigned :: builder_tx where
  "ex_unsigned = \<lparr>bt_Transaction = ex_params\<lparr>tp_Outputs := [pay_out 998500 ''lock'' None]\<rparr>, bt_Rest = ''''\<rparr>"

definition ex_build_req :: build_req where
  "ex_build_req = (edit_request DasActionTransferAccount ''alice.bit'' 1 ''0xaa'' 1)\<lparr>rb_OrderId := ''order''\<rparr>"

definition ex_sign :: sign_lib where
  "ex_sign = \<lparr>sl_TxTeeRate = 0, sl_AlgEth712 = 5, sl_AlgWebauthn = 8, sl_Nano = 0, sl_Copy = Inr,
     sl_Build = (\<lambda>p. Inr \<lparr>bt_Transaction = p, bt_Rest = ''''\<rparr>), sl_SizeInBlock = (\<lambda>_. 500),
     sl_TxOutputs = (\<lambda>_. Inr []), sl_Index = (\<lambda>_. 0), sl_CheckTxFee = (\<lambda>_ _. Inr None),
     sl_Digests = (\<lambda>_ _. Inr [\<lparr>sd_SignType = 3, sd_SignMsg = ''digest''\<rparr>]), sl_MMJson = (\<lambda>_ _. Inr ''''),
     sl_Encode = (\<lambda>_. ''cached''), sl_Decode = (\<lambda>_. Inr (cached_tx ex_build_req ex_unsigned)),
     sl_NormalToHex = Inr, sl_KeyIndex = (\<lambda>_ _. Inr 0), sl_AddPkIndex = (\<lambda>m _. m), sl_ParseTx = (\<lambda>_. Inl Fault),
     sl_AddSignature = (\<lambda>b _. Inr (b\<lparr>bt_Rest := ''signed''\<rparr>)), sl_EncodeDidTx = (\<lambda>_. ''did''),
     sl_ComputeHash = (\<lambda>_. Inr ''hash''), sl_Send = (\<lambda>_. Inr ''hash'')\<rparr>"

definition ex_key :: string where
  "ex_key = SignKey ex_http ex_sign 1700000000000 1 ''0xaa'' DasActionTransferAccount"

definition ex_info :: sign_info where
  "ex_info = \<lparr>si_SignKey = ex_key, si_SignAddress = '''',
     si_SignList = [\<lparr>sd_SignType = 3, sd_SignMsg = ''digest''\<rparr>], si_MMJson = None, si_CKBTx = ''''\<rparr>"

definition ex_cached :: "db world" where
  "ex_cached = ex_world\<lparr>redis := Some (redis_set (getSignTxCacheKey ex_key) ''cached'' (minutes 10) 1700000000000 (\<lambda>_. None))\<rparr>"

lemma ex_signable: "signable ex_sign ex_build_req ex_params = Inr (ex_unsigned, si_SignList ex_info, None)"
  by (simp add: signable_def ex_sign_def skip_groups_def ex_build_req_def edit_request_def pay_fee_def txFee_def
      charge_output_def mm_json_def ex_unsigned_def ex_info_def ex_params_def no_params_def pay_out_def Let_def)

lemma ex_buildTx: "buildTx ex_http ex_sign ex_build_req ex_params ex_world = (Inr ex_info, ex_cached)"
proof -
  have "SetSignTxCache ex_key ''cached'' ex_world = (Inr (), ex_cached)"
    by (simp add: SetSignTxCache_def set_checked_def if_nil_def go_simps ex_cached_def)
  moreover have "sl_Encode ex_sign x = ''cached''" for x by (simp add: ex_sign_def)
  moreover have "SignKey ex_http ex_sign 1700000000000 (rb_ChainType ex_build_req) (rb_Address ex_build_req)
      (rb_Action ex_build_req) = ex_key"
    by (simp add: ex_key_def ex_build_req_def edit_request_def)
  ultimately show ?thesis
    by (simp add: buildTx_def ex_signable go_simps) (simp add: ex_info_def)
qed

lemma ex_json:
  "signable ex_sign ex_build_req ex_params = Inr (b, signs, mm) \<Longrightarrow>
   sl_Decode ex_sign (sl_Encode ex_sign (cached_tx ex_build_req b)) = Inr (cached_tx ex_build_req b)"
  unfolding ex_signable by (simp add: ex_sign_def)

lemma ex_info_simps:
  "si_CKBTx ex_info = ''''" "\<forall>v \<in> set (si_SignList ex_info). \<not> is_webauthn ex_sign v" "si_SignKey ex_info = ex_key"
  by (simp_all add: ex_info_def is_webauthn_def ex_sign_def)

lemma ex_cached_simps: "healthy ex_cached" "now ex_cached = 1700000000000" "trace ex_cached = []"
  by (simp_all add: ex_cached_def ex_world_def world_of_def healthy_def)

definition ex_signed :: builder_tx where
  "ex_signed = ex_unsigned\<lparr>bt_Rest := ''signed''\<rparr>"

text \<open>What the handler leaves when the transaction is sent: it is kept for its order.\<close>

definition ex_kept :: "db world" where
  "ex_kept = ex_cached
     \<lparr>redis := Some (redis_set ''order'' ''did'' (minutes (24 * 60)) 1700000000000 (the (redis ex_cached))),
      trace := [AddOutPoints [''cell'']]\<rparr>"

lemma ex_send: "doTransactionSend ex_http ex_sign ex_info ex_cached = (Inr ''hash'', ex_kept)"
proof -
  have "GetSignTxCache ex_key ex_cached = (Inr ''cached'', ex_cached)"
    unfolding GetSignTxCache_def get_checked_def
    by (simp add: ex_cached_simps ex_cached_def if_nil_def go_simps live_def redis_set_def deadline_def
        minutes_def)
  then have "load_cached ex_sign (si_SignKey ex_info) ex_cached = (Inr (cached_tx ex_build_req ex_unsigned), ex_cached)"
    by (simp add: load_cached_def go_simps ex_info_simps) (simp add: ex_sign_def go_simps)
  moreover have "webauthn_list ex_sign sic ex_info ex_cached = (Inr (si_SignList ex_info), ex_cached)" for sic
    using ex_info_simps by (auto simp: webauthn_list_def okM_def)
  moreover have "user_tx ex_sign (si_CKBTx ex_info) b ex_cached = (Inr b, ex_cached)" for b
    by (simp add: user_tx_def ex_info_simps go_simps)
  moreover have "for_did_cell (cached_tx ex_build_req ex_unsigned)" "sc_OrderId (cached_tx ex_build_req ex_unsigned) = ''order''"
      "sc_BuilderTx (cached_tx ex_build_req ex_unsigned) = ex_unsigned"
    by (simp_all add: for_did_cell_def cached_tx_def ex_build_req_def edit_request_def)
  moreover have "sl_AddSignature ex_sign ex_unsigned l = Inr ex_signed" for l
    by (simp add: ex_sign_def ex_signed_def)
  moreover have "SetCache ''order'' (sl_EncodeDidTx ex_sign ex_signed) (minutes (24 * 60)) ex_cached
      = (Inr (), ex_cached\<lparr>redis := redis ex_kept\<rparr>)"
    by (simp add: SetCache_def set_checked_def if_nil_def go_simps ex_cached_simps ex_kept_def ex_sign_def)
      (simp add: ex_cached_def if_nil_def go_simps)
  moreover have "tp_Inputs (bt_Transaction ex_signed) = [(''cell'', 0)]"
    by (simp add: ex_signed_def ex_unsigned_def ex_params_def)
  ultimately show ?thesis
    by (simp add: doTransactionSend_def go_simps keep_for_did_cell_def ex_kept_def ex_cached_simps)
      (simp add: ex_sign_def go_simps)
qed

section \<open>An account whose owner edits it\<close>

text \<open>\<open>alice.bit\<close>, live, of the owner and manager \<open>0xaa\<close>.\<close>

definition ex_owned :: account_row where
  "ex_owned = zero_account\<lparr>a_Id := 1, a_AccountId := ''alice.bit'', a_Account := ''alice.bit'', a_Outpoint := ''op'',
     a_OwnerChainType := 1, a_Owner := ''0xaa'', a_ManagerChainType := 1, a_Manager := ''0xaa'',
     a_ExpiredAt := 1800000000\<rparr>"

definition ex_edit_world :: "db world" where
  "ex_edit_world = (world_of (empty_db\<lparr>accounts := [ex_owned]\<rparr>) 1700000000000)\<lparr>redis := Some (\<lambda>_. None)\<rparr>"

definition ex_edit :: edit_lib where
  "ex_edit = \<lparr>el_Sign = ex_sign, el_Tx = ex_lib, el_ChainTypeMixin = 4, el_NormalToHex = (\<lambda>c a. Inr (c, a)),
     el_RecordKeys = Inr [''profile.email''], el_RecordsSize = length,
     el_AccTx = (\<lambda>_. Inr ([pay_out 20600000000 ''old'' (Some ''acc'')], [replicate 40 CHR ''x''])),
     el_AccIndex = (\<lambda>_. Inr (\<lambda>_. Some 0)), el_AccWitness = (\<lambda>_ _ _ _. (''witness'', ''data'')),
     el_AccIdWitness = (\<lambda>_. Inr (\<lambda>_. Some ''witness'')), el_Args = (\<lambda>a b. Inr (snd a @ snd b)),
     el_LockScript = (@), el_OwnerWitness = (\<lambda>_. Inr ''owner''), el_Hex2Bytes = (\<lambda>s. s),
     el_SubAccountCells = (\<lambda>_. Inr []), el_SubData = (@)\<rparr>"

definition ex_edit_req :: edit_lock_req where
  "ex_edit_req = \<lparr>eo_KeyInfo = \<lparr>ki_Type = '''', ki_CoinType = ''60'', ki_Key = ''0xaa''\<rparr>,
     eo_Account = ''alice.bit'', eo_EvmChainId = 1, eo_TargetChainType = 1, eo_TargetCoinType = '''',
     eo_TargetAddress = ''0xbb''\<rparr>"

lemma ex_edit_open: "edit_open ex_http ''alice.bit'' ex_edit_world = (Inr (), ex_edit_world)"
proof -
  have w: "healthy ex_edit_world" "redis ex_edit_world = Some (\<lambda>_. None)"
      "ex_edit_world\<lparr>redis := Some (\<lambda>_. None)\<rparr> = ex_edit_world"
    by (simp_all add: ex_edit_world_def world_of_def healthy_def)
  have "AccountLimitExist ''alice.bit'' ex_edit_world = (Inr False, ex_edit_world)"
    unfolding AccountLimitExist_def exists_checked_def if_nil_def
    using w by (simp add: go_simps live_def)
  with w ex_system [of ex_edit_world] show ?thesis by (simp add: edit_open_def bindM_def okM_def ex_latest)
qed

lemma ex_account_to_edit: "account_to_edit ex_http ''alice.bit'' ex_edit_world = (Inr ex_owned, ex_edit_world)"
proof -
  have "h_AccountId ex_http a = a" for a by (simp add: ex_http_def)
  moreover have "GetAccountInfoByAccountId ''alice.bit'' ex_edit_world = (Inr ex_owned, ex_edit_world)"
    by (simp add: GetAccountInfoByAccountId_def go_simps ex_edit_world_def empty_db_def first_or_def ex_owned_def
        world_of_def healthy_def)
  moreover have "now ex_edit_world = 1700000000000" by (simp add: ex_edit_world_def world_of_def)
  ultimately show ?thesis
    by (simp add: account_to_edit_def go_simps)
      (simp add: ex_owned_def CheckStatus_def IsExpired_def zero_account_def okM_def)
qed

definition ex_edited :: tx_params where
  "ex_edited = \<lparr>tp_HeadDeps = [], tp_Inputs = [(''op'', 0)],
     tp_Outputs = [pay_out 20600000000 ''script0xaa0xbb'' (Some ''script'')],
     tp_OutputsData = [''dataxxxxxxxx''], tp_Witnesses = [''action'', ''witness''],
     tp_CellDeps = [''height'', ''time'', ''cfg'']\<rparr>"

lemma ex_buildEditManagerTx: "buildEditManagerTx ex_edit ''alice.bit'' ex_owned (1, ''0xbb'') = Inr ex_edited"
  by (simp add: buildEditManagerTx_def edit_tx_def ex_edit_def ex_lib_def cell_at_def tail_data_def ex_owned_def
      owner_of_def ex_edited_def pay_out_def numeral_eq_Suc)

lemma ex_doEditManager: "\<exists>si w'. doEditManager ex_http ex_edit ex_edit_req ex_edit_world = (Inr si, w')"
proof -
  let ?rb = "edit_request DasActionEditManager ''alice.bit'' 1 ''0xaa'' 1"
  have "\<exists>si w'. buildTx ex_http ex_sign ?rb ex_edited ex_edit_world = (Inr si, w')"
  proof -
    obtain b s m where "signable ex_sign ?rb ex_edited = Inr (b, s, m)"
      by (simp add: signable_def ex_sign_def skip_groups_def edit_request_def pay_fee_def
          charge_output_def mm_json_def ex_edited_def Let_def)
    moreover have "wrapM n (SetSignTxCache k v) ex_edit_world = (Inr (), snd (SetSignTxCache k v ex_edit_world))" for n k v
      by (simp add: SetSignTxCache_def set_checked_def if_nil_def go_simps ex_edit_world_def world_of_def healthy_def)
    ultimately show ?thesis by (simp add: buildTx_def go_simps Let_def)
  qed
  then obtain si w' where "buildTx ex_http ex_sign ?rb ex_edited ex_edit_world = (Inr si, w')" by blast
  moreover have "a_OwnerChainType ex_owned = 1" "a_Owner ex_owned = ''0xaa''" "a_ManagerChainType ex_owned = 1"
    "a_Manager ex_owned = ''0xaa''" "a_ParentAccountId ex_owned = ''''"
    by (simp_all add: ex_owned_def zero_account_def)
  moreover have "target_address ex_http ex_edit ex_edit_req ex_edit_world = (Inr (1, ''0xbb''), ex_edit_world)"
    by (simp add: target_address_def ex_edit_def ex_edit_req_def go_simps)
  moreover have "checkChainType ex_http 1" "\<not> mixin_apart ex_edit 1 1" "el_Sign ex_edit = ex_sign"
    by (simp_all add: checkChainType_def ex_http_def mixin_apart_def ex_edit_def)
  moreover have "EqualFold s s" "\<not> EqualFold ''0xbb'' ''0xaa''" for s
    by (simp_all add: EqualFold_def ToLower_def lower_def)
  moreover have "ToLower (eo_Account ex_edit_req) = ''alice.bit''"
    by (simp add: ex_edit_req_def ToLower_def lower_def)
  ultimately show ?thesis
    by (simp add: doEditManager_def Let_def go_simps ex_values ex_edit_open ex_account_to_edit
        ex_buildEditManagerTx orApiBy_def)
      (simp add: ex_edit_req_def bindM_def orApiBy_def catchM_def liftM_def ex_edit_open ex_account_to_edit
        ex_buildEditManagerTx)
qed

section \<open>An order paid from a balance\<close>

text \<open>Fifty CKB, less than a cell needs, so the server adds a cell of its own.\<close>

definition ex_das_order :: order_row where
  "ex_das_order = zero_order\<lparr>o_Id := 1, o_OrderId := ''order'', o_Account := ''alice.bit'',
     o_PayTokenId := TokenIdDas, o_PayAmount := 5000000000\<rparr>"

definition ex_pay_world :: "db world" where
  "ex_pay_world = (world_of (empty_db\<lparr>orders := [ex_das_order]\<rparr>) 1700000000000)\<lparr>redis := Some (\<lambda>_. None)\<rparr>"

definition ex_bal :: bal_lib where
  "ex_bal = \<lparr>bl_Sign = ex_sign, bl_Tx = ex_lib, bl_OneCkb = 100000000, bl_MinCell = 6100000000,
     bl_MinBalance = 11600000000, bl_OccupiedBalance = 12600000000,
     bl_Parse = (\<lambda>a. Inr \<lparr>pa_Mainnet = True, pa_Full = True, pa_Script = a, pa_CodeHash = '''', pa_Args = ''''\<rparr>),
     bl_HexToScript = (\<lambda>_ _ a. Inr (''das'' @ a, None)),
     bl_Cells = (\<lambda>_ need _. if need \<le> 100000000000 then Inr ([(''cell'', 100000000000)], 100000000000)
                       else Inl ErrInsufficientFunds),
     bl_ServerCells = (\<lambda>_ n _. if n < 2 ^ 62 then Inr ([(''srv'', n)], 0) else Inl ErrInsufficientFunds),
     bl_Split = (\<lambda>c _ _ lock ty. Inr [pay_out c lock ty]), bl_ContractId = (\<lambda>_. Inr ''id''),
     bl_ContractScript = (\<lambda>_. ''script''), bl_ArgsEth712 = (\<lambda>_. Inr True), bl_DepositWitness = Inr ''deposit''\<rparr>"

definition ex_pay_req :: balance_pay_req where
  "ex_pay_req = \<lparr>bp_KeyInfo = \<lparr>ki_Type = '''', ki_CoinType = ''60'', ki_Key = ''0xaa''\<rparr>,
     bp_OrderId = ''order'', bp_EvmChainId = 1\<rparr>"

definition ex_paid :: tx_params where
  "ex_paid = pay_tx [(''cell'', 100000000000), (''srv'', 6100000000)] (pay_out 11100000000 ''addr'' None) ''order''
     [pay_out 95000000000 ''das0xaa'' None] ''action''"

lemma ex_order_to_pay: "order_to_pay ''order'' ex_pay_world = (Inr ex_das_order, ex_pay_world)"
proof -
  have "GetOrderByOrderId ''order'' ex_pay_world = (Inr ex_das_order, ex_pay_world)"
    by (simp add: GetOrderByOrderId_def go_simps find_order_def first_or_def ex_pay_world_def empty_db_def ex_das_order_def
        world_of_def healthy_def)
  then show ?thesis
    by (simp add: order_to_pay_def go_simps) (simp add: ex_das_order_def zero_order_def okM_def)
qed

lemma ex_buildBalancePayTx:
  "buildBalancePayTx ex_bal \<lparr>by_orderId = ''order'', by_liveCells = [(''cell'', 100000000000)],
     by_totalCapacity = 100000000000, by_payCapacity = 5000000000, by_minCellCapacity = 6100000000,
     by_serverLiveCells = [(''srv'', 6100000000)], by_serverTotalCapacity = 6100000000,
     by_fromLockScript = ''das0xaa'', by_fromTypeScript = None, by_toLockScript = ''addr''\<rparr> = Inr ex_paid"
  by (simp add: buildBalancePayTx_def pay_change_def ex_bal_def ex_lib_def ex_paid_def)

lemma ex_doBalancePay: "\<exists>si w'. doBalancePay ex_http ex_bal ex_pay_req ex_pay_world = (Inr si, w')"
proof -
  let ?rb = "balance_request DasActionTransfer ''alice.bit'' 1 ''0xaa'' 5000000000 1"
  have "\<exists>si w'. buildTx ex_http ex_sign ?rb ex_paid ex_pay_world = (Inr si, w')"
  proof -
    obtain b s m where "signable ex_sign ?rb ex_paid = Inr (b, s, m)"
      by (simp add: signable_def ex_sign_def skip_groups_def balance_request_def edit_request_def pay_fee_def
          charge_output_def mm_json_def ex_paid_def pay_tx_def add_change_def add_inputs_def no_params_def Let_def)
    moreover have "wrapM n (SetSignTxCache k v) ex_pay_world = (Inr (), snd (SetSignTxCache k v ex_pay_world))" for n k v
      by (simp add: SetSignTxCache_def set_checked_def if_nil_def go_simps ex_pay_world_def world_of_def healthy_def)
    ultimately show ?thesis by (simp add: buildTx_def go_simps Let_def)
  qed
  then obtain si w' where "buildTx ex_http ex_sign ?rb ex_paid ex_pay_world = (Inr si, w')" by blast
  moreover have "o_PayTokenId ex_das_order = TokenIdDas" "o_Account ex_das_order = ''alice.bit''"
      "big_uint64 (o_PayAmount ex_das_order) = 5000000000"
    by (simp_all add: ex_das_order_def zero_order_def big_uint64_def)
  moreover have "server_share ex_bal l 5000000000 ex_pay_world
      = (Inr (6100000000, [(''srv'', 6100000000)], 6100000000), ex_pay_world)" for l
    by (simp add: server_share_def ex_bal_def cellsM_def go_simps)
  moreover have "bl_Parse ex_bal a = Inr \<lparr>pa_Mainnet = True, pa_Full = True, pa_Script = a, pa_CodeHash = '''', pa_Args = ''''\<rparr>"
      "bl_HexToScript ex_bal True 1 a = Inr (''das'' @ a, None)" "bl_Sign ex_bal = ex_sign"
      "bl_Cells ex_bal l 5000000000 k = Inr ([(''cell'', 100000000000)], 100000000000)" for a l k
    by (simp_all add: ex_bal_def)
  moreover have "bp_OrderId ex_pay_req = ''order''" "bp_EvmChainId ex_pay_req = 1"
      "ki_Key (bp_KeyInfo ex_pay_req) = ''0xaa''"
    by (simp_all add: ex_pay_req_def)
  ultimately show ?thesis
    by (simp add: doBalancePay_def go_simps ex_values ex_order_to_pay ex_buildBalancePayTx cellsM_def)
qed

end
