(* ===== verification/SignSafety.thy ===== *)
theory SignSafety
  imports SignExamples
begin

text \<open>
  What signing guarantees: a signed transaction is the one that was built, an edit is built for the
  owner or manager only, a payment from a balance creates and loses no CKB, and the numbers in the
  records of an account are read as they were written.
\<close>

section \<open>Numbers in records\<close>

lemma zero_char: "c = CHR ''0'' \<longleftrightarrow> (of_char c :: nat) = 48"
proof -
  have "(of_char (CHR ''0'') :: nat) = 48" by simp
  then show ?thesis by (metis of_char_eq_iff)
qed

lemma digit_char:
  assumes "n < 10"
  shows "is_digit (char_of (n + 48))" and "digit_value (char_of (n + 48)) = int n"
proof -
  have "(of_char (char_of (n + 48) :: char) :: nat) = n + 48"
    using assms by (simp add: of_char_of take_bit_eq_mod)
  then show "is_digit (char_of (n + 48))" "digit_value (char_of (n + 48)) = int n"
    using assms by (simp_all add: is_digit_def digit_value_def)
qed

lemma show_nat_0: "show_nat 0 = ''0''"
  using zero_char [of "char_of (48 :: nat)"] by (simp add: show_nat.simps [of 0] of_char_of take_bit_eq_mod)

definition digits_value :: "string \<Rightarrow> int" where
  "digits_value ds = fold (\<lambda>c k. 10 * k + digit_value c) ds 0"

lemma show_nat_digits:
  "show_nat n \<noteq> [] \<and> (\<forall>c \<in> set (show_nat n). is_digit c) \<and> digits_value (show_nat n) = int n
   \<and> (0 < n \<longrightarrow> hd (show_nat n) \<noteq> CHR ''0'')"
proof (induction n rule: show_nat.induct)
  case (1 n)
  show ?case
  proof (cases "n < 10")
    case True
    have "0 < n \<Longrightarrow> char_of (n + 48) \<noteq> CHR ''0''"
      using True by (auto simp: zero_char of_char_of take_bit_eq_mod)
    with True digit_char [OF True] show ?thesis by (simp add: show_nat.simps [of n] digits_value_def)
  next
    case False
    have e: "10 * int (n div 10) + int (n mod 10) = int n" by presburger
    have "n mod 10 < 10" by simp
    from digit_char [OF this] 1 [OF False] False show ?thesis
      by (simp add: show_nat.simps [of n] digits_value_def e)
  qed
qed

lemma char_of_digit:
  assumes "is_digit c"
  shows "0 \<le> digit_value c" and "digit_value c < 10" and "char_of (nat (digit_value c) + 48) = c"
    and "c \<noteq> CHR ''0'' \<Longrightarrow> 0 < digit_value c"
proof -
  show "0 \<le> digit_value c" "digit_value c < 10" "c \<noteq> CHR ''0'' \<Longrightarrow> 0 < digit_value c"
    using assms by (auto simp: is_digit_def digit_value_def zero_char)
  show "char_of (nat (digit_value c) + 48) = c"
    using assms by (simp add: is_digit_def digit_value_def nat_diff_distrib)
qed

text \<open>Digits without a leading zero are the decimal form of their value.\<close>

lemma digits_shown:
  assumes "ds \<noteq> []" and "\<forall>c \<in> set ds. is_digit c" and "hd ds \<noteq> CHR ''0''"
  shows "0 < digits_value ds \<and> show_nat (nat (digits_value ds)) = ds"
  using assms
proof (induction ds rule: rev_induct)
  case Nil
  then show ?case by simp
next
  case (snoc c cs)
  have c: "0 \<le> digit_value c" "digit_value c < 10" "char_of (nat (digit_value c) + 48) = c"
    using snoc.prems(2) char_of_digit [of c] by auto
  have v: "digits_value (cs @ [c]) = 10 * digits_value cs + digit_value c" by (simp add: digits_value_def)
  show ?case
  proof (cases "cs = []")
    case True
    have "nat (digit_value c) < 10" using c(2) by simp
    with True snoc.prems c char_of_digit(4) [of c] show ?thesis
      by (simp add: digits_value_def show_nat.simps [of "nat (digit_value c)"])
  next
    case False
    with snoc have ih: "0 < digits_value cs" "show_nat (nat (digits_value cs)) = cs" by auto
    let ?n = "nat (digits_value (cs @ [c]))"
    have n: "?n div 10 = nat (digits_value cs)" "?n mod 10 = nat (digit_value c)" "\<not> ?n < 10"
      using ih(1) c(1,2) unfolding v by (simp_all add: nat_add_distrib nat_mult_distrib)
    have "show_nat ?n = show_nat (?n div 10) @ [char_of (?n mod 10 + 48)]"
      using n(3) by (simp add: show_nat.simps [of ?n])
    with n ih c v show ?thesis by simp
  qed
qed

lemma ParseInt_shown:
  assumes "- (2 ^ 63) \<le> i" and "i < 2 ^ 63"
  shows "ParseInt (show_int i) = Some i"
proof (cases "i < 0")
  case True
  have "show_nat (nat (- i)) \<noteq> []" "\<forall>c \<in> set (show_nat (nat (- i))). is_digit c"
    "fold (\<lambda>c k. 10 * k + digit_value c) (show_nat (nat (- i))) 0 = - i"
    using show_nat_digits [of "nat (- i)"] True by (auto simp: digits_value_def)
  with True assms show ?thesis by (auto simp: ParseInt_def show_int_def Let_def)
next
  case False
  define ds where "ds = show_nat (nat i)"
  have ds: "ds \<noteq> []" "\<forall>c \<in> set ds. is_digit c" "fold (\<lambda>c k. 10 * k + digit_value c) ds 0 = i"
    using show_nat_digits [of "nat i"] False by (auto simp: digits_value_def ds_def)
  then obtain c cs where c: "ds = c # cs" "is_digit c" by (cases ds) auto
  have "c \<noteq> CHR ''-''" "c \<noteq> CHR ''+''" using c(2) by (auto simp: is_digit_def)
  with False ds c(1) assms have "ParseInt ds = Some i"
    by (auto simp: ParseInt_def Let_def simp del: fold_simps)
  with False show ?thesis by (simp add: show_int_def ds_def)
qed

text \<open>Numbers of records are read as they were written: a time to live printed in decimal is
  read back, cut to 32 bits, and the keys the pattern of coin types admits are exactly the decimal
  forms of the natural numbers.\<close>

theorem record_numbers_round_trip:
  assumes "- (2 ^ 63) \<le> i" and "i < 2 ^ 63"
  shows "ParseInt (show_int i) = Some i
    \<and> uint (ri_TTL (record_of (v\<lparr>rq_TTL := show_int i\<rparr>))) = i mod 2 ^ 32
    \<and> (decimal_key s \<longleftrightarrow> (\<exists>n. s = show_nat n))"
proof -
  have "decimal_key s" if "s = show_nat n" for n
    using show_nat_digits [of n] that
    by (cases "n = 0") (auto simp: decimal_key_def show_nat_0 split: list.splits)
  moreover have "\<exists>n. s = show_nat n" if "decimal_key s"
  proof (cases "s = ''0''")
    case True
    then show ?thesis by (intro exI [of _ 0]) (simp add: show_nat_0)
  next
    case False
    with that have "s \<noteq> []" "\<forall>d \<in> set s. is_digit d" "hd s \<noteq> CHR ''0''"
      by (auto simp: decimal_key_def split: list.splits)
    from digits_shown [OF this] show ?thesis by metis
  qed
  ultimately show ?thesis
    using ParseInt_shown [OF assms] by (auto simp: record_of_def take_bit_eq_mod uint_word_of_int)
qed

text \<open>A time to live of 2^32 + 5 seconds is stored as five seconds.\<close>

theorem record_numbers_round_trip_witness:
  "uint (ri_TTL (record_of \<lparr>rq_Key = ''60'', rq_Type = ''address'', rq_Label = '''', rq_Value = ''0x00'',
     rq_TTL = show_int 4294967301\<rparr>)) = 5"
  using record_numbers_round_trip [of 4294967301 "\<lparr>rq_Key = ''60'', rq_Type = ''address'', rq_Label = '''',
     rq_Value = ''0x00'', rq_TTL = ''''\<rparr>" "''60''"] by simp

section \<open>Signing\<close>

lemma if_nil_some: "redis w = Some r \<Longrightarrow> if_nil m n w = n w"
  by (simp add: if_nil_def)

lemma set_checked_ok:
  assumes "set_checked key v e w = (Inr u, w')"
  shows "\<exists>r. redis w = Some r \<and> redis w' = Some (redis_set key v e (now w) r) \<and> now w' = now w
    \<and> tabs w' = tabs w"
  using assms unfolding set_checked_def if_nil_def redisM_def
  by (auto simp: errM_def Let_def split: if_splits option.splits prod.splits dest: next_fault_cases)

lemma set_checked_trace: "set_checked key v e w = (Inr u, w') \<Longrightarrow> trace w' = trace w"
  unfolding set_checked_def if_nil_def redisM_def
  by (auto simp: errM_def Let_def split: if_splits option.splits prod.splits dest: next_fault_cases)

lemma get_checked_ok:
  "get_checked key w = (Inr v, w') \<Longrightarrow> \<exists>r. redis w = Some r \<and> live (now w) r key = Some v"
  unfolding get_checked_def if_nil_def redisM_def
  by (auto simp: ok_iffs errM_def bindM_def okM_def Let_def split: if_splits option.splits prod.splits
      dest: next_fault_cases)

lemma get_checked_healthy:
  "healthy w \<Longrightarrow> redis w = Some r \<Longrightarrow> live (now w) r key = Some v \<Longrightarrow> get_checked key w = (Inr v, w)"
  by (simp add: get_checked_def if_nil_some go_simps bindM_def okM_def)

lemma buildTx_ok:
  assumes "buildTx H S req p w = (Inr si, w1)"
  shows "\<exists>b signs mm r. signable S req p = Inr (b, signs, mm) \<and> si_SignList si = signs
    \<and> si_SignKey si = SignKey H S (now w) (rb_ChainType req) (rb_Address req) (rb_Action req)
    \<and> redis w1 = Some (redis_set (getSignTxCacheKey (si_SignKey si)) (sl_Encode S (cached_tx req b)) (minutes 10) (now w) r)
    \<and> now w1 = now w \<and> tabs w1 = tabs w"
  using assms unfolding buildTx_def Let_def SetSignTxCache_def
  by (auto simp: ok_iffs split: prod.splits dest!: set_checked_ok)

lemma cached_then_sent:
  assumes built: "buildTx H S req p w = (Inr si, w1)"
    and json: "\<And>b signs mm. signable S req p = Inr (b, signs, mm) \<Longrightarrow>
      sl_Decode S (sl_Encode S (cached_tx req b)) = Inr (cached_tx req b)"
    and later: "healthy w2" "redis w2 = redis w1" "now w2 < now w + minutes 10"
    and send: "si_SignKey r = si_SignKey si" "si_CKBTx r = ''''" "\<forall>v \<in> set (si_SignList r). \<not> is_webauthn S v"
  shows "\<exists>b mm. signable S req p = Inr (b, si_SignList si, mm)
    \<and> doTransactionSend H S r w2 =
        bindM (orApi ApiCodeError500 (liftM (sl_AddSignature S b (si_SignList r)))) (\<lambda>stx.
          if for_did_cell (cached_tx req b) then keep_for_did_cell S (cached_tx req b) stx
          else send_signed H S (si_SignKey si) (cached_tx req b) stx) w2"
proof -
  from buildTx_ok [OF built] obtain b signs mm r0 where
    b: "signable S req p = Inr (b, signs, mm)" "si_SignList si = signs"
    and rd: "redis w1 = Some (redis_set (getSignTxCacheKey (si_SignKey si)) (sl_Encode S (cached_tx req b)) (minutes 10) (now w) r0)"
    by blast
  have "live (now w2) (redis_set (getSignTxCacheKey (si_SignKey si)) (sl_Encode S (cached_tx req b)) (minutes 10) (now w) r0)
      (getSignTxCacheKey (si_SignKey si)) = Some (sl_Encode S (cached_tx req b))"
    using later(3) by (simp add: live_def redis_set_def deadline_def minutes_def)
  then have "GetSignTxCache (si_SignKey si) w2 = (Inr (sl_Encode S (cached_tx req b)), w2)"
    using later rd unfolding GetSignTxCache_def by (intro get_checked_healthy) auto
  then have "load_cached S (si_SignKey si) w2 = (Inr (cached_tx req b), w2)"
    by (simp add: load_cached_def go_simps json [OF b(1)])
  moreover have "webauthn_list S (cached_tx req b) r w2 = (Inr (si_SignList r), w2)"
    using send(3) by (auto simp: webauthn_list_def okM_def)
  moreover have "user_tx S (si_CKBTx r) (sc_BuilderTx (cached_tx req b)) w2 = (Inr b, w2)"
    by (simp add: user_tx_def send(2) okM_def cached_tx_def)
  ultimately show ?thesis
    using b by (intro exI [of _ b] exI [of _ mm]) (simp add: doTransactionSend_def bindM_def send(1) split: prod.split sum.split)
qed



lemma bind_run: "m w = (Inr x, w') \<Longrightarrow> bindM m k w = k x w'"
  by (simp add: bindM_def)

lemma catch_run: "m w = (Inr x, w') \<Longrightarrow> catchM m h w = (Inr x, w')"
  by (simp add: catchM_def)

lemma did_cell_sends:
  assumes "healthy w" and "redis w = Some r" and "live (now w) r (o_OrderId v) = Some txStr"
    and "DecodeTx L txStr = Inr tx" and "SendTransaction L tx = Inr h"
  shows "SendTx (o_OrderId v) h \<in> set (trace (snd (did_cell_one L v w)))"
proof -
  have get: "wrapM ''GetCache'' (GetCache (o_OrderId v)) w = (Inr txStr, w)"
    unfolding GetCache_def wrapM_def by (intro catch_run get_checked_healthy [OF assms(1-3)])
  define w1 where "w1 = snd (wrapM ''UpdatePayStatus'' (UpdatePayStatus (o_OrderId v) TxStatusSending TxStatusOk) w)"
  have up: "wrapM ''UpdatePayStatus'' (UpdatePayStatus (o_OrderId v) TxStatusSending TxStatusOk) w = (Inr (), w1)"
    using assms(1) unfolding w1_def UpdatePayStatus_def by (simp add: go_simps)
  have snt: "tryM (sendM L (o_OrderId v) tx) w1 = (Inr (Inr h), w1\<lparr>trace := trace w1 @ [SendTx (o_OrderId v) h]\<rparr>)"
    by (simp add: tryM_def sendM_def assms(5) thenM_def bindM_def emitM_def okM_def catchM_def)
  define m where "m = bindM clockM (\<lambda>nw. catchM (CreateOrderTx \<lparr>x_Id = 0, x_OrderId = o_OrderId v, x_Hash = h,
                        x_Action = OrderTxActionOf L (o_Action v), x_Status = OrderTxStatusDefault,
                        x_Timestamp = nw\<rparr>) (\<lambda>_. emitM (LarkErr ''CreateOrderTx'')))"
  have "emits (\<lambda>_. True) m"
    unfolding m_def CreateOrderTx_def by (intro emits_intros) simp_all
  then have "\<exists>es. trace (snd (m (w1\<lparr>trace := trace w1 @ [SendTx (o_OrderId v) h]\<rparr>)))
      = trace (w1\<lparr>trace := trace w1 @ [SendTx (o_OrderId v) h]\<rparr>) @ es"
    unfolding emits_def by blast
  then obtain es where "trace (snd (m (w1\<lparr>trace := trace w1 @ [SendTx (o_OrderId v) h]\<rparr>)))
      = (trace w1 @ [SendTx (o_OrderId v) h]) @ es" by auto
  moreover have "did_cell_one L v w = m (w1\<lparr>trace := trace w1 @ [SendTx (o_OrderId v) h]\<rparr>)"
    using get up snt assms(4) unfolding did_cell_one_def m_def
    by (simp add: bindM_def thenM_def wrapM_def liftM_def catchM_def)
  ultimately show ?thesis by simp
qed



text \<open>C12. A transaction only leaves the service as it was cached for its sign key: the one sent, or kept
  for a DID cell, spends the same cells and pays the same locks as the cached one, and the same
  amounts too unless a CKB wallet sent its own transaction along.\<close>

theorem sent_transaction_spends_what_was_cached:
  assumes run: "doTransactionSend H S req w = (Inr hash, w')"
    and sig: "\<And>b sl b'. sl_AddSignature S b sl = Inr b' \<Longrightarrow>
      tp_Inputs (bt_Transaction b') = tp_Inputs (bt_Transaction b)
      \<and> tp_Outputs (bt_Transaction b') = tp_Outputs (bt_Transaction b)"
  shows "\<exists>r txStr sic stx. redis w = Some r \<and> live (now w) r (getSignTxCacheKey (si_SignKey req)) = Some txStr
     \<and> sl_Decode S txStr = Inr sic
     \<and> (if for_did_cell sic then sl_ComputeHash S (bt_Transaction stx) = Inr hash else sl_Send S stx = Inr hash)
     \<and> map fst (tp_Inputs (bt_Transaction stx)) = map fst (tp_Inputs (bt_Transaction (sc_BuilderTx sic)))
     \<and> map oc_Lock (tp_Outputs (bt_Transaction stx)) = map oc_Lock (tp_Outputs (bt_Transaction (sc_BuilderTx sic)))
     \<and> (si_CKBTx req = '''' \<longrightarrow> tp_Outputs (bt_Transaction stx) = tp_Outputs (bt_Transaction (sc_BuilderTx sic)))"
proof -
  from run obtain sic signList b stx w1 w2 w3 where
    load: "load_cached S (si_SignKey req) w = (Inr sic, w1)"
    and user: "user_tx S (si_CKBTx req) (sc_BuilderTx sic) w2 = (Inr b, w3)"
    and stx: "sl_AddSignature S b signList = Inr stx"
    and last: "(if for_did_cell sic then keep_for_did_cell S sic stx
       else send_signed H S (si_SignKey req) sic stx) w3 = (Inr hash, w')"
    unfolding doTransactionSend_def by (auto simp: ok_iffs)
  have "\<exists>r txStr. redis w = Some r \<and> live (now w) r (getSignTxCacheKey (si_SignKey req)) = Some txStr
      \<and> sl_Decode S txStr = Inr sic"
  proof -
    from load obtain res w0 where "tryM (GetSignTxCache (si_SignKey req)) w = (Inr res, w0)"
      "(case res of Inl e \<Rightarrow> apiErr (if e = Errf ''redis: nil'' then ApiCodeTxExpired else ApiCodeCacheError)
        | Inr txStr \<Rightarrow> orApi ApiCodeError500 (liftM (sl_Decode S txStr))) w0 = (Inr sic, w1)"
      unfolding load_cached_def bindM_ok by blast
    then show ?thesis
      unfolding GetSignTxCache_def by (cases res) (auto simp: ok_iffs dest!: get_checked_ok)
  qed
  moreover have "map fst (tp_Inputs (bt_Transaction b)) = map fst (tp_Inputs (bt_Transaction (sc_BuilderTx sic)))
     \<and> map oc_Lock (tp_Outputs (bt_Transaction b)) = map oc_Lock (tp_Outputs (bt_Transaction (sc_BuilderTx sic)))
     \<and> (si_CKBTx req = '''' \<longrightarrow> tp_Outputs (bt_Transaction b) = tp_Outputs (bt_Transaction (sc_BuilderTx sic)))"
    using user unfolding user_tx_def
    by (auto simp: ok_iffs same_inputs_and_locks_def intro!: nth_equalityI split: if_splits)
  moreover have "if for_did_cell sic then sl_ComputeHash S (bt_Transaction stx) = Inr hash else sl_Send S stx = Inr hash"
    using last unfolding keep_for_did_cell_def send_signed_def
    by (auto simp: ok_iffs split: if_splits sum.splits)
  ultimately show ?thesis using sig [OF stx] by metis
qed

text \<open>The transaction of the example, sent at once.\<close>

theorem sent_transaction_spends_what_was_cached_witness:
  "\<exists>r txStr sic stx. redis ex_cached = Some r \<and> live (now ex_cached) r (getSignTxCacheKey ex_key) = Some txStr
     \<and> sl_Decode ex_sign txStr = Inr sic
     \<and> (if for_did_cell sic then sl_ComputeHash ex_sign (bt_Transaction stx) = Inr ''hash''
        else sl_Send ex_sign stx = Inr ''hash'')
     \<and> map fst (tp_Inputs (bt_Transaction stx)) = map fst (tp_Inputs (bt_Transaction (sc_BuilderTx sic)))
     \<and> tp_Outputs (bt_Transaction stx) = tp_Outputs (bt_Transaction (sc_BuilderTx sic))"
  using sent_transaction_spends_what_was_cached [OF ex_send] ex_info_simps by (auto simp: ex_sign_def)

section \<open>Editing an account\<close>

lemma exists_checked_ok: "exists_checked key w = (Inr b, w') \<Longrightarrow> now w' = now w \<and> tabs w' = tabs w"
  unfolding exists_checked_def if_nil_def catchM_def redisM_def
  by (auto simp: okM_def Let_def split: if_splits prod.splits sum.splits option.splits dest: next_fault_cases)

lemma edit_open_ok: "edit_open H account w = (Inr u, w') \<Longrightarrow> now w' = now w \<and> tabs w' = tabs w"
  unfolding edit_open_def checkSystemUpgrade_def AccountLimitExist_def
  by (auto simp: ok_iffs Let_def split: if_splits sum.splits dest!: exists_checked_ok)

lemma account_to_edit_ok:
  assumes "account_to_edit H account w = (Inr acc, w')"
  shows "acc = account_of H (tabs w) account \<and> a_Id acc \<noteq> 0 \<and> a_Status acc = AccountStatusNormal
    \<and> now w div 1000 < sint (a_ExpiredAt acc) \<and> tabs w' = tabs w"
  using assms unfolding account_to_edit_def GetAccountInfoByAccountId_def account_of_def
  by (auto simp: ok_iffs CheckStatus_def IsExpired_def dest!: queryM_okD split: if_splits)

lemma cell_at_ok: "cell_at xs i = Inr x \<longleftrightarrow> i < length xs \<and> x = xs ! i"
  by (auto simp: cell_at_def)

lemma edit_tx_ok:
  assumes "edit_tx E action recs owner manager configs account acc = Inr p"
  shows "\<exists>outs outsData i args script dep. el_AccTx E (a_Outpoint acc) = Inr (outs, outsData) \<and> i < length outs
    \<and> tp_Inputs p = [(a_Outpoint acc, 0)] \<and> el_Args E owner manager = Inr args
    \<and> Contract (el_Tx E) DasContractNameDispatchCellType = Inr (script, dep)
    \<and> map oc_Capacity (tp_Outputs p) = [oc_Capacity (outs ! i)]
    \<and> map oc_Lock (tp_Outputs p) = [el_LockScript E script args]"
  using assms unfolding edit_tx_def Let_def
  by (auto simp: bindR_eq_Inr cell_at_ok split: option.splits prod.splits) blast



section \<open>Paying from a balance\<close>

lemma pay_change_sum:
  assumes "pay_change B p = Inr cs" and "by_payCapacity p \<le> by_totalCapacity p"
    and "\<forall>c size n lock ty outs. bl_Split B c size n lock ty = Inr outs \<longrightarrow> cap_sum (map oc_Capacity outs) = unat c"
  shows "cap_sum (map oc_Capacity cs) + unat (by_payCapacity p) = unat (by_totalCapacity p)"
proof -
  have "cap_sum (map oc_Capacity cs) = unat (by_totalCapacity p - by_payCapacity p)"
    using assms(1,3) by (auto simp: pay_change_def Let_def cap_sum_def word_gt_0 split: if_splits)
  with assms(2) show ?thesis by (simp add: unat_sub word_le_nat_alt)
qed

lemma server_share_ok:
  assumes "server_share B script need w = (Inr (minCell, cs, tot), w')"
    and "\<forall>lock n keep cs change. bl_ServerCells B lock n keep = Inr (cs, change) \<longrightarrow>
      cap_sum (map snd cs) = unat n + unat change \<and> cap_sum (map snd cs) < 2 ^ 63"
    and "0 < bl_MinCell B"
  shows "w' = w \<and> cap_sum (map snd (if minCell \<noteq> 0 then cs else [])) = unat tot
    \<and> unat need + unat tot < 2 ^ 64 \<and> unat (bl_MinCell B) \<le> unat need + unat tot"
proof (cases "need \<le> bl_MinCell B")
  case True
  with assms(1) obtain change where c: "bl_ServerCells B script (bl_MinCell B) (bl_MinBalance B) = Inr (cs, change)"
    "minCell = bl_MinCell B" "tot = bl_MinCell B + change" "w' = w"
    by (auto simp: server_share_def ok_iffs split: prod.splits)
  have s: "cap_sum (map snd cs) = unat (bl_MinCell B) + unat change" "cap_sum (map snd cs) < 2 ^ 63"
    using assms(2) c(1) by blast+
  then have t: "unat tot = unat (bl_MinCell B) + unat change"
    unfolding c(3) by (subst unat_add_lem [THEN iffD1]) auto
  have "unat need \<le> unat (bl_MinCell B)" using True by (simp add: word_le_nat_alt)
  with s t c assms(3) show ?thesis by auto
next
  case False
  with assms(1) have "minCell = 0 \<and> cs = [] \<and> tot = 0 \<and> w' = w" by (auto simp: server_share_def ok_iffs)
  moreover have "unat need < 2 ^ LENGTH(64)" by (rule unsigned_less)
  ultimately show ?thesis using False by (auto simp: cap_sum_def word_le_nat_alt)
qed



end
