(* ===== verification/DidSafety.thy ===== *)
theory DidSafety
  imports DidCell SignSafety
begin

text \<open>
  What the handlers of DID cells guarantee: a transfer or a change of records is built for who holds
  the account or its DID cell, an upgrade or a renewal waits for its payment, and a DID cell is only
  recycled after its grace period.
\<close>

section \<open>Steps that only read\<close>

lemma readonly_did:
  "pay_server D w = (Inr s, w') \<Longrightarrow> w' = w"
  "receiver_of D ct k w = (Inr to, w') \<Longrightarrow> w' = w \<and> dl_Address D \<lparr>ki_Type = ''blockchain'', ki_CoinType = ct, ki_Key = k\<rparr> = Inr to"
  "check_receiver D up fr to w = (Inr u, w') \<Longrightarrow> w' = w"
  unfolding pay_server_def receiver_of_def check_receiver_def
  by (auto simp: ok_iffs Let_def split: if_splits)

lemma edit_owner_lock_pure:
  assumes "edit_owner_lock D account fr to w = (Inr lc, w')"
  shows "w' = w \<and> fst (edit_owner_lock D account fr to v) = Inr lc"
proof -
  from assms have "w' = w \<and> edit_owner_lock D account fr to v = (Inr lc, v)"
    unfolding edit_owner_lock_def by (auto simp: ok_iffs Let_def split: if_splits)
  then show ?thesis by simp
qed

lemma guard_ok: "(if c then apiErr e else m) w = (Inr y, w') \<longleftrightarrow> \<not> c \<and> m w = (Inr y, w')"
  by (simp add: apiErr_ok)

lemma checkSystemUpgrade_ok: "checkSystemUpgrade H w = (Inr u, w') \<Longrightarrow> w' = w"
  unfolding checkSystemUpgrade_def by (auto simp: ok_iffs Let_def split: if_splits sum.splits)

text \<open>The DID cell of an account with the latest expiry.\<close>

definition did_cell_of :: "db \<Rightarrow> string \<Rightarrow> did_row" where
  "did_cell_of t accountId = first_by (\<lambda>a b. d_ExpiredAt b < d_ExpiredAt a) zero_did
     (filter (\<lambda>d. d_AccountId d = accountId) (did_cells t))"

lemma did_of_ok:
  "did_of aid w = (Inr d, w') \<Longrightarrow> d = did_cell_of (tabs w) aid \<and> d_Id d \<noteq> 0 \<and> tabs w' = tabs w \<and> now w' = now w"
  unfolding did_of_def GetDidAccountByAccountIdWithoutArgs_def did_cell_of_def
  by (auto simp: ok_iffs dest!: queryM_okD split: if_splits)

lemma did_account_ok:
  assumes "did_account H account w = (Inr acc, w')"
  shows "acc = account_of H (tabs w) account \<and> a_Id acc \<noteq> 0 \<and> now w div 1000 < sint (a_ExpiredAt acc)
    \<and> a_ParentAccountId acc = '''' \<and> tabs w' = tabs w \<and> now w' = now w"
  using assms unfolding did_account_def GetAccountInfoByAccountId_def account_of_def
  by (auto simp: ok_iffs IsExpired_def dest!: queryM_okD split: if_splits)

text \<open>Who may spend which cell: the owner (or manager) of an account its cell, the holder of the lock the DID cell.\<close>

definition may_spend ::
  "did_lib \<Rightarrow> db \<Rightarrow> string \<Rightarrow> did_addr \<Rightarrow> int \<times> string \<Rightarrow> account_row \<Rightarrow> string option \<times> string option \<Rightarrow> bool" where
  "may_spend D t accountId addr who acc cells \<longleftrightarrow>
     (case a_Status acc of
        AccountStatusNormal \<Rightarrow> da_ChainType addr = fst who \<and> EqualFold (da_AddressHex addr) (snd who)
          \<and> cells = (None, Some (a_Outpoint acc))
      | AccountStatusOnUpgrade \<Rightarrow> (let d = did_cell_of t accountId in
          d_Id d \<noteq> 0 \<and> (\<exists>p. da_Parsed addr = Some p \<and> el_Hex2Bytes (dl_Edit D) (d_Args d) = pa_Args p)
          \<and> cells = (Some (d_Outpoint d), None))
      | _ \<Rightarrow> False)"

lemma authorised_cells_ok:
  assumes "authorised_cells D aid addr who acc w = (Inr cells, w')"
  shows "may_spend D (tabs w) aid addr who acc cells \<and> tabs w' = tabs w \<and> now w' = now w"
  using assms unfolding authorised_cells_def may_spend_def same_args_def
  by (cases "a_Status acc") (auto simp: ok_iffs Let_def dest!: did_of_ok split: if_splits option.splits)

lemma buildTxStr_ok:
  assumes "buildTxStr H D rb p w = (Inr si, w')"
  shows "\<exists>b mm r. signable (el_Sign (dl_Edit D)) rb p = Inr (b, si_SignList (snd si), mm)
    \<and> redis w' = Some (redis_set (getSignTxCacheKey (si_SignKey (snd si))) (sl_Encode (el_Sign (dl_Edit D)) (cached_tx rb b))
        (minutes 10) (now w) r) \<and> tabs w' = tabs w \<and> now w' = now w"
proof -
  from assms obtain si1 w1 where bt: "buildTx H (el_Sign (dl_Edit D)) rb p w = (Inr si1, w1)"
    and last: "(case signable (el_Sign (dl_Edit D)) rb p of Inl e \<Rightarrow> errM e
       | Inr (b, _, _) \<Rightarrow> okM (dl_TxString D (bt_Transaction b), si1)) w1 = (Inr si, w')"
    unfolding buildTxStr_def by (auto simp: ok_iffs)
  from buildTx_ok [OF bt] last show ?thesis by (force simp: ok_iffs)
qed

lemma with_text_simps [simp]:
  "si_SignList (with_text b s) = si_SignList (snd s)" "si_SignKey (with_text b s) = si_SignKey (snd s)"
  by (simp_all add: with_text_def)

section \<open>Transfers and upgrades\<close>

lemma unipay_rows_for_ok:
  "unipay_rows_for H key row amount w = (Inr (r, p, a, b), w') \<Longrightarrow> placed row r \<and> o_IsDidCell r = o_IsDidCell row \<and> tabs w' = tabs w \<and> now w' = now w"
  unfolding unipay_rows_for_def unipay_order_rows_def
  by (auto simp: ok_iffs Let_def case_prod_beta placed_def simp del: One_nat_def)

text \<open>An order that was just made and waits for its payment.\<close>

definition awaits_payment :: "order_row \<Rightarrow> DasAction \<Rightarrow> string \<Rightarrow> string \<Rightarrow> rat \<Rightarrow> bool" where
  "awaits_payment r action accountId orderId amount \<longleftrightarrow> o_Action r = action \<and> o_AccountId r = accountId
     \<and> o_OrderId r = orderId \<and> o_PayAmount r = amount \<and> o_OrderStatus r = OrderStatusDefault
     \<and> o_PayStatus r = TxStatusDefault"

lemma upgrade_order_ok:
  assumes "upgrade_order dr H m req fr capacity w = (Inr resp, w')"
  shows "\<exists>r. awaits_payment r DasActionTransferAccount (h_AccountId H (do_Account req)) (dr_OrderId resp) (dr_Amount resp)
    \<and> o_IsDidCell r = IsDidCellYes \<and> orders (tabs w') = orders (tabs w) @ [r]
    \<and> dr_OrderId resp \<notin> o_OrderId ` set (orders (tabs w))"
proof -
  from assms obtain amount r p a b w1 u w2 where
    rows: "unipay_rows_for H (ki_Key (do_KeyInfo req)) (did_order_row H req fr) amount w = (Inr (r, p, a, b), w1)"
    and cr: "CreateOrderWithPayment r p w1 = (Inr u, w2)" and w': "tabs w' = tabs w2"
    and resp: "dr_OrderId resp = o_OrderId r" "dr_Amount resp = o_PayAmount r"
    unfolding upgrade_order_def Let_def by (auto simp: ok_iffs did_resp_of_def split: if_splits prod.splits)
  from unipay_rows_for_ok [OF rows] CreateOrderWithPayment_ok [OF cr] w' resp show ?thesis
    by (intro exI [of _ "r\<lparr>o_Id := next_id (tabs w1)\<rparr>"])
      (auto simp: awaits_payment_def placed_def did_order_row_def zero_order_def)
qed

text \<open>C17. A DID transfer is only built for who holds the account: a success means the account exists, is
  live and no sub-account, and that the address owns it or, once it is upgraded, holds the lock of its
  DID cell; the transaction spends that cell alone for the lock of the receiver. When it takes new
  capacity, exactly one unpaid order is added, and the transaction is cached under the order's id, so
  that it waits for the payment; otherwise nothing is written.\<close>

theorem did_transfer_is_authorised:
  assumes run: "doDidCellEditOwner dr H D m req w = (Inr resp, w')"
  shows "\<exists>fr to lock capacity cells p tx rb b mm n r.
     dl_Address D (do_KeyInfo req) = Inr fr \<and> da_Alg fr \<noteq> dl_AlgBitcoin D
     \<and> dl_Address D \<lparr>ki_Type = ''blockchain'', ki_CoinType = do_ReceiverCoinType req, ki_Key = do_ReceiverAddress req\<rparr> = Inr to
     \<and> (let account = ToLower (do_Account req); acc = account_of H (tabs w) account in
        a_Id acc \<noteq> 0 \<and> now w div 1000 < sint (a_ExpiredAt acc) \<and> a_ParentAccountId acc = ''''
        \<and> may_spend D (tabs w) (h_AccountId H account) fr (owner_of acc) acc cells
        \<and> fst (edit_owner_lock D account fr to w) = Inr (lock, capacity)
        \<and> dp_Action p = BuildEditOwner \<and> (dp_DidCellOutPoint p, dp_AccountCellOutPoint p) = cells
        \<and> dp_EditOwnerLock p = Some lock \<and> dl_Build D p = Inr tx
        \<and> rb_Action rb = DasActionTransferAccount \<and> rb_Account rb = account \<and> rb_OrderId rb = dr_OrderId resp
        \<and> signable (el_Sign (dl_Edit D)) rb tx = Inr (b, si_SignList (dr_SignInfo resp), mm)
        \<and> redis w' = Some (redis_set (getSignTxCacheKey (si_SignKey (dr_SignInfo resp)))
            (sl_Encode (el_Sign (dl_Edit D)) (cached_tx rb b)) (minutes 10) n r)
        \<and> (if capacity = 0 then dr_OrderId resp = '''' \<and> tabs w' = tabs w
           else dr_OrderId resp \<notin> o_OrderId ` set (orders (tabs w)) \<and> (\<exists>ord.
             orders (tabs w') = orders (tabs w) @ [ord] \<and> o_IsDidCell ord = IsDidCellYes
             \<and> awaits_payment ord DasActionTransferAccount (h_AccountId H account) (dr_OrderId resp) (dr_Amount resp))))"
proof -
  define rq where "rq = req\<lparr>do_Account := ToLower (do_Account req)\<rparr>"
  define p where "p cells lock normal = no_did_params\<lparr>dp_Action := BuildEditOwner, dp_DidCellOutPoint := fst cells,
     dp_AccountCellOutPoint := snd cells, dp_EditOwnerLock := Some lock, dp_NormalCellScript := Some normal\<rparr>"
    for cells :: "string option \<times> string option" and lock normal :: string
  define rb where "rb resp fr = did_request (dr_OrderId resp) DasActionTransferAccount (ToLower (do_Account req)) fr
     (dl_ChainId D (do_KeyInfo req))" for resp :: did_resp and fr
  from run obtain fr to u wu wv acc w1 cells w2 lc normal tx resp1 w3 si where
    fr: "dl_Address D (do_KeyInfo req) = Inr fr" "da_Alg fr \<noteq> dl_AlgBitcoin D"
    and to: "dl_Address D \<lparr>ki_Type = ''blockchain'', ki_CoinType = do_ReceiverCoinType req, ki_Key = do_ReceiverAddress req\<rparr> = Inr to"
    and up: "checkSystemUpgrade H wu = (Inr u, wv)" "wu = w"
    and acc: "did_account H (ToLower (do_Account req)) wv = (Inr acc, w1)"
    and cells: "authorised_cells D (h_AccountId H (ToLower (do_Account req))) fr (owner_of acc) acc w1 = (Inr cells, w2)"
    and lock: "fst (edit_owner_lock D (ToLower (do_Account req)) fr to w) = Inr lc"
    and p: "dl_Build D (p cells (fst lc) normal) = Inr tx"
    and ord: "(if 0 < snd lc then upgrade_order dr H m rq fr (snd lc) else okM no_did_resp) w2 = (Inr resp1, w3)"
    and bt: "buildTxStr H D (rb resp1 fr) tx w3 = (Inr si, w')"
    and resp: "resp = resp1\<lparr>dr_SignInfo := with_text (a_Status acc = AccountStatusOnUpgrade) si\<rparr>"
    unfolding doDidCellEditOwner_def Let_def rq_def p_def rb_def case_prod_beta bindM_ok orApi_ok liftM_ok guard_ok orApiBy_ok
      okM_ok
    by (auto dest!: readonly_did edit_owner_lock_pure [where v = w] cong: if_cong simp del: split_paired_Ex)
  have t: "tabs wv = tabs w" "now wv = now w" using checkSystemUpgrade_ok [OF up(1)] up(2) by simp_all
  have a: "acc = account_of H (tabs w) (ToLower (do_Account req))" "a_Id acc \<noteq> 0" "now w div 1000 < sint (a_ExpiredAt acc)"
    "a_ParentAccountId acc = ''''" "tabs w1 = tabs w" using did_account_ok [OF acc] t by auto
  have c: "may_spend D (tabs w) (h_AccountId H (ToLower (do_Account req))) fr (owner_of acc) acc cells" "tabs w2 = tabs w"
    using authorised_cells_ok [OF cells] a(5) by auto
  from buildTxStr_ok [OF bt] obtain b mm r where
    b: "signable (el_Sign (dl_Edit D)) (rb resp1 fr) tx = Inr (b, si_SignList (snd si), mm)"
      "redis w' = Some (redis_set (getSignTxCacheKey (si_SignKey (snd si)))
        (sl_Encode (el_Sign (dl_Edit D)) (cached_tx (rb resp1 fr) b)) (minutes 10) (now w3) r)"
    and w': "tabs w' = tabs w3" by blast
  have o: "if snd lc = 0 then dr_OrderId resp1 = '''' \<and> tabs w3 = tabs w
     else dr_OrderId resp1 \<notin> o_OrderId ` set (orders (tabs w)) \<and> (\<exists>ord.
       orders (tabs w3) = orders (tabs w) @ [ord] \<and> o_IsDidCell ord = IsDidCellYes \<and>
       awaits_payment ord DasActionTransferAccount (h_AccountId H (ToLower (do_Account req))) (dr_OrderId resp1) (dr_Amount resp1))"
    using ord upgrade_order_ok [of dr H m rq fr "snd lc" w2 resp1 w3] c(2)
    by (auto simp: okM_def no_did_resp_def rq_def word_gt_0 split: if_splits)
  show ?thesis unfolding Let_def a(1) [symmetric]
    by (rule exI [of _ fr], rule exI [of _ to], insert fr to a(2-4) c lock p b w' o resp, intro exI [of _ "fst lc"]
        exI [of _ "snd lc"] exI [of _ cells] exI [of _ "p cells (fst lc) normal"] exI [of _ tx] exI [of _ "rb resp1 fr"]
        exI [of _ b] exI [of _ mm] exI [of _ "now w3"] exI [of _ r])
      (simp add: p_def rb_def did_request_def edit_request_def)
qed

lemma if_true: "c \<Longrightarrow> a \<Longrightarrow> if c then a else b"
  by simp

section \<open>Renewals\<close>

lemma did_renew_tx_ok:
  assumes "did_renew_tx D req aid acc w = (Inr txp, w')"
  shows "tabs w' = tabs w \<and> now w' = now w \<and> (if a_Status acc = AccountStatusOnUpgrade
    then let d = did_cell_of (tabs w) aid in d_Id d \<noteq> 0 \<and> (\<exists>normal tx. dl_Build D (no_did_params
        \<lparr>dp_Action := BuildRenew, dp_DidCellOutPoint := Some (d_Outpoint d), dp_AccountCellOutPoint := Some (a_Outpoint acc),
         dp_RenewYears := dn_RenewYears req, dp_NormalCellScript := Some normal\<rparr>) = Inr tx \<and> txp = Some tx)
    else txp = None)"
  using assms unfolding did_renew_tx_def
  by (auto simp: ok_iffs Let_def dest!: readonly_did(1) did_of_ok split: if_splits)

lemma did_renew_sign_ok:
  assumes "did_renew_sign H D req ord0 txp w = (Inr (ord, si), w')"
  shows "tabs w' = tabs w \<and> (case txp of
      None \<Rightarrow> ord = ord0 \<and> si = no_sign_info
    | Some tx \<Rightarrow> ord = ord0\<lparr>o_IsDidCell := IsDidCellYes\<rparr> \<and> (\<exists>rb b mm. rb_Action rb = DasActionRenewAccount
        \<and> rb_OrderId rb = o_OrderId ord0 \<and> signable (el_Sign (dl_Edit D)) rb tx = Inr (b, si_SignList si, mm)))"
proof (cases txp)
  case None
  with assms show ?thesis by (simp add: did_renew_sign_def ok_iffs)
next
  case (Some tx)
  let ?rb = "(edit_request DasActionRenewAccount (dn_Account req) 0 (ki_Key (dn_KeyInfo req))
     (dl_ChainId D (dn_KeyInfo req)))\<lparr>rb_OrderId := o_OrderId ord0\<rparr>"
  from assms Some obtain s where s: "buildTxStr H D ?rb tx w = (Inr s, w')" "si = with_text True s"
      "ord = ord0\<lparr>o_IsDidCell := IsDidCellYes\<rparr>"
    by (auto simp: did_renew_sign_def ok_iffs)
  from buildTxStr_ok [OF s(1)] s(2,3) Some show ?thesis
    by (fastforce simp: edit_request_def intro: exI [of _ ?rb])
qed

text \<open>C20. The renewal of a DID adds one order, open and unpaid, for a live account on this chain, and for an
  upgraded account also builds the transaction that spends its DID cell and its account cell, cached
  under the id of that order, so that it waits for the payment; for others there is nothing to sign.\<close>

theorem did_renewal_waits_for_payment:
  assumes run: "doDidCellRenew dr H G D m req w = (Inr resp, w')"
  shows "let account = ToLower (dn_Account req); acc = account_of H (tabs w) account; accountId = h_AccountId H account;
       d = did_cell_of (tabs w) accountId in
     a_Id acc \<noteq> 0 \<and> a_ParentAccountId acc = '''' \<and> a_Status acc \<noteq> AccountStatusOnCross
     \<and> 1 \<le> dn_RenewYears req \<and> dn_RenewYears req \<le> h_MaxRegisterYears H
     \<and> dr_OrderId resp \<notin> o_OrderId ` set (orders (tabs w))
     \<and> (\<exists>ord. orders (tabs w') = orders (tabs w) @ [ord] \<and> RenewYears (GetContent ord) = dn_RenewYears req
          \<and> awaits_payment ord DasActionRenewAccount accountId (dr_OrderId resp) (dr_Amount resp)
          \<and> (o_IsDidCell ord = IsDidCellYes \<longleftrightarrow> a_Status acc = AccountStatusOnUpgrade))
     \<and> (if a_Status acc = AccountStatusOnUpgrade
        then d_Id d \<noteq> 0 \<and> (\<exists>p tx rb b mm. dp_Action p = BuildRenew \<and> dp_DidCellOutPoint p = Some (d_Outpoint d)
          \<and> dp_AccountCellOutPoint p = Some (a_Outpoint acc) \<and> dp_RenewYears p = dn_RenewYears req \<and> dl_Build D p = Inr tx
          \<and> rb_Action rb = DasActionRenewAccount \<and> rb_OrderId rb = dr_OrderId resp
          \<and> signable (el_Sign (dl_Edit D)) rb tx = Inr (b, si_SignList (dr_SignInfo resp), mm))
        else dr_SignInfo resp = no_sign_info)"
proof -
  define account where "account = ToLower (dn_Account req)"
  define rq where "rq = req\<lparr>dn_Account := account\<rparr>"
  from run obtain addr u w0 acc w1 txp w2 usd ckb amount u2 w3 ord0 pay ca cs w4 ord si w5 u3 w6 where
    up: "checkSystemUpgrade H w = (Inr u, w0)"
    and chk: "checkRenewOrder H G (renew_req_of rq addr) w0 = (Inr acc, w1)"
    and tx: "did_renew_tx D rq (h_AccountId H account) acc w1 = (Inr txp, w2)"
    and bal: "did_das_balance H D rq addr amount w2 = (Inr u2, w3)"
    and rows: "unipay_rows_for H (ki_Key (dn_KeyInfo req)) (renew_row H (renew_req_of rq addr)
         (renew_content (dn_RenewYears req) usd ckb)) amount w3 = (Inr (ord0, pay, ca, cs), w4)"
    and sign: "did_renew_sign H D rq ord0 txp w4 = (Inr (ord, si), w5)"
    and cr: "CreateOrderWithPayment ord pay w5 = (Inr u3, w6)" and w': "tabs w' = tabs w6"
    and resp: "dr_OrderId resp = o_OrderId ord" "dr_Amount resp = o_PayAmount ord" "dr_SignInfo resp = si"
    unfolding doDidCellRenew_def Let_def rq_def account_def case_prod_beta bindM_ok orApi_ok liftM_ok guard_ok
    by (auto simp: ok_iffs did_resp_of_def)
  have w0: "w0 = w" using checkSystemUpgrade_ok [OF up] .
  have t: "tabs w1 = tabs w" "tabs w3 = tabs w2"
    using tabs_readonly [OF readonly.checkRenewOrder chk] tabs_readonly [OF readonly.did_renew_checks(2) bal] w0 by simp_all
  have a: "acc = account_of H (tabs w) account" "a_Id acc \<noteq> 0" "a_ParentAccountId acc = ''''" "a_Status acc \<noteq> AccountStatusOnCross"
      "1 \<le> dn_RenewYears req" "dn_RenewYears req \<le> h_MaxRegisterYears H"
    using checkRenewOrder_ok [OF chk] w0 by (auto simp: rq_def renew_req_of_def)
  note x = did_renew_tx_ok [OF tx, unfolded t(1)] and g = did_renew_sign_ok [OF sign] and r = unipay_rows_for_ok [OF rows]
    and c = CreateOrderWithPayment_ok [OF cr]
  have ord: "placed (renew_row H (renew_req_of rq addr) (renew_content (dn_RenewYears req) usd ckb)) ord"
      "o_OrderId ord = o_OrderId ord0" "o_IsDidCell ord = IsDidCellYes \<longleftrightarrow> a_Status acc = AccountStatusOnUpgrade"
    using r g x by (auto simp: placed_def renew_row_def zero_order_def split: option.splits if_splits)
  have o: "dr_OrderId resp \<notin> o_OrderId ` set (orders (tabs w))"
     "orders (tabs w') = orders (tabs w) @ [ord\<lparr>o_Id := next_id (tabs w5)\<rparr>]"
    using c w' resp r g x t by simp_all
  have "awaits_payment (ord\<lparr>o_Id := next_id (tabs w5)\<rparr>) DasActionRenewAccount (h_AccountId H account) (dr_OrderId resp) (dr_Amount resp)"
      "RenewYears (GetContent (ord\<lparr>o_Id := next_id (tabs w5)\<rparr>)) = dn_RenewYears req"
    using ord(1) resp by (simp_all add: awaits_payment_def placed_def renew_row_def zero_order_def renew_req_of_def rq_def
        GetContent_def renew_content_def)
  moreover have "if a_Status acc = AccountStatusOnUpgrade
      then d_Id (did_cell_of (tabs w) (h_AccountId H account)) \<noteq> 0 \<and> (\<exists>p tx rb b mm. dp_Action p = BuildRenew
          \<and> dp_DidCellOutPoint p = Some (d_Outpoint (did_cell_of (tabs w) (h_AccountId H account)))
          \<and> dp_AccountCellOutPoint p = Some (a_Outpoint acc) \<and> dp_RenewYears p = dn_RenewYears req \<and> dl_Build D p = Inr tx
          \<and> rb_Action rb = DasActionRenewAccount \<and> rb_OrderId rb = dr_OrderId resp
          \<and> signable (el_Sign (dl_Edit D)) rb tx = Inr (b, si_SignList (dr_SignInfo resp), mm))
      else dr_SignInfo resp = no_sign_info"
  proof (cases "a_Status acc = AccountStatusOnUpgrade")
    case True
    with x obtain normal tx where n: "d_Id (did_cell_of (tabs w) (h_AccountId H account)) \<noteq> 0" "txp = Some tx"
      "dl_Build D (no_did_params\<lparr>dp_Action := BuildRenew,
         dp_DidCellOutPoint := Some (d_Outpoint (did_cell_of (tabs w) (h_AccountId H account))),
         dp_AccountCellOutPoint := Some (a_Outpoint acc), dp_RenewYears := dn_RenewYears rq,
         dp_NormalCellScript := Some normal\<rparr>) = Inr tx"
      by (auto simp: Let_def)
    moreover from g n(2) obtain rb b mm where "rb_Action rb = DasActionRenewAccount" "rb_OrderId rb = o_OrderId ord0"
        "signable (el_Sign (dl_Edit D)) rb tx = Inr (b, si_SignList si, mm)" by auto
    ultimately show ?thesis using True resp ord(2)
      by (intro if_true conjI exI [of _ "no_did_params\<lparr>dp_Action := BuildRenew,
         dp_DidCellOutPoint := Some (d_Outpoint (did_cell_of (tabs w) (h_AccountId H account))),
         dp_AccountCellOutPoint := Some (a_Outpoint acc), dp_RenewYears := dn_RenewYears rq,
         dp_NormalCellScript := Some normal\<rparr>"] exI [of _ tx] exI [of _ rb] exI [of _ b] exI [of _ mm])
        (simp_all add: rq_def no_did_params_def)
  next
    case False
    with x g resp show ?thesis by simp
  qed
  ultimately show ?thesis unfolding Let_def account_def [symmetric] a(1) [symmetric]
    using a(2-) o ord(3) by (intro conjI exI [of _ "ord\<lparr>o_Id := next_id (tabs w5)\<rparr>"]) simp_all
qed

section \<open>Recycling\<close>

lemma uint_of_int64: "uint (of_int k :: 64 word) = k mod 2 ^ 64"
  by (simp add: uint_word_of_int)

lemma first_by_latest:
  assumes "xs \<noteq> []" and "x \<in> set xs"
  shows "d_ExpiredAt x \<le> d_ExpiredAt (first_by (\<lambda>a b. d_ExpiredAt b < d_ExpiredAt a) z xs)"
proof -
  have "d_ExpiredAt y \<le> d_ExpiredAt (fold (\<lambda>a b. if d_ExpiredAt b < d_ExpiredAt a then a else b) ys m)"
    if "y \<in> insert m (set ys)" for ys y m
    using that
  proof (induction ys arbitrary: m y)
    case (Cons a ys)
    let ?n = "if d_ExpiredAt m < d_ExpiredAt a then a else m"
    have n: "d_ExpiredAt ?n \<le> d_ExpiredAt (fold (\<lambda>a b. if d_ExpiredAt b < d_ExpiredAt a then a else b) ys ?n)"
      by (rule Cons.IH) simp
    from Cons.prems consider "y = m" | "y = a" | "y \<in> set ys" by auto
    then show ?case using n Cons.IH [of y ?n] by cases (auto split: if_splits)
  qed simp
  with assms show ?thesis by (cases xs) (auto simp: first_by_def)
qed

text \<open>C21. A DID cell is only recycled by the holder of its lock and after its grace period: the cell spent is
  the holder's cell of the account with the latest expiry, which with the grace period lies before the
  time of the chain, when the subtraction of the code does not wrap.\<close>

theorem did_recycled_after_grace:
  assumes run: "doDidCellRecycle H G D req w = (Inr si, w')"
  shows "\<exists>addr p timestamp grace tx rb b mm.
     dl_Address D (dq_KeyInfo req) = Inr addr \<and> da_Alg addr = dl_AlgAnyLock D \<and> da_Parsed addr = Some p
     \<and> h_TimeCell H = Inr timestamp \<and> nl_GracePeriod G = Inr (Inr grace)
     \<and> (\<exists>d \<in> set (did_cells (tabs w)). d_AccountId d = h_AccountId H (ToLower (dq_Account req))
          \<and> d_Args d = dl_Bytes2Hex D (pa_Args p)
          \<and> (\<forall>e \<in> set (did_cells (tabs w)). d_AccountId e = d_AccountId d \<and> d_Args e = d_Args d \<longrightarrow> d_ExpiredAt e \<le> d_ExpiredAt d)
          \<and> (uint grace \<le> timestamp \<and> timestamp < 2 ^ 64 \<longrightarrow> uint (d_ExpiredAt d) + uint grace \<le> timestamp)
          \<and> dl_Build D (no_did_params\<lparr>dp_Action := BuildRecycle, dp_DidCellOutPoint := Some (d_Outpoint d)\<rparr>) = Inr tx)
     \<and> signable (el_Sign (dl_Edit D)) rb tx = Inr (b, si_SignList si, mm) \<and> tabs w' = tabs w"
proof -
  define aid where "aid = h_AccountId H (ToLower (dq_Account req))"
  from run obtain addr p d w1 e w2 tx rb si' where
    addr: "dl_Address D (dq_KeyInfo req) = Inr addr" "da_Alg addr = dl_AlgAnyLock D" "da_Parsed addr = Some p"
    and d: "GetDidAccountByAccountId aid (dl_Bytes2Hex D (pa_Args p)) w = (Inr d, w1)" "d_Id d \<noteq> 0"
    and e: "recycle_before H G w1 = (Inr e, w2)" "d_ExpiredAt d \<le> e"
    and tx: "dl_Build D (no_did_params\<lparr>dp_Action := BuildRecycle, dp_DidCellOutPoint := Some (d_Outpoint d)\<rparr>) = Inr tx"
    and bt: "buildTxStr H D rb tx w2 = (Inr si', w')" "si = with_text True si'"
    unfolding doDidCellRecycle_def Let_def aid_def bindM_ok orApi_ok liftM_ok guard_ok
    by (auto simp: ok_iffs linorder_not_less)
  from e(1) obtain timestamp grace where g: "h_TimeCell H = Inr timestamp" "nl_GracePeriod G = Inr (Inr grace)"
      "e = of_int timestamp - ucast grace" "w2 = w1"
    unfolding recycle_before_def by (auto simp: ok_iffs)
  let ?ds = "filter (\<lambda>d. d_AccountId d = aid \<and> d_Args d = dl_Bytes2Hex D (pa_Args p)) (did_cells (tabs w))"
  have dd: "d = first_by (\<lambda>a b. d_ExpiredAt b < d_ExpiredAt a) zero_did ?ds" "tabs w1 = tabs w"
    using d(1) unfolding GetDidAccountByAccountId_def by (auto dest!: queryM_okD)
  have "?ds \<noteq> []" using d(2) dd(1) by (auto simp: first_by_def zero_did_def)
  from first_by_member [OF this] first_by_latest [OF this] dd(1) have m: "d \<in> set ?ds"
      "\<forall>e \<in> set ?ds. d_ExpiredAt e \<le> d_ExpiredAt d" by auto
  have "uint (d_ExpiredAt d) + uint grace \<le> timestamp" if "uint grace \<le> timestamp" "timestamp < 2 ^ 64"
  proof -
    have u: "(ucast grace :: 64 word) = of_int (uint grace)" by simp
    have "uint e = uint (of_int (timestamp - uint grace) :: 64 word)" unfolding g(3) u by (simp only: of_int_diff)
    also have "uint (of_int (timestamp - uint grace) :: 64 word) = (timestamp - uint grace) mod 2 ^ 64"
      by (rule uint_of_int64)
    finally have "uint e = (timestamp - uint grace) mod 2 ^ 64" .
    also have "\<dots> = timestamp - uint grace"
      using that uint_ge_0 [of grace] by (intro mod_pos_pos_trivial) linarith+
    finally show ?thesis using e(2) by (simp add: word_le_def)
  qed
  moreover obtain b mm where "signable (el_Sign (dl_Edit D)) rb tx = Inr (b, si_SignList si, mm)" "tabs w' = tabs w"
    using buildTxStr_ok [OF bt(1)] bt(2) dd(2) g(4) by auto
  moreover have "d \<in> set (did_cells (tabs w))" "d_AccountId d = aid" "d_Args d = dl_Bytes2Hex D (pa_Args p)"
      "\<forall>e \<in> set (did_cells (tabs w)). d_AccountId e = d_AccountId d \<and> d_Args e = d_Args d \<longrightarrow> d_ExpiredAt e \<le> d_ExpiredAt d"
    using m by simp_all
  ultimately show ?thesis unfolding aid_def [symmetric] using addr g(1,2) tx by blast
qed

section \<open>Examples\<close>

text \<open>
  A library in which user addresses are Ethereum addresses, or DID locks when they come from a
  \<open>blockchain\<close> key, and every transaction is the one of the signing examples.
\<close>

definition ex_lock :: did_addr where
  "ex_lock = \<lparr>da_ChainType = 0, da_AddressHex = ''ckt1'', da_Alg = 99,
     da_Parsed = Some \<lparr>pa_Mainnet = True, pa_Full = True, pa_Script = ''any'', pa_CodeHash = ''0x01'', pa_Args = ''args''\<rparr>\<rparr>"

definition ex_did :: did_lib where
  "ex_did = \<lparr>dl_Edit = ex_edit, dl_AlgAnyLock = 99, dl_AlgBitcoin = 9, dl_DasLockAlgs = [3, 5], dl_CoinTypeCKB = ''309'',
     dl_SighashAll = ''sighash'', dl_PayServerAddress = ''server'',
     dl_Address = (\<lambda>k. Inr (if ki_Type k = ''blockchain'' then ex_lock
       else \<lparr>da_ChainType = 1, da_AddressHex = ki_Key k, da_Alg = 5, da_Parsed = None\<rparr>)),
     dl_ChainId = (\<lambda>_. 1), dl_Parse = (\<lambda>a. Inr (the (da_Parsed ex_lock))), dl_ScriptToHex = (\<lambda>_. Inr ex_lock),
     dl_HexToScript = (\<lambda>a. Inr (da_AddressHex a)), dl_Bytes2Hex = (\<lambda>s. s), dl_Capacity = (\<lambda>_ _. Inr 20000000000),
     dl_Build = (\<lambda>_. Inr ex_params), dl_NilTx = no_params, dl_TxString = (\<lambda>_. ''tx'')\<rparr>"

definition ex_pay_http :: http_lib where
  "ex_pay_http = ex_http\<lparr>h_UniPayUrl := ''url'', h_TimeCell := Inr 1700000000, h_UniPayOrder := \<lambda>_. Inr
     \<lparr>u_OrderId = ''unipay1'', u_ContractAddress = '''', u_StripePaymentIntentId = '''', u_ClientSecret = ''''\<rparr>\<rparr>"

lemma ex_built:
  assumes "rb_Action rb \<in> {DasActionTransferAccount, DasActionRenewAccount, DidCellActionRecycle}"
    and "healthy w" "redis w = Some r"
  shows "\<exists>si w'. buildTxStr H ex_did rb ex_params w = (Inr si, w') \<and> healthy w' \<and> tabs w' = tabs w"
proof -
  have "signable ex_sign rb ex_params = Inr (ex_unsigned, [\<lparr>sd_SignType = 3, sd_SignMsg = ''digest''\<rparr>], None)"
    using assms(1) by (auto simp: signable_def ex_sign_def skip_groups_def pay_fee_def txFee_def charge_output_def mm_json_def
      ex_unsigned_def ex_params_def no_params_def pay_out_def Let_def)
  moreover have "wrapM n (SetSignTxCache k v) w = (Inr (), snd (SetSignTxCache k v w))" for n k v
    using assms(2,3) by (simp add: SetSignTxCache_def set_checked_def if_nil_def go_simps)
  moreover have "healthy (snd (SetSignTxCache k v w))" "tabs (snd (SetSignTxCache k v w)) = tabs w" for k v
    using assms(2,3) by (simp_all add: SetSignTxCache_def set_checked_def if_nil_def go_simps)
  moreover have "el_Sign (dl_Edit ex_did) = ex_sign" by (simp add: ex_did_def ex_edit_def)
  ultimately show ?thesis by (simp add: buildTxStr_def buildTx_def go_simps Let_def)
qed

definition ex_owner_req :: did_owner_req where
  "ex_owner_req = \<lparr>do_KeyInfo = \<lparr>ki_Type = '''', ki_CoinType = ''60'', ki_Key = ''0xaa''\<rparr>, do_Account = ''alice.bit'',
     do_ReceiverCoinType = ''309'', do_ReceiverAddress = ''ckt1'', do_PayTokenId = TokenIdEth, do_IsUpgrade = True\<rparr>"

lemma ex_edit_world_simps: "healthy ex_edit_world" "redis ex_edit_world = Some (\<lambda>_. None)" "orders (tabs ex_edit_world) = []"
    "now ex_edit_world = 1700000000000"
  by (simp_all add: ex_edit_world_def world_of_def healthy_def empty_db_def)

lemma ex_upgrade_order:
  "\<exists>resp w'. upgrade_order (\<lambda>a b p. a / b) ex_pay_http [TokenIdEth \<mapsto> ex_token] ex_owner_req fr 20000000000 ex_edit_world
     = (Inr resp, w') \<and> healthy w' \<and> redis w' = Some (\<lambda>_. None)"
proof -
  have h: "GetUnipayAddress ex_pay_http TokenIdEth \<noteq> ''''" "h_QuoteCell ex_pay_http = Inr 5000"
    by (simp_all add: ex_pay_http_def ex_http_def)
  have t: "GetTokenInfo [TokenIdEth \<mapsto> ex_token] TokenIdEth = ex_token" by (simp add: GetTokenInfo_def)
  have r: "do_PayTokenId ex_owner_req = TokenIdEth" "k_TokenId ex_token = TokenIdEth"
    by (simp_all add: ex_owner_req_def ex_token_def)
  obtain amount where am: "capacity_amount (\<lambda>a b p. a / b) ex_pay_http ex_token 20000000000 5000 = Inr amount"
    by (simp add: capacity_amount_def capacity_usd_def divR_def ex_pay_http_def ex_http_def ex_token_def)
  let ?row = "did_order_row ex_pay_http ex_owner_req fr"
  have "o_PayTokenId ?row = TokenIdEth" by (simp add: did_order_row_def r)
  then have "\<exists>r a b w'. unipay_rows_for ex_pay_http k ?row amount ex_edit_world = (Inr (r, zero_pay, a, b), w')
     \<and> healthy w' \<and> redis w' = Some (\<lambda>_. None) \<and> tabs w' = tabs ex_edit_world" for k
    by (simp add: unipay_rows_for_def unipay_order_rows_def go_simps Let_def ex_pay_http_def ex_edit_world_simps)
  then obtain r a b w1 where w1: "unipay_rows_for ex_pay_http (ki_Key (do_KeyInfo ex_owner_req)) ?row amount ex_edit_world
     = (Inr (r, zero_pay, a, b), w1)" "healthy w1" "redis w1 = Some (\<lambda>_. None)" "tabs w1 = tabs ex_edit_world" by blast
  have "\<exists>w2. CreateOrderWithPayment r zero_pay w1 = (Inr (), w2) \<and> healthy w2 \<and> redis w2 = Some (\<lambda>_. None)"
    using w1(2-) by (simp add: CreateOrderWithPayment_def go_simps insert_order_def ex_edit_world_simps zero_pay_def)
  then obtain w2 where "CreateOrderWithPayment r zero_pay w1 = (Inr (), w2)" "healthy w2" "redis w2 = Some (\<lambda>_. None)" by blast
  with w1(1) am h t r show ?thesis
    by (simp add: upgrade_order_def go_simps Let_def)
qed

lemma ex_pay_values:
  "h_AccountId ex_pay_http a = a" "h_ParserUrl ex_pay_http = h_ParserUrl ex_http" "h_ParserLatest ex_pay_http = h_ParserLatest ex_http"
  "healthy w \<Longrightarrow> checkSystemUpgrade ex_pay_http w = (Inr (), w)" "h_UniPayUrl ex_pay_http = ''url''"
  "h_MaxRegisterYears ex_pay_http = 20" "h_Suffix ex_pay_http = ''.bit''" "h_PayAddressMap ex_pay_http x = ''addr''"
  by (simp_all add: ex_pay_http_def ex_http_def checkSystemUpgrade_def go_simps)

lemma ex_pay_server: "pay_server ex_did w = (Inr ''any'', w)"
  by (simp add: pay_server_def go_simps ex_did_def ex_lock_def)

lemma ex_lower: "ToLower ''alice.bit'' = ''alice.bit''" "HasSuffix ''alice.bit'' ''.bit''"
  by (simp_all add: ToLower_def lower_def Let_def HasSuffix_def suffix_def)

lemma ex_transfer_run:
  "\<exists>resp w'. doDidCellEditOwner (\<lambda>a b p. a / b) ex_pay_http ex_did [TokenIdEth \<mapsto> ex_token] ex_owner_req ex_edit_world
     = (Inr resp, w')"
proof -
  let ?fr = "\<lparr>da_ChainType = 1, da_AddressHex = ''0xaa'', da_Alg = 5, da_Parsed = None\<rparr>"
  have acc: "did_account ex_pay_http ''alice.bit'' ex_edit_world = (Inr ex_owned, ex_edit_world)"
  proof -
    have "GetAccountInfoByAccountId ''alice.bit'' ex_edit_world = (Inr ex_owned, ex_edit_world)"
      by (simp add: GetAccountInfoByAccountId_def go_simps ex_edit_world_simps)
        (simp add: ex_edit_world_def empty_db_def first_or_def ex_owned_def world_of_def)
    then show ?thesis
      by (simp add: did_account_def go_simps ex_pay_values ex_edit_world_simps)
        (simp add: ex_owned_def IsExpired_def zero_account_def okM_def)
  qed
  have cells: "authorised_cells ex_did ''alice.bit'' ?fr (owner_of ex_owned) ex_owned ex_edit_world
      = (Inr (None, Some ''op''), ex_edit_world)"
    by (simp add: authorised_cells_def ex_owned_def owner_of_def zero_account_def EqualFold_def go_simps)
  have lock: "edit_owner_lock ex_did ''alice.bit'' ?fr ex_lock ex_edit_world = (Inr (''any'', 20000000000), ex_edit_world)"
    by (simp add: edit_owner_lock_def ex_did_def ex_lock_def parsedM_def go_simps)
  have recv: "receiver_of ex_did ct k ex_edit_world = (Inr ex_lock, ex_edit_world)"
    "check_receiver ex_did True ?fr ex_lock ex_edit_world = (Inr (), ex_edit_world)" for ct k
    by (simp_all add: receiver_of_def check_receiver_def ex_did_def ex_lock_def parsedM_def go_simps)
  obtain resp w1 where up: "upgrade_order (\<lambda>a b p. a / b) ex_pay_http [TokenIdEth \<mapsto> ex_token] ex_owner_req ?fr 20000000000 ex_edit_world
     = (Inr resp, w1)" "healthy w1" "redis w1 = Some (\<lambda>_. None)"
    using ex_upgrade_order by blast
  obtain si w2 where bt: "buildTxStr ex_pay_http ex_did (did_request (dr_OrderId resp) DasActionTransferAccount ''alice.bit'' ?fr 1)
      ex_params w1 = (Inr si, w2)"
    using ex_built [of "did_request (dr_OrderId resp) DasActionTransferAccount ''alice.bit'' ?fr 1" w1 "\<lambda>_. None" ex_pay_http] up
    by (auto simp: did_request_def edit_request_def)
  have r: "dl_Address ex_did (do_KeyInfo ex_owner_req) = Inr ?fr" "da_Alg ?fr \<noteq> dl_AlgBitcoin ex_did" "do_IsUpgrade ex_owner_req"
    "\<not> EqualFold (ki_Key (do_KeyInfo ex_owner_req)) (do_ReceiverAddress ex_owner_req)" "dl_ChainId ex_did k = 1"
    "dl_Build ex_did p = Inr ex_params" "ToLower (do_Account ex_owner_req) = ''alice.bit''"
    "ex_owner_req\<lparr>do_Account := ''alice.bit''\<rparr> = ex_owner_req" "do_Account ex_owner_req = ''alice.bit''" for k p
    by (simp_all add: ex_did_def ex_owner_req_def EqualFold_def ToLower_def lower_def)
  show ?thesis unfolding doDidCellEditOwner_def Let_def r(9) ex_lower r(8)
    using r(1-6) by (simp add: go_simps recv ex_pay_values ex_edit_world_simps ex_latest acc cells lock ex_pay_server up(1) bt
        orApiBy_def)
qed

theorem did_transfer_is_authorised_witness:
  "\<exists>resp w' ord. doDidCellEditOwner (\<lambda>a b p. a / b) ex_pay_http ex_did [TokenIdEth \<mapsto> ex_token] ex_owner_req ex_edit_world
     = (Inr resp, w') \<and> orders (tabs w') = [ord] \<and> o_OrderId ord = dr_OrderId resp \<and> o_PayStatus ord = TxStatusDefault"
proof -
  obtain resp w' where run: "doDidCellEditOwner (\<lambda>a b p. a / b) ex_pay_http ex_did [TokenIdEth \<mapsto> ex_token] ex_owner_req
      ex_edit_world = (Inr resp, w')"
    using ex_transfer_run by blast
  have fr: "dl_Address ex_did (do_KeyInfo ex_owner_req) = Inr fr \<Longrightarrow> da_Alg fr = 5" for fr
    by (auto simp: ex_did_def ex_owner_req_def)
  have to: "dl_Address ex_did \<lparr>ki_Type = ''blockchain'', ki_CoinType = ct, ki_Key = k\<rparr> = Inr to \<Longrightarrow> to = ex_lock" for ct k to
    by (simp add: ex_did_def)
  have lock: "fst (edit_owner_lock ex_did a fr ex_lock w) = Inr (l, c) \<Longrightarrow> da_Alg fr = 5 \<Longrightarrow> c \<noteq> 0" for a fr w l c
    by (auto simp: edit_owner_lock_def ex_did_def ex_lock_def parsedM_def bindM_def okM_def orApi_def catchM_def liftM_def)
  from did_transfer_is_authorised [OF run] run show ?thesis
    by (auto simp: Let_def awaits_payment_def ex_edit_world_simps dest!: fr to dest: lock split: if_splits)
qed

text \<open>An upgraded account, and its DID cell, which is past its grace period.\<close>

definition ex_upgraded :: account_row where
  "ex_upgraded = ex_owned\<lparr>a_Status := AccountStatusOnUpgrade\<rparr>"

definition ex_did_cell :: did_row where
  "ex_did_cell = \<lparr>d_Id = 1, d_Outpoint = ''did'', d_AccountId = ''alice.bit'', d_Account = ''alice.bit'', d_Args = ''args'',
     d_LockCodeHash = ''0x01'', d_ExpiredAt = 1600000000\<rparr>"

definition ex_did_world :: "db world" where
  "ex_did_world = (world_of (empty_db\<lparr>accounts := [ex_upgraded], did_cells := [ex_did_cell]\<rparr>) 1700000000000)
     \<lparr>redis := Some (\<lambda>_. None)\<rparr>"

lemma ex_did_world_simps: "healthy ex_did_world" "redis ex_did_world = Some (\<lambda>_. None)" "orders (tabs ex_did_world) = []"
    "now ex_did_world = 1700000000000" "accounts (tabs ex_did_world) = [ex_upgraded]" "did_cells (tabs ex_did_world) = [ex_did_cell]"
  by (simp_all add: ex_did_world_def world_of_def healthy_def empty_db_def)

definition ex_renew_did :: did_renew_req where
  "ex_renew_did = \<lparr>dn_KeyInfo = \<lparr>ki_Type = '''', ki_CoinType = ''60'', ki_Key = ''0xaa''\<rparr>, dn_Account = ''alice.bit'',
     dn_PayTokenId = TokenIdEth, dn_RenewYears = 1\<rparr>"

lemma ex_did_renew_run:
  "\<exists>resp w'. doDidCellRenew (\<lambda>a b p. a / b) ex_pay_http ex_cells ex_did [TokenIdEth \<mapsto> ex_token] ex_renew_did ex_did_world
     = (Inr resp, w')"
proof -
  let ?addr = "\<lparr>da_ChainType = 1, da_AddressHex = ''0xaa'', da_Alg = 5, da_Parsed = None\<rparr>"
  let ?rreq = "renew_req_of ex_renew_did ?addr"
  have u: "a_Id ex_upgraded = 1" "a_ParentAccountId ex_upgraded = ''''" "a_Status ex_upgraded = AccountStatusOnUpgrade"
      "a_ExpiredAt ex_upgraded = 1800000000"
    by (simp_all add: ex_upgraded_def ex_owned_def zero_account_def)
  have "GetAccountInfoByAccountId ''alice.bit'' ex_did_world = (Inr ex_upgraded, ex_did_world)"
    by (simp add: GetAccountInfoByAccountId_def go_simps ex_did_world_simps)
      (simp add: first_or_def ex_upgraded_def ex_owned_def)
  then have chk: "checkRenewOrder ex_pay_http ex_cells ?rreq ex_did_world = (Inr ex_upgraded, ex_did_world)"
    by (simp add: checkRenewOrder_def go_simps ex_did_world_simps ex_pay_values u ex_cells_def Let_def
        renew_req_of_def ex_renew_did_def)
  have tx: "did_renew_tx ex_did ex_renew_did ''alice.bit'' ex_upgraded ex_did_world = (Inr (Some ex_params), ex_did_world)"
  proof -
    have "did_of ''alice.bit'' ex_did_world = (Inr ex_did_cell, ex_did_world)"
      by (simp add: did_of_def GetDidAccountByAccountIdWithoutArgs_def go_simps ex_did_world_simps first_by_def)
        (simp add: ex_did_cell_def first_by_def okM_def)
    moreover have "dl_Build ex_did p = Inr ex_params" for p by (simp add: ex_did_def)
    moreover have "a_Status ex_upgraded = AccountStatusOnUpgrade" by (simp add: ex_upgraded_def)
    ultimately show ?thesis by (simp add: did_renew_tx_def go_simps ex_pay_server)
  qed
  have cells: "cell_chars ex_cells ex_upgraded = Inr 5"
    by (simp add: cell_chars_def ex_cells_def ex_upgraded_def ex_owned_def zero_account_def)
  have am: "getOrderAmount (\<lambda>a b p. a / b) ex_pay_http [TokenIdEth \<mapsto> ex_token] 5 '''' ''alice.bit'' '''' 1 True TokenIdEth
     = Inr (5, 100000000000, 2500000000000000)"
  proof -
    have "getAccountPrice dr ex_pay_http b c d f = getAccountPrice dr ex_http b c d f"
        "invited_price dr ex_pay_http i x = invited_price dr ex_http i x" "total_usd dr ex_pay_http x y = total_usd dr ex_http x y"
        for dr b c d f i x y
      by (simp_all add: ex_pay_http_def ex_http_def getAccountPrice_def price_from_cell_def invited_price_def total_usd_def gross_usd_def)
    moreover have "h_QuoteCell ex_pay_http = h_QuoteCell ex_http" "h_UsdRateBase ex_pay_http = h_UsdRateBase ex_http"
        "h_OneCkb ex_pay_http = h_OneCkb ex_http" "h_MainNet ex_pay_http = h_MainNet ex_http"
        "h_RandDoge ex_pay_http = h_RandDoge ex_http"
      by (simp_all add: ex_pay_http_def)
    ultimately have "getOrderAmount dr ex_pay_http m a b c d e f g = getOrderAmount dr ex_http m a b c d e f g" for dr m a b c d e f g
      by (simp add: getOrderAmount_def Let_def cong: if_cong)
    then show ?thesis by (simp add: ex_token_amount)
  qed
  let ?row = "renew_row ex_pay_http ?rreq (renew_content 1 5 100000000000)"
  have "o_PayTokenId ?row = TokenIdEth" by (simp add: renew_row_def renew_req_of_def ex_renew_did_def)
  then have "\<exists>r a b w'. unipay_rows_for ex_pay_http k ?row 2500000000000000 ex_did_world = (Inr (r, zero_pay, a, b), w')
     \<and> healthy w' \<and> redis w' = Some (\<lambda>_. None) \<and> tabs w' = tabs ex_did_world \<and> o_PayTokenId r = TokenIdEth" for k
    by (simp add: unipay_rows_for_def unipay_order_rows_def go_simps Let_def ex_pay_http_def ex_did_world_simps)
  then obtain r a b w1 where w1: "unipay_rows_for ex_pay_http ''0xaa'' ?row 2500000000000000 ex_did_world
     = (Inr (r, zero_pay, a, b), w1)" "healthy w1" "redis w1 = Some (\<lambda>_. None)" "tabs w1 = tabs ex_did_world"
     "o_PayTokenId r = TokenIdEth" by blast
  have "\<exists>si w2. did_renew_sign ex_pay_http ex_did ex_renew_did r (Some ex_params) w1 = (Inr (r\<lparr>o_IsDidCell := IsDidCellYes\<rparr>, si), w2)
      \<and> healthy w2 \<and> tabs w2 = tabs ex_did_world"
  proof -
    let ?rb = "(edit_request DasActionRenewAccount ''alice.bit'' 0 ''0xaa'' 1)\<lparr>rb_OrderId := o_OrderId r\<rparr>"
    obtain si w2 where "buildTxStr ex_pay_http ex_did ?rb ex_params w1 = (Inr si, w2)" "healthy w2" "tabs w2 = tabs w1"
      using ex_built [of ?rb w1 "\<lambda>_. None" ex_pay_http] w1(2,3) by (auto simp: edit_request_def)
    moreover have "dl_ChainId ex_did k = 1" for k by (simp add: ex_did_def)
    ultimately show ?thesis using w1(4)
      by (simp add: did_renew_sign_def go_simps orApiBy_def ex_renew_did_def)
  qed
  then obtain si w2 where sg: "did_renew_sign ex_pay_http ex_did ex_renew_did r (Some ex_params) w1 = (Inr (r\<lparr>o_IsDidCell := IsDidCellYes\<rparr>, si), w2)"
      "healthy w2" "tabs w2 = tabs ex_did_world" by blast
  have "\<exists>w3. CreateOrderWithPayment (r\<lparr>o_IsDidCell := IsDidCellYes\<rparr>) zero_pay w2 = (Inr (), w3)"
    using sg(2-) by (simp add: CreateOrderWithPayment_def go_simps insert_order_def ex_did_world_simps zero_pay_def)
  then obtain w3 where cr: "CreateOrderWithPayment (r\<lparr>o_IsDidCell := IsDidCellYes\<rparr>) zero_pay w2 = (Inr (), w3)" by blast
  have q: "dl_Address ex_did (dn_KeyInfo ex_renew_did) = Inr ?addr" "dn_Account ex_renew_did = ''alice.bit''"
    "dn_PayTokenId ex_renew_did = TokenIdEth" "dn_RenewYears ex_renew_did = 1" "ki_Key (dn_KeyInfo ex_renew_did) = ''0xaa''"
    "ex_renew_did\<lparr>dn_Account := ''alice.bit''\<rparr> = ex_renew_did"
    by (simp_all add: ex_did_def ex_renew_did_def)
  show ?thesis unfolding doDidCellRenew_def Let_def q(2) ex_lower(1) q(6)
    using q w1(5) by (simp add: go_simps ex_pay_values ex_did_world_simps ex_lower ex_latest chk tx cells am w1(1) sg(1) cr
        did_das_balance_def IsTokenIdCkbInternal_def)
qed

theorem did_renewal_waits_for_payment_witness:
  "\<exists>resp w' ord b mm rb. doDidCellRenew (\<lambda>a b p. a / b) ex_pay_http ex_cells ex_did [TokenIdEth \<mapsto> ex_token] ex_renew_did ex_did_world
     = (Inr resp, w') \<and> orders (tabs w') = [ord] \<and> o_IsDidCell ord = IsDidCellYes \<and> o_PayStatus ord = TxStatusDefault
     \<and> rb_OrderId rb = o_OrderId ord
     \<and> signable (el_Sign (dl_Edit ex_did)) rb ex_params = Inr (b, si_SignList (dr_SignInfo resp), mm)"
proof -
  obtain resp w' where run: "doDidCellRenew (\<lambda>a b p. a / b) ex_pay_http ex_cells ex_did [TokenIdEth \<mapsto> ex_token] ex_renew_did
      ex_did_world = (Inr resp, w')"
    using ex_did_renew_run by blast
  have "account_of ex_pay_http (tabs ex_did_world) ''alice.bit'' = ex_upgraded"
    by (simp add: account_of_def ex_did_world_simps ex_pay_values first_or_def) (simp add: ex_upgraded_def ex_owned_def)
  moreover have "a_Status ex_upgraded = AccountStatusOnUpgrade" "dn_Account ex_renew_did = ''alice.bit''"
    by (simp_all add: ex_upgraded_def ex_renew_did_def)
  moreover have "dl_Build ex_did p = Inr ex_params" for p by (simp add: ex_did_def)
  ultimately show ?thesis using did_renewal_waits_for_payment [OF run] run
    by (auto simp: Let_def ex_lower ex_did_world_simps awaits_payment_def) metis
qed

definition ex_holder :: did_account_req where
  "ex_holder = \<lparr>dq_KeyInfo = \<lparr>ki_Type = ''blockchain'', ki_CoinType = ''309'', ki_Key = ''ckt1''\<rparr>, dq_Account = ''alice.bit''\<rparr>"

lemma ex_recycle_run: "\<exists>si w'. doDidCellRecycle ex_pay_http ex_cells ex_did ex_holder ex_did_world = (Inr si, w')"
proof -
  have d: "GetDidAccountByAccountId ''alice.bit'' ''args'' ex_did_world = (Inr ex_did_cell, ex_did_world)"
    by (simp add: GetDidAccountByAccountId_def go_simps ex_did_world_simps first_by_def)
      (simp add: ex_did_cell_def first_by_def)
  have e: "recycle_before ex_pay_http ex_cells ex_did_world = (Inr 1692224000, ex_did_world)"
    by (simp add: recycle_before_def go_simps ex_pay_http_def ex_cells_def)
  obtain si w' where bt: "buildTxStr ex_pay_http ex_did (did_request '''' DidCellActionRecycle ''alice.bit'' ex_lock 0) ex_params
      ex_did_world = (Inr si, w')"
    using ex_built [of "did_request '''' DidCellActionRecycle ''alice.bit'' ex_lock 0" ex_did_world "\<lambda>_. None" ex_pay_http]
    by (auto simp: did_request_def edit_request_def ex_did_world_simps)
  have "dl_Address ex_did (dq_KeyInfo ex_holder) = Inr ex_lock" "da_Alg ex_lock = dl_AlgAnyLock ex_did"
    "parsedM ex_lock w = (Inr (the (da_Parsed ex_lock)), w)" "dl_Bytes2Hex ex_did (pa_Args (the (da_Parsed ex_lock))) = ''args''"
    "dl_Build ex_did p = Inr ex_params" "d_Id ex_did_cell \<noteq> 0" "d_ExpiredAt ex_did_cell = 1600000000"
    "dq_Account ex_holder = ''alice.bit''" for w p
    by (simp_all add: ex_did_def ex_holder_def ex_lock_def parsedM_def okM_def ex_did_cell_def)
  then show ?thesis
    by (simp add: doDidCellRecycle_def Let_def go_simps ex_lower ex_pay_values d e bt orApiBy_def)
qed

theorem did_recycled_after_grace_witness:
  "\<exists>si w' p grace. doDidCellRecycle ex_pay_http ex_cells ex_did ex_holder ex_did_world = (Inr si, w') \<and> tabs w' = tabs ex_did_world
     \<and> da_Parsed ex_lock = Some p \<and> nl_GracePeriod ex_cells = Inr (Inr grace)
     \<and> uint (d_ExpiredAt ex_did_cell) + uint grace \<le> 1700000000"
proof -
  obtain si w' where run: "doDidCellRecycle ex_pay_http ex_cells ex_did ex_holder ex_did_world = (Inr si, w')"
    using ex_recycle_run by blast
  have "h_TimeCell ex_pay_http = Inr 1700000000" "nl_GracePeriod ex_cells = Inr (Inr 7776000)"
    "da_Parsed ex_lock = Some (the (da_Parsed ex_lock))"
    by (simp_all add: ex_pay_http_def ex_cells_def ex_lock_def)
  with did_recycled_after_grace [OF run] run show ?thesis
    by (auto simp: ex_did_world_simps)
qed

end
