(* ===== verification/AuctionSafety.thy ===== *)
theory AuctionSafety
  imports Auction DidSafety
begin

text \<open>
  What the auction guarantees: a bid is only built while the account is for sale, at the price of
  that time, and it creates and loses no CKB; and without the configuration cell there is no
  auction, whatever the cache holds.
\<close>

lemma case_ok:
  "(case r of Inl e \<Rightarrow> apiErr (f e) | Inr x \<Rightarrow> k x) w = (Inr y, w') \<longleftrightarrow> (\<exists>x. r = Inr x \<and> k x w = (Inr y, w'))"
  by (auto simp: apiErr_ok split: sum.splits)

section \<open>Without the configuration cell\<close>

text \<open>C39. When the configuration cell cannot be read, the cached copy is of no use: it is decoded, but the
  error of the cell is returned with it, so that no bid is ever accepted then.\<close>

theorem cached_auction_config_is_never_used:
  assumes failed: "ul_ConfigCell U = Inl e" and cache: "h_ConfigCache H = Inr s" "s \<noteq> ''''" "ul_DecodeConfig U s = Inr c"
  shows "GetAuctionConfig H U = (Some c, Some e) \<and> auction_config_of H U = Inl (In ''GetAuctionConfig'' e)
    \<and> fst (doAccountAuctionBid dr H U req w) \<noteq> Inr si"
proof -
  have g: "GetAuctionConfig H U = (Some c, Some e)" using assms by (simp add: GetAuctionConfig_def)
  then have a: "auction_config_of H U = Inl (In ''GetAuctionConfig'' e)" by (simp add: auction_config_of_def)
  have "doAccountAuctionBid dr H U req w \<noteq> (Inr si, w')" for w'
    unfolding doAccountAuctionBid_def Let_def on_auction_def checkDutchAuction_def a
    by (auto simp: ok_iffs guard_ok split: prod.splits)
  then have "fst (doAccountAuctionBid dr H U req w) \<noteq> Inr si"
    by (cases "doAccountAuctionBid dr H U req w") auto
  with g a show ?thesis by blast
qed

section \<open>Bids\<close>

lemma on_auction_ok:
  assumes "on_auction H U acc w = (Inr nowTime, w')"
  shows "w' = w \<and> h_TimeCell H = Inr nowTime \<and> (\<exists>c. auction_config_of H U = Inr c
    \<and> fst (auction_status c (a_ExpiredAt acc) (of_int nowTime)) = SearchStatusOnDutchAuction)"
  using assms unfolding on_auction_def checkDutchAuction_def
  by (auto simp: ok_iffs bindR_eq_Inr guard_ok split: prod.splits if_splits)

lemma auction_prices_ok:
  assumes "auction_prices dr H U account w = (Inr (base, price), w')"
  shows "w' = w \<and> (\<exists>n. ul_AccountLength U account = Inr n \<and> getAccountPrice dr H (of_nat n) '''' account False = Inr (base, price))"
  using assms unfolding auction_prices_def by (auto simp: ok_iffs split: if_splits)

lemma bid_locks_ok: "bid_locks U w = (Inr ls, w') \<Longrightarrow> w' = w"
  unfolding bid_locks_def by (auto simp: ok_iffs split: if_splits)

definition for_sale :: "auction_config \<Rightarrow> account_row \<Rightarrow> int \<Rightarrow> bool" where
  "for_sale c acc nowTime \<longleftrightarrow>
     (let g = uint (ac_GracePeriodTime c); a = uint (ac_AuctionPeriodTime c) in
      uint (a_ExpiredAt acc) + g < nowTime \<and> nowTime < uint (a_ExpiredAt acc) + g + a)"

lemma for_sale_status:
  assumes "fst (auction_status c (a_ExpiredAt acc) (of_int nowTime)) = SearchStatusOnDutchAuction"
    and "uint (ac_GracePeriodTime c) + uint (ac_AuctionPeriodTime c) + uint (ac_DeliverPeriodTime c) \<le> nowTime" "nowTime < 2 ^ 64"
  shows "for_sale c acc nowTime"
proof -
  have "0 \<le> nowTime" using assms(2) uint_ge_0 [of "ac_GracePeriodTime c"] uint_ge_0 [of "ac_AuctionPeriodTime c"]
      uint_ge_0 [of "ac_DeliverPeriodTime c"] by linarith
  then have u: "uint (of_int nowTime :: 64 word) = nowTime" unfolding uint_of_int64 using assms(3) by simp
  show ?thesis using auction_status_iff(1) [of c "of_int nowTime" "a_ExpiredAt acc"] assms
    unfolding u for_sale_def Let_def by simp
qed

text \<open>C18. A bid is only built while the account is for sale: a success means the account is in normal state
  or on another chain and, by the time cell, past its grace period and within the auction, when the
  subtractions of the code do not wrap; the DID points are those of the registration price plus the
  premium of that time, and nothing is written.\<close>

theorem bids_only_while_for_sale:
  assumes run: "doAccountAuctionBid dr H U req w = (Inr si, w')"
  shows "\<exists>addr nowTime c n base price rb p tx b mm.
     dl_Address (ul_Did U) (bi_KeyInfo req) = Inr addr \<and> h_TimeCell H = Inr nowTime \<and> auction_config_of H U = Inr c
     \<and> ul_AccountLength U (bi_Account req) = Inr n \<and> getAccountPrice dr H (of_nat n) '''' (bi_Account req) False = Inr (base, price)
     \<and> (let acc = account_of H (tabs w) (bi_Account req); premium = premium_price U c acc nowTime in
        a_Status acc \<in> {AccountStatusNormal, AccountStatusOnCross}
        \<and> (uint (ac_GracePeriodTime c) + uint (ac_AuctionPeriodTime c) + uint (ac_DeliverPeriodTime c) \<le> nowTime
            \<and> nowTime < 2 ^ 64 \<longrightarrow> for_sale c acc nowTime)
        \<and> bp_Acc p = acc \<and> bp_Time p = nowTime \<and> bp_AmountDP p = dp_needed H (base + price) premium
        \<and> rb_AuctionInfo rb = \<lparr>ai_BasicPrice = base + price, ai_PremiumPrice = premium, ai_BidTime = nowTime\<rparr>)
     \<and> buildAuctionBidTx U rb p = Inr tx
     \<and> signable (el_Sign (dl_Edit (ul_Did U))) rb tx = Inr (b, si_SignList si, mm) \<and> tabs w' = tabs w"
proof -
  define prm where "prm c acc t base price = premium_price U c acc t" for c acc t and base price :: rat
  from run obtain addr acc w1 nowTime w2 base price w3 c tx p rb where
    addr: "dl_Address (ul_Did U) (bi_KeyInfo req) = Inr addr"
    and acc: "GetAccountInfoByAccountId (h_AccountId H (bi_Account req)) w = (Inr acc, w1)"
      "a_Status acc \<in> {AccountStatusNormal, AccountStatusOnCross}"
    and on: "on_auction H U acc w1 = (Inr nowTime, w2)"
    and pr: "auction_prices dr H U (bi_Account req) w2 = (Inr (base, price), w3)"
    and c: "auction_config_of H U = Inr c"
    and p: "buildAuctionBidTx U rb p = Inr tx" "bp_Acc p = acc" "bp_Time p = nowTime"
       "bp_AmountDP p = dp_needed H (base + price) (premium_price U c acc nowTime)"
    and rb: "rb_AuctionInfo rb = \<lparr>ai_BasicPrice = base + price, ai_PremiumPrice = premium_price U c acc nowTime, ai_BidTime = nowTime\<rparr>"
    and bt: "buildTx H (el_Sign (dl_Edit (ul_Did U))) rb tx w3 = (Inr si, w')"
    unfolding doAccountAuctionBid_def Let_def bindM_ok orApi_ok liftM_ok guard_ok case_ok case_prod_beta
    by (auto simp: bid_request_def dest!: bid_locks_ok)
  have a: "acc = account_of H (tabs w) (bi_Account req)" "tabs w1 = tabs w"
    using acc(1) unfolding GetAccountInfoByAccountId_def account_of_def by (auto dest!: queryM_okD)
  note o = on_auction_ok [OF on] and q = auction_prices_ok [OF pr]
  from buildTx_ok [OF bt] o q a show ?thesis unfolding Let_def a(1) [symmetric]
    using addr c acc(2) p rb for_sale_status [of c acc nowTime] by fastforce
qed

lemma bid_outputs_sum:
  "cap_sum (map oc_Capacity (bid_outputs server dp refund change))
     = cap_sum (map oc_Capacity dp) + unat (oc_Capacity refund) + unat change"
  by (auto simp: bid_outputs_def cap_sum_def pay_out_def word_gt_0)


section \<open>Examples\<close>

definition ex_cell_sign :: sign_lib where
  "ex_cell_sign = ex_sign\<lparr>sl_TxOutputs := \<lambda>_. Inr [pay_out 1 ''lock'' None]\<rparr>"

definition ex_auction_did :: did_lib where
  "ex_auction_did = ex_did\<lparr>dl_Edit := ex_edit\<lparr>el_Sign := ex_cell_sign\<rparr>\<rparr>"

definition ex_auction :: auction_lib where
  "ex_auction = \<lparr>ul_Did = ex_auction_did, ul_Bal = ex_bal,
     ul_ConfigCell = Inr \<lparr>ab_Grace = Inr 7776000, ab_Auction = Inr 2332800, ab_Deliver = Inr 259200\<rparr>,
     ul_DecodeConfig = (\<lambda>_. Inr \<lparr>ac_GracePeriodTime = 7776000, ac_AuctionPeriodTime = 2332800, ac_DeliverPeriodTime = 259200\<rparr>),
     ul_AccountLength = (\<lambda>_. Inr 5), ul_Premium = (\<lambda>_ _. 10), ul_TransferWhitelist = ''to'', ul_CapacityWhitelist = ''normal'',
     ul_ServerScript = ''server'', ul_AddressByCoin = (\<lambda>_ a. Inr a), ul_DpCells = (\<lambda>_ n. Inr ([''dp''], n, 20000000000)),
     ul_SplitDP = (\<lambda>_ to cs _ _. Inr ([pay_out (snd (snd cs)) to None], [''points''], 0)), ul_ArgsToHex = (\<lambda>_. Inr (1, ''0xaa'')),
     ul_OneYearSec = 31536000, ul_TimeBytes = (\<lambda>_. ''expires!''), ul_ExpireEnd = 8, ul_ExpireLen = 8, ul_TimeCell = ''time'',
     ul_ConfigMain = Inr ''main'', ul_ConfigDP = Inr ''dpcfg'', ul_ContractDP = Inr ''dpc'', ul_OutpointHash = (\<lambda>o'. o')\<rparr>"

text \<open>The cell cannot be read, but a copy is cached.\<close>

theorem cached_auction_config_is_never_used_witness:
  "\<forall>req w si. \<exists>c. GetAuctionConfig (ex_http\<lparr>h_ConfigCache := Inr ''copy''\<rparr>) (ex_auction\<lparr>ul_ConfigCell := Inl Fault\<rparr>) = (Some c, Some Fault)
     \<and> ac_GracePeriodTime c = 7776000
     \<and> fst (doAccountAuctionBid (\<lambda>a b p. a / b) (ex_http\<lparr>h_ConfigCache := Inr ''copy''\<rparr>) (ex_auction\<lparr>ul_ConfigCell := Inl Fault\<rparr>)
         req w) \<noteq> Inr si"
  using cached_auction_config_is_never_used [of "ex_auction\<lparr>ul_ConfigCell := Inl Fault\<rparr>" Fault
      "ex_http\<lparr>h_ConfigCache := Inr ''copy''\<rparr>" "''copy''" _ "\<lambda>a b p. a / b"]
  by (simp add: ex_auction_def)

definition ex_for_sale :: account_row where
  "ex_for_sale = ex_owned\<lparr>a_ExpiredAt := 1691000000\<rparr>"

definition ex_bid_world :: "db world" where
  "ex_bid_world = (world_of (empty_db\<lparr>accounts := [ex_for_sale]\<rparr>) 1700000000000)\<lparr>redis := Some (\<lambda>_. None)\<rparr>"

definition ex_bid :: bid_req where
  "ex_bid = \<lparr>bi_KeyInfo = \<lparr>ki_Type = '''', ki_CoinType = ''60'', ki_Key = ''0xbb''\<rparr>, bi_Account = ''alice.bit''\<rparr>"

definition ex_bid_params :: "64 word \<Rightarrow> auction_bid_params" where
  "ex_bid_params amount = \<lparr>bp_Acc = ex_for_sale,
     bp_DefaultRecord = [\<lparr>ri_Key = ''60'', ri_Type = ''address'', ri_Label = '''', ri_Value = ''0xbb'', ri_TTL = 300\<rparr>],
     bp_AmountDP = amount, bp_FromLock = ''0xbb'', bp_ToLock = ''any'', bp_NormalCellLock = ''any'', bp_Time = 1700000000\<rparr>"

definition ex_bid_tx :: tx_params where
  "ex_bid_tx = \<lparr>tp_HeadDeps = [], tp_Inputs = [(''op'', 0), (''dp'', 0), (''cell'', 0)],
     tp_Outputs = [pay_out 20600000000 ''script0xbb0xbb'' (Some ''acc''), pay_out 20000000000 ''any'' None,
       pay_out 20600000000 ''script0xaa0xaa'' (Some ''script''), pay_out 79400000000 ''server'' None],
     tp_OutputsData = [''expires!xxxx'', ''points'', '''', ''''], tp_Witnesses = [''action'', ''witness''],
     tp_CellDeps = [''cfg'', ''cfg'', ''main'', ''dpcfg'', ''dpc'', ''time'', ''dep'', ''dep'', ''height'', ''quote'']\<rparr>"

lemma ex_new_data:
  "bindR (cell_at [replicate 40 CHR ''x''] 0) tail_data = Inr ''xxxxxxxx''"
  "with_expiry ex_auction ''dataxxxxxxxx'' t = Inr ''expires!xxxx''"
proof -
  show "bindR (cell_at [replicate 40 CHR ''x''] 0) tail_data = Inr ''xxxxxxxx''"
    by (simp add: cell_at_def tail_data_def numeral_eq_Suc)
  have "ul_ExpireEnd ex_auction = 8" "ul_ExpireLen ex_auction = 8" "ul_TimeBytes ex_auction t = ''expires!''"
    by (simp_all add: ex_auction_def)
  then show "with_expiry ex_auction ''dataxxxxxxxx'' t = Inr ''expires!xxxx''"
    by (simp add: with_expiry_def)
qed

lemma ex_auction_fields:
  "dl_Edit (ul_Did ex_auction) = ex_edit\<lparr>el_Sign := ex_cell_sign\<rparr>" "ul_Bal ex_auction = ex_bal" "ul_ServerScript ex_auction = ''server''"
  "ul_ArgsToHex ex_auction l = Inr (1, ''0xaa'')" "ul_DpCells ex_auction l n = Inr ([''dp''], n, 20000000000)"
  "ul_SplitDP ex_auction l to cs n nl = Inr ([pay_out (snd (snd cs)) to None], [''points''], 0)"
  "ul_OneYearSec ex_auction = 31536000" "bid_deps ex_auction d q = Inr [''cfg'', ''cfg'', ''main'', ''dpcfg'', ''dpc'', ''time'',
     ''dep'', d, ''height'', q]"
  by (simp_all add: ex_auction_def ex_auction_did_def bid_deps_def ex_edit_def ex_lib_def)

lemma ex_edit_fields:
  "el_Tx ex_edit = ex_lib" "el_AccTx ex_edit op = Inr ([pay_out 20600000000 ''old'' (Some ''acc'')], [replicate 40 CHR ''x''])"
  "el_AccIndex ex_edit op = Inr (\<lambda>_. Some 0)" "el_AccWitness ex_edit op a t r = (''witness'', ''data'')"
  "el_Args ex_edit a' b' = Inr (snd a' @ snd b')" "el_LockScript ex_edit = (@)"
  "Contract ex_lib c = Inr (''script'', ''dep'')"
  by (simp_all add: ex_edit_def ex_lib_def)

lemma ex_build_bid:
  assumes "rb_Account rb = ''alice.bit''" "rb_ChainType rb = 1" "rb_Address rb = ''0xbb''"
  shows "buildAuctionBidTx ex_auction rb (ex_bid_params n) = Inr ex_bid_tx"
proof -
  have p: "a_Outpoint (bp_Acc (ex_bid_params n)) = ''op''" "bp_AmountDP (ex_bid_params n) = n" "bp_FromLock (ex_bid_params n) = ''0xbb''"
    "bp_ToLock (ex_bid_params n) = ''any''" "bp_NormalCellLock (ex_bid_params n) = ''any''" "bp_Time (ex_bid_params n) = 1700000000"
    by (simp_all add: ex_bid_params_def ex_for_sale_def ex_owned_def)
  have c: "bl_Cells ex_bal ''server'' 20600000000 k = Inr ([(''cell'', 100000000000)], 100000000000)" for k
    by (simp add: ex_bal_def)
  have L: "GetQuoteCell ex_lib = Inr (''quote'', 1000)" "ActionWitness ex_lib a = Inr ''action''" for a
    by (simp_all add: ex_lib_def)
  have o: "cell_at [pay_out 20600000000 ''old'' (Some ''acc'')] 0 = Inr (pay_out 20600000000 ''old'' (Some ''acc''))"
    by (simp add: cell_at_def)
  have q: "oc_Capacity (pay_out k l t) = k" "oc_Type (pay_out k l t) = t" for k l t by (simp_all add: pay_out_def)
  show ?thesis unfolding buildAuctionBidTx_def Let_def
    using assms by (simp add: ex_auction_fields ex_edit_fields p c L o q ex_new_data)
      (simp add: ex_bid_tx_def pay_out_def bid_outputs_def)
qed


lemma ex_bid_world_simps: "healthy ex_bid_world" "redis ex_bid_world = Some (\<lambda>_. None)" "now ex_bid_world = 1700000000000"
    "accounts (tabs ex_bid_world) = [ex_for_sale]"
  by (simp_all add: ex_bid_world_def world_of_def healthy_def empty_db_def)

lemma ex_bid_signed: "\<exists>si w'. buildTx H ex_cell_sign (bid_request a account evm base premium t) ex_bid_tx ex_bid_world = (Inr si, w')"
proof -
  obtain b s m where "signable ex_cell_sign (bid_request a account evm base premium t) ex_bid_tx = Inr (b, s, m)"
    by (simp add: signable_def ex_cell_sign_def ex_sign_def skip_groups_def bid_request_def did_request_def edit_request_def
        input_lock_def pay_fee_def charge_output_def mm_json_def ex_bid_tx_def Let_def)
  moreover have "wrapM n (SetSignTxCache k v) ex_bid_world = (Inr (), snd (SetSignTxCache k v ex_bid_world))" for n k v
    by (simp add: SetSignTxCache_def set_checked_def if_nil_def go_simps ex_bid_world_simps)
  ultimately show ?thesis by (simp add: buildTx_def go_simps Let_def)
qed

lemma ex_bid_run: "\<exists>si w'. doAccountAuctionBid (\<lambda>a b p. a / b) ex_pay_http ex_auction ex_bid ex_bid_world = (Inr si, w')"
proof -
  let ?addr = "\<lparr>da_ChainType = 1, da_AddressHex = ''0xbb'', da_Alg = 5, da_Parsed = None\<rparr>"
  have acc: "GetAccountInfoByAccountId ''alice.bit'' ex_bid_world = (Inr ex_for_sale, ex_bid_world)"
    by (simp add: GetAccountInfoByAccountId_def go_simps ex_bid_world_simps)
      (simp add: first_or_def ex_for_sale_def ex_owned_def)
  have st: "a_Status ex_for_sale = AccountStatusNormal" "a_ExpiredAt ex_for_sale = 1691000000"
    by (simp_all add: ex_for_sale_def ex_owned_def zero_account_def)
  have cfg: "auction_config_of ex_pay_http ex_auction
      = Inr \<lparr>ac_GracePeriodTime = 7776000, ac_AuctionPeriodTime = 2332800, ac_DeliverPeriodTime = 259200\<rparr>"
    by (simp add: auction_config_of_def GetAuctionConfig_def ex_auction_def)
  have on: "on_auction ex_pay_http ex_auction ex_for_sale ex_bid_world = (Inr 1700000000, ex_bid_world)"
    by (simp add: on_auction_def checkDutchAuction_def cfg auction_status_def st go_simps Let_def) (simp add: ex_pay_http_def go_simps)
  obtain base price where pr: "auction_prices (\<lambda>a b p. a / b) ex_pay_http ex_auction ''alice.bit'' ex_bid_world = (Inr (base, price), ex_bid_world)"
  proof -
    have "ul_AccountLength ex_auction a = Inr 5" for a by (simp add: ex_auction_def)
    moreover obtain r where "getAccountPrice (\<lambda>a b p. a / b) ex_pay_http 5 '''' ''alice.bit'' False = Inr r"
      by (simp add: getAccountPrice_def price_from_cell_def ex_pay_http_def ex_http_def divR_def Let_def)
    ultimately show ?thesis using that by (cases r) (simp add: auction_prices_def go_simps)
  qed
  have locks: "bid_locks ex_auction ex_bid_world = (Inr (''any'', ''any''), ex_bid_world)"
    by (simp add: bid_locks_def ex_auction_def ex_auction_did_def ex_did_def ex_lock_def go_simps)
  have r: "dl_Address (ul_Did ex_auction) (bi_KeyInfo ex_bid) = Inr ?addr" "dl_HexToScript (ul_Did ex_auction) ?addr = Inr ''0xbb''"
    "bi_Account ex_bid = ''alice.bit''" "dl_ChainId (ul_Did ex_auction) k = 1" "el_Sign (dl_Edit (ul_Did ex_auction)) = ex_cell_sign"
    "default_record ex_auction (ki_CoinType (bi_KeyInfo ex_bid)) ''0xbb''
       = [\<lparr>ri_Key = ''60'', ri_Type = ''address'', ri_Label = '''', ri_Value = ''0xbb'', ri_TTL = 300\<rparr>]" for k
    by (simp_all add: ex_auction_def ex_auction_did_def ex_did_def ex_bid_def default_record_def)
  have bid: "buildAuctionBidTx ex_auction (bid_request ?addr ''alice.bit'' 1 x y t) (ex_bid_params n) = Inr ex_bid_tx" for x y t n
    by (rule ex_build_bid) (simp_all add: bid_request_def did_request_def edit_request_def)
  have "\<exists>si w'. buildTx ex_pay_http ex_cell_sign (bid_request ?addr ''alice.bit'' 1 x y 1700000000) ex_bid_tx ex_bid_world = (Inr si, w')" for x y
    by (rule ex_bid_signed)
  then show ?thesis unfolding doAccountAuctionBid_def Let_def r(3)
    using bid [unfolded ex_bid_params_def]
    by (simp add: go_simps r acc st on pr cfg locks ex_pay_values ex_auction_fields orApi_ok)
qed

theorem bids_only_while_for_sale_witness:
  "\<exists>si w' c. doAccountAuctionBid (\<lambda>a b p. a / b) ex_pay_http ex_auction ex_bid ex_bid_world = (Inr si, w')
     \<and> tabs w' = tabs ex_bid_world \<and> for_sale c ex_for_sale 1700000000"
proof -
  obtain si w' where run: "doAccountAuctionBid (\<lambda>a b p. a / b) ex_pay_http ex_auction ex_bid ex_bid_world = (Inr si, w')"
    using ex_bid_run by blast
  have "account_of ex_pay_http (tabs ex_bid_world) ''alice.bit'' = ex_for_sale"
    by (simp add: account_of_def ex_bid_world_simps ex_pay_values first_or_def) (simp add: ex_for_sale_def ex_owned_def)
  moreover have "bi_Account ex_bid = ''alice.bit''" "h_TimeCell ex_pay_http = Inr 1700000000"
    by (simp_all add: ex_bid_def ex_pay_http_def)
  moreover have "auction_config_of ex_pay_http ex_auction
      = Inr \<lparr>ac_GracePeriodTime = 7776000, ac_AuctionPeriodTime = 2332800, ac_DeliverPeriodTime = 259200\<rparr>"
    by (simp add: auction_config_of_def GetAuctionConfig_def ex_auction_def)
  ultimately show ?thesis using bids_only_while_for_sale [OF run] run by (auto simp: Let_def)
qed

end
