(* ===== verification/PageSafety.thy ===== *)
theory PageSafety
  imports Pages SignExamples
begin

text \<open>
  What the pages say: each account is on one page only, an account being registered is shown once,
  with its furthest step, and the codes of actions mean the action they were made from.
\<close>

section \<open>Codes of actions\<close>

text \<open>The code of an action is read back as the action, except for six actions whose codes the status
  page does not know, and for those that share the code 99; no other two actions share a code.\<close>

theorem action_codes_round_trip:
  "(FormatActionType (FormatTxAction a) = a \<longleftrightarrow> a = DasActionOther '''' \<or> FormatTxAction a \<notin> {23, 24, 25, 29, 30, 31, 99})
   \<and> (FormatTxAction a = 99 \<or> {b. FormatTxAction b = FormatTxAction a} = {a})"
proof -
  have code: "FormatActionType (FormatTxAction a) = a \<longleftrightarrow> a = DasActionOther '''' \<or> FormatTxAction a \<notin> {23, 24, 25, 29, 30, 31, 99}"
    by (cases a) (auto simp: FormatActionType_def)
  define dec where "dec c = (if c = 23 then DasActionEnableSubAccount else if c = 24 then DasActionCreateSubAccount
      else if c = 25 then DasActionBalanceDeposit else if c = 29 then DasActionCollectSubAccountProfit
      else if c = 30 then DasActionRenewSubAccount else if c = 31 then DasActionBidExpiredAccountAuction
      else FormatActionType c)" for c
  have "dec (FormatTxAction b) = b" if "FormatTxAction b \<noteq> 99" for b
    using that by (cases b) (simp_all add: dec_def FormatActionType_def)
  then have "b = a" if "FormatTxAction a \<noteq> 99" "FormatTxAction b = FormatTxAction a" for b
    using that by metis
  with code show ?thesis by blast
qed

theorem action_codes_round_trip_witness:
  "FormatActionType (FormatTxAction DasActionRenewAccount) = DasActionRenewAccount
   \<and> FormatActionType (FormatTxAction DasActionBalanceDeposit) \<noteq> DasActionBalanceDeposit"
  using action_codes_round_trip [of DasActionRenewAccount] action_codes_round_trip [of DasActionBalanceDeposit] by simp

section \<open>Pages\<close>

lemma pages_concat:
  "concat (map (\<lambda>i. page (int s) (int (i * s)) xs) [0..<n]) = take (n * s) xs"
proof (induction n)
  case (Suc n)
  have "page (int s) (int (n * s)) xs = take s (drop (n * s) xs)" unfolding page_def nat_int by simp
  then have "concat (map (\<lambda>i. page (int s) (int (i * s)) xs) [0..<Suc n]) = take (n * s) xs @ take s (drop (n * s) xs)"
    using Suc by simp
  also have "\<dots> = take (n * s + s) xs" by (simp add: take_add)
  finally show ?case by (simp add: add.commute)
qed simp

lemma search_lock_ok: "search_lock ct ad kw w = (Inr u, w') \<Longrightarrow> tabs w' = tabs w \<and> now w' = now w"
  unfolding search_lock_def LockWithRedis_def redisM_def
  by (auto simp: ok_iffs apiErr_def errM_def okM_def catchM_def wrapM_def bindM_def Let_def
      split: if_splits option.splits prod.splits sum.splits dest: next_fault_cases)

text \<open>The accounts an address may see, by the time they expire.\<close>

definition my_accounts :: "http_lib \<Rightarrow> db \<Rightarrow> int \<Rightarrow> int \<Rightarrow> string \<Rightarrow> string \<Rightarrow> Category \<Rightarrow> account_row list" where
  "my_accounts H t nw chainType address keyword category =
     sort_key (\<lambda>a. uint (a_ExpiredAt a)) (filter (account_where (h_MainNet H) nw chainType address keyword category) (accounts t))"

lemma doAccountMine_ok:
  assumes "doAccountMine H key pg keyword category w = (Inr (count, list), w')"
  shows "\<exists>chainType address. h_FormatChainTypeAddress H key = Inr (chainType, address)
    \<and> count = length (my_accounts H (tabs w) (now w) chainType address (ToLower keyword) category)
    \<and> list = map account_data_of (page (GetLimit pg) (GetOffset pg) (my_accounts H (tabs w) (now w) chainType address (ToLower keyword) category))"
  using assms unfolding doAccountMine_def addressM_def SearchAccountListWithPage_def GetAccountsCount_def my_accounts_def Let_def
  by (auto simp: ok_iffs dest!: queryM_okD search_lock_ok split: prod.splits)


section \<open>Accounts being registered\<close>

text \<open>The rows shown, one for each account id, in the order of the first order for it.\<close>

definition registering_ids :: "order_row list \<Rightarrow> string list" where
  "registering_ids vs = rev (remdups (rev (map o_AccountId vs)))"

definition furthest :: "order_row list \<Rightarrow> string \<Rightarrow> RegisterStatus" where
  "furthest vs aid = Max (o_RegisterStatus ` {v \<in> set vs. o_AccountId v = aid})"

lemma registering_ids_props: "distinct (registering_ids vs)" "set (registering_ids vs) = o_AccountId ` set vs"
  by (simp_all add: registering_ids_def)

lemma registering_ids_snoc:
  "registering_ids (vs @ [v]) = (if o_AccountId v \<in> set (registering_ids vs) then registering_ids vs
     else registering_ids vs @ [o_AccountId v])"
  by (simp add: registering_ids_def)

lemma furthest_snoc:
  "furthest (vs @ [v]) aid = (if aid \<noteq> o_AccountId v then furthest vs aid
     else if aid \<in> set (registering_ids vs) then max (o_RegisterStatus v) (furthest vs aid) else o_RegisterStatus v)"
proof (cases "aid = o_AccountId v")
  case True
  define S where "S = {u \<in> set vs. o_AccountId u = aid}"
  have "{u \<in> set (vs @ [v]). o_AccountId u = aid} = insert v S" using True by (auto simp: S_def)
  moreover have "aid \<in> set (registering_ids vs) \<longleftrightarrow> S \<noteq> {}" by (auto simp: registering_ids_props S_def)
  moreover have "finite S" by (simp add: S_def)
  ultimately show ?thesis using True unfolding furthest_def S_def [symmetric] by (cases "S = {}") simp_all
next
  case False
  then have "{u \<in> set (vs @ [v]). o_AccountId u = aid} = {u \<in> set vs. o_AccountId u = aid}" by auto
  with False show ?thesis by (simp add: furthest_def)
qed

definition registering_ok :: "order_row list \<Rightarrow> registering_data list \<Rightarrow> (string \<rightharpoonup> nat) \<Rightarrow> bool" where
  "registering_ok vs list m \<longleftrightarrow> length list = length (registering_ids vs)
     \<and> (\<forall>aid i. m aid = Some i \<longleftrightarrow> i < length (registering_ids vs) \<and> registering_ids vs ! i = aid)
     \<and> (\<forall>i < length (registering_ids vs). rd_Status (list ! i) = furthest vs (registering_ids vs ! i)
        \<and> (\<exists>v \<in> set vs. o_AccountId v = registering_ids vs ! i \<and> rd_Account (list ! i) = o_Account v))"

lemma registering_add_ok:
  assumes ih: "registering_ok vs list0 m0" and add: "registering_add v (list0, m0) = (list, m)"
  shows "registering_ok (vs @ [v]) list m"
proof (cases "m0 (o_AccountId v)")
  case None
  let ?ids = "registering_ids vs"
  have new: "o_AccountId v \<notin> set ?ids"
  proof
    assume "o_AccountId v \<in> set ?ids"
    then obtain i where "i < length ?ids" "?ids ! i = o_AccountId v" by (auto simp: in_set_conv_nth)
    with ih have "m0 (o_AccountId v) = Some i" unfolding registering_ok_def by blast
    with None show False by simp
  qed
  then have ids: "registering_ids (vs @ [v]) = ?ids @ [o_AccountId v]" by (simp add: registering_ids_snoc)
  have "?ids ! i \<noteq> o_AccountId v" if "i < length ?ids" for i using new that nth_mem by metis
  moreover have "list = list0 @ [\<lparr>rd_Account = o_Account v, rd_Status = o_RegisterStatus v, rd_CrossCoinType = o_CrossCoinType v\<rparr>]"
      "m = m0(o_AccountId v \<mapsto> length list0)"
    using add None by (auto simp: registering_add_def)
  ultimately show ?thesis using ih new unfolding registering_ok_def ids
    by (auto simp: nth_append furthest_snoc less_Suc_eq)
next
  case (Some item)
  let ?ids = "registering_ids vs"
  from ih Some have item: "item < length ?ids" "?ids ! item = o_AccountId v" unfolding registering_ok_def by blast+
  then have old: "o_AccountId v \<in> set ?ids" by (metis nth_mem)
  then have ids: "registering_ids (vs @ [v]) = ?ids" by (simp add: registering_ids_snoc)
  have eq: "?ids ! i = o_AccountId v \<longleftrightarrow> i = item" if "i < length ?ids" for i
    using that item registering_ids_props(1) [of vs] nth_eq_iff_index_eq by metis
  have "list = (if rd_Status (list0 ! item) < o_RegisterStatus v
        then list0[item := (list0 ! item)\<lparr>rd_Status := o_RegisterStatus v, rd_CrossCoinType := o_CrossCoinType v\<rparr>] else list0)"
      "m = m0"
    using add Some by (auto simp: registering_add_def split: if_splits)
  with ih item old show ?thesis unfolding registering_ok_def ids
    by (auto simp: nth_list_update furthest_snoc eq max_def)
qed

lemma registering_fold:
  "registering_ok vs (fst (fold registering_add vs ([], \<lambda>_. None))) (snd (fold registering_add vs ([], \<lambda>_. None)))"
proof (induction vs rule: rev_induct)
  case Nil
  then show ?case by (simp add: registering_ok_def registering_ids_def)
next
  case (snoc v vs)
  then show ?case by (auto intro: registering_add_ok)
qed

text \<open>C23. The list of accounts being registered shows each account of the address's open orders once, with
  the furthest step any of its orders has reached.\<close>

theorem registering_list_shows_each_once:
  assumes run: "doRegisteringList H key w = (Inr list, w')"
  shows "\<exists>chainType address vs. h_FormatChainTypeAddress H key = Inr (chainType, address)
     \<and> vs = rev (filter (\<lambda>r. o_ChainType r = chainType \<and> o_Address r = address
        \<and> o_Action r = DasActionApplyRegister \<and> o_OrderStatus r = OrderStatusDefault) (orders (tabs w)))
     \<and> length list = length (registering_ids vs) \<and> distinct (registering_ids vs)
     \<and> set (registering_ids vs) = o_AccountId ` set vs
     \<and> (\<forall>i < length list. rd_Status (list ! i) = furthest vs (registering_ids vs ! i)
        \<and> (\<exists>v \<in> set vs. o_AccountId v = registering_ids vs ! i \<and> rd_Account (list ! i) = o_Account v))"
proof -
  from run obtain ct ad vs where f: "h_FormatChainTypeAddress H key = Inr (ct, ad)"
    and vs: "vs = rev (filter (\<lambda>r. o_ChainType r = ct \<and> o_Address r = ad
        \<and> o_Action r = DasActionApplyRegister \<and> o_OrderStatus r = OrderStatusDefault) (orders (tabs w)))"
    and l: "list = registering_accounts vs"
    unfolding doRegisteringList_def addressM_def GetRegisteringOrders_def
    by (auto simp: ok_iffs dest!: queryM_okD split: if_splits)
  from registering_fold [of vs] l have "registering_ok vs list (snd (fold registering_add vs ([], \<lambda>_. None)))"
    by (simp add: registering_accounts_def)
  with f vs registering_ids_props [of vs] show ?thesis unfolding registering_ok_def
    by (intro exI [of _ ct] exI [of _ ad] exI [of _ vs]) simp
qed

text \<open>Two orders for one account and one for another.\<close>

definition ex_registering :: "db world" where
  "ex_registering = world_of (ex_shop\<lparr>orders :=
     [open_row, open_row\<lparr>o_Id := 6, o_OrderId := ''second'', o_RegisterStatus := RegisterStatusPreRegister\<rparr>,
      open_row\<lparr>o_Id := 7, o_OrderId := ''third'', o_AccountId := ''bob.bit'', o_Account := ''bob.bit''\<rparr>]\<rparr>) 1700000000000"

theorem registering_list_shows_each_once_witness:
  "\<exists>list w' vs. doRegisteringList ex_http \<lparr>ki_Type = '''', ki_CoinType = ''60'', ki_Key = ''0xaa''\<rparr> ex_registering = (Inr list, w')
     \<and> length list = 2 \<and> length vs = 3 \<and> rd_Status (list ! 1) = furthest vs ''alice.bit''"
proof -
  let ?key = "\<lparr>ki_Type = '''', ki_CoinType = ''60'', ki_Key = ''0xaa''\<rparr>"
  have w: "healthy ex_registering" by (simp add: ex_registering_def)
  have f: "h_FormatChainTypeAddress ex_http ?key = Inr (1, ''0xaa'')" by (simp add: ex_values)
  obtain list where run: "doRegisteringList ex_http ?key ex_registering = (Inr list, ex_registering)"
    using w f by (simp add: doRegisteringList_def addressM_def go_simps GetRegisteringOrders_def)
  let ?vs = "rev (filter (\<lambda>r. o_ChainType r = 1 \<and> o_Address r = ''0xaa''
        \<and> o_Action r = DasActionApplyRegister \<and> o_OrderStatus r = OrderStatusDefault) (orders (tabs ex_registering)))"
  have ids: "map o_AccountId ?vs = [''bob.bit'', ''alice.bit'', ''alice.bit'']"
    by (simp add: ex_registering_def open_row_def zero_order_def)
  then have "registering_ids ?vs = [''bob.bit'', ''alice.bit'']" by (simp add: registering_ids_def)
  moreover have "length ?vs = 3" using arg_cong [OF ids, of length] by simp
  ultimately show ?thesis using registering_list_shows_each_once [OF run] run f
    by (intro exI [of _ list] exI [of _ ex_registering] exI [of _ ?vs]) auto
qed

text \<open>Two accounts, the later made expiring first.\<close>

definition ex_second :: account_row where
  "ex_second = ex_owned\<lparr>a_Id := 2, a_AccountId := ''bob.bit'', a_Account := ''bob.bit'', a_ExpiredAt := 1750000000\<rparr>"

definition ex_mine :: "db world" where
  "ex_mine = world_of (ex_shop\<lparr>accounts := [ex_owned, ex_second]\<rparr>) 1700000000000"


end
