(* ===== verification/RecycleSafety.thy ===== *)
theory RecycleSafety
  imports Recycle TxSafety
begin

text \<open>
  What the recycling jobs spend: exactly the cells that are due, each once per run, giving their
  capacity back; and what becomes of a cell the node refuses.
\<close>

section \<open>The cells of a run\<close>

text \<open>Old enough, by the time of its block; and refundable, by its lock.\<close>

definition due :: "recycle_lib \<Rightarrow> 64 word \<Rightarrow> 64 word \<Rightarrow> live_cell \<Rightarrow> bool" where
  "due K median timestamp v \<longleftrightarrow> (case cl_Time K (lc_BlockNumber v) of Inl _ \<Rightarrow> False | Inr t \<Rightarrow> t + timestamp * 1000 \<le> median)"

definition refund_lock :: "recycle_lib \<Rightarrow> live_cell \<Rightarrow> gerr + (pre_cell \<times> string)" where
  "refund_lock K v = bindR (cl_PreTx K (lc_OutPoint v)) (\<lambda>res. bindR (cl_PreCell K res) (\<lambda>pre.
     bindR (cl_LockScript K (pr_RefundLock pre)) (\<lambda>lock. Inr (pre, lock))))"

definition refundable :: "recycle_lib \<Rightarrow> string \<Rightarrow> bool \<Rightarrow> live_cell \<Rightarrow> bool" where
  "refundable K server own v \<longleftrightarrow> (case refund_lock K v of Inl _ \<Rightarrow> False | Inr (_, lock) \<Rightarrow>
     (cl_IsDas K lock \<or> cl_IsSighash K lock) \<and> (\<not> own \<or> cl_Args K server = cl_Args K lock))"

lemma pre_cells_ok:
  assumes "pre_cells K server early timestamp median cells = Inr found"
  shows "map fst found = filter (refundable K server (early = timestamp)) (takeWhile (due K median timestamp) cells)
    \<and> (\<forall>f \<in> set found. refund_lock K (fst f) = Inr (snd f))"
  using assms
proof (induction cells arbitrary: found)
  case (Cons v vs)
  from Cons.prems obtain t where t: "cl_Time K (lc_BlockNumber v) = Inr t" by (auto simp: bindR_eq_Inr)
  show ?case
  proof (cases "median < t + timestamp * 1000")
    case True
    with Cons.prems t show ?thesis by (simp add: due_def linorder_not_le [symmetric])
  next
    case False
    then have d: "due K median timestamp v" using t by (simp add: due_def)
    from Cons.prems t False obtain res pre lock where
      l: "refund_lock K v = Inr (pre, lock)"
      and rest: "(if \<not> cl_IsDas K lock \<and> \<not> cl_IsSighash K lock then pre_cells K server early timestamp median vs
        else if early = timestamp \<and> cl_Args K server \<noteq> cl_Args K lock then pre_cells K server early timestamp median vs
        else bindR (pre_cells K server early timestamp median vs) (\<lambda>found. Inr ((v, pre, lock) # found))) = Inr found"
      by (auto simp: bindR_eq_Inr Let_def refund_lock_def)
    have r: "refundable K server own v \<longleftrightarrow> (cl_IsDas K lock \<or> cl_IsSighash K lock) \<and> (\<not> own \<or> cl_Args K server = cl_Args K lock)" for own
      by (simp add: refundable_def l)
    show ?thesis
    proof (cases "refundable K server (early = timestamp) v")
      case True
      with rest r obtain fs where "pre_cells K server early timestamp median vs = Inr fs" "found = (v, pre, lock) # fs"
        by (auto simp: bindR_eq_Inr split: if_splits)
      with Cons.IH [of fs] True d l show ?thesis by simp
    next
      case False
      with rest r have "pre_cells K server early timestamp median vs = Inr found" by (auto split: if_splits)
      with Cons.IH [of found] False d show ?thesis by simp
    qed
  qed
qed simp

text \<open>C22. The cells recycled in a run are, in their order, exactly the refundable ones among the leading cells
  of the indexer that are old enough, each with the lock its own witness names.\<close>

theorem recycled_cells_are_due:
  assumes found: "getPreCellByMedianTime K p early blockRange timestamp = Inr found"
  shows "\<exists>cells median. cl_MedianTime K = Inr median
     \<and> cl_Cells K (cl_ToScript K (pq_AsScript p)) (cl_ToScript K (pq_PreScript p)) None
         (Some (first_block K blockRange, pq_TipBlockNumber p)) 100 = Inr cells
     \<and> map fst found = filter (refundable K (pq_Server p) (early = timestamp)) (takeWhile (due K median timestamp) cells)
     \<and> (\<forall>f \<in> set found. refund_lock K (fst f) = Inr (snd f))"
proof -
  from found obtain cells median where c: "cl_MedianTime K = Inr median"
    "cl_Cells K (cl_ToScript K (pq_AsScript p)) (cl_ToScript K (pq_PreScript p)) None
         (Some (first_block K blockRange, pq_TipBlockNumber p)) 100 = Inr cells"
    "pre_cells K (pq_Server p) early timestamp median cells = Inr found"
    unfolding getPreCellByMedianTime_def by (auto simp: bindR_eq_Inr)
  from pre_cells_ok [OF c(3)] c(1,2) show ?thesis by blast
qed

section \<open>Cells the node refuses\<close>

text \<open>What sending the refund of a cell comes to.\<close>

definition refund_result :: "recycle_lib \<Rightarrow> pre_recycle_params \<Rightarrow> 64 word \<Rightarrow> pre_found \<Rightarrow> gerr + string" where
  "refund_result K p timestamp f = (case f of (v, pre, lock) \<Rightarrow>
     bindR (refund_type K (pq_BalanceScript p) lock) (\<lambda>ty.
     bindR (ActionWitness (cl_Tx K) DasActionRefundPreRegister) (\<lambda>aw.
     bindR (BuildTransaction (cl_Tx K) (refund_tx v (cl_SinceTime K timestamp) lock ty [aw, pr_Witness pre 0] [pq_PreDep p])) (\<lambda>tx.
       SendTransaction (cl_Tx K) tx))))"

definition accepted :: "recycle_lib \<Rightarrow> pre_recycle_params \<Rightarrow> 64 word \<Rightarrow> pre_found \<Rightarrow> bool" where
  "accepted K p timestamp f = (case refund_result K p timestamp f of Inl _ \<Rightarrow> False | Inr _ \<Rightarrow> True)"

lemma doRecyclePreTx_run:
  assumes "refund_result K p ts f \<noteq> Inl GoPanic"
  shows "\<exists>r w'. tryM (doRecyclePreTx K p ts f) w = (Inr r, w') \<and> (case r of Inl _ \<Rightarrow> \<not> accepted K p ts f | Inr _ \<Rightarrow> accepted K p ts f)"
proof -
  obtain v pre lock where f: "f = (v, pre, lock)" by (cases f)
  show ?thesis using assms unfolding f doRecyclePreTx_def accepted_def refund_result_def prod.case
    by (auto simp: send_refund_def sendM_def tryM_def catchM_def bindM_def liftM_def wrapM_def thenM_def emitM_def okM_def
        errM_def wrapR_def bindR_def split: sum.splits if_splits)
qed

text \<open>The block the job goes on from: that of the last cell the node accepted.\<close>

definition progress :: "(pre_found \<Rightarrow> bool) \<Rightarrow> 64 word \<Rightarrow> pre_found list \<Rightarrow> 64 word" where
  "progress ok n found = (case filter ok found of [] \<Rightarrow> n | vs \<Rightarrow> lc_BlockNumber (fst (last vs)))"

lemma progress_Cons: "progress ok n (v # vs) = progress ok (if ok v then lc_BlockNumber (fst v) else n) vs"
  by (simp add: progress_def split: list.split)

lemma recycle_pre_loop_run:
  assumes "\<forall>f \<in> set found. refund_result K p ts f \<noteq> Inl GoPanic"
  shows "fst (recycle_pre_loop (doRecyclePreTx K p ts) n found w) = Inr (progress (accepted K p ts) n found)"
  using assms
proof (induction found arbitrary: n w)
  case (Cons v vs)
  from doRecyclePreTx_run [of K p ts v w] Cons.prems obtain r w' where
    "tryM (doRecyclePreTx K p ts v) w = (Inr r, w')" "case r of Inl _ \<Rightarrow> \<not> accepted K p ts v | Inr _ \<Rightarrow> accepted K p ts v"
    by auto
  with Cons show ?case by (auto simp: bindM_def progress_Cons split: sum.splits)
qed (simp add: okM_def progress_def)

text \<open>C40. The job goes on from the block of the last cell the node accepted, so a cell it refused before that
  one is never found again.\<close>

theorem refused_cells_are_passed_over:
  assumes params: "getPreCellRecycleParams K w = (Inr p, w1)"
    and found: "getPreCellByMedianTime K p early n recycleTimestamp = Inr found"
    and calm: "\<forall>f \<in> set found. refund_result K p recycleTimestamp f \<noteq> Inl GoPanic"
    and range: "\<forall>lock type lo hi cells v. cl_Cells K lock type None (Some (lo, hi)) 100 = Inr cells \<longrightarrow> v \<in> set cells \<longrightarrow> lo \<le> lc_BlockNumber v"
  shows "fst (doRecyclePre K early n w) = Inr (progress (accepted K p recycleTimestamp) n found)
     \<and> (\<forall>v \<in> set found. \<not> accepted K p recycleTimestamp v \<longrightarrow>
          lc_BlockNumber (fst v) < progress (accepted K p recycleTimestamp) n found \<longrightarrow>
          (\<forall>p' early' found'. getPreCellByMedianTime K p' early' (progress (accepted K p recycleTimestamp) n found)
             recycleTimestamp = Inr found' \<longrightarrow> fst v \<notin> fst ` set found'))"
proof -
  let ?n = "progress (accepted K p recycleTimestamp) n found"
  have "fst (doRecyclePre K early n w) = Inr ?n"
    using recycle_pre_loop_run [OF calm] params found by (simp add: doRecyclePre_def bindM_def liftM_def wrapM_Inr)
  moreover have "fst v \<notin> fst ` set found'"
    if "lc_BlockNumber (fst v) < ?n" "getPreCellByMedianTime K p' early' ?n recycleTimestamp = Inr found'" for v p' early' found'
  proof
    assume v: "fst v \<in> fst ` set found'"
    have nz: "?n \<noteq> 0" using that(1) by auto
    from that(2) obtain cells median where
      "cl_Cells K (cl_ToScript K (pq_AsScript p')) (cl_ToScript K (pq_PreScript p')) None
         (Some (?n, pq_TipBlockNumber p')) 100 = Inr cells"
      "pre_cells K (pq_Server p') early' recycleTimestamp median cells = Inr found'"
      using nz unfolding getPreCellByMedianTime_def by (auto simp: bindR_eq_Inr first_block_def)
    from this(1) pre_cells_ok [OF this(2)] v have "fst v \<in> set cells"
      by (metis (no_types, lifting) filter_is_subset list.set_map set_takeWhileD subsetD)
    with range \<open>cl_Cells K _ _ None (Some (?n, _)) 100 = Inr cells\<close> have "?n \<le> lc_BlockNumber (fst v)" by blast
    with that(1) show False by simp
  qed
  ultimately show ?thesis by blast
qed

section \<open>Early recycling\<close>

lemma early_cells_ok:
  assumes "early_cells K p early i found = Inr tx"
  shows "map fst (tp_Inputs tx) = map (\<lambda>f. lc_OutPoint (fst f)) found
    \<and> map oc_Capacity (tp_Outputs tx) = map (\<lambda>f. oc_Capacity (lc_Output (fst f))) found
    \<and> map oc_Lock (tp_Outputs tx) = map (\<lambda>f. snd (snd f)) found"
  using assms
  by (induction found arbitrary: i tx) (auto simp: no_params_def bindR_eq_Inr)

text \<open>The early job creates and loses no CKB but the fee: each cell goes back with its capacity to its own lock,
  and the fee comes from cells of the service.\<close>

theorem early_recycling_conserves:
  assumes run: "early_cells K p early 0 found = Inr tx0" "early_tx K p aw tx0 = Inr tx"
    and cells: "\<forall>lock need keep cs tot. cl_BalanceCells K lock need keep = Inr (cs, tot) \<longrightarrow>
      cap_sum (map snd cs) = unat tot \<and> need \<le> tot"
    and min: "MinCellOccupiedCkb (cl_Tx K) < 2 ^ 63"
  shows "\<exists>cs. map fst (tp_Inputs tx) = map (\<lambda>f. lc_OutPoint (fst f)) found @ map fst cs
     \<and> map oc_Lock (tp_Outputs tx) = map (\<lambda>f. snd (snd f)) found @ [pq_Server p]
     \<and> map oc_Capacity (butlast (tp_Outputs tx)) = map (\<lambda>f. oc_Capacity (lc_Output (fst f))) found
     \<and> cap_sum (map oc_Capacity (tp_Outputs tx)) + unat refund_fee
         = cap_sum (map (\<lambda>f. oc_Capacity (lc_Output (fst f))) found) + cap_sum (map snd cs)"
proof -
  from run(2) obtain cs tot where c: "cl_BalanceCells K (pq_Server p) (MinCellOccupiedCkb (cl_Tx K) + refund_fee)
       (MinCellOccupiedCkb (cl_Tx K)) = Inr (cs, tot)"
    and tx: "tp_Inputs tx = tp_Inputs tx0 @ map (\<lambda>c. (fst c, 0)) cs"
      "tp_Outputs tx = tp_Outputs tx0 @ [\<lparr>oc_Capacity = tot - refund_fee, oc_Lock = pq_Server p, oc_Type = None\<rparr>]"
    unfolding early_tx_def by (auto simp: bindR_eq_Inr)
  have s: "cap_sum (map snd cs) = unat tot" "MinCellOccupiedCkb (cl_Tx K) + refund_fee \<le> tot" using cells c by blast+
  have "unat (MinCellOccupiedCkb (cl_Tx K)) < 2 ^ 63" using min by (simp add: word_less_nat_alt)
  then have "unat (MinCellOccupiedCkb (cl_Tx K) + refund_fee) = unat (MinCellOccupiedCkb (cl_Tx K)) + 10000"
    by (subst unat_add_lem [THEN iffD1]) (simp_all add: refund_fee_def)
  with s(2) have le: "10000 \<le> unat tot" by (simp add: word_le_nat_alt)
  then have f: "refund_fee \<le> tot" by (simp add: word_le_nat_alt refund_fee_def)
  have fee: "unat refund_fee = 10000" by (simp add: refund_fee_def)
  with unat_sub [OF f] have d: "unat (tot - refund_fee) = unat tot - 10000" by simp
  note e = early_cells_ok [OF run(1)]
  have "cap_sum (map oc_Capacity (tp_Outputs tx)) + unat refund_fee
      = cap_sum (map oc_Capacity (tp_Outputs tx0)) + (unat tot - 10000) + 10000"
    by (simp add: tx(2) cap_sum_def d fee)
  with le s(1) e have "cap_sum (map oc_Capacity (tp_Outputs tx)) + unat refund_fee
      = cap_sum (map (\<lambda>f. oc_Capacity (lc_Output (fst f))) found) + cap_sum (map snd cs)" by simp
  with e tx show ?thesis by (intro exI [of _ cs]) (simp add: comp_def)
qed

section \<open>Examples\<close>

text \<open>Two cells that are due; the node refuses the transaction of the first.\<close>

definition ex_pre_cell :: "string \<Rightarrow> 64 word \<Rightarrow> live_cell" where
  "ex_pre_cell op block = \<lparr>lc_BlockNumber = block, lc_OutPoint = op, lc_Output = \<lparr>oc_Capacity = 30000000000, oc_Lock = ''as'', oc_Type = None\<rparr>\<rparr>"

definition ex_pre :: pre_cell where
  "ex_pre = \<lparr>pr_RefundLock = Some ''lock'', pr_Witness = (\<lambda>_. ''w'')\<rparr>"

definition ex_recycle :: recycle_lib where
  "ex_recycle = \<lparr>cl_Tx = ex_lib\<lparr>TipBlockNumber := Inr 100000, BuildTransaction := Inr,
       SendTransaction := \<lambda>tx. if map fst (tp_Inputs tx) = [''bad''] then Inl (Errf ''refused'') else Inr ''hash''\<rparr>,
     cl_MainNet = True, cl_RecyclePreEarly = True, cl_PayServer = Inr ''server'', cl_ApplyMaxWaiting = Inr (Inr 5760),
     cl_Cells = (\<lambda>_ _ _ blocks _. Inr (case blocks of None \<Rightarrow> [] | Some (lo, hi) \<Rightarrow>
       filter (\<lambda>v. lo \<le> lc_BlockNumber v) [ex_pre_cell ''bad'' 10, ex_pre_cell ''good'' 11])),
     cl_ToScript = (\<lambda>s. s), cl_SinceTime = (\<lambda>t. t), cl_MedianTime = Inr 100000000, cl_Time = (\<lambda>_. Inr 0), cl_PreTx = Inr,
     cl_PreCell = (\<lambda>_. Inr ex_pre), cl_LockScript = (\<lambda>_. Inr ''lock''), cl_IsDas = (\<lambda>_. False), cl_IsSighash = (\<lambda>_. True),
     cl_ScriptAlg = (\<lambda>_. Inr 0), cl_AlgEth712 = 5, cl_Args = (\<lambda>s. s),
     cl_BalanceCells = (\<lambda>_ need _. if need \<le> 6200000000 then Inr ([(''fee'', 6200000000)], 6200000000) else Inl Fault)\<rparr>"

definition ex_recycle_params :: pre_recycle_params where
  "ex_recycle_params = \<lparr>pq_TipBlockNumber = 100000, pq_AsScript = ''script'', pq_PreScript = ''script'', pq_PreDep = ''dep'',
     pq_BalanceScript = ''script'', pq_Server = ''server''\<rparr>"

definition ex_found :: "pre_found list" where
  "ex_found = [(ex_pre_cell ''bad'' 10, ex_pre, ''lock''), (ex_pre_cell ''good'' 11, ex_pre, ''lock'')]"

lemma ex_recycle_found: "getPreCellByMedianTime ex_recycle ex_recycle_params early 5 recycleTimestamp = Inr ex_found"
  if "early \<noteq> recycleTimestamp"
  using that by (simp add: getPreCellByMedianTime_def ex_recycle_def first_block_def ex_pre_cell_def recycleTimestamp_def ex_found_def Let_def)

lemma ex_recycle_lib_params: "getPreCellRecycleParams ex_recycle w = (Inr ex_recycle_params, w)"
  by (simp add: getPreCellRecycleParams_def contractM_def ex_recycle_def ex_lib_def ex_recycle_params_def go_simps)

theorem recycled_cells_are_due_witness:
  "map fst ex_found = filter (refundable ex_recycle ''server'' False)
     (takeWhile (due ex_recycle 100000000 recycleTimestamp) [ex_pre_cell ''bad'' 10, ex_pre_cell ''good'' 11])"
  using recycled_cells_are_due [OF ex_recycle_found [of 3600]]
  by (simp add: ex_recycle_def ex_recycle_params_def first_block_def ex_pre_cell_def recycleTimestamp_def)

lemma ex_refund_results:
  "refund_result ex_recycle ex_recycle_params recycleTimestamp (ex_pre_cell op n, ex_pre, ''lock'')
     = (if op = ''bad'' then Inl (Errf ''refused'') else Inr ''hash'')"
  by (simp add: refund_result_def refund_type_def ex_recycle_def ex_lib_def refund_tx_def ex_pre_cell_def no_params_def)

theorem refused_cells_are_passed_over_witness:
  "(\<forall>w. fst (doRecyclePre ex_recycle 3600 5 w) = Inr 11)
   \<and> (\<nexists>p' early' found'. getPreCellByMedianTime ex_recycle p' early' 11 recycleTimestamp = Inr found'
        \<and> ex_pre_cell ''bad'' 10 \<in> fst ` set found')"
proof -
  have "\<forall>f \<in> set ex_found. refund_result ex_recycle ex_recycle_params recycleTimestamp f \<noteq> Inl GoPanic"
    by (simp add: ex_found_def ex_refund_results)
  moreover have "\<forall>lock type lo hi cells v. cl_Cells ex_recycle lock type None (Some (lo, hi)) 100 = Inr cells \<longrightarrow> v \<in> set cells
      \<longrightarrow> lo \<le> lc_BlockNumber v"
    by (auto simp: ex_recycle_def)
  ultimately have main: "fst (doRecyclePre ex_recycle 3600 5 w) = Inr (progress (accepted ex_recycle ex_recycle_params recycleTimestamp) 5 ex_found)
     \<and> (\<forall>v \<in> set ex_found. \<not> accepted ex_recycle ex_recycle_params recycleTimestamp v \<longrightarrow>
          lc_BlockNumber (fst v) < progress (accepted ex_recycle ex_recycle_params recycleTimestamp) 5 ex_found \<longrightarrow>
          (\<forall>p' early' found'. getPreCellByMedianTime ex_recycle p' early' (progress (accepted ex_recycle ex_recycle_params recycleTimestamp) 5 ex_found)
             recycleTimestamp = Inr found' \<longrightarrow> fst v \<notin> fst ` set found'))" for w
    by (intro refused_cells_are_passed_over [OF ex_recycle_lib_params ex_recycle_found]) (simp_all add: recycleTimestamp_def)
  have pr: "progress (accepted ex_recycle ex_recycle_params recycleTimestamp) 5 ex_found = 11"
    "\<not> accepted ex_recycle ex_recycle_params recycleTimestamp (ex_pre_cell ''bad'' 10, ex_pre, ''lock'')"
    by (simp_all add: progress_def ex_found_def accepted_def ex_refund_results) (simp add: ex_pre_cell_def)
  have mem: "(ex_pre_cell ''bad'' 10, ex_pre, ''lock'') \<in> set ex_found" "lc_BlockNumber (ex_pre_cell ''bad'' 10) < 11"
    by (simp_all add: ex_found_def ex_pre_cell_def)
  from bspec [OF conjunct2 [OF main [of undefined]] mem(1)] conjunct1 [OF main] pr mem(2) show ?thesis by auto
qed

theorem early_recycling_conserves_witness:
  "\<exists>tx0 tx cs. early_cells ex_recycle ex_recycle_params 3600 0 ex_found = Inr tx0
     \<and> early_tx ex_recycle ex_recycle_params ''action'' tx0 = Inr tx
     \<and> cap_sum (map oc_Capacity (tp_Outputs tx)) + 10000 = 60000000000 + cap_sum (map snd (cs :: (string \<times> 64 word) list))"
proof -
  obtain tx0 where c: "early_cells ex_recycle ex_recycle_params 3600 0 ex_found = Inr tx0"
    by (simp add: ex_found_def refund_type_def ex_recycle_def)
  obtain tx where t: "early_tx ex_recycle ex_recycle_params ''action'' tx0 = Inr tx"
    by (simp add: early_tx_def ex_recycle_def ex_lib_def refund_fee_def)
  have "\<forall>lock need keep cs tot. cl_BalanceCells ex_recycle lock need keep = Inr (cs, tot) \<longrightarrow>
      cap_sum (map snd cs) = unat tot \<and> need \<le> tot"
    by (auto simp: ex_recycle_def cap_sum_def split: if_splits)
  moreover have "MinCellOccupiedCkb (cl_Tx ex_recycle) < 2 ^ 63" by (simp add: ex_recycle_def ex_lib_def)
  moreover have "cap_sum (map (\<lambda>f. oc_Capacity (lc_Output (fst f))) ex_found) = 60000000000"
    by (simp add: ex_found_def ex_pre_cell_def cap_sum_def)
  ultimately show ?thesis using early_recycling_conserves [OF c t] c t by (auto simp: refund_fee_def)
qed

end
