(* ===== verification/Server.thy ===== *)
theory Server
  imports System
begin

text \<open>
  \<open>src/http_server\<close>: the routes of \<open>router.go\<close> with the functions they call. A request body is what gin
  makes of it, the request record or an error; a handler that ends with an error it has not put
  into the response leaves the response as it was made: with number 0, which is success, and no data.
  A panic answers nothing. Routes that are commented out, and those of \<open>sign_tx.go\<close> (test networks),
  \<open>ckb_rpc.go\<close>, \<open>version.go\<close>, \<open>character_set_list.go\<close> and \<open>order_info.go\<close>, are left out.
\<close>

section \<open>Answers\<close>

type_synonym 'r body = "gerr + 'r"

datatype 'd http_answer = HttpAnswer "ApiCode option" "'d option"

definition answered :: "('t, 'd) act \<Rightarrow> ('t, 'd http_answer) act" where
  "answered m =
     catchM (bindM m (\<lambda>d. okM (HttpAnswer None (Some d))))
       (\<lambda>e. case e of Api c \<Rightarrow> okM (HttpAnswer (Some c) None) | _ \<Rightarrow> okM (HttpAnswer None None))"

definition serve_json :: "'r body \<Rightarrow> ('r \<Rightarrow> ('t, 'd) act) \<Rightarrow> ('t, 'd http_answer) act" where
  "serve_json body handler =
     (case body of Inl _ \<Rightarrow> okM (HttpAnswer (Some ApiCodeParamsInvalid) None) | Inr req \<Rightarrow> answered (handler req))"

definition as_reply :: "('d \<Rightarrow> 'r) \<Rightarrow> ('t, 'd http_answer) act \<Rightarrow> ('t, 'r http_answer) act" where
  "as_reply f m = bindM m (\<lambda>a. okM (map_http_answer f a))"

section \<open>The handlers behind the routes\<close>

definition ConfigInfoRoute :: "http_lib \<Rightarrow> info_lib \<Rightarrow> config_info http_answer dao" where
  "ConfigInfoRoute H F = answered (doConfigInfo H F)"

text \<open>The tokens are listed in the order of a Go map, which is any order: here, the set of them.\<close>

definition doTokenList :: "token_map \<Rightarrow> token_row set dao" where
  "doTokenList mapToken = okM (ran mapToken)"

definition TokenList :: "token_map \<Rightarrow> token_row set http_answer dao" where
  "TokenList mapToken = answered (doTokenList mapToken)"

record notice_req =
  no_BusinessId :: string
  no_EventList :: "event_info list"

definition UniPayNotice :: "(int \<Rightarrow> int) \<Rightarrow> notice_req body \<Rightarrow> unit http_answer dao" where
  "UniPayNotice ToChainType body =
     (case body of Inl _ \<Rightarrow> okM (HttpAnswer (Some ApiCodeParamsInvalid) None)
      | Inr req \<Rightarrow> bindM (doUniPayNotice ToChainType (no_BusinessId req) (no_EventList req)) (\<lambda>r.
          okM (case r of ApiRespErr c \<Rightarrow> HttpAnswer (Some c) None | ApiRespOK d \<Rightarrow> HttpAnswer None (Some d))))"

definition TransactionSend ::
  "http_lib \<Rightarrow> sign_lib \<Rightarrow> sign_info body \<Rightarrow> string http_answer dao" where
  "TransactionSend H S body = serve_json body (doTransactionSend H S)"

definition BalancePay ::
  "http_lib \<Rightarrow> bal_lib \<Rightarrow> balance_pay_req body \<Rightarrow> sign_info http_answer dao" where
  "BalancePay H B body = serve_json body (doBalancePay H B)"

definition BalanceWithdraw ::
  "http_lib \<Rightarrow> bal_lib \<Rightarrow> withdraw_req body \<Rightarrow> sign_info http_answer dao" where
  "BalanceWithdraw H B body = serve_json body (doBalanceWithdraw H B)"

definition BalanceTransfer ::
  "http_lib \<Rightarrow> bal_lib \<Rightarrow> transfer_req body \<Rightarrow> sign_info http_answer dao" where
  "BalanceTransfer H B body = serve_json body (doBalanceTransfer H B)"

definition BalanceDeposit ::
  "http_lib \<Rightarrow> bal_lib \<Rightarrow> deposit_req body \<Rightarrow> sign_info http_answer dao" where
  "BalanceDeposit H B body = serve_json body (doBalanceDeposit H B)"

definition EditManager ::
  "http_lib \<Rightarrow> edit_lib \<Rightarrow> edit_lock_req body \<Rightarrow> sign_info http_answer dao" where
  "EditManager H E body = serve_json body (doEditManager H E)"

definition DidCellEditOwner ::
  "(rat \<Rightarrow> rat \<Rightarrow> nat \<Rightarrow> rat) \<Rightarrow> http_lib \<Rightarrow> did_lib \<Rightarrow> token_map \<Rightarrow> did_owner_req body \<Rightarrow> did_resp http_answer dao" where
  "DidCellEditOwner DivRound H D m body = serve_json body (doDidCellEditOwner DivRound H D m)"

definition DidCellEditRecord ::
  "http_lib \<Rightarrow> did_lib \<Rightarrow> did_record_req body \<Rightarrow> sign_info http_answer dao" where
  "DidCellEditRecord H D body = serve_json body (doDidCellEditRecord H D)"

definition DidCellRenew ::
  "(rat \<Rightarrow> rat \<Rightarrow> nat \<Rightarrow> rat) \<Rightarrow> http_lib \<Rightarrow> renew_lib \<Rightarrow> did_lib \<Rightarrow> token_map \<Rightarrow> did_renew_req body \<Rightarrow> did_resp http_answer dao" where
  "DidCellRenew DivRound H G D m body = serve_json body (doDidCellRenew DivRound H G D m)"

definition DidCellRecycle ::
  "http_lib \<Rightarrow> renew_lib \<Rightarrow> did_lib \<Rightarrow> did_account_req body \<Rightarrow> sign_info http_answer dao" where
  "DidCellRecycle H G D body = serve_json body (doDidCellRecycle H G D)"

definition DidCellUpgradePrice ::
  "(rat \<Rightarrow> rat \<Rightarrow> nat \<Rightarrow> rat) \<Rightarrow> http_lib \<Rightarrow> did_lib \<Rightarrow> did_account_req body \<Rightarrow> (rat \<times> rat) http_answer dao" where
  "DidCellUpgradePrice DivRound H D body = serve_json body (doDidCellUpgradePrice DivRound H D)"

definition DidCellDasLockEditOwner ::
  "http_lib \<Rightarrow> did_lib \<Rightarrow> das_lock_req body \<Rightarrow> sign_info http_answer dao" where
  "DidCellDasLockEditOwner H D body = serve_json body (doDidCellDasLockEditOwner H D)"

definition OrderRegisterRoute ::
  "(rat \<Rightarrow> rat \<Rightarrow> nat \<Rightarrow> rat) \<Rightarrow> http_lib \<Rightarrow> token_map \<Rightarrow> register_req body \<Rightarrow> order_resp http_answer dao" where
  "OrderRegisterRoute DivRound H m body = serve_json body (doOrderRegister DivRound H m)"

definition OrderChange ::
  "(rat \<Rightarrow> rat \<Rightarrow> nat \<Rightarrow> rat) \<Rightarrow> http_lib \<Rightarrow> token_map \<Rightarrow> change_req body \<Rightarrow> order_resp http_answer dao" where
  "OrderChange DivRound H m body = serve_json body (doOrderChange DivRound H m)"

definition OrderPayHash :: "http_lib \<Rightarrow> pay_hash_req body \<Rightarrow> unit http_answer dao" where
  "OrderPayHash H body = serve_json body (doOrderPayHash H)"

definition CheckCoupon ::
  "http_lib \<Rightarrow> string body \<Rightarrow> (CouponType option \<times> CouponStatus) http_answer dao" where
  "CheckCoupon H body = serve_json body (doCheckCoupon H)"

definition AccountAuctionBid ::
  "(rat \<Rightarrow> rat \<Rightarrow> nat \<Rightarrow> rat) \<Rightarrow> http_lib \<Rightarrow> auction_lib \<Rightarrow> bid_req body \<Rightarrow> sign_info http_answer dao" where
  "AccountAuctionBid DivRound H U body = serve_json body (doAccountAuctionBid DivRound H U)"

definition GetAccountAuctionInfo ::
  "(rat \<Rightarrow> rat \<Rightarrow> nat \<Rightarrow> rat) \<Rightarrow> http_lib \<Rightarrow> auction_lib \<Rightarrow> bid_req body \<Rightarrow> auction_page http_answer dao" where
  "GetAccountAuctionInfo DivRound H U body = serve_json body (doGetAccountAuctionInfo DivRound H U)"

definition GetAccountAuctionPrice ::
  "(rat \<Rightarrow> rat \<Rightarrow> nat \<Rightarrow> rat) \<Rightarrow> http_lib \<Rightarrow> auction_lib \<Rightarrow> string body \<Rightarrow> (rat \<times> rat \<times> rat) http_answer dao" where
  "GetAccountAuctionPrice DivRound H U body = serve_json body (doGetAccountAuctionPrice DivRound H U)"

definition GetAuctionOrderStatusRoute ::
  "auction_lib \<Rightarrow> (key_info \<times> string) body \<Rightarrow> auction_reply http_answer dao" where
  "GetAuctionOrderStatusRoute U body = serve_json body (\<lambda>(key, hash). doGetAuctionOrderStatus U key hash)"

definition GetPendingAuctionOrderRoute ::
  "auction_lib \<Rightarrow> key_info body \<Rightarrow> auction_reply list http_answer dao" where
  "GetPendingAuctionOrderRoute U body = serve_json body (doGetPendingAuctionOrder U)"

definition AccountRecommend ::
  "http_lib \<Rightarrow> es_lib option \<Rightarrow> string body \<Rightarrow> string list http_answer dao" where
  "AccountRecommend H es body = serve_json body (doAccountRecommend H es)"

definition AccountSearchRoute ::
  "(rat \<Rightarrow> rat \<Rightarrow> nat \<Rightarrow> rat) \<Rightarrow> http_lib \<Rightarrow> search_req body \<Rightarrow> search_resp http_answer dao" where
  "AccountSearchRoute DivRound H body = serve_json body (doAccountSearch DivRound H)"

definition AccountDetail ::
  "(rat \<Rightarrow> rat \<Rightarrow> nat \<Rightarrow> rat) \<Rightarrow> http_lib \<Rightarrow> page_lib \<Rightarrow> string body \<Rightarrow> account_detail http_answer dao" where
  "AccountDetail DivRound H V body = serve_json body (doAccountDetail DivRound H V)"

definition AccountList ::
  "http_lib \<Rightarrow> key_info body \<Rightarrow> account_data list http_answer dao" where
  "AccountList H body = serve_json body (doAccountList H)"

definition AccountMine ::
  "http_lib \<Rightarrow> (key_info \<times> Pagination \<times> string \<times> Category) body \<Rightarrow> (nat \<times> account_data list) http_answer dao" where
  "AccountMine H body = serve_json body (\<lambda>(key, pg, kw, cat). doAccountMine H key pg kw cat)"

definition AccountRecords ::
  "http_lib \<Rightarrow> string body \<Rightarrow> records_row list http_answer dao" where
  "AccountRecords H body = serve_json body (doAccountRecords H)"

definition TransactionList ::
  "http_lib \<Rightarrow> page_lib \<Rightarrow> (key_info \<times> Pagination) body \<Rightarrow> (nat \<times> data_transaction list) http_answer dao" where
  "TransactionList H V body = serve_json body (\<lambda>(key, pg). doTransactionList H V key pg)"

definition TransactionStatus ::
  "http_lib \<Rightarrow> page_lib \<Rightarrow> (key_info \<times> TxAction list) body \<Rightarrow> (64 word \<times> string \<times> TxAction \<times> int) http_answer dao" where
  "TransactionStatus H V body = serve_json body (\<lambda>(key, acts). doTransactionStatus H V key acts)"

definition WithdrawList ::
  "http_lib \<Rightarrow> page_lib \<Rightarrow> (key_info \<times> Pagination) body \<Rightarrow> (nat \<times> nat \<times> (string \<times> 64 word \<times> nat) list) http_answer dao" where
  "WithdrawList H V body = serve_json body (\<lambda>(key, pg). doWithdrawList H V key pg)"

definition RewardsMine ::
  "http_lib \<Rightarrow> (key_info \<times> Pagination) body \<Rightarrow> (nat \<times> nat \<times> (string \<times> 64 word \<times> nat) list) http_answer dao" where
  "RewardsMine H body = serve_json body (\<lambda>(key, pg). doRewardsMine H key pg)"

definition RegisteringList ::
  "http_lib \<Rightarrow> key_info body \<Rightarrow> registering_data list http_answer dao" where
  "RegisteringList H body = serve_json body (doRegisteringList H)"

definition OrderDetail ::
  "http_lib \<Rightarrow> page_lib \<Rightarrow> (key_info \<times> string \<times> DasAction) body \<Rightarrow> order_detail http_answer dao" where
  "OrderDetail H V body = serve_json body (\<lambda>(key, account, act). doOrderDetail H V key account act)"

definition BalanceInfo ::
  "http_lib \<Rightarrow> page_lib \<Rightarrow> (key_info \<times> string) body \<Rightarrow> (64 word \<times> 64 word) http_answer dao" where
  "BalanceInfo H V body = serve_json body (\<lambda>(key, ta). doBalanceInfo H V key ta)"

definition AddressDeposit ::
  "page_lib \<Rightarrow> (int \<times> string) body \<Rightarrow> string http_answer dao" where
  "AddressDeposit V body = serve_json body (\<lambda>(alg, ad). doAddressDeposit V alg ad)"

definition DidCellList ::
  "page_lib \<Rightarrow> (key_info \<times> Pagination \<times> string) body \<Rightarrow> (nat \<times> (string \<times> 64 word) list) http_answer dao" where
  "DidCellList V body = serve_json body (\<lambda>(key, pg, kw). doDidCellList V key pg kw)"

definition DidCellUpgradableList ::
  "page_lib \<Rightarrow> (key_info \<times> Pagination \<times> string) body \<Rightarrow> (nat \<times> upgradable_account list) http_answer dao" where
  "DidCellUpgradableList V body = serve_json body (\<lambda>(key, pg, kw). doDidCellUpgradableList V key pg kw)"

definition DidCellRecyclableList ::
  "http_lib \<Rightarrow> page_lib \<Rightarrow> (key_info \<times> Pagination \<times> string) body \<Rightarrow> (nat \<times> did_recyclable list) http_answer dao" where
  "DidCellRecyclableList H V body = serve_json body (\<lambda>(key, pg, kw). doDidCellRecyclableList H V key pg kw)"

definition RefundApply :: "recycle_lib \<Rightarrow> refund_req body \<Rightarrow> unit http_answer dao" where
  "RefundApply K body = serve_json body (doRefundApplyRequest K)"

definition AccountRegister ::
  "(rat \<Rightarrow> rat \<Rightarrow> nat \<Rightarrow> rat) \<Rightarrow> http_lib \<Rightarrow> (string \<Rightarrow> gerr + account_char_set list) \<Rightarrow> token_map \<Rightarrow> internal_req body \<Rightarrow> string http_answer dao" where
  "AccountRegister DivRound H charList m body = serve_json body (doAccountRegister DivRound H charList m)"

definition AccountRenew ::
  "(rat \<Rightarrow> rat \<Rightarrow> nat \<Rightarrow> rat) \<Rightarrow> http_lib \<Rightarrow> renew_lib \<Rightarrow> token_map \<Rightarrow> renew_req body \<Rightarrow> string http_answer dao" where
  "AccountRenew DivRound H G m body = serve_json body (doAccountRenew DivRound H G m)"

definition DasOrderDetail ::
  "(string list) body \<Rightarrow> (string \<times> OrderStatus \<times> DasAction \<times> string \<times> string \<times> RegisterStatus) list http_answer dao" where
  "DasOrderDetail body = serve_json body doDasOrderDetail"

definition CreateCouponRoute ::
  "http_lib \<Rightarrow> (string \<Rightarrow> int option) \<Rightarrow> (nat \<Rightarrow> nat \<Rightarrow> string list) \<Rightarrow> (string \<Rightarrow> string list \<Rightarrow> gerr + unit) \<Rightarrow> create_coupon_req body \<Rightarrow> unit http_answer dao" where
  "CreateCouponRoute H parse draw wr body = serve_json body (doCreateCoupon H parse draw wr)"

section \<open>router.go\<close>

text \<open>Everything outside that a request may need.\<close>

record server =
  sv_DivRound :: "rat \<Rightarrow> rat \<Rightarrow> nat \<Rightarrow> rat"
  sv_Http :: http_lib
  sv_Info :: info_lib
  sv_Sign :: sign_lib
  sv_Edit :: edit_lib
  sv_Bal :: bal_lib
  sv_Did :: did_lib
  sv_Renew :: renew_lib
  sv_Auction :: auction_lib
  sv_Page :: page_lib
  sv_Recycle :: recycle_lib
  sv_Es :: "es_lib option"
  sv_CharList :: "string \<Rightarrow> gerr + account_char_set list"
  sv_Parse :: "string \<Rightarrow> int option"
  sv_Draw :: "nat \<Rightarrow> nat \<Rightarrow> string list"
  sv_Write :: "string \<Rightarrow> string list \<Rightarrow> gerr + unit"
  sv_ToChainType :: "int \<Rightarrow> int"

datatype reply =
    RespNothing
  | RespConfigInfo config_info
  | RespTokenList "token_row set"
  | RespAccountList "account_data list"
  | RespAccountMine "(nat \<times> account_data list)"
  | RespAccountDetail account_detail
  | RespAccountRecords "records_row list"
  | RespTransactionStatus "(64 word \<times> string \<times> TxAction \<times> int)"
  | RespBalanceInfo "(64 word \<times> 64 word)"
  | RespTransactionList "(nat \<times> data_transaction list)"
  | RespRewards "(nat \<times> nat \<times> (string \<times> 64 word \<times> nat) list)"
  | RespAccountSearch search_resp
  | RespRegisteringList "registering_data list"
  | RespOrderDetail order_detail
  | RespString string
  | RespAuctionInfo auction_page
  | RespAuctionPrice "(rat \<times> rat \<times> rat)"
  | RespAuctionOrder auction_reply
  | RespAuctionOrders "auction_reply list"
  | RespStrings "string list"
  | RespDidCells "(nat \<times> (string \<times> 64 word) list)"
  | RespUpgradable "(nat \<times> upgradable_account list)"
  | RespUpgradePrice "(rat \<times> rat)"
  | RespRecyclable "(nat \<times> did_recyclable list)"
  | RespSignInfo sign_info
  | RespDidCell did_resp
  | RespOrder order_resp
  | RespCheckCoupon "(CouponType option \<times> CouponStatus)"
  | RespOrders "(string \<times> OrderStatus \<times> DasAction \<times> string \<times> string \<times> RegisterStatus) list"

datatype http_req =
    PostConfigInfo
  | PostTokenList
  | PostAccountList "key_info body"
  | PostAccountMine "(key_info \<times> Pagination \<times> string \<times> Category) body"
  | PostAccountDetail "string body"
  | PostAccountRecords "string body"
  | PostTransactionStatus "(key_info \<times> TxAction list) body"
  | PostBalanceInfo "(key_info \<times> string) body"
  | PostTransactionList "(key_info \<times> Pagination) body"
  | PostRewardsMine "(key_info \<times> Pagination) body"
  | PostWithdrawList "(key_info \<times> Pagination) body"
  | PostAccountSearch "search_req body"
  | PostRegisteringList "key_info body"
  | PostOrderDetail "(key_info \<times> string \<times> DasAction) body"
  | PostAddressDeposit "(int \<times> string) body"
  | PostAuctionInfo "bid_req body"
  | PostAuctionPrice "string body"
  | PostAuctionOrderStatus "(key_info \<times> string) body"
  | PostAuctionPendingOrder "key_info body"
  | PostAccountRecommend "string body"
  | PostDidCellList "(key_info \<times> Pagination \<times> string) body"
  | PostDidCellUpgradableList "(key_info \<times> Pagination \<times> string) body"
  | PostDidCellUpgradePrice "did_account_req body"
  | PostDidCellRecyclableList "(key_info \<times> Pagination \<times> string) body"
  | PostDidCellDasLockEditOwner "das_lock_req body"
  | PostTransactionSend "sign_info body"
  | PostBalancePay "balance_pay_req body"
  | PostBalanceWithdraw "withdraw_req body"
  | PostBalanceTransfer "transfer_req body"
  | PostBalanceDeposit "deposit_req body"
  | PostEditManager "edit_lock_req body"
  | PostEditOwner "did_owner_req body"
  | PostEditRecords "did_record_req body"
  | PostOrderRenew "did_renew_req body"
  | PostOrderRegister "register_req body"
  | PostOrderChange "change_req body"
  | PostOrderPayHash "pay_hash_req body"
  | PostCheckCoupon "string body"
  | PostAuctionBid "bid_req body"
  | PostDidCellRecycle "did_account_req body"
  | InternalRefundApply "refund_req body"
  | InternalAccountRegister "internal_req body"
  | InternalAccountRenew "renew_req body"
  | InternalOrderDetail "(string list) body"
  | InternalCreateCoupon "create_coupon_req body"
  | InternalUniPayNotice "notice_req body"

fun route :: "server \<Rightarrow> token_map \<Rightarrow> http_req \<Rightarrow> reply http_answer dao" where
  "route S m PostConfigInfo = as_reply RespConfigInfo (ConfigInfoRoute (sv_Http S) (sv_Info S))"
| "route S m PostTokenList = as_reply RespTokenList (TokenList m)"
| "route S m (PostAccountList body) = as_reply RespAccountList (AccountList (sv_Http S) body)"
| "route S m (PostAccountMine body) = as_reply RespAccountMine (AccountMine (sv_Http S) body)"
| "route S m (PostAccountDetail body) = as_reply RespAccountDetail (AccountDetail (sv_DivRound S) (sv_Http S) (sv_Page S) body)"
| "route S m (PostAccountRecords body) = as_reply RespAccountRecords (AccountRecords (sv_Http S) body)"
| "route S m (PostTransactionStatus body) = as_reply RespTransactionStatus (TransactionStatus (sv_Http S) (sv_Page S) body)"
| "route S m (PostBalanceInfo body) = as_reply RespBalanceInfo (BalanceInfo (sv_Http S) (sv_Page S) body)"
| "route S m (PostTransactionList body) = as_reply RespTransactionList (TransactionList (sv_Http S) (sv_Page S) body)"
| "route S m (PostRewardsMine body) = as_reply RespRewards (RewardsMine (sv_Http S) body)"
| "route S m (PostWithdrawList body) = as_reply RespRewards (WithdrawList (sv_Http S) (sv_Page S) body)"
| "route S m (PostAccountSearch body) = as_reply RespAccountSearch (AccountSearchRoute (sv_DivRound S) (sv_Http S) body)"
| "route S m (PostRegisteringList body) = as_reply RespRegisteringList (RegisteringList (sv_Http S) body)"
| "route S m (PostOrderDetail body) = as_reply RespOrderDetail (OrderDetail (sv_Http S) (sv_Page S) body)"
| "route S m (PostAddressDeposit body) = as_reply RespString (AddressDeposit (sv_Page S) body)"
| "route S m (PostAuctionInfo body) = as_reply RespAuctionInfo (GetAccountAuctionInfo (sv_DivRound S) (sv_Http S) (sv_Auction S) body)"
| "route S m (PostAuctionPrice body) = as_reply RespAuctionPrice (GetAccountAuctionPrice (sv_DivRound S) (sv_Http S) (sv_Auction S) body)"
| "route S m (PostAuctionOrderStatus body) = as_reply RespAuctionOrder (GetAuctionOrderStatusRoute (sv_Auction S) body)"
| "route S m (PostAuctionPendingOrder body) = as_reply RespAuctionOrders (GetPendingAuctionOrderRoute (sv_Auction S) body)"
| "route S m (PostAccountRecommend body) = as_reply RespStrings (AccountRecommend (sv_Http S) (sv_Es S) body)"
| "route S m (PostDidCellList body) = as_reply RespDidCells (DidCellList (sv_Page S) body)"
| "route S m (PostDidCellUpgradableList body) = as_reply RespUpgradable (DidCellUpgradableList (sv_Page S) body)"
| "route S m (PostDidCellUpgradePrice body) = as_reply RespUpgradePrice (DidCellUpgradePrice (sv_DivRound S) (sv_Http S) (sv_Did S) body)"
| "route S m (PostDidCellRecyclableList body) = as_reply RespRecyclable (DidCellRecyclableList (sv_Http S) (sv_Page S) body)"
| "route S m (PostDidCellDasLockEditOwner body) = as_reply RespSignInfo (DidCellDasLockEditOwner (sv_Http S) (sv_Did S) body)"
| "route S m (PostTransactionSend body) = as_reply RespString (TransactionSend (sv_Http S) (sv_Sign S) body)"
| "route S m (PostBalancePay body) = as_reply RespSignInfo (BalancePay (sv_Http S) (sv_Bal S) body)"
| "route S m (PostBalanceWithdraw body) = as_reply RespSignInfo (BalanceWithdraw (sv_Http S) (sv_Bal S) body)"
| "route S m (PostBalanceTransfer body) = as_reply RespSignInfo (BalanceTransfer (sv_Http S) (sv_Bal S) body)"
| "route S m (PostBalanceDeposit body) = as_reply RespSignInfo (BalanceDeposit (sv_Http S) (sv_Bal S) body)"
| "route S m (PostEditManager body) = as_reply RespSignInfo (EditManager (sv_Http S) (sv_Edit S) body)"
| "route S m (PostEditOwner body) = as_reply RespDidCell (DidCellEditOwner (sv_DivRound S) (sv_Http S) (sv_Did S) m body)"
| "route S m (PostEditRecords body) = as_reply RespSignInfo (DidCellEditRecord (sv_Http S) (sv_Did S) body)"
| "route S m (PostOrderRenew body) = as_reply RespDidCell (DidCellRenew (sv_DivRound S) (sv_Http S) (sv_Renew S) (sv_Did S) m body)"
| "route S m (PostOrderRegister body) = as_reply RespOrder (OrderRegisterRoute (sv_DivRound S) (sv_Http S) m body)"
| "route S m (PostOrderChange body) = as_reply RespOrder (OrderChange (sv_DivRound S) (sv_Http S) m body)"
| "route S m (PostOrderPayHash body) = as_reply (\<lambda>_. RespNothing) (OrderPayHash (sv_Http S) body)"
| "route S m (PostCheckCoupon body) = as_reply RespCheckCoupon (CheckCoupon (sv_Http S) body)"
| "route S m (PostAuctionBid body) = as_reply RespSignInfo (AccountAuctionBid (sv_DivRound S) (sv_Http S) (sv_Auction S) body)"
| "route S m (PostDidCellRecycle body) = as_reply RespSignInfo (DidCellRecycle (sv_Http S) (sv_Renew S) (sv_Did S) body)"
| "route S m (InternalRefundApply body) = as_reply (\<lambda>_. RespNothing) (RefundApply (sv_Recycle S) body)"
| "route S m (InternalAccountRegister body) = as_reply RespString (AccountRegister (sv_DivRound S) (sv_Http S) (sv_CharList S) m body)"
| "route S m (InternalAccountRenew body) = as_reply RespString (AccountRenew (sv_DivRound S) (sv_Http S) (sv_Renew S) m body)"
| "route S m (InternalOrderDetail body) = as_reply RespOrders (DasOrderDetail body)"
| "route S m (InternalCreateCoupon body) = as_reply (\<lambda>_. RespNothing) (CreateCouponRoute (sv_Http S) (sv_Parse S) (sv_Draw S) (sv_Write S) body)"
| "route S m (InternalUniPayNotice body) = as_reply (\<lambda>_. RespNothing) (UniPayNotice (sv_ToChainType S) body)"

text \<open>In front of some routes stands a cache that answers equal requests for three or for ten minutes.\<close>

datatype cache_kind = NoCache | ShortCache | LongCache

fun route_cache :: "http_req \<Rightarrow> cache_kind" where
  "route_cache PostConfigInfo = ShortCache"
| "route_cache PostTokenList = LongCache"
| "route_cache (PostAccountList _) = LongCache"
| "route_cache (PostAccountMine _) = LongCache"
| "route_cache (PostAccountDetail _) = LongCache"
| "route_cache (PostAccountRecords _) = ShortCache"
| "route_cache (PostTransactionStatus _) = ShortCache"
| "route_cache (PostBalanceInfo _) = LongCache"
| "route_cache (PostTransactionList _) = LongCache"
| "route_cache (PostRewardsMine _) = LongCache"
| "route_cache (PostWithdrawList _) = LongCache"
| "route_cache (PostAccountSearch _) = ShortCache"
| "route_cache (PostRegisteringList _) = LongCache"
| "route_cache (PostAddressDeposit _) = LongCache"
| "route_cache (PostAuctionPendingOrder _) = LongCache"
| "route_cache (PostAccountRecommend _) = ShortCache"
| "route_cache (PostDidCellList _) = ShortCache"
| "route_cache (PostDidCellUpgradableList _) = ShortCache"
| "route_cache (PostDidCellUpgradePrice _) = ShortCache"
| "route_cache (PostDidCellRecyclableList _) = ShortCache"
| "route_cache (PostCheckCoupon _) = ShortCache"
| "route_cache _ = NoCache"

section \<open>What a request does\<close>

text \<open>A response that was filled in by a handler, or by nobody.\<close>

lemma answered_world: "snd (answered m w) = snd (m w)"
  by (auto simp: answered_def catchM_def bindM_def okM_def errM_def split: prod.splits sum.splits gerr.splits)

lemma serve_json_world: "snd (serve_json body h w) = (case body of Inl _ \<Rightarrow> w | Inr req \<Rightarrow> snd (h req w))"
  by (simp add: serve_json_def answered_world okM_def split: sum.splits)

lemma as_reply_world: "snd (as_reply f m w) = snd (m w)"
  by (auto simp: as_reply_def bindM_def okM_def split: prod.splits sum.splits)

lemma UniPayNotice_world:
  "snd (UniPayNotice ct body w) =
    (case body of Inl _ \<Rightarrow> w | Inr req \<Rightarrow> snd (doUniPayNotice ct (no_BusinessId req) (no_EventList req) w))"
  by (auto simp: UniPayNotice_def bindM_def okM_def split: prod.splits sum.splits)

lemma answered_cases:
  "answered m w = (Inr (HttpAnswer c d), w') \<longleftrightarrow>
     (\<exists>x. m w = (Inr x, w') \<and> c = None \<and> d = Some x)
     \<or> (\<exists>e. m w = (Inl e, w') \<and> e \<noteq> GoPanic \<and> d = None \<and> c = (case e of Api k \<Rightarrow> Some k | _ \<Rightarrow> None))"
  by (auto simp: answered_def catchM_def bindM_def okM_def errM_def split: prod.splits sum.splits gerr.splits)

lemmas route_defs = TransactionSend_def BalancePay_def BalanceWithdraw_def BalanceTransfer_def
  BalanceDeposit_def EditManager_def DidCellEditOwner_def DidCellEditRecord_def
  DidCellRenew_def DidCellRecycle_def DidCellUpgradePrice_def DidCellDasLockEditOwner_def
  OrderRegisterRoute_def OrderChange_def OrderPayHash_def CheckCoupon_def
  AccountAuctionBid_def GetAccountAuctionInfo_def GetAccountAuctionPrice_def GetAuctionOrderStatusRoute_def
  GetPendingAuctionOrderRoute_def AccountRecommend_def AccountSearchRoute_def AccountDetail_def
  AccountList_def AccountMine_def AccountRecords_def TransactionList_def
  TransactionStatus_def WithdrawList_def RewardsMine_def RegisteringList_def
  OrderDetail_def BalanceInfo_def AddressDeposit_def DidCellList_def
  DidCellUpgradableList_def DidCellRecyclableList_def RefundApply_def AccountRegister_def
  AccountRenew_def DasOrderDetail_def CreateCouponRoute_def ConfigInfoRoute_def
  TokenList_def doTokenList_def

text \<open>An operation that keeps the tables is a step in which nothing but the outside moves.\<close>

lemma readonly_serves: "upholds (=) m \<Longrightarrow> serves w (snd (m w))"
proof -
  assume m: "upholds (=) m"
  then have "tabs (snd (m w)) = tabs w" "snap (snd (m w)) = snap w" by (simp_all add: upholds_def)
  then have "snd (m w) = w\<lparr>tabs := foreign (tabs w) (tokens (tabs w)) (accounts (tabs w)) (did_cells (tabs w))
      (transactions (tabs w)) (records (tabs w)) (reverses (tabs w)) (rebates (tabs w)),
      faults := faults (snd (m w)), trace := trace (snd (m w)), redis := redis (snd (m w)), now := now (snd (m w))\<rparr>"
    by (simp add: foreign_def)
  then show ?thesis using serves.outside by metis
qed

text \<open>Whatever a request asks for and however its body reads, the service makes at most the one
  transition of its handler; a body that cannot be read changes nothing.\<close>

lemma route_serves: "route S m req w = (r, w') \<Longrightarrow> w' = w \<or> serves w w'"
proof -
  have "snd (route S m req w) = w \<or> serves w (snd (route S m req w))"
    by (cases req; simp only: route.simps as_reply_world; (simp only: route_defs serve_json_world UniPayNotice_world answered_world)?;
        auto split: sum.splits prod.splits intro: serves.intros readonly_serves simp: okM_def)
  then show "route S m req w = (r, w') \<Longrightarrow> w' = w \<or> serves w w'" by simp
qed

end
