(* ===== verification/Program.thy ===== *)
theory Program
  imports Server
begin

text \<open>
  The program as \<open>src/cmd/main.go\<close> puts it together: the workers that \<open>timer.go\<close>, \<open>txtool.go\<close>, the
  files of \<open>src/unipay\<close> and the block parser start, each a goroutine that waits for its tickers; the
  HTTP server; and what the process keeps in memory between two ticks. A panic in a job is recovered
  outside the loop of its goroutine, so the goroutine ends and none of its jobs runs again; a panic
  in the job of the cron library ends the process. A job that does not return keeps its goroutine
  for good. Workers are modelled as taking turns, one whole job at a time.
\<close>

section \<open>The process\<close>

datatype run_mode = ApiMode | TimerMode | BothModes

datatype worker =
    TokenWorker | ExpiryWorker | RecycleWorker | RecoverWorker | CouponWorker | CronWorker
  | ToolWorker | DidCellWorker | ConfirmWorker | RefundWorker | HedgeWorker | InfoWorker | ParserWorker

text \<open>The accounts that are reserved and those that are not sold.\<close>

record account_maps =
  am_Reserved :: "string \<Rightarrow> bool"
  am_UnAvailable :: "string \<Rightarrow> bool"

record process =
  pr_Mode :: run_mode
  pr_UniPayUrl :: string
  pr_CronSpec :: string
  pr_RebootTime :: int
  pr_Tokens :: token_map
  pr_Accounts :: account_maps
  pr_Recycle :: recycle_state
  pr_CurrentBlockNumber :: "64 word"
  pr_Stopped :: "worker list"
  pr_Down :: bool

text \<open>The arguments of one job: the configuration, das-lib, the node and unipay as it meets them.\<close>

record jobs =
  jb_DivRound :: "rat \<Rightarrow> rat \<Rightarrow> nat \<Rightarrow> rat"
  jb_IsLatest :: bool
  jb_Node :: node
  jb_RecycleAllPre :: bool
  jb_RecycleLib :: recycle_lib
  jb_RecoverLib :: txlib
  jb_RecoverCkb :: "64 word"
  jb_LiveCells :: "gerr + (string \<times> 64 word \<times> string option) list"
  jb_TxToolSwitch :: bool
  jb_TxLibs :: "order_row \<Rightarrow> txlib"
  jb_ToChainType :: "int \<Rightarrow> int"
  jb_PaymentInfo :: "string list \<Rightarrow> string list \<Rightarrow> gerr + payment_info list"
  jb_RefundSwitch :: bool
  jb_RefundOrder :: "(string \<times> string) list \<Rightarrow> gerr + unit"
  jb_HedgeUrl :: string
  jb_HedgePost :: "string \<Rightarrow> PayTokenId \<Rightarrow> rat \<Rightarrow> gerr + (nat \<times> int)"
  jb_LarkKey :: string
  jb_OwnerCount :: "gerr + nat"
  jb_Lib :: lib
  jb_Chain :: chain
  jb_ConcurrencyNum :: "64 word"
  jb_ConfirmNum :: "64 word"

section \<open>Ticks\<close>

datatype timer_tick =
  TickToken | TickRejected | TickTxRejected | TickExpired | TickRefundApply | TickRecover
| TickClosedAndUnRefund | TickResetCoupon

datatype tool_tick = TickApply | TickPreRegister | TickRenew

datatype tick =
    TimerTick timer_tick | ToolTick tool_tick | TickDidCell | TickSearchStatus | TickRefund | TickHedge
  | TickRegister | TickCron | ParserTurn

definition logged :: "('t, unit) act \<Rightarrow> ('t, unit) act" where
  "logged m = catchM m (\<lambda>_. okM ())"

definition reported :: "string \<Rightarrow> ('t, unit) act \<Rightarrow> ('t, unit) act" where
  "reported job m = catchM m (\<lambda>_. emitM (LarkErr job))"

fun Run :: "jobs \<Rightarrow> timer_tick \<Rightarrow> process \<Rightarrow> process dao" where
  "Run J TickToken p = bindM (tryM doUpdateTokenMap) (\<lambda>r.
     okM (case r of Inl _ \<Rightarrow> p | Inr mapToken \<Rightarrow> p\<lparr>pr_Tokens := mapToken\<rparr>))"
| "Run J TickRejected p = thenM (logged (checkRejected (jb_IsLatest J) (jb_Node J))) (okM p)"
| "Run J TickTxRejected p = thenM (logged (doTxRejected (jb_Node J))) (okM p)"
| "Run J TickExpired p = thenM (logged checkExpired) (okM p)"
| "Run J TickRefundApply p = thenM (logged (doRecycleApply (jb_RecycleLib J)))
     (if jb_RecycleAllPre J
      then bindM (run_recycle_pre (jb_RecycleLib J) (pr_Recycle p)) (\<lambda>s. okM (p\<lparr>pr_Recycle := s\<rparr>))
      else okM p)"
| "Run J TickRecover p = (case doRecoverCkb (jb_RecoverLib J) (jb_RecoverCkb J) (jb_LiveCells J) of
     None \<Rightarrow> errM GoPanic | Some m \<Rightarrow> thenM (logged m) (okM p))"
| "Run J TickClosedAndUnRefund p = thenM (logged doCheckClosedAndUnRefund) (okM p)"
| "Run J TickResetCoupon p = thenM (logged DoResetCoupon) (okM p)"

fun tool_Run :: "jobs \<Rightarrow> tool_tick \<Rightarrow> process \<Rightarrow> unit dao" where
  "tool_Run J TickApply p = (if jb_TxToolSwitch J
     then reported ''doOrderApplyTx'' (doOrderApplyTx (pr_RebootTime p) (jb_TxLibs J)) else okM ())"
| "tool_Run J TickPreRegister p = (if jb_TxToolSwitch J
     then reported ''doOrderPreRegisterTx'' (doOrderPreRegisterTx (pr_RebootTime p) (jb_TxLibs J)) else okM ())"
| "tool_Run J TickRenew p = (if jb_TxToolSwitch J
     then reported ''doOrderRenewTx'' (doOrderRenewTx (pr_RebootTime p) (jb_TxLibs J)) else okM ())"

definition RunDidCellTx :: "jobs \<Rightarrow> unit dao" where
  "RunDidCellTx J = reported ''doDidCellTx'' (doDidCellTx (jb_TxLibs J))"

definition RunConfirmStatus :: "jobs \<Rightarrow> unit dao" where
  "RunConfirmStatus J = reported ''doConfirmStatus'' (doConfirmStatus (jb_ToChainType J) (jb_PaymentInfo J))"

definition RunOrderRefund :: "jobs \<Rightarrow> unit dao" where
  "RunOrderRefund J = reported ''doRefund'' (doRefund (jb_RefundSwitch J) (jb_RefundOrder J))"

definition RunDoOrderHedge :: "jobs \<Rightarrow> token_map \<Rightarrow> unit dao" where
  "RunDoOrderHedge J mapToken =
     reported ''doOrderHedge'' (doOrderHedge (jb_DivRound J) mapToken (jb_HedgeUrl J) (jb_HedgePost J))"

definition RunRegisterInfo :: "jobs \<Rightarrow> unit dao" where
  "RunRegisterInfo J = reported ''doRegisterInfo'' (doRegisterInfo (jb_LarkKey J) (liftM (jb_OwnerCount J)))"

definition DoRecyclePreEarly :: "jobs \<Rightarrow> process \<Rightarrow> process dao" where
  "DoRecyclePreEarly J p =
     bindM (run_recycle_early (jb_RecycleLib J) (pr_Recycle p)) (\<lambda>s. okM (p\<lparr>pr_Recycle := s\<rparr>))"

fun worker_of :: "tick \<Rightarrow> worker" where
  "worker_of (TimerTick t) =
     (if t \<in> {TickToken, TickRejected, TickTxRejected} then TokenWorker
      else if t = TickExpired then ExpiryWorker
      else if t = TickRefundApply then RecycleWorker
      else if t = TickRecover then RecoverWorker
      else CouponWorker)"
| "worker_of (ToolTick _) = ToolWorker"
| "worker_of TickDidCell = DidCellWorker"
| "worker_of TickSearchStatus = ConfirmWorker"
| "worker_of TickRefund = RefundWorker"
| "worker_of TickHedge = HedgeWorker"
| "worker_of TickRegister = InfoWorker"
| "worker_of TickCron = CronWorker"
| "worker_of ParserTurn = ParserWorker"

fun run_tick :: "jobs \<Rightarrow> tick \<Rightarrow> process \<Rightarrow> process dao" where
  "run_tick J (TimerTick t) p = Run J t p"
| "run_tick J (ToolTick t) p = thenM (tool_Run J t p) (okM p)"
| "run_tick J TickDidCell p = thenM (RunDidCellTx J) (okM p)"
| "run_tick J TickSearchStatus p = thenM (RunConfirmStatus J) (okM p)"
| "run_tick J TickRefund p = thenM (RunOrderRefund J) (okM p)"
| "run_tick J TickHedge p = thenM (RunDoOrderHedge J (pr_Tokens p)) (okM p)"
| "run_tick J TickRegister p = thenM (RunRegisterInfo J) (okM p)"
| "run_tick J TickCron p = DoRecyclePreEarly J p"
| "run_tick J ParserTurn p =
     bindM (run_round (jb_Lib J) (jb_ConcurrencyNum J) (jb_ConfirmNum J) (jb_Chain J) (pr_CurrentBlockNumber p))
       (\<lambda>n. okM (p\<lparr>pr_CurrentBlockNumber := n\<rparr>))"

section \<open>Starting\<close>

text \<open>Which workers \<open>initTimer\<close> starts.\<close>

definition started :: "process \<Rightarrow> worker \<Rightarrow> bool" where
  "started p k \<longleftrightarrow> pr_Mode p \<noteq> ApiMode
     \<and> (k \<in> {ConfirmWorker, RefundWorker, HedgeWorker, InfoWorker} \<longrightarrow> pr_UniPayUrl p \<noteq> '''')
     \<and> (k = CronWorker \<longrightarrow> pr_CronSpec p \<noteq> '''')"

definition first_process :: "run_mode \<Rightarrow> string \<Rightarrow> string \<Rightarrow> int \<Rightarrow> process" where
  "first_process mode url spec reboot =
     \<lparr>pr_Mode = mode, pr_UniPayUrl = url, pr_CronSpec = spec, pr_RebootTime = reboot, pr_Tokens = (\<lambda>_. None),
      pr_Accounts = \<lparr>am_Reserved = (\<lambda>_. False), am_UnAvailable = (\<lambda>_. False)\<rparr>,
      pr_Recycle = first_recycle_state, pr_CurrentBlockNumber = 0, pr_Stopped = [], pr_Down = False\<rparr>"

definition initTimer :: "chain \<Rightarrow> 64 word \<Rightarrow> process \<Rightarrow> process dao" where
  "initTimer nd cur p =
     bindM (wrapM ''txTimer.Run()'' (wrapM ''doUpdateTokenMap init token'' doUpdateTokenMap)) (\<lambda>mapToken.
     bindM (wrapM ''block parser'' (run_start nd cur)) (\<lambda>n.
       okM (p\<lparr>pr_Tokens := mapToken, pr_CurrentBlockNumber := n\<rparr>)))"

text \<open>The lists of accounts: from the configuration cells, or else from the copy in the cache.\<close>

record start_lib =
  al_ConfigCells :: "gerr + account_maps"
  al_Cache :: "gerr + string"
  al_Decode :: "string \<Rightarrow> gerr + account_maps"

definition initApiServer :: "start_lib \<Rightarrow> gerr + account_maps" where
  "initApiServer A =
     (case al_ConfigCells A of
        Inr builderConfigCell \<Rightarrow> Inr builderConfigCell
      | Inl err \<Rightarrow>
          let failed = Inl (In ''unavailable account and preserved account init'' err) in
          (case al_Cache A of
             Inl _ \<Rightarrow> failed
           | Inr strCache \<Rightarrow>
               if strCache = '''' then failed
               else (case al_Decode A strCache of Inl _ \<Rightarrow> failed | Inr cacheBuilder \<Rightarrow> Inr cacheBuilder)))"

definition runServer ::
  "run_mode \<Rightarrow> string \<Rightarrow> string \<Rightarrow> int \<Rightarrow> start_lib \<Rightarrow> chain \<Rightarrow> 64 word \<Rightarrow> process dao" where
  "runServer mode url spec reboot A nd cur =
     (let p = first_process mode url spec reboot;
          timer = wrapM ''initTimer'' (initTimer nd cur p);
          api = (\<lambda>p. bindM (wrapM ''initApiServer'' (liftM (initApiServer A))) (\<lambda>m. okM (p\<lparr>pr_Accounts := m\<rparr>)))
      in case mode of
           ApiMode \<Rightarrow> api p
         | TimerMode \<Rightarrow> timer
         | BothModes \<Rightarrow> bindM timer api)"

section \<open>Steps of the program\<close>

definition tick_step :: "jobs \<Rightarrow> tick \<Rightarrow> process \<times> db world \<Rightarrow> process \<times> db world" where
  "tick_step J t = (\<lambda>(p, w).
     if pr_Down p \<or> \<not> started p (worker_of t) \<or> worker_of t \<in> set (pr_Stopped p) then (p, w)
     else case run_tick J t p w of
       (Inr p', w') \<Rightarrow> (p', w')
     | (Inl _, w') \<Rightarrow> (if worker_of t = CronWorker then p\<lparr>pr_Down := True\<rparr>
                      else p\<lparr>pr_Stopped := worker_of t # pr_Stopped p\<rparr>, w'))"

text \<open>The handlers use what was loaded at the start.\<close>

definition wired :: "process \<Rightarrow> server \<Rightarrow> server" where
  "wired p S = S\<lparr>sv_Http := (sv_Http S)\<lparr>h_ReservedAccounts := am_Reserved (pr_Accounts p),
     h_UnAvailableAccounts := am_UnAvailable (pr_Accounts p)\<rparr>\<rparr>"

definition request_step :: "server \<Rightarrow> http_req \<Rightarrow> process \<times> db world \<Rightarrow> (gerr + reply http_answer) \<times> (process \<times> db world)" where
  "request_step S req = (\<lambda>(p, w).
     if pr_Down p \<or> pr_Mode p = TimerMode then (Inl (Errf ''connection refused''), (p, w))
     else case route (wired p S) (pr_Tokens p) req w of (r, w') \<Rightarrow> (r, (p, w')))"

inductive program_step :: "process \<times> db world \<Rightarrow> process \<times> db world \<Rightarrow> bool" where
  tick: "program_step c (tick_step J t c)"
| request: "program_step c (snd (request_step S req c))"
| outside: "program_step (p, w) (p, w\<lparr>tabs := foreign (tabs w) ks as ds xs rs vs bs, faults := fs, trace := es,
    redis := rd, now := n\<rparr>)"

abbreviation program_runs :: "process \<times> db world \<Rightarrow> process \<times> db world \<Rightarrow> bool" where
  "program_runs \<equiv> program_step\<^sup>*\<^sup>*"

inductive_cases program_stepE: "program_step c c'"

section \<open>The program is the service\<close>

text \<open>Operations made of transitions of the service.\<close>

definition made_of_steps :: "'a dao \<Rightarrow> bool" where
  "made_of_steps m \<longleftrightarrow> (\<forall>w. runs w (snd (m w)))"

lemma one_step: "(\<And>w. serves w (snd (m w))) \<Longrightarrow> made_of_steps m"
  by (auto simp: made_of_steps_def)

lemma no_step: "(\<And>w. snd (m w) = w) \<Longrightarrow> made_of_steps m"
  by (simp add: made_of_steps_def)

lemma bind_steps: "made_of_steps m \<Longrightarrow> (\<And>x. made_of_steps (k x)) \<Longrightarrow> made_of_steps (bindM m k)"
  unfolding made_of_steps_def
proof (rule allI)
  fix w assume m: "\<forall>w. runs w (snd (m w))" and k: "\<And>x. \<forall>w. runs w (snd (k x w))"
  show "runs w (snd (bindM m k w))"
  proof (cases "m w")
    case (Pair r w1)
    with m have "runs w w1" by (metis snd_conv)
    with k Pair show ?thesis by (cases r) (auto simp: bindM_def intro: rtranclp_trans)
  qed
qed

lemma then_steps: "made_of_steps m \<Longrightarrow> made_of_steps n \<Longrightarrow> made_of_steps (thenM m n)"
  unfolding thenM_def by (rule bind_steps)

lemma catch_steps: "made_of_steps m \<Longrightarrow> (\<And>e. made_of_steps (h e)) \<Longrightarrow> made_of_steps (catchM m h)"
  unfolding made_of_steps_def
proof (rule allI)
  fix w assume m: "\<forall>w. runs w (snd (m w))" and h: "\<And>e. \<forall>w. runs w (snd (h e w))"
  show "runs w (snd (catchM m h w))"
  proof (cases "m w")
    case (Pair r w1)
    with m have "runs w w1" by (metis snd_conv)
    with h Pair show ?thesis by (cases r) (auto simp: catchM_def intro: rtranclp_trans)
  qed
qed

lemma ok_steps: "made_of_steps (okM x)" and err_steps: "made_of_steps (errM e)"
  by (simp_all add: no_step okM_def errM_def)

lemma read_steps: "upholds (=) m \<Longrightarrow> made_of_steps m"
  by (intro one_step readonly_serves)

lemma emit_steps: "made_of_steps (emitM e)"
  by (intro read_steps readonly.emitM)

lemma try_steps: "made_of_steps m \<Longrightarrow> made_of_steps (tryM m)"
  unfolding tryM_def by (intro catch_steps bind_steps ok_steps) 

lemmas steps = bind_steps then_steps catch_steps ok_steps err_steps emit_steps try_steps

lemma job_steps:
  "made_of_steps (checkRejected b nd)" "made_of_steps (doTxRejected nd)" "made_of_steps checkExpired"
  "made_of_steps (doRecycleApply K)" "made_of_steps (run_recycle_pre K rs)" "made_of_steps (run_recycle_early K rs)"
  "made_of_steps doCheckClosedAndUnRefund" "made_of_steps DoResetCoupon" "made_of_steps (doOrderApplyTx rt Ls)"
  "made_of_steps (doOrderPreRegisterTx rt Ls)" "made_of_steps (doOrderRenewTx rt Ls)" "made_of_steps (doDidCellTx Ls)"
  "made_of_steps (doConfirmStatus ct api)" "made_of_steps (doRefund sw rapi)" "made_of_steps (doOrderHedge dr m url post)"
  "made_of_steps (run_round L conc conf bnd cur)"
  by (intro one_step serves.intros)+

lemma read_jobs: "made_of_steps doUpdateTokenMap" "made_of_steps (doRegisterInfo key (liftM n))"
  unfolding doUpdateTokenMap_def doRegisterInfo_def by (intro read_steps readonly.read_rules)+

lemma recover_steps: "doRecoverCkb L c cells = Some m \<Longrightarrow> made_of_steps m"
proof (rule read_steps)
  assume "doRecoverCkb L c cells = Some m"
  then show "upholds (=) m"
    unfolding doRecoverCkb_def recover_send_def sendM_def Let_def
    by (auto split: option.splits sum.splits if_splits prod.splits intro!: readonly.rules split: list.splits)
qed

lemma Run_steps: "made_of_steps (Run J t p)"
  by (cases t) (auto simp: logged_def intro!: steps job_steps read_jobs intro: recover_steps split: option.splits)

lemma tick_steps: "made_of_steps (run_tick J t p)"
proof (cases t)
  case (ToolTick k)
  then show ?thesis by (cases k) (auto simp: reported_def intro!: steps job_steps)
qed (auto simp: Run_steps reported_def RunDidCellTx_def RunConfirmStatus_def RunOrderRefund_def RunDoOrderHedge_def
      RunRegisterInfo_def DoRecyclePreEarly_def intro!: steps job_steps read_jobs)

lemma program_step_runs: "program_step c c' \<Longrightarrow> runs (snd c) (snd c')"
proof (induction rule: program_step.induct)
  case (tick c J t)
  obtain p w where c: "c = (p, w)" by force
  show ?case
    using tick_steps [of J t p] by (auto simp: c tick_step_def made_of_steps_def split: prod.splits sum.splits) (metis snd_conv)+
next
  case (request c S req)
  obtain p w where c: "c = (p, w)" by force
  show ?case
    by (auto simp: c request_step_def split: prod.splits dest!: route_serves)
next
  case (outside p w ks as ds xs rs vs bs fs es rd n)
  then show ?case by (auto intro: serves.outside)
qed



end
