(* ===== verification/ProgramSafety.thy ===== *)
theory ProgramSafety
  imports Program
begin

text \<open>
  What the way the program is put together guarantees, and what it does not: only routes that read
  stand behind a cache; a job that panics takes the other jobs of its goroutine with it; and a
  process that only serves the API never loads the table of prices, so that it can take gift cards
  and nothing else.
\<close>

section \<open>Cached routes\<close>

lemma readonly_CheckCoupon: "upholds (=) (doCheckCoupon H code)"
  unfolding doCheckCoupon_def getCouponInfo_def by (intro readonly.search_rules)

text \<open>C35. A request to a route behind a cache changes no table, so that it makes no difference to the
  database whether it is answered by the handler or from the cache.\<close>

theorem cached_routes_only_read:
  assumes "route_cache req \<noteq> NoCache"
  shows "tabs (snd (route S m req w)) = tabs w"
proof -
  have read: "upholds (=) h \<Longrightarrow> tabs (snd (h w)) = tabs w" for h :: "'a dao"
    by (simp add: upholds_def)
  show ?thesis
    using assms
    by (cases req; simp only: route.simps route_cache.simps as_reply_world; (simp only: route_defs serve_json_world answered_world)?;
        auto split: sum.splits prod.splits simp: okM_def
          intro!: upholdsD [of "(=)", symmetric] readonly.pages readonly.auctions readonly.did_readers readonly.doConfigInfo
            readonly.doAccountRecommend readonly.doAccountSearch readonly_CheckCoupon)
qed

section \<open>A panic\<close>

lemma run_tick_tokens:
  assumes "run_tick J t p w = (Inr p', w')" and "t \<noteq> TimerTick TickToken"
  shows "pr_Tokens p' = pr_Tokens p"
proof (cases t)
  case (TimerTick k)
  with assms show ?thesis by (cases k) (auto simp: ok_iffs errM_def split: option.splits if_splits)
qed (use assms in \<open>auto simp: ok_iffs DoRecyclePreEarly_def split: if_splits\<close>)

text \<open>What a tick never touches.\<close>

definition same_wiring :: "process \<Rightarrow> process \<Rightarrow> bool" where
  "same_wiring p p' \<longleftrightarrow> pr_Mode p' = pr_Mode p \<and> pr_UniPayUrl p' = pr_UniPayUrl p \<and> pr_CronSpec p' = pr_CronSpec p
     \<and> pr_Stopped p' = pr_Stopped p \<and> pr_Down p' = pr_Down p"

lemma run_tick_kept:
  assumes "run_tick J t p w = (Inr p', w')"
  shows "same_wiring p p'"
proof (cases t)
  case (TimerTick k)
  show ?thesis
  proof (cases "k = TickToken")
    case True
    with assms TimerTick show ?thesis
      by (auto simp: same_wiring_def bindM_def tryM_def catchM_def okM_def split: prod.splits sum.splits if_splits)
  next
    case False
    with assms TimerTick show ?thesis
      by (cases k) (auto simp: same_wiring_def ok_iffs errM_def split: option.splits if_splits)
  qed
qed (use assms in \<open>auto simp: same_wiring_def ok_iffs DoRecyclePreEarly_def split: if_splits\<close>)

text \<open>A tick is left out, is done, or ends its worker or the process.\<close>

lemma tick_step_cases:
  obtains "tick_step J t (p, w) = (p, w)"
  | p' w' where "worker_of t \<notin> set (pr_Stopped p)" "pr_Mode p \<noteq> ApiMode" "run_tick J t p w = (Inr p', w')"
      "tick_step J t (p, w) = (p', w')"
  | e w' where "run_tick J t p w = (Inl e, w')" "tick_step J t (p, w) = (p\<lparr>pr_Down := True\<rparr>, w')"
  | e w' where "run_tick J t p w = (Inl e, w')" "tick_step J t (p, w) = (p\<lparr>pr_Stopped := worker_of t # pr_Stopped p\<rparr>, w')"
proof (cases "pr_Down p \<or> \<not> started p (worker_of t) \<or> worker_of t \<in> set (pr_Stopped p)")
  case False
  obtain r w' where r: "run_tick J t p w = (r, w')" by force
  from False have on: "worker_of t \<notin> set (pr_Stopped p)" "pr_Mode p \<noteq> ApiMode" by (simp_all add: started_def)
  show ?thesis
  proof (cases r)
    case (Inl e)
    with False r have step: "tick_step J t (p, w) = (if worker_of t = CronWorker then p\<lparr>pr_Down := True\<rparr>
        else p\<lparr>pr_Stopped := worker_of t # pr_Stopped p\<rparr>, w')"
      by (simp add: tick_step_def del: run_tick.simps worker_of.simps)
    from r Inl have run: "run_tick J t p w = (Inl e, w')" by (simp only:)
    show ?thesis
    proof (cases "worker_of t = CronWorker")
      case True
      then show ?thesis using step by (intro that(3) [OF run]) (simp only: simp_thms if_True)
    next
      case False
      then show ?thesis using step by (intro that(4) [OF run]) (simp only: simp_thms if_False)
    qed
  next
    case (Inr p')
    with False r have "tick_step J t (p, w) = (p', w')" by (simp add: tick_step_def del: run_tick.simps worker_of.simps)
    with r Inr on that(2) show ?thesis by blast
  qed
next
  case True
  then have "tick_step J t (p, w) = (p, w)" unfolding tick_step_def by (simp only: prod.case if_True)
  then show ?thesis by (rule that(1))
qed

definition token_worker_stopped :: "token_map \<Rightarrow> process \<Rightarrow> bool" where
  "token_worker_stopped m p \<longleftrightarrow> TokenWorker \<in> set (pr_Stopped p) \<and> pr_Tokens p = m"

lemma stopped_step: "program_step c c' \<Longrightarrow> token_worker_stopped m (fst c) \<Longrightarrow> token_worker_stopped m (fst c')"
proof (induction rule: program_step.induct)
  case (tick c J t)
  obtain p w where c: "c = (p, w)" by force
  show ?case
  proof (cases rule: tick_step_cases [of J t p w])
    case (2 p' w')
    with tick c have "t \<noteq> TimerTick TickToken" by (auto simp: token_worker_stopped_def)
    with 2 tick c show ?thesis using run_tick_tokens [of J t p w] run_tick_kept [of J t p w]
      by (simp add: token_worker_stopped_def same_wiring_def)
  qed (use tick c in \<open>simp_all add: token_worker_stopped_def\<close>)
next
  case (request c S req)
  then show ?case by (cases c) (auto simp: request_step_def split: prod.splits)
qed simp

text \<open>C37. When one of the jobs of a goroutine panics its other jobs are lost: after a panic in the job that
  looks for rejected transactions the table of prices is never loaded again, whatever happens later.\<close>

theorem panic_freezes_prices:
  assumes "pr_Mode p \<noteq> ApiMode" and "\<not> pr_Down p" and "TokenWorker \<notin> set (pr_Stopped p)"
    and panic: "fst (checkRejected (jb_IsLatest J) (jb_Node J) w) = Inl GoPanic"
    and later: "program_runs (tick_step J (TimerTick TickRejected) (p, w)) (p', w')"
  shows "pr_Tokens p' = pr_Tokens p \<and> tick_step J' (TimerTick TickToken) (p', w') = (p', w')"
proof -
  from panic have "fst (run_tick J (TimerTick TickRejected) p w) = Inl GoPanic"
    by (cases "checkRejected (jb_IsLatest J) (jb_Node J) w") (simp add: logged_def thenM_def bindM_def catchM_def)
  then have "token_worker_stopped (pr_Tokens p) (fst (tick_step J (TimerTick TickRejected) (p, w)))"
    using assms(1-3)
    by (cases "run_tick J (TimerTick TickRejected) p w")
      (simp add: tick_step_def started_def token_worker_stopped_def)
  moreover have "token_worker_stopped m (fst c')" if "program_runs c c'" "token_worker_stopped m (fst c)" for m c c'
    using that by (induction rule: rtranclp_induct) (auto dest: stopped_step)
  ultimately have "token_worker_stopped (pr_Tokens p) p'" using later by fastforce
  then show ?thesis by (simp add: token_worker_stopped_def tick_step_def)
qed

section \<open>Serving without prices\<close>

text \<open>The orders there were are there, under their numbers and tokens, and those that came are paid by a
  gift card.\<close>

definition gift_only :: "db \<Rightarrow> db \<Rightarrow> bool" where
  "gift_only t u \<longleftrightarrow> (\<exists>ids. map (\<lambda>r. (o_OrderId r, o_PayTokenId r)) (orders u)
     = map (\<lambda>r. (o_OrderId r, o_PayTokenId r)) (orders t) @ map (\<lambda>i. (i, TokenCoupon)) ids)"

lemma gift_only_append:
  "map (\<lambda>r. (o_OrderId r, o_PayTokenId r)) (orders u) = map (\<lambda>r. (o_OrderId r, o_PayTokenId r)) (orders t) @ map (\<lambda>i. (i, TokenCoupon)) ids
   \<Longrightarrow> gift_only t u"
  unfolding gift_only_def by blast

interpretation gifts: db_relation gift_only
proof
  show "gift_only t t" for t by (rule gift_only_append [of _ _ "[]"]) simp
  show "gift_only t v" if "gift_only t u" "gift_only u v" for t u v
  proof -
    from that obtain old new
      where "map (\<lambda>r. (o_OrderId r, o_PayTokenId r)) (orders u) = map (\<lambda>r. (o_OrderId r, o_PayTokenId r)) (orders t) @ map (\<lambda>i. (i, TokenCoupon)) old"
        and "map (\<lambda>r. (o_OrderId r, o_PayTokenId r)) (orders v) = map (\<lambda>r. (o_OrderId r, o_PayTokenId r)) (orders u) @ map (\<lambda>i. (i, TokenCoupon)) new"
      unfolding gift_only_def by blast
    then show ?thesis by (intro gift_only_append [of _ _ "old @ new"]) simp
  qed
qed

lemma gifts_read: "upholds (=) m \<Longrightarrow> upholds gift_only m"
  by (simp add: upholds_def gifts.refl)

lemma gift_same: "map (\<lambda>r. (o_OrderId r, o_PayTokenId r)) (orders u) = map (\<lambda>r. (o_OrderId r, o_PayTokenId r)) (orders t) \<Longrightarrow> gift_only t u"
  by (rule gift_only_append [of _ _ "[]"]) simp

text \<open>Without prices an order fails before it is written.\<close>

lemma api_fail: "e \<noteq> GoPanic \<Longrightarrow> bindM (orApi c (liftM (Inl e))) k = apiErr c"
  by (rule ext) (simp add: orApi_def apiErr_def bindM_def catchM_def liftM_def errM_def)

lemma api_pass: "bindM (orApi c (liftM (Inr x))) k = k x"
  by (rule ext) (simp add: orApi_def bindM_def catchM_def liftM_def)

lemma no_price:
  "bindM (orApi ApiCodeError500 (liftM (getOrderAmount dr H (\<lambda>_. None) len args acc inviter years renew tok)))
     (\<lambda>(usd, ckb, amount). if usd \<le> 0 \<or> ckb \<le> 0 \<or> amount \<le> 0 then apiErr ApiCodeError500 else k usd ckb amount)
   = apiErr ApiCodeError500"
proof (cases "tok = TokenCoupon")
  case False
  then have "getOrderAmount dr H (\<lambda>_. None) len args acc inviter years renew tok = Inl (Errf ''not supported'')"
    by (simp add: getOrderAmount_def GetTokenInfo_def zero_token_def Let_def)
  then show ?thesis by (simp add: api_fail)
qed (simp add: getOrderAmount_def api_pass)

lemma readonly_register: "upholds (=) (doRegisterOrder dr H (\<lambda>_. None) req)"
  unfolding doRegisterOrder_def request_amount_def no_price Let_def by (intro readonly.search_rules)

lemma readonly_change: "upholds (=) (doOrderChange dr H (\<lambda>_. None) req)"
  unfolding doOrderChange_def doNewOrder_def no_price Let_def
  by (intro readonly.search_rules readonly.oldOrderCheck readonly.checkOrderInfo)

lemma readonly_internal:
  "upholds (=) (doAccountRegister dr H cl (\<lambda>_. None) ireq)" "upholds (=) (doAccountRenew dr H G (\<lambda>_. None) nreq)"
  unfolding doAccountRegister_def doInternalRegisterOrder_def internal_chars_def doAccountRenew_def
    doInternalRenewOrder_def no_price Let_def
  by (intro readonly.search_rules readonly.checkOrderInfo readonly.check_free)+

lemma readonly_renew: "upholds (=) (doDidCellRenew dr H G D (\<lambda>_. None) req)"
  unfolding doDidCellRenew_def no_price Let_def by (intro readonly.did_rules)

lemma readonly_upgrade: "upholds (=) (doDidCellEditOwner dr H D (\<lambda>_. None) req)"
proof -
  have "upholds (=) (upgrade_order dr H (\<lambda>_. None) r fr c)" for r fr c
    unfolding upgrade_order_def Let_def by (auto simp: GetTokenInfo_def zero_token_def intro!: readonly.rules)
  then show ?thesis
    unfolding doDidCellEditOwner_def Let_def by (intro readonly.did_rules)
qed

lemma gift_coupon: "upholds gift_only (coupon_redeem dr H m req args c)"
proof -
  have new: "o_PayTokenId (coupon_order H (coupon_request req) nw am) = TokenCoupon" for nw am
    by (cases am) (simp add: coupon_order_def new_order_def coupon_request_def Let_def)
  have ins: "upholds gift_only (CreateCouponOrder r code)" if "o_PayTokenId r = TokenCoupon" for r code
    unfolding CreateCouponOrder_def
    by (intro gifts.rules gifts.txnM gifts.stmtM gifts.updateM)
      (auto simp: insert_order_def that intro: gift_only_append [of _ _ "[o_OrderId r]"] gift_same split: if_splits)
  show ?thesis
    unfolding coupon_redeem_def GetCouponLockWithRedis_def DeleteCouponLockWithRedis_def Let_def
    by (intro gifts.rules readonly.redis_commands [THEN gifts_read] ins new readonly.tryM [THEN gifts_read])
qed

text \<open>What the other routes write is not in the table of orders, or leaves its numbers and tokens.\<close>

lemma gift_update: "(\<And>r. o_OrderId (f r) = o_OrderId r \<and> o_PayTokenId (f r) = o_PayTokenId r) \<Longrightarrow> gift_only t (update_orders P f t)"
  by (rule gift_same) (simp add: update_orders_def update_where_def)

lemma gift_statements:
  "upholds gift_only (CreateOrderPayInfo pay)" "upholds gift_only (CreateCoupon cs)" "upholds gift_only (CreatePending g)"
  "upholds gift_only (CreateAuctionOrder a)" "upholds gift_only (UpdatePayment pay)"
  "upholds gift_only (UpdateUniPayRefundStatusToRefunded h i rh)" "upholds gift_only (UpdatePayHashStatusToFailByDispute h i)"
  unfolding CreateOrderPayInfo_def CreateCoupon_def CreatePending_def CreateAuctionOrder_def UpdatePayment_def
    UpdateUniPayRefundStatusToRefunded_def UpdatePayHashStatusToFailByDispute_def
  by (intro gifts.rules gifts.txnM gifts.stmtM gifts.updateM gift_update;
      auto simp: insert_pay_def insert_ignore_pay_def update_pays_def Let_def intro!: gift_same split: if_splits)+

lemma gift_confirm: "upholds gift_only (DoPaymentConfirm ct oid ph pa alg)"
  unfolding DoPaymentConfirm_def by (intro gifts.rules gift_statements readonly.order_queries [THEN gifts_read])

lemma gift_groups: "upholds gift_only (create_groups H draw wr s e i gs)"
  by (induction gs arbitrary: i) (auto simp: Let_def intro!: gifts.rules gift_statements)

lemma gift_writers:
  "upholds gift_only (doOrderPayHash H preq)" "upholds gift_only (doCreateCoupon H parse draw wr creq)"
  "upholds gift_only (doTransactionSend H S sreq)" "upholds gift_only (doUniPayNotice ct bid evs)"
  "upholds gift_only (doOrderRegister dr H (\<lambda>_. None) rreq)"
proof -
  show "upholds gift_only (doOrderPayHash H preq)"
    unfolding doOrderPayHash_def Let_def by (intro gifts.rules gift_statements readonly.order_queries [THEN gifts_read])
  show "upholds gift_only (doCreateCoupon H parse draw wr creq)"
    unfolding doCreateCoupon_def by (intro gifts.rules gift_groups)
  show "upholds gift_only (doTransactionSend H S sreq)"
    unfolding doTransactionSend_def send_signed_def note_sent_def
    by (intro gifts.rules gift_statements readonly.transaction_checks [THEN gifts_read] readonly.cache_commands [THEN gifts_read])
  have "upholds gift_only (notice_event ct v)" for v
    unfolding notice_event_def by (auto intro!: gifts.rules gift_confirm gift_statements split: EventType.split)
  then show "upholds gift_only (doUniPayNotice ct bid evs)"
    unfolding doUniPayNotice_def by (intro gifts.rules gifts.forM)
  show "upholds gift_only (doOrderRegister dr H (\<lambda>_. None) rreq)"
    unfolding doOrderRegister_def doRegisterCouponOrder_def
    by (intro gifts.rules readonly.register_checks [THEN gifts_read] readonly_coupon(3) [THEN gifts_read] gift_coupon
        readonly_register [THEN gifts_read])
qed

lemma route_gifts: "gift_only (tabs w) (tabs (snd (route S (\<lambda>_. None) req w)))"
proof -
  note reads = readonly.pages readonly.auctions readonly.did_readers readonly.doConfigInfo readonly.doAccountRecommend
    readonly.doAccountSearch readonly_CheckCoupon readonly.balances readonly.edits readonly.recycles
    readonly_change readonly_internal readonly_renew readonly_upgrade
  show ?thesis
    by (cases req; simp only: route.simps as_reply_world;
        (simp only: route_defs serve_json_world UniPayNotice_world answered_world)?;
        auto split: sum.splits prod.splits simp: okM_def gifts.refl intro!: upholdsD [of gift_only] gift_writers reads [THEN gifts_read])
qed

definition api_only :: "db \<Rightarrow> process \<times> db world \<Rightarrow> bool" where
  "api_only t c \<longleftrightarrow> pr_Mode (fst c) = ApiMode \<and> pr_Tokens (fst c) = (\<lambda>_. None) \<and> gift_only t (tabs (snd c))"

lemma api_only_step: "program_step c c' \<Longrightarrow> api_only t c \<Longrightarrow> api_only t c'"
proof (induction rule: program_step.induct)
  case (tick c J k)
  then show ?case by (cases c) (simp add: api_only_def tick_step_def started_def)
next
  case (request c S req)
  obtain p w where c: "c = (p, w)" by force
  with request route_gifts [of w "wired p S" req] show ?case
    by (auto simp: api_only_def request_step_def split: prod.splits intro: gifts.trans)
next
  case outside
  moreover have "gift_only t' (foreign t' ks as ds xs rs vs bs)" for t' ks as ds xs rs vs bs
    by (intro gift_same) (simp add: foreign_def)
  ultimately show ?case by (auto simp: api_only_def intro: gifts.trans)
qed

lemma gift_only_member:
  assumes "gift_only t u" and "r \<in> set (orders u)"
  shows "o_PayTokenId r = TokenCoupon \<or> (o_OrderId r, o_PayTokenId r) \<in> (\<lambda>r. (o_OrderId r, o_PayTokenId r)) ` set (orders t)"
proof -
  from assms(1) obtain ids
    where "map (\<lambda>r. (o_OrderId r, o_PayTokenId r)) (orders u)
      = map (\<lambda>r. (o_OrderId r, o_PayTokenId r)) (orders t) @ map (\<lambda>i. (i, TokenCoupon)) ids"
    unfolding gift_only_def by blast
  then have "set (map (\<lambda>r. (o_OrderId r, o_PayTokenId r)) (orders u))
      = set (map (\<lambda>r. (o_OrderId r, o_PayTokenId r)) (orders t) @ map (\<lambda>i. (i, TokenCoupon)) ids)" by (rule arg_cong)
  with assms(2) show ?thesis by auto
qed

text \<open>C36. A process started to serve the API alone has no prices and never gets any, for they are loaded where
  the timers start: whatever is asked of it, every order it comes to hold is either paid by a gift card or
  was there, under that number and token, when it started.\<close>

theorem api_mode_sells_gift_cards_only:
  assumes start: "runServer ApiMode url spec reboot A nd cur w0 = (Inr p0, w)"
    and run: "program_runs (p0, w) (p, w')"
  shows "pr_Tokens p = (\<lambda>_. None) \<and>
    (\<forall>r \<in> set (orders (tabs w')). o_PayTokenId r = TokenCoupon
       \<or> (\<exists>q \<in> set (orders (tabs w)). o_OrderId q = o_OrderId r \<and> o_PayTokenId q = o_PayTokenId r))"
proof -
  from start have first: "api_only (tabs w) (p0, w)"
    by (auto simp: runServer_def first_process_def ok_iffs api_only_def gifts.refl)
  have "api_only (tabs w) c" if "program_runs (p0, w) c" for c
    using that first by (induction rule: rtranclp_induct) (auto intro: api_only_step)
  from this [OF run] have "pr_Tokens p = (\<lambda>_. None)" "gift_only (tabs w) (tabs w')" by (simp_all add: api_only_def)
  then show ?thesis by (auto dest!: gift_only_member)
qed

section \<open>Examples\<close>

theorem cached_routes_only_read_witness:
  "\<forall>S m code. tabs (snd (route S m (PostCheckCoupon (Inr code)) ex_world)) = ex_shop"
  using cached_routes_only_read [of "PostCheckCoupon (Inr _)"] by simp

text \<open>A pending transaction, and a client of the node that panics when it is asked about it.\<close>

definition ex_pending :: pending_row where
  "ex_pending = \<lparr>g_Id = 1, g_BlockNumber = 0, g_Account = ''alice.bit'', g_Action = DasActionApplyRegister, g_ChainType = 1,
     g_Address = '''', g_Capacity = 0, g_Outpoint = ''0xaa-0'', g_BlockTimestamp = 1699999990000, g_Status = 0\<rparr>"

definition ex_dead_node :: node where
  "ex_dead_node = \<lparr>node_tx = (\<lambda>_. Inl GoPanic), node_block = (\<lambda>_. None), out_hash = id\<rparr>"

definition ex_priced_world :: "db world" where
  "ex_priced_world = world_of (empty_db\<lparr>pendings := [ex_pending], tokens := [ex_token]\<rparr>) 1700000000000"

lemma ex_panic: "checkRejected True ex_dead_node ex_priced_world = (Inl GoPanic, ex_priced_world)"
proof -
  have "SearchMaybeRejectedPending ex_priced_world = (Inr [ex_pending], ex_priced_world)"
    by (simp add: SearchMaybeRejectedPending_def go_simps ex_priced_world_def ex_pending_def empty_db_def)
  moreover have "foldM [ex_pending] (checkRejected_one ex_dead_node) [] ex_priced_world = (Inl GoPanic, ex_priced_world)"
    by (simp add: checkRejected_one_def ex_dead_node_def go_simps)
  ultimately show ?thesis by (simp add: checkRejected_def go_simps)
qed

theorem panic_freezes_prices_witness:
  "\<forall>J J'. \<exists>p' w'. tick_step (J\<lparr>jb_IsLatest := True, jb_Node := ex_dead_node\<rparr>) (TimerTick TickRejected)
       (first_process BothModes '''' '''' 0, ex_priced_world) = (p', w')
     \<and> pr_Tokens p' = (\<lambda>_. None) \<and> tick_step J' (TimerTick TickToken) (p', w') = (p', w')"
proof (intro allI)
  fix J J' :: jobs
  let ?J = "J\<lparr>jb_IsLatest := True, jb_Node := ex_dead_node\<rparr>" and ?p = "first_process BothModes '''' '''' 0"
  obtain p' w' where t: "tick_step ?J (TimerTick TickRejected) (?p, ex_priced_world) = (p', w')" by force
  then have "pr_Tokens p' = (\<lambda>_. None) \<and> tick_step J' (TimerTick TickToken) (p', w') = (p', w')"
    using panic_freezes_prices [of ?p ?J ex_priced_world p' w' J'] by (simp add: first_process_def ex_panic)
  with t show "\<exists>p' w'. tick_step ?J (TimerTick TickRejected) (?p, ex_priced_world) = (p', w')
     \<and> pr_Tokens p' = (\<lambda>_. None) \<and> tick_step J' (TimerTick TickToken) (p', w') = (p', w')" by blast
qed

text \<open>A server for the API sells the gift card of the example, and has no prices after it.\<close>

lemma ex_gift_sold:
  "\<exists>w'. snd (doOrderRegister half_up_div ex_http m (ex_req ''0xaa'' ''card'') ex_world) = w' \<and> orders (tabs w') \<noteq> []"
proof -
  obtain resp w' where "coupon_redeem half_up_div ex_http m (ex_req ''0xaa'' ''card'') ''0x03'' ex_coupon ex_world = (Inr resp, w')"
    "orders (tabs w') \<noteq> []"
    using coupon_redeem_healthy [of ex_world "\<lambda>_. None" ex_coupon ex_http "ex_req ''0xaa'' ''card''" half_up_div m "''0x03''"]
    by (auto simp: live_def)
  moreover have "rr_GiftCard (ex_req ''0xaa'' ''card'') = ''card''" by (simp add: ex_req_def)
  ultimately show ?thesis
    by (simp add: doOrderRegister_def doRegisterCouponOrder_def go_simps ex_register_checks ex_coupon_checks)
qed

definition ex_maps :: account_maps where
  "ex_maps = \<lparr>am_Reserved = h_ReservedAccounts ex_http, am_UnAvailable = h_UnAvailableAccounts ex_http\<rparr>"

lemma ex_wired: "sv_Http (wired (p\<lparr>pr_Accounts := ex_maps\<rparr>) (S\<lparr>sv_DivRound := dr, sv_Http := ex_http\<rparr>)) = ex_http"
  "sv_DivRound (wired q S) = sv_DivRound S"
  by (simp_all add: wired_def ex_maps_def)

theorem api_mode_sells_gift_cards_only_witness:
  "\<forall>S nd A. \<exists>p p' w' r. runServer ApiMode '''' '''' 0 (A\<lparr>al_ConfigCells := Inr ex_maps\<rparr>) nd 0 ex_world = (Inr p, ex_world)
     \<and> snd (request_step (S\<lparr>sv_DivRound := half_up_div, sv_Http := ex_http\<rparr>)
         (PostOrderRegister (Inr (ex_req ''0xaa'' ''card''))) (p, ex_world)) = (p', w')
     \<and> pr_Tokens p' = (\<lambda>_. None) \<and> r \<in> set (orders (tabs w')) \<and> o_PayTokenId r = TokenCoupon"
proof (intro allI)
  fix S :: server and nd :: chain and A :: start_lib
  let ?S = "S\<lparr>sv_DivRound := half_up_div, sv_Http := ex_http\<rparr>" and ?p = "(first_process ApiMode '''' '''' 0)\<lparr>pr_Accounts := ex_maps\<rparr>"
  let ?r = "PostOrderRegister (Inr (ex_req ''0xaa'' ''card''))"
  have start: "runServer ApiMode '''' '''' 0 (A\<lparr>al_ConfigCells := Inr ex_maps\<rparr>) nd 0 ex_world = (Inr ?p, ex_world)" by (simp add: runServer_def initApiServer_def go_simps)
  obtain p' w' where req: "snd (request_step ?S ?r (?p, ex_world)) = (p', w')" by force
  then have "program_runs (?p, ex_world) (p', w')"
    using program_step.request [of "(?p, ex_world)" ?S ?r] by (metis r_into_rtranclp)
  from api_mode_sells_gift_cards_only [OF start this]
  have "pr_Tokens p' = (\<lambda>_. None)" "\<forall>r \<in> set (orders (tabs w')). o_PayTokenId r = TokenCoupon" by simp_all
  moreover have "orders (tabs w') \<noteq> []"
  proof -
    have "w' = snd (route (wired ?p ?S) (\<lambda>_. None) ?r ex_world)"
      using arg_cong [OF req, of snd] by (simp add: request_step_def first_process_def split: prod.splits)
    then show ?thesis
      using ex_gift_sold [of "\<lambda>_. None"] by (simp add: ex_wired as_reply_world OrderRegisterRoute_def serve_json_world answered_world)
  qed
  ultimately show "\<exists>p p' w' r. runServer ApiMode '''' '''' 0 (A\<lparr>al_ConfigCells := Inr ex_maps\<rparr>) nd 0 ex_world = (Inr p, ex_world)
     \<and> snd (request_step ?S ?r (p, ex_world)) = (p', w')
     \<and> pr_Tokens p' = (\<lambda>_. None) \<and> r \<in> set (orders (tabs w')) \<and> o_PayTokenId r = TokenCoupon"
    using start req by (metis list.set_intros(1) neq_Nil_conv)
qed

end
