(* ===== verification/Spec2Isabelle.thy ===== *)
theory Spec2Isabelle
  imports Rpc OrderFlow System ParserLive AuctionSafety PageSafety RecycleSafety ProgramSafety
begin

text \<open>
  Verification of the registration service of d.id (formerly DAS), the Go program under \<open>src/\<close>.

  \<^bold>\<open>The program.\<close> The service sells accounts that live in cells of the CKB chain. A user asks for
  an account over HTTP (\<open>src/http_server/handle\<close>); a handler checks the request, computes the price
  and writes an unpaid order to an SQL database (\<open>src/tables\<close>, \<open>src/dao\<close>). The payment service
  unipay reports the payment, by a notice or when it is asked (\<open>src/unipay\<close>). The transaction tool
  (\<open>src/txtool\<close>) finds the paid orders and sends, one after another, the apply-register and the
  pre-register transaction of each. The block parser (\<open>src/block_parser\<close>) follows the chain, and
  each transaction of the service that it finds moves its order on, up to the proposal that
  registers the account. Timer jobs (\<open>src/timer\<close>) close, refund, check and recycle what was left
  behind. A transaction a user has to sign (an edit, a transfer of CKB, a bid, a renewal of a DID
  cell) is built by one request, kept in Redis (\<open>src/cache\<close>), and sent by a second one that brings
  the signatures. The parts share nothing but the database, Redis and the chain.

  \<^bold>\<open>How it is modelled.\<close> Everything runs on a \<open>world\<close> (theory \<open>Prelude\<close>): the tables of the
  database, the keys of Redis, the clock, the log of external effects, and a schedule that says
  which of the next database calls fail. An operation is a function \<open>world \<Rightarrow> (gerr + 'a) \<times> world\<close>
  (type \<open>dao\<close>), composed by \<open>bindM\<close> as the code composes its calls with \<open>if err != nil\<close>. A Go error
  is a value of \<open>gerr\<close>: \<open>Errf\<close> a formatted error, \<open>In\<close> an error with the name of the call it came
  from, \<open>Api\<close> an answer with its code, \<open>GoPanic\<close> a panic, which no error handling of the code
  catches. A database transaction is \<open>txnM\<close>, which puts the tables back when its body fails. Go's
  \<open>uint64\<close>, \<open>int64\<close> and \<open>uint32\<close> are words where they can wrap, and integers where the code cannot
  reach a bound.

  \<^bold>\<open>The theories.\<close>
  \<^item> Foundations. \<open>Prelude\<close>: errors, world, monad and their laws. \<open>Contracts\<close>: \<open>upholds\<close> (a relation
    between the databases before and after that an operation keeps whatever fails) and \<open>yields\<close> (what
    an operation answers). \<open>Decimal\<close>: the decimal library as a parameter with its rounding law.
    \<open>Rpc\<close>: \<open>src/internal\<close>.
  \<^item> Database. \<open>Tables\<close>: \<open>src/tables\<close>, a \<open>datatype\<close> for each enumeration and a \<open>record\<close> for each
    row. \<open>DaoOrder\<close>, \<open>DaoOther\<close>, \<open>DaoPages\<close>: the statements of \<open>src/dao\<close>, each under its Go name,
    with the SQL condition as a predicate on rows. \<open>DaoContract\<close>, \<open>DaoWf\<close>: the contract of this
    layer as the locales \<open>db_reading\<close>, \<open>dao_contract\<close> and \<open>block_contract\<close>, interpreted by
    \<open>db_evolves\<close> (no order is lost, reopened or unpaid) and by \<open>wf_kept\<close> (the unique keys hold).
  \<^item> Cache. \<open>Cache\<close>: \<open>src/cache\<close> with expiry and locks; locale \<open>lock_service\<close>.
  \<^item> Jobs. \<open>Timer\<close>: \<open>src/timer\<close> without its recycling. \<open>UniPay\<close>: \<open>src/unipay\<close> and the notice
    handler. \<open>TxTool\<close>: \<open>src/txtool\<close> and \<open>recover_ckb.go\<close>. \<open>Recycle\<close>: \<open>recycle_apply.go\<close>,
    \<open>recycle_pre.go\<close>, \<open>recycle_early.go\<close>.
  \<^item> Chain. \<open>BlockActions\<close>: the handlers \<open>action_*.go\<close> of \<open>src/block_parser\<close>. \<open>BlockParser\<close>:
    \<open>block_parser.go\<close>, \<open>block_parser_handle.go\<close>.
  \<^item> Handlers that write orders. \<open>Http\<close> (\<open>handle.go\<close>, \<open>common.go\<close>), \<open>AccountSearch\<close>,
    \<open>OrderRegister\<close>, \<open>OrderRenew\<close>.
  \<^item> Handlers that build transactions. \<open>SignTx\<close> (\<open>buildTx\<close> in \<open>reverse_declare.go\<close>,
    \<open>transaction_send.go\<close>), \<open>EditAccount\<close> (\<open>edit_*.go\<close>), \<open>Balance\<close> (\<open>balance_*.go\<close>), \<open>DidCell\<close>
    (\<open>did_cell_*.go\<close>), \<open>Auction\<close> (\<open>auction_*.go\<close>).
  \<^item> Handlers that read. \<open>Pages\<close>: the lists and details, their statements in \<open>DaoPages\<close>.
    \<open>Recommend\<close> (\<open>account_recommend.go\<close>, \<open>src/elastic/recommend_acc.go\<close>: free accounts like the one
    asked for) and \<open>ConfigInfo\<close> (\<open>config_info.go\<close>).
  \<^item> \<open>System\<close>: the service as a step relation \<open>serves\<close>, one step per request, job or parser round, in
    any order and with any answers of the outside; \<open>reachable\<close> and \<open>runs\<close> are its closures.

  \<^item> \<open>Server\<close>: \<open>router.go\<close>, every route with the gin function and the handler behind it, and which
    routes have a cache. \<open>Program\<close>: \<open>src/cmd/main.go\<close>, \<open>timer.go\<close>, \<open>txtool.go\<close> and the \<open>Run\<close>
    functions of \<open>src/unipay\<close>: what is loaded at the start of each mode, which job belongs to which
    goroutine, the memory of the process between two ticks, and what a panic leaves; its step
    relation is \<open>program_step\<close>.

  \<^bold>\<open>What is shown.\<close>
  \<^item> \<open>System\<close>: every reachable database is well formed; no order is lost, doubled, reopened or unpaid
    again; the service refines a ledger in which an order is opened once, then paid and closed.
    \<open>Program\<close>: the program as it is wired refines this service, in every mode and whatever jobs have
    stopped.
  \<^item> \<open>ProgramSafety\<close>: routes behind a cache only read; a panic ends the other jobs of its goroutine;
    a process of mode api never has prices and takes gift cards only. \<open>Recommend\<close>: recommended
    accounts are free.
  \<^item> \<open>BlockChain\<close>, \<open>ParserLive\<close>: the stored blocks stay linked through forks and failures, and on a
    steady chain the parser reaches the confirmed tip, with a number of rounds that the proof gives
    (at most one step back for each stored block, at most twenty, then one forward for each block).
  \<^item> \<open>Reparse\<close>, \<open>OrderFlow\<close>, \<open>Jobs\<close>: what a confirmed proposal does to all orders and payments, that
    parsing a block again changes nothing, that failed handlers change nothing, and what expiry,
    hedging, refunds and gift-card jobs achieve.
  \<^item> \<open>TxSafety\<close>: an order is sent once per run and only after it was marked, a refused transaction
    is undone, prices are exact while nothing overflows, and the loop of \<open>doRecoverCkb\<close> ends.
  \<^item> \<open>RegisterSafety\<close>, \<open>OrderSafety\<close>: when an order may be made, and which order it is.
  \<^item> \<open>SignSafety\<close> (examples in \<open>SignExamples\<close>), \<open>DidSafety\<close>, \<open>AuctionSafety\<close>: what is signed is what
    was built, who may have it built, that CKB is conserved, and that a DID-cell transaction waits
    for its payment.
  \<^item> \<open>PageSafety\<close>, \<open>RecycleSafety\<close>: each account is on one page only, lists show each account once,
    and exactly the cells that are due are recycled.

  \<^bold>\<open>Parameters.\<close> What is outside the repository is an argument of the definitions that use it: das-lib
  (addresses, account ids, cells, witnesses, contracts, the transaction builder), the decimal library,
  the CKB node, unipay, JSON and random numbers. The records \<open>lib\<close>, \<open>chain\<close>, \<open>txlib\<close>, \<open>http_lib\<close>,
  \<open>es_lib\<close>, \<open>info_lib\<close>, \<open>start_lib\<close>, \<open>sign_lib\<close>, \<open>edit_lib\<close>, \<open>bal_lib\<close>, \<open>did_lib\<close>, \<open>auction_lib\<close>, \<open>recycle_lib\<close> and \<open>page_lib\<close>
  (and \<open>server\<close> and \<open>jobs\<close>, which collect them) hold one function for each call the code makes. They may answer anything, errors included; where
  a property needs more (that signing keeps inputs and outputs, that JSON is read back as it was
  written), that is an assumption in its statement, and its witness has an instance that satisfies
  it. Of gorm the documented behaviour is written out: \<open>Find\<close> and \<open>First\<close>, \<open>Updates\<close> on the rows
  of the condition, \<open>OnConflict\<close>, \<open>Transaction\<close>, and the error for an empty list to \<open>Create\<close>.

  \<^bold>\<open>Granularity and bounds.\<close> A request, a job and a parser round are one step of \<open>serves\<close>; between
  two steps anything may change Redis, the clock and the tables the parser of another service
  fills. Interleavings inside a request are not steps; the one race inside a request that matters,
  of the gift card checked outside its lock, is stated on the two halves of that request. Sequences
  such as the parser rounds are lists, so no fuel runs out: the liveness property gives the length.
  Loops over lists are structural; the loop of \<open>doRecoverCkb\<close> has a measure; the retry loops of
  \<open>Rpc\<close> recurse on the number of tries.

  \<^bold>\<open>Not modelled.\<close> Connections, periods of the tickers, the shutdown, and reading of the configuration
  file. The middleware of the routes: a cached answer is not a step, and \<open>cached_routes_only_read\<close>
  says why it makes no difference to the database. JSON-RPC (\<open>operate.go\<close>, \<open>query.go\<close> and the
  functions \<open>Rpc...\<close>), which has no route, and the handlers whose routes are commented out in the
  source (\<open>reverse_redeclare.go\<close>, \<open>reverse_retract.go\<close>, the declaration in \<open>reverse_declare.go\<close>);
  the handlers of \<open>edit_owner.go\<close>, \<open>edit_records.go\<close>, \<open>edit_script.go\<close> and \<open>order_renew.go\<close>, whose
  routes now lead to the DID-cell handlers, are modelled but are not routes. \<open>ckb_rpc.go\<close> (a proxy of
  the node), \<open>version.go\<close>, \<open>character_set_list.go\<close> (values of das-lib), \<open>order_info.go\<close> (a text
  report), \<open>sign_tx.go\<close> (test networks only). Notifications, metrics and the client of the search
  index (\<open>src/notify\<close>, \<open>src/prometheus\<close>, \<open>es.go\<close>), which have no effect on an order;
  \<open>name_dao.go\<close> and \<open>name_dao_script.go\<close>, a script that was run once and its listings. The texts
  shown to a user beside a transaction are left out of the answers.
\<close>

end
